(* ===== verification/Operator_Prelude.thy ===== *)
theory Operator_Prelude
  imports Main "HOL-Library.Sublist" "HOL-Library.Char_ord" "HOL-Library.List_Lexorder"
begin

text \<open>
  Shared vocabulary of the development: identifiers, the operations on Python
  strings that several components use, and small lemmas about them.

  A Python \<open>str\<close> is a list of characters. The model's characters are the code
  points below 256, so \<open>length\<close> counts code points, as \<open>len\<close> does; case
  folding is that of ASCII. A \<open>uuid.UUID\<close> is a natural number.
\<close>

named_theorems str_simps \<open>equations of the string operations\<close>

type_synonym uuid = nat

section \<open>Characters\<close>

definition char_code :: "char \<Rightarrow> nat" where
  "char_code c = of_char c"

definition is_digit :: "char \<Rightarrow> bool" where
  "is_digit c = (48 \<le> char_code c \<and> char_code c \<le> 57)"

definition is_upper :: "char \<Rightarrow> bool" where
  "is_upper c = (65 \<le> char_code c \<and> char_code c \<le> 90)"

definition is_lower :: "char \<Rightarrow> bool" where
  "is_lower c = (97 \<le> char_code c \<and> char_code c \<le> 122)"

definition is_alpha :: "char \<Rightarrow> bool" where
  "is_alpha c = (is_upper c \<or> is_lower c)"

definition is_alnum :: "char \<Rightarrow> bool" where
  "is_alnum c = (is_alpha c \<or> is_digit c)"

text \<open>\<open>str.isspace\<close>, which is also the class \<open>\s\<close> of \<open>re\<close>.\<close>

definition is_space :: "char \<Rightarrow> bool" where
  "is_space c = ((9 \<le> char_code c \<and> char_code c \<le> 13) \<or> (28 \<le> char_code c \<and> char_code c \<le> 32)
     \<or> char_code c = 133 \<or> char_code c = 160)"

text \<open>The class \<open>\w\<close> of \<open>re\<close> on ASCII text.\<close>

definition is_word :: "char \<Rightarrow> bool" where
  "is_word c = (is_alnum c \<or> char_code c = 95)"

definition lower_char :: "char \<Rightarrow> char" where
  "lower_char c = (if is_upper c then char_of (char_code c + 32) else c)"

lemmas char_class_defs =
  char_code_def is_digit_def is_upper_def is_lower_def is_alpha_def is_alnum_def
  is_space_def is_word_def lower_char_def

section \<open>Strings\<close>

definition py_lower :: "string \<Rightarrow> string" where
  "py_lower s = map lower_char s"

text \<open>\<open>needle in haystack\<close> on strings.\<close>

fun py_in :: "'a list \<Rightarrow> 'a list \<Rightarrow> bool" where
  "py_in p [] = (p = [])"
| "py_in p (c # cs) = (prefix p (c # cs) \<or> py_in p cs)"

definition py_startswith :: "string \<Rightarrow> string \<Rightarrow> bool" where
  "py_startswith s p = prefix p s"

definition py_endswith :: "string \<Rightarrow> string \<Rightarrow> bool" where
  "py_endswith s p = prefix (rev p) (rev s)"

definition py_lstrip :: "string \<Rightarrow> string" where
  "py_lstrip s = dropWhile is_space s"

text \<open>\<open>bool(v)\<close> of a string or \<open>None\<close>.\<close>

definition truthy :: "string option \<Rightarrow> bool" where
  "truthy v = (case v of None \<Rightarrow> False | Some s \<Rightarrow> s \<noteq> [])"

definition py_strip :: "string \<Rightarrow> string" where
  "py_strip s = rev (dropWhile is_space (rev (dropWhile is_space s)))"

definition newline :: string where
  "newline = [CHR 0x0A]"

fun py_join :: "'a list \<Rightarrow> 'a list list \<Rightarrow> 'a list" where
  "py_join sep [] = []"
| "py_join sep [x] = x"
| "py_join sep (x # y # ys) = x @ sep @ py_join sep (y # ys)"

text \<open>\<open>str(n)\<close> for a natural number.\<close>

fun show_nat :: "nat \<Rightarrow> string" where
  "show_nat n = (if n < 10 then [char_of (48 + n)] else show_nat (n div 10) @ [char_of (48 + n mod 10)])"

declare show_nat.simps [simp del]

lemma py_in_iff_sublist: "py_in p s \<longleftrightarrow> sublist p s"
proof (induction s)
  case Nil
  show ?case by simp
next
  case (Cons c s)
  then show ?case by (auto simp: sublist_Cons_right)
qed

lemma py_in_append: "py_in p s \<Longrightarrow> py_in p (a @ s @ b)"
  by (auto simp: py_in_iff_sublist sublist_def) (metis append_assoc)

lemma py_in_self [simp]: "py_in p p"
  by (simp add: py_in_iff_sublist)

lemma py_in_trans: "py_in a b \<Longrightarrow> py_in b c \<Longrightarrow> py_in a c"
  using py_in_iff_sublist sublist_order.order_trans by blast

lemma length_py_join:
  "length (py_join sep (x # xs)) = length x + sum_list (map (\<lambda>y. length sep + length y) xs)"
  by (induction xs arbitrary: x) auto

lemma py_join_snoc: "xs \<noteq> [] \<Longrightarrow> py_join sep (xs @ [y]) = py_join sep xs @ sep @ y"
  by (induction sep xs rule: py_join.induct) auto

lemma py_join_append:
  "xs \<noteq> [] \<Longrightarrow> ys \<noteq> [] \<Longrightarrow> py_join sep (xs @ ys) = py_join sep xs @ sep @ py_join sep ys"
proof (induction sep xs rule: py_join.induct)
  case (2 sep x)
  then show ?case by (cases ys) auto
qed auto

lemma length_show_nat_1: "n < 10 \<Longrightarrow> length (show_nat n) = 1"
  by (simp add: show_nat.simps)

lemma length_show_nat_2: "10 \<le> n \<Longrightarrow> n < 100 \<Longrightarrow> length (show_nat n) = 2"
  by (subst show_nat.simps) (simp add: length_show_nat_1)

lemma length_py_strip_le: "length (py_strip s) \<le> length s"
  unfolding py_strip_def
  by (metis length_dropWhile_le length_rev order_trans)

lemma length_py_lower [simp]: "length (py_lower s) = length s"
  by (simp add: py_lower_def)

lemma dropWhile_hd: "dropWhile P xs = y # ys \<Longrightarrow> \<not> P y"
  by (metis hd_dropWhile list.distinct(1) list.sel(1))

lemma py_strip_Nil_iff: "py_strip s = [] \<longleftrightarrow> (\<forall>c \<in> set s. is_space c)"
proof
  assume a: "py_strip s = []"
  then have "dropWhile is_space (rev (dropWhile is_space s)) = []"
    by (simp add: py_strip_def)
  then have "\<forall>c \<in> set (dropWhile is_space s). is_space c"
    by (auto simp: dropWhile_eq_Nil_conv dest: set_dropWhileD)
  then have "dropWhile is_space s = []"
    by (metis dropWhile_hd list.set_intros(1) neq_Nil_conv)
  then show "\<forall>c \<in> set s. is_space c" by (simp add: dropWhile_eq_Nil_conv)
next
  assume "\<forall>c \<in> set s. is_space c"
  then have "dropWhile is_space s = []" using dropWhile_eq_Nil_conv by blast
  then show "py_strip s = []" unfolding py_strip_def
    by (metis dropWhile.simps(1) rev.simps(1))
qed

section \<open>Generic lemmas\<close>

lemma option_bind_cases: "(case x of None \<Rightarrow> False | Some y \<Rightarrow> P y) \<longleftrightarrow> (\<exists>y. x = Some y \<and> P y)"
  by (cases x) auto

lemma filter_length_partition:
  "length (filter P xs) + length (filter (\<lambda>x. \<not> P x) xs) = length xs"
  by (induction xs) auto

section \<open>Step systems\<close>

text \<open>
  A step relation with its runs: the runs are the least relation that contains standing still and a
  further step.
\<close>

locale step_system =
  fixes step :: "'s \<Rightarrow> 's \<Rightarrow> bool"
    and reach :: "'s \<Rightarrow> 's \<Rightarrow> bool"
  assumes reach_stay: "reach s s"
    and reach_step: "reach s t \<Longrightarrow> step t u \<Longrightarrow> reach s u"
    and reach_least: "reach s t \<Longrightarrow> P s \<Longrightarrow> (\<And>t u. reach s t \<Longrightarrow> P t \<Longrightarrow> step t u \<Longrightarrow> P u) \<Longrightarrow> P t"
begin

lemma reach_one: "step s t \<Longrightarrow> reach s t"
  by (rule reach_step [OF reach_stay])

lemma reach_trans:
  assumes "reach s t" "reach t u"
  shows "reach s u"
  using assms(2) by (rule reach_least) (use assms(1) in \<open>auto intro: reach_step\<close>)

lemma reach_invariant:
  assumes "reach s t" "I s" "\<And>t u. I t \<Longrightarrow> step t u \<Longrightarrow> I u"
  shows "I t"
  using assms(1) by (rule reach_least) (use assms(2,3) in auto)

text \<open>A relation that every step keeps, between the start of a run and its end.\<close>

lemma reach_related:
  assumes "reach s t" "reflp R" "transp R" "\<And>t u. step t u \<Longrightarrow> R t u"
  shows "R s t"
  using assms(1)
  by (rule reach_least) (use assms(2-4) in \<open>auto dest: reflpD intro: transpD\<close>)

lemma reach_stuck: "reach s t \<Longrightarrow> (\<And>u. \<not> step s u) \<Longrightarrow> t = s"
  by (erule reach_least) auto

lemma reach_rtranclp: "reach s t \<longleftrightarrow> step\<^sup>*\<^sup>* s t"
proof
  assume "reach s t"
  then show "step\<^sup>*\<^sup>* s t" by (rule reach_least) (auto intro: rtranclp.rtrancl_into_rtrancl)
next
  assume "step\<^sup>*\<^sup>* s t"
  then show "reach s t" by induction (auto intro: reach_stay reach_step)
qed

end

end
