(* ===== verification/Operator_Errors.thy ===== *)
theory Operator_Errors
  imports Operator_Prelude
begin

text \<open>
  The error hierarchy of \<open>app/errors.py\<close> and the effect monad of the development.

  An exception is a value \<open>Exn kind message retryable\<close>. The class attributes
  \<open>code\<close>, \<open>retryable\<close> and \<open>http_status\<close> of the source are functions of the class;
  the retry flag is also kept in the exception, because \<open>app/browser/session.py\<close>
  overrides it on one instance. A message is the template of the f-string with its
  arguments as values, so messages are compared without rendering identifiers. The
  diagnostic \<open>context\<close> dictionaries are not modelled.

  An operation with effects is a function from a state to a result and a state. A raised
  exception keeps the state reached so far, as mutation before a \<open>raise\<close> does in Python.
\<close>

section \<open>Exceptions\<close>

datatype error_class =
    AgentOperatorError | ValidationError | AuthenticationError | AuthorizationError
  | ToolError | BrowserError | ModelError | ResearchError | RateLimitError
  | ApprovalRequiredError | VerificationError | TimeoutError | CancellationError
  | InvalidStateTransitionError

text \<open>Application errors, then exceptions of the standard library and of the packages the source calls.\<close>

datatype exn_class =
    App error_class
  | PyValueError | PyRuntimeError | PyNotImplementedError | PyPermissionError
  | PyFileNotFoundError | PyFileExistsError | PyOSError | PyUnicodeError | PyAttributeError
  | TenacityRetryError | DbIntegrityError | DbMultipleResults | PyOther string

datatype emsg = Msg string "marg list"
  and marg = AId nat | AStr string | AInt int | AMsg emsg | ANone

datatype exn = Exn (exn_class: exn_class) (exn_msg: emsg) (exn_retryable: bool)

fun code :: "error_class \<Rightarrow> string" where
  "code AgentOperatorError = ''internal_error''"
| "code ValidationError = ''validation_error''"
| "code AuthenticationError = ''authentication_error''"
| "code AuthorizationError = ''authorization_error''"
| "code ToolError = ''tool_error''"
| "code BrowserError = ''browser_error''"
| "code ModelError = ''model_error''"
| "code ResearchError = ''research_error''"
| "code RateLimitError = ''rate_limit_error''"
| "code ApprovalRequiredError = ''approval_required''"
| "code VerificationError = ''verification_error''"
| "code TimeoutError = ''timeout_error''"
| "code CancellationError = ''cancellation_error''"
| "code InvalidStateTransitionError = ''invalid_state_transition''"

fun retryable :: "error_class \<Rightarrow> bool" where
  "retryable ToolError = True"
| "retryable BrowserError = True"
| "retryable ModelError = True"
| "retryable ResearchError = True"
| "retryable RateLimitError = True"
| "retryable TimeoutError = True"
| "retryable _ = False"

fun http_status :: "error_class \<Rightarrow> nat" where
  "http_status AgentOperatorError = 500"
| "http_status ValidationError = 422"
| "http_status AuthenticationError = 401"
| "http_status AuthorizationError = 403"
| "http_status RateLimitError = 429"
| "http_status ApprovalRequiredError = 409"
| "http_status TimeoutError = 504"
| "http_status CancellationError = 409"
| "http_status InvalidStateTransitionError = 409"
| "http_status _ = 502"

text \<open>\<open>cls(message)\<close> for a class of the hierarchy, and for any other exception class.\<close>

definition app_error :: "error_class \<Rightarrow> string \<Rightarrow> marg list \<Rightarrow> exn" where
  "app_error k t as = Exn (App k) (Msg t as) (retryable k)"

definition py_error :: "exn_class \<Rightarrow> string \<Rightarrow> marg list \<Rightarrow> exn" where
  "py_error k t as = Exn k (Msg t as) False"

text \<open>\<open>isinstance(exc, cls)\<close> for the hierarchy: every class derives from the base directly.\<close>

definition is_app_instance :: "exn \<Rightarrow> error_class \<Rightarrow> bool" where
  "is_app_instance e k =
     (case exn_class e of App k' \<Rightarrow> k = AgentOperatorError \<or> k' = k | _ \<Rightarrow> False)"

text \<open>\<open>AgentOperatorError.to_dict\<close> without the context and correlation identifiers.\<close>

record error_body =
  eb_code :: string
  eb_message :: emsg
  eb_retryable :: bool

definition to_dict :: "exn \<Rightarrow> error_body option" where
  "to_dict e = (case exn_class e of
      App k \<Rightarrow> Some \<lparr>eb_code = code k, eb_message = exn_msg e, eb_retryable = exn_retryable e\<rparr>
    | _ \<Rightarrow> None)"

text \<open>
  The exception handlers of \<open>create_app\<close> in \<open>app/main.py\<close>: an application error is
  answered with its own status, \<open>NotImplementedError\<close> with 501, anything else reaches
  the server's default handler, status 500.
\<close>

definition handle_error :: "exn \<Rightarrow> nat \<times> string" where
  "handle_error e = (case exn_class e of
      App k \<Rightarrow> (http_status k, code k)
    | PyNotImplementedError \<Rightarrow> (501, ''not_implemented'')
    | _ \<Rightarrow> (500, ''''))"

lemma app_error_sel [simp]:
  "exn_class (app_error k t as) = App k" "exn_msg (app_error k t as) = Msg t as"
  "exn_retryable (app_error k t as) = retryable k"
  by (simp_all add: app_error_def)

lemma py_error_sel [simp]:
  "exn_class (py_error k t as) = k" "exn_msg (py_error k t as) = Msg t as"
  "exn_retryable (py_error k t as) = False"
  by (simp_all add: py_error_def)

lemma is_app_instance_app_error [simp]:
  "is_app_instance (app_error k t as) k' \<longleftrightarrow> k' = AgentOperatorError \<or> k = k'"
  by (auto simp: is_app_instance_def)

lemma code_inj: "code a = code b \<Longrightarrow> a = b"
  by (cases a; cases b) simp_all

lemma http_status_error: "400 \<le> http_status k \<and> http_status k < 600"
  by (cases k) simp_all

section \<open>Operations with effects\<close>

named_theorems triple_intro \<open>proof rules of the effect monad\<close>
named_theorems preserves_intro \<open>operations that keep a predicate of the state\<close>
named_theorems op_defs \<open>the monad's operations, to run a concrete program\<close>

type_synonym 'a result = "exn + 'a"
type_synonym ('s, 'a) op = "'s \<Rightarrow> 'a result \<times> 's"

definition retE :: "'a \<Rightarrow> ('s, 'a) op" where
  "retE x = (\<lambda>s. (Inr x, s))"

definition raiseE :: "exn \<Rightarrow> ('s, 'a) op" where
  "raiseE e = (\<lambda>s. (Inl e, s))"

definition bindE :: "('s, 'a) op \<Rightarrow> ('a \<Rightarrow> ('s, 'b) op) \<Rightarrow> ('s, 'b) op" where
  "bindE m f = (\<lambda>s. case m s of (Inl e, t) \<Rightarrow> (Inl e, t) | (Inr x, t) \<Rightarrow> f x t)"

definition thenE :: "('s, 'a) op \<Rightarrow> ('s, 'b) op \<Rightarrow> ('s, 'b) op" where
  "thenE m n = bindE m (\<lambda>_. n)"

definition getE :: "('s \<Rightarrow> 'a) \<Rightarrow> ('s, 'a) op" where
  "getE f = (\<lambda>s. (Inr (f s), s))"

definition modE :: "('s \<Rightarrow> 's) \<Rightarrow> ('s, unit) op" where
  "modE f = (\<lambda>s. (Inr (), f s))"

definition liftE :: "'a result \<Rightarrow> ('s, 'a) op" where
  "liftE r = (\<lambda>s. (r, s))"

definition whenE :: "bool \<Rightarrow> ('s, unit) op \<Rightarrow> ('s, unit) op" where
  "whenE b m = (if b then m else retE ())"

text \<open>\<open>try: m except exc: h exc\<close> and \<open>try: m finally: f\<close>.\<close>

definition catchE :: "('s, 'a) op \<Rightarrow> (exn \<Rightarrow> ('s, 'a) op) \<Rightarrow> ('s, 'a) op" where
  "catchE m h = (\<lambda>s. case m s of (Inl e, t) \<Rightarrow> h e t | (Inr x, t) \<Rightarrow> (Inr x, t))"

definition finallyE :: "('s, 'a) op \<Rightarrow> ('s, unit) op \<Rightarrow> ('s, 'a) op" where
  "finallyE m f = (\<lambda>s. case m s of (r, t) \<Rightarrow>
      (case f t of (Inl e, u) \<Rightarrow> (Inl e, u) | (Inr _, u) \<Rightarrow> (r, u)))"

fun forE :: "'a list \<Rightarrow> ('a \<Rightarrow> ('s, unit) op) \<Rightarrow> ('s, unit) op" where
  "forE [] f = retE ()"
| "forE (x # xs) f = thenE (f x) (forE xs f)"

text \<open>\<open>try: r = m except exc: ...\<close>: the outcome as a value.\<close>

definition tryE :: "('s, 'a) op \<Rightarrow> ('s, 'a result) op" where
  "tryE m = (\<lambda>s. case m s of (r, t) \<Rightarrow> (Inr r, t))"

text \<open>Pure code that may raise, in sequence, and over the items of a list from the left.\<close>

definition bindR :: "'a result \<Rightarrow> ('a \<Rightarrow> 'b result) \<Rightarrow> 'b result" where
  "bindR r f = (case r of Inl e \<Rightarrow> Inl e | Inr x \<Rightarrow> f x)"

fun mapR :: "('a \<Rightarrow> 'b result) \<Rightarrow> 'a list \<Rightarrow> 'b list result" where
  "mapR f [] = Inr []"
| "mapR f (x # xs) = bindR (f x) (\<lambda>y. bindR (mapR f xs) (\<lambda>ys. Inr (y # ys)))"

lemma bindR_simps [simp]:
  "bindR (Inl e) f = Inl e" "bindR (Inr x) f = f x"
  by (simp_all add: bindR_def)

lemma bindR_Inr_iff: "bindR r f = Inr y \<longleftrightarrow> (\<exists>x. r = Inr x \<and> f x = Inr y)"
  by (cases r) auto

lemma mapR_Inr_iff: "mapR f xs = Inr ys \<longleftrightarrow> list_all2 (\<lambda>x y. f x = Inr y) xs ys"
  by (induction xs arbitrary: ys) (auto simp: bindR_Inr_iff list_all2_Cons1)

declare retE_def [op_defs] raiseE_def [op_defs] bindE_def [op_defs] thenE_def [op_defs]
  getE_def [op_defs] modE_def [op_defs] liftE_def [op_defs] whenE_def [op_defs]
  catchE_def [op_defs] finallyE_def [op_defs]

text \<open>
  \<open>triple P m Q E\<close>: from a state in \<open>P\<close>, a normal return satisfies \<open>Q\<close> and a raised
  exception satisfies \<open>E\<close>. Operations are total, so this is total correctness.
\<close>

definition triple ::
  "('s \<Rightarrow> bool) \<Rightarrow> ('s, 'a) op \<Rightarrow> ('a \<Rightarrow> 's \<Rightarrow> bool) \<Rightarrow> (exn \<Rightarrow> 's \<Rightarrow> bool) \<Rightarrow> bool" where
  "triple P m Q E = (\<forall>s. P s \<longrightarrow> (case m s of (Inl e, t) \<Rightarrow> E e t | (Inr x, t) \<Rightarrow> Q x t))"

definition preserves :: "('s \<Rightarrow> bool) \<Rightarrow> ('s, 'a) op \<Rightarrow> bool" where
  "preserves P m = (\<forall>s. P s \<longrightarrow> P (snd (m s)))"

lemma triple_ret [triple_intro]: "triple (Q x) (retE x) Q E"
  by (simp add: triple_def retE_def)

lemma triple_raise [triple_intro]: "triple (E e) (raiseE e) Q E"
  by (simp add: triple_def raiseE_def)

lemma triple_get [triple_intro]: "triple (\<lambda>s. Q (f s) s) (getE f) Q E"
  by (simp add: triple_def getE_def)

lemma triple_mod [triple_intro]: "triple (\<lambda>s. Q () (f s)) (modE f) Q E"
  by (simp add: triple_def modE_def)

lemma triple_bind [triple_intro]:
  assumes "triple P m R E" and "\<And>x. triple (R x) (f x) Q E"
  shows "triple P (bindE m f) Q E"
  using assms unfolding triple_def bindE_def
  by (fastforce split: sum.splits prod.splits)

lemma triple_then [triple_intro]:
  "triple P m (\<lambda>_. R) E \<Longrightarrow> triple R n Q E \<Longrightarrow> triple P (thenE m n) Q E"
  unfolding thenE_def by (rule triple_bind)

lemma triple_catch [triple_intro]:
  assumes "triple P m Q R" and "\<And>e. triple (R e) (h e) Q E"
  shows "triple P (catchE m h) Q E"
  using assms unfolding triple_def catchE_def
  by (fastforce split: sum.splits prod.splits)

lemma triple_finally [triple_intro]:
  assumes "triple P m R S" and "\<And>x. triple (R x) f (\<lambda>_. Q x) E" and "\<And>e. triple (S e) f (\<lambda>_. E e) E"
  shows "triple P (finallyE m f) Q E"
  unfolding triple_def
proof (intro allI impI)
  fix s assume P: "P s"
  obtain r t where m: "m s = (r, t)" by (cases "m s")
  obtain r' u where f: "f t = (r', u)" by (cases "f t")
  show "case finallyE m f s of (Inl e, t) \<Rightarrow> E e t | (Inr x, t) \<Rightarrow> Q x t"
    using assms P m f unfolding triple_def finallyE_def
    by (cases r; cases r') fastforce+
qed

lemma triple_conseq:
  assumes "triple P' m Q' E'" and "\<And>s. P s \<Longrightarrow> P' s"
    and "\<And>x s. Q' x s \<Longrightarrow> Q x s" and "\<And>e s. E' e s \<Longrightarrow> E e s"
  shows "triple P m Q E"
  using assms unfolding triple_def by (fastforce split: sum.splits prod.splits)

lemma triple_pre: "triple P' m Q E \<Longrightarrow> (\<And>s. P s \<Longrightarrow> P' s) \<Longrightarrow> triple P m Q E"
  by (erule triple_conseq) auto

lemma triple_D_Inr: "triple P m Q E \<Longrightarrow> P s \<Longrightarrow> m s = (Inr x, t) \<Longrightarrow> Q x t"
  by (fastforce simp: triple_def)

lemma triple_D_Inl: "triple P m Q E \<Longrightarrow> P s \<Longrightarrow> m s = (Inl e, t) \<Longrightarrow> E e t"
  by (fastforce simp: triple_def)

lemma preserves_iff_triple: "preserves P m \<longleftrightarrow> triple P m (\<lambda>_. P) (\<lambda>_. P)"
  unfolding preserves_def triple_def
  by (metis (mono_tags, lifting) old.prod.case old.sum.simps(5) old.sum.simps(6) prod.exhaust_sel sumE)

lemma triple_for:
  assumes "\<And>x. x \<in> set xs \<Longrightarrow> triple I (f x) (\<lambda>_. I) E"
  shows "triple I (forE xs f) (\<lambda>_. I) E"
  using assms
proof (induction xs)
  case Nil
  show ?case by (simp add: triple_def retE_def)
next
  case (Cons x xs)
  show ?case unfolding forE.simps
    by (rule triple_then [where R = I]) (simp_all add: Cons.IH Cons.prems)
qed


text \<open>Predicates that an operation keeps, whether it returns or raises.\<close>

lemma preserves_ret [preserves_intro]: "preserves P (retE x)"
  by (simp add: preserves_def retE_def)

lemma preserves_raise [preserves_intro]: "preserves P (raiseE e)"
  by (simp add: preserves_def raiseE_def)

lemma preserves_get [preserves_intro]: "preserves P (getE f)"
  by (simp add: preserves_def getE_def)

lemma preserves_lift [preserves_intro]: "preserves P (liftE r)"
  by (simp add: preserves_def liftE_def)

lemma preserves_bind [preserves_intro]:
  assumes "preserves P m" "\<And>x. preserves P (f x)"
  shows "preserves P (bindE m f)"
  unfolding preserves_def
proof (intro allI impI)
  fix s assume "P s"
  obtain r t where m: "m s = (r, t)" by (cases "m s")
  with assms(1) \<open>P s\<close> have "P t" by (auto simp: preserves_def dest: spec [of _ s])
  with m assms(2) show "P (snd (bindE m f s))" by (cases r) (auto simp: bindE_def preserves_def)
qed

lemma preserves_then [preserves_intro]:
  "preserves P m \<Longrightarrow> preserves P n \<Longrightarrow> preserves P (thenE m n)"
  unfolding thenE_def by (rule preserves_bind)

lemma preserves_catch [preserves_intro]:
  assumes "preserves P m" "\<And>e. preserves P (h e)"
  shows "preserves P (catchE m h)"
  using assms unfolding preserves_def catchE_def by (fastforce split: sum.splits prod.splits)

lemma preserves_finally [preserves_intro]:
  assumes "preserves P m" "preserves P f"
  shows "preserves P (finallyE m f)"
  using assms unfolding preserves_def finallyE_def by (fastforce split: sum.splits prod.splits)

lemma preserves_if [preserves_intro]:
  "preserves P m \<Longrightarrow> preserves P n \<Longrightarrow> preserves P (if b then m else n)"
  by simp

lemma preserves_when [preserves_intro]: "preserves P m \<Longrightarrow> preserves P (whenE b m)"
  by (simp add: whenE_def preserves_ret)

lemma preserves_for [preserves_intro]:
  "(\<And>x. x \<in> set xs \<Longrightarrow> preserves P (f x)) \<Longrightarrow> preserves P (forE xs f)"
  by (induction xs) (auto intro: preserves_intro)

lemma preservesD: "preserves P m \<Longrightarrow> P s \<Longrightarrow> m s = (r, t) \<Longrightarrow> P t"
  by (auto simp: preserves_def dest: spec [of _ s])


text \<open>A relation that every step of an operation keeps between the start and the end.\<close>

definition stays :: "('s \<Rightarrow> 's \<Rightarrow> bool) \<Rightarrow> ('s, 'a) op \<Rightarrow> bool" where
  "stays R m = (\<forall>s. R s (snd (m s)))"

named_theorems steps_intro \<open>operations whose effect stays within a relation\<close>

lemma steps_ret [steps_intro]: "reflp R \<Longrightarrow> stays R (retE x)"
  by (simp add: stays_def retE_def reflp_def)

lemma steps_raise [steps_intro]: "reflp R \<Longrightarrow> stays R (raiseE e)"
  by (simp add: stays_def raiseE_def reflp_def)

lemma steps_get [steps_intro]: "reflp R \<Longrightarrow> stays R (getE f)"
  by (simp add: stays_def getE_def reflp_def)

lemma steps_lift [steps_intro]: "reflp R \<Longrightarrow> stays R (liftE r)"
  by (simp add: stays_def liftE_def reflp_def)

lemma steps_bind [steps_intro]:
  assumes "transp R" "stays R m" "\<And>x. stays R (f x)"
  shows "stays R (bindE m f)"
  unfolding stays_def
proof
  fix s
  obtain r t where m: "m s = (r, t)" by (cases "m s")
  with assms(2) have st: "R s t" by (auto simp: stays_def dest: spec [of _ s])
  show "R s (snd (bindE m f s))"
  proof (cases r)
    case (Inl e)
    with m st show ?thesis by (simp add: bindE_def)
  next
    case (Inr x)
    have "R t (snd (f x t))" using assms(3) [of x] by (simp add: stays_def)
    with assms(1) st have "R s (snd (f x t))" by (rule transpD)
    with m Inr show ?thesis by (simp add: bindE_def)
  qed
qed

lemma steps_then [steps_intro]: "transp R \<Longrightarrow> stays R m \<Longrightarrow> stays R n \<Longrightarrow> stays R (thenE m n)"
  unfolding thenE_def by (rule steps_bind)

lemma steps_catch [steps_intro]:
  assumes "transp R" "stays R m" "\<And>e. stays R (h e)"
  shows "stays R (catchE m h)"
  unfolding stays_def
proof
  fix s
  obtain r t where m: "m s = (r, t)" by (cases "m s")
  with assms(2) have st: "R s t" by (auto simp: stays_def dest: spec [of _ s])
  show "R s (snd (catchE m h s))"
  proof (cases r)
    case (Inl e)
    have "R t (snd (h e t))" using assms(3) [of e] by (simp add: stays_def)
    with assms(1) st have "R s (snd (h e t))" by (rule transpD)
    with m Inl show ?thesis by (simp add: catchE_def)
  qed (use m st in \<open>simp add: catchE_def\<close>)
qed

lemma steps_if [steps_intro]: "(b \<Longrightarrow> stays R m) \<Longrightarrow> (\<not> b \<Longrightarrow> stays R n) \<Longrightarrow> stays R (if b then m else n)"
  by simp

lemma steps_when [steps_intro]: "reflp R \<Longrightarrow> (b \<Longrightarrow> stays R m) \<Longrightarrow> stays R (whenE b m)"
  by (simp add: whenE_def steps_ret)

text \<open>Reading off the outcome of a concrete run.\<close>

lemma bind_get: "bindE (getE f) g s = g (f s) s"
  by (simp add: bindE_def getE_def)

lemma bindE_Inr_iff:
  "bindE m f s = (Inr y, u) \<longleftrightarrow> (\<exists>x t. m s = (Inr x, t) \<and> f x t = (Inr y, u))"
  by (auto simp: bindE_def split: prod.splits sum.splits)

lemma bindE_Inl_iff:
  "bindE m f s = (Inl e, u) \<longleftrightarrow> m s = (Inl e, u) \<or> (\<exists>x t. m s = (Inr x, t) \<and> f x t = (Inl e, u))"
  by (auto simp: bindE_def split: prod.splits sum.splits)

lemma raised_outcome:
  "(case m of (Inl e, u) \<Rightarrow> P e u | (Inr x, u) \<Rightarrow> False) \<Longrightarrow> \<exists>e u. m = (Inl e, u) \<and> P e u"
  by (auto split: prod.splits sum.splits)

lemma returned_outcome:
  "(case m of (Inl e, u) \<Rightarrow> False | (Inr x, u) \<Rightarrow> P x u) \<Longrightarrow> \<exists>x u. m = (Inr x, u) \<and> P x u"
  by (auto split: prod.splits sum.splits)

section \<open>Operations on a part of a state\<close>

text \<open>
  A component that is a part of a larger state: \<open>part\<close> reads it, \<open>put\<close> replaces it, and \<open>run\<close>
  runs its operations there. The laws say that the part is the only thing that changes.
\<close>

locale component =
  fixes part :: "'s \<Rightarrow> 'p"
    and put :: "'p \<Rightarrow> 's \<Rightarrow> 's"
    and run :: "('p, 'a) op \<Rightarrow> ('s, 'a) op"
  assumes part_put: "part (put p s) = p"
    and put_put: "put q (put p s) = put q s"
    and put_part: "put (part s) s = s"
    and run_eq: "run m s = (fst (m (part s)), put (snd (m (part s))) s)"
begin

lemma run_part: "part (snd (run m s)) = snd (m (part s))"
  by (simp add: run_eq part_put)

lemma run_pure: "snd (m (part s)) = part s \<Longrightarrow> snd (run m s) = s"
  by (simp add: run_eq put_part)

lemma run_cases:
  assumes "run m s = (r, t)"
  obtains q where "m (part s) = (r, q)" "t = put q s"
  using assms by (cases "m (part s)") (simp add: run_eq)

text \<open>A relation on the part lifts, and what no replacement of the part touches stays.\<close>

lemma run_lifts: "stays R m \<Longrightarrow> stays (\<lambda>s t. R (part s) (part t)) (run m)"
  by (simp add: stays_def run_part)

lemma run_within: "(\<And>p s. R s (put p s)) \<Longrightarrow> stays R (run m)"
  by (simp add: stays_def run_eq)

lemma run_keeps: "(\<And>p s. P s \<Longrightarrow> P (put p s)) \<Longrightarrow> preserves P (run m)"
  by (simp add: preserves_def run_eq)

lemma run_preserves: "preserves P m \<Longrightarrow> preserves (\<lambda>s. P (part s)) (run m)"
  by (simp add: preserves_def run_part)

end

end
