(* ===== verification/Task_States.thy ===== *)
theory Task_States
  imports Operator_Errors
begin

text \<open>
  The task state machine of \<open>app/domain/state_machine.py\<close>: the fourteen states, the
  transition table built from the happy path and the escalation targets, and the guarded
  \<open>transition\<close>. Runs of the machine are an inductive relation; the lemmas say which
  states can be left, which can reach completion and what must have happened before a
  task executes or completes.
\<close>

section \<open>States and the transition table\<close>

datatype task_state =
    CREATED | VALIDATING | PLANNING | RESEARCHING | DRAFTING | VALIDATING_RESULT
  | WAITING_FOR_APPROVAL | EXECUTING | VERIFYING | COMPLETED | FAILED | CANCELLED
  | TIMED_OUT | BLOCKED

definition all_task_states :: "task_state list" where
  "all_task_states = [CREATED, VALIDATING, PLANNING, RESEARCHING, DRAFTING, VALIDATING_RESULT,
     WAITING_FOR_APPROVAL, EXECUTING, VERIFYING, COMPLETED, FAILED, CANCELLED, TIMED_OUT, BLOCKED]"

lemma all_task_states_complete: "s \<in> set all_task_states"
  by (cases s) (simp_all add: all_task_states_def)

instantiation task_state :: enum
begin

definition "enum_task_state = all_task_states"
definition "enum_all_task_state P = list_all P all_task_states"
definition "enum_ex_task_state P = list_ex P all_task_states"

instance
proof
  show "(UNIV :: task_state set) = set enum_class.enum"
    using all_task_states_complete by (auto simp: enum_task_state_def)
  show "distinct (enum_class.enum :: task_state list)"
    by (simp add: enum_task_state_def all_task_states_def)
  fix P :: "task_state \<Rightarrow> bool"
  show "enum_class.enum_all P = Ball UNIV P"
    using all_task_states_complete by (auto simp: enum_all_task_state_def list_all_iff)
  show "enum_class.enum_ex P = Bex UNIV P"
    using all_task_states_complete by (auto simp: enum_ex_task_state_def list_ex_iff)
qed

end

fun state_value :: "task_state \<Rightarrow> string" where
  "state_value CREATED = ''created''"
| "state_value VALIDATING = ''validating''"
| "state_value PLANNING = ''planning''"
| "state_value RESEARCHING = ''researching''"
| "state_value DRAFTING = ''drafting''"
| "state_value VALIDATING_RESULT = ''validating_result''"
| "state_value WAITING_FOR_APPROVAL = ''waiting_for_approval''"
| "state_value EXECUTING = ''executing''"
| "state_value VERIFYING = ''verifying''"
| "state_value COMPLETED = ''completed''"
| "state_value FAILED = ''failed''"
| "state_value CANCELLED = ''cancelled''"
| "state_value TIMED_OUT = ''timed_out''"
| "state_value BLOCKED = ''blocked''"

definition TERMINAL_STATES :: "task_state set" where
  "TERMINAL_STATES = {COMPLETED, FAILED, CANCELLED, TIMED_OUT}"

definition CANCELLABLE_STATES :: "task_state set" where
  "CANCELLABLE_STATES = {CREATED, VALIDATING, PLANNING, RESEARCHING, DRAFTING,
     VALIDATING_RESULT, WAITING_FOR_APPROVAL, EXECUTING, VERIFYING, BLOCKED}"

fun HAPPY_PATH :: "task_state \<Rightarrow> task_state set" where
  "HAPPY_PATH CREATED = {VALIDATING, CANCELLED}"
| "HAPPY_PATH VALIDATING = {PLANNING}"
| "HAPPY_PATH PLANNING = {RESEARCHING, DRAFTING}"
| "HAPPY_PATH RESEARCHING = {DRAFTING, PLANNING}"
| "HAPPY_PATH DRAFTING = {VALIDATING_RESULT}"
| "HAPPY_PATH VALIDATING_RESULT = {WAITING_FOR_APPROVAL, EXECUTING, DRAFTING}"
| "HAPPY_PATH WAITING_FOR_APPROVAL = {EXECUTING, CANCELLED}"
| "HAPPY_PATH EXECUTING = {VERIFYING, WAITING_FOR_APPROVAL}"
| "HAPPY_PATH VERIFYING = {COMPLETED, EXECUTING}"
| "HAPPY_PATH COMPLETED = {}"
| "HAPPY_PATH FAILED = {}"
| "HAPPY_PATH CANCELLED = {}"
| "HAPPY_PATH TIMED_OUT = {}"
| "HAPPY_PATH BLOCKED = {}"

definition ESCALATION_TARGETS :: "task_state set" where
  "ESCALATION_TARGETS = {FAILED, TIMED_OUT, BLOCKED, CANCELLED}"

definition ALLOWED_TRANSITIONS :: "task_state \<Rightarrow> task_state set" where
  "ALLOWED_TRANSITIONS s =
     (if s \<notin> TERMINAL_STATES then HAPPY_PATH s \<union> ESCALATION_TARGETS else HAPPY_PATH s)"

section \<open>Operations\<close>

definition can_transition :: "task_state \<Rightarrow> task_state \<Rightarrow> bool" where
  "can_transition current target =
     (if current \<in> TERMINAL_STATES then False else target \<in> ALLOWED_TRANSITIONS current)"

definition transition :: "task_state \<Rightarrow> task_state \<Rightarrow> task_state result" where
  "transition current target =
     (if \<not> can_transition current target
      then Inl (app_error InvalidStateTransitionError ''Cannot transition task from {} to {}''
                  [AStr (state_value current), AStr (state_value target)])
      else Inr target)"

definition can_cancel :: "task_state \<Rightarrow> bool" where
  "can_cancel current = (current \<in> CANCELLABLE_STATES)"

lemmas state_table_defs =
  TERMINAL_STATES_def CANCELLABLE_STATES_def ESCALATION_TARGETS_def ALLOWED_TRANSITIONS_def
  can_transition_def can_cancel_def

lemma transition_Inr [simp]: "transition s t = Inr u \<longleftrightarrow> can_transition s t \<and> u = t"
  by (auto simp: transition_def)

definition transition_error :: "task_state \<Rightarrow> task_state \<Rightarrow> exn" where
  "transition_error s t = app_error InvalidStateTransitionError
     ''Cannot transition task from {} to {}'' [AStr (state_value s), AStr (state_value t)]"

lemma transition_Inl [simp]:
  "transition s t = Inl e \<longleftrightarrow> \<not> can_transition s t \<and> e = transition_error s t"
  by (auto simp: transition_def transition_error_def)

lemma transition_error_class [simp]: "exn_class (transition_error s t) = App InvalidStateTransitionError"
  by (simp add: transition_error_def)

lemma transition_if: "transition s t = (if can_transition s t then Inr t else Inl (transition_error s t))"
  by simp

lemma can_transition_table:
  "can_transition s t \<longleftrightarrow> s \<notin> TERMINAL_STATES \<and> t \<in> HAPPY_PATH s \<union> ESCALATION_TARGETS"
  by (auto simp: can_transition_def ALLOWED_TRANSITIONS_def)

lemma terminal_no_exit: "s \<in> TERMINAL_STATES \<Longrightarrow> \<not> can_transition s t"
  by (simp add: can_transition_def)

lemma can_cancel_iff_not_terminal: "can_cancel s \<longleftrightarrow> s \<notin> TERMINAL_STATES"
  by (cases s) (simp_all add: state_table_defs)

lemma can_cancel_iff_transition: "can_cancel s \<longleftrightarrow> can_transition s CANCELLED"
  by (cases s) (simp_all add: state_table_defs)

lemma escalation_always_allowed:
  "s \<notin> TERMINAL_STATES \<Longrightarrow> t \<in> ESCALATION_TARGETS \<Longrightarrow> can_transition s t"
  by (simp add: can_transition_table)

section \<open>Runs of the machine\<close>

inductive task_step :: "task_state \<Rightarrow> task_state \<Rightarrow> bool" where
  allowed: "transition s t = Inr u \<Longrightarrow> task_step s u"

inductive task_reach :: "task_state \<Rightarrow> task_state \<Rightarrow> bool" where
  stay: "task_reach s s"
| move: "task_reach s t \<Longrightarrow> task_step t u \<Longrightarrow> task_reach s u"

inductive_simps task_step_iff: "task_step s t"
inductive_cases task_reach_cases: "task_reach s t"

lemma task_step_can [simp]: "task_step s t \<longleftrightarrow> can_transition s t"
  by (simp add: task_step_iff)

interpretation lifecycle: step_system task_step task_reach
proof unfold_locales
  show "task_reach s s" for s by (rule task_reach.stay)
  show "task_reach s t \<Longrightarrow> task_step t u \<Longrightarrow> task_reach s u" for s t u by (rule task_reach.move)
  show "P t" if "task_reach s t" "P s" "\<And>t u. task_reach s t \<Longrightarrow> P t \<Longrightarrow> task_step t u \<Longrightarrow> P u" for s t P
    using that
  proof (induction rule: task_reach.induct)
    case (move s t u)
    from move.IH [OF move.prems] have "P t" .
    with move.hyps(1) show ?case using move.hyps(2) by (rule move.prems(2))
  qed
qed

lemma task_reach_step: "can_transition s t \<Longrightarrow> task_reach s t"
  by (rule lifecycle.reach_one) simp

lemmas task_reach_trans = lifecycle.reach_trans

lemma terminal_reach: "task_reach s t \<Longrightarrow> s \<in> TERMINAL_STATES \<Longrightarrow> t = s"
  by (erule lifecycle.reach_stuck) (auto dest: terminal_no_exit)

lemma blocked_reach: "task_reach s t \<Longrightarrow> s = BLOCKED \<Longrightarrow> t \<in> {BLOCKED, FAILED, TIMED_OUT, CANCELLED}"
  by (erule lifecycle.reach_invariant) (auto simp: state_table_defs)

text \<open>
  A path records the states visited. \<open>task_path s ps t\<close>: the states after \<open>s\<close> are \<open>ps\<close>
  and the last one is \<open>t\<close>.
\<close>

fun task_path :: "task_state \<Rightarrow> task_state list \<Rightarrow> bool" where
  "task_path s [] = True"
| "task_path s (t # ts) = (can_transition s t \<and> task_path t ts)"

lemma task_path_reach: "task_path s ps \<Longrightarrow> task_reach s (last (s # ps))"
proof (induction ps arbitrary: s)
  case Nil
  show ?case by (simp add: task_reach.stay)
next
  case (Cons t ps)
  then have "task_reach s t" "task_reach t (last (t # ps))"
    by (auto intro: task_reach_step)
  then show ?case by (auto dest: task_reach_trans)
qed

text \<open>Executing, verifying and completing are entered through the gate states only.\<close>

lemma enter_executing:
  "can_transition s EXECUTING \<Longrightarrow> s \<in> {VALIDATING_RESULT, WAITING_FOR_APPROVAL, VERIFYING}"
  by (cases s) (simp_all add: state_table_defs)

lemma enter_verifying: "can_transition s VERIFYING \<Longrightarrow> s = EXECUTING"
  by (cases s) (simp_all add: state_table_defs)

lemma enter_completed: "can_transition s COMPLETED \<Longrightarrow> s = VERIFYING"
  by (cases s) (simp_all add: state_table_defs)

lemma enter_waiting:
  "can_transition s WAITING_FOR_APPROVAL \<Longrightarrow> s \<in> {VALIDATING_RESULT, EXECUTING}"
  by (cases s) (simp_all add: state_table_defs)

definition early_states :: "task_state set" where
  "early_states = {CREATED, VALIDATING, PLANNING, RESEARCHING, DRAFTING, BLOCKED, FAILED, CANCELLED, TIMED_OUT}"

lemma early_step: "can_transition s t \<Longrightarrow> s \<in> early_states \<Longrightarrow> t \<in> early_states \<or> t = VALIDATING_RESULT"
  by (cases s; cases t) (simp_all add: state_table_defs early_states_def)

lemma path_gate:
  "task_path s ps \<Longrightarrow> s \<in> early_states \<Longrightarrow> VALIDATING_RESULT \<notin> set ps \<Longrightarrow> set ps \<subseteq> early_states"
  by (induction ps arbitrary: s) (auto dest: early_step)

lemma completed_needs_verifying:
  "task_path s ps \<Longrightarrow> COMPLETED \<in> set ps \<Longrightarrow> s \<noteq> VERIFYING \<Longrightarrow> VERIFYING \<in> set ps"
  by (induction ps arbitrary: s) (auto dest: enter_completed)

lemma verifying_needs_executing:
  "task_path s ps \<Longrightarrow> VERIFYING \<in> set ps \<Longrightarrow> s \<noteq> EXECUTING \<Longrightarrow> EXECUTING \<in> set ps"
  by (induction ps arbitrary: s) (auto dest: enter_verifying)

text \<open>Every state that is neither terminal nor blocked can still complete.\<close>

lemma verifying_completes: "task_reach VERIFYING COMPLETED"
  by (rule task_reach_step) (simp add: state_table_defs)

lemma executing_completes: "task_reach EXECUTING COMPLETED"
  by (rule task_reach_trans [OF task_reach_step verifying_completes]) (simp add: state_table_defs)

lemma validating_result_completes: "task_reach VALIDATING_RESULT COMPLETED"
  by (rule task_reach_trans [OF task_reach_step executing_completes]) (simp add: state_table_defs)

lemma waiting_completes: "task_reach WAITING_FOR_APPROVAL COMPLETED"
  by (rule task_reach_trans [OF task_reach_step executing_completes]) (simp add: state_table_defs)

lemma drafting_completes: "task_reach DRAFTING COMPLETED"
  by (rule task_reach_trans [OF task_reach_step validating_result_completes]) (simp add: state_table_defs)

lemma researching_completes: "task_reach RESEARCHING COMPLETED"
  by (rule task_reach_trans [OF task_reach_step drafting_completes]) (simp add: state_table_defs)

lemma planning_completes: "task_reach PLANNING COMPLETED"
  by (rule task_reach_trans [OF task_reach_step drafting_completes]) (simp add: state_table_defs)

lemma validating_completes: "task_reach VALIDATING COMPLETED"
  by (rule task_reach_trans [OF task_reach_step planning_completes]) (simp add: state_table_defs)

lemma created_completes: "task_reach CREATED COMPLETED"
  by (rule task_reach_trans [OF task_reach_step validating_completes]) (simp add: state_table_defs)

lemmas completes = verifying_completes executing_completes validating_result_completes
  waiting_completes drafting_completes researching_completes planning_completes
  validating_completes created_completes task_reach.stay

lemma can_complete_iff:
  "task_reach s COMPLETED \<longleftrightarrow> s \<notin> {FAILED, CANCELLED, TIMED_OUT, BLOCKED}"
proof
  assume r: "task_reach s COMPLETED"
  then have "s \<in> TERMINAL_STATES \<Longrightarrow> s = COMPLETED" using terminal_reach by blast
  moreover have "s \<noteq> BLOCKED" using blocked_reach [OF r] by auto
  ultimately show "s \<notin> {FAILED, CANCELLED, TIMED_OUT, BLOCKED}" by (auto simp: TERMINAL_STATES_def)
next
  assume "s \<notin> {FAILED, CANCELLED, TIMED_OUT, BLOCKED}"
  then show "task_reach s COMPLETED" by (cases s) (simp_all add: completes)
qed

end
