(* ===== verification/Data_Model.thy ===== *)
theory Data_Model
  imports Task_States "HOL-Library.AList"
begin

text \<open>
  The rows of \<open>app/db/models\<close> that the program reads and writes, the tables that hold
  them, and the unit of work (\<open>AsyncSession\<close>) through which the services use them.

  A table is an association list in creation order. A session has the committed
  database and its own working copy: \<open>add\<close> and attribute assignment change the working
  copy, \<open>commit\<close> publishes it, and closing a session without a commit discards it.
  \<open>flush\<close> checks the uniqueness constraint of \<open>social_posts\<close>. \<open>uuid4\<close> and the server's
  \<open>now()\<close> are one counter of the session, so identifiers are fresh and creation times
  strictly increase.
\<close>

section \<open>Rows\<close>

record plan_step =
  ps_name :: string
  ps_agent :: string
  ps_description :: string
  ps_requires_approval :: bool

record plan =
  plan_steps :: "plan_step list"

record step_output =
  so_step :: string
  so_agent :: string
  so_success :: bool

text \<open>The JSON object in \<open>Task.result\<close>: the keys the orchestrator writes.\<close>

record task_result =
  res_plan :: "plan option"
  res_iterations :: "nat option"
  res_tool_calls :: "nat option"
  res_steps :: "step_output list option"

record task_row =
  t_instruction :: string
  t_state :: task_state
  t_user_id :: "string option"
  t_result :: "task_result option"
  t_error :: "(emsg \<times> exn_class) option"
  t_timeout_seconds :: "int option"
  t_created_at :: nat

datatype approval_status = Pending | Approved | Rejected

record approval_row =
  a_task_id :: uuid
  a_action :: string
  a_target :: string
  a_risk_level :: string
  a_reason :: "string option"
  a_status :: approval_status
  a_decided_by :: "string option"
  a_created_at :: nat

datatype call_status = Running | Success | Failed

text \<open>The JSON object in \<open>AgentRun.output\<close>: the answer of a step, or the planner's payload.\<close>

datatype run_output = StepOutput string string | PlanOutput plan

record agent_run =
  ar_task_id :: uuid
  ar_agent_name :: string
  ar_status :: call_status
  ar_output :: "run_output option"
  ar_error :: "emsg option"

datatype platform = X | LinkedIn

datatype draft_status = DraftNew | DraftApproved | DraftPublished | DraftRejected

record draft =
  d_task_id :: "uuid option"
  d_platform :: platform
  d_content :: string
  d_status :: draft_status

datatype exec_status = ExecPending | ExecSucceeded | ExecFailed

datatype verif_status = Unverified | Verified | VerifFailed

record social_post =
  sp_draft_id :: "uuid option"
  sp_platform :: platform
  sp_idempotency_key :: string
  sp_content_hash :: string
  sp_external_id :: "string option"
  sp_execution_status :: exec_status
  sp_verification_status :: verif_status
  sp_created_at :: nat

record publish_attempt =
  pa_social_post_id :: uuid
  pa_status :: exec_status
  pa_response :: "(string \<times> string) option"
  pa_error :: "(emsg \<times> exn_class) option"

record verification_result =
  vr_social_post_id :: uuid
  vr_status :: verif_status

section \<open>Tables\<close>

type_synonym 'r table = "(uuid \<times> 'r) list"

definition tget :: "'r table \<Rightarrow> uuid \<Rightarrow> 'r option" where
  "tget t k = map_of t k"

definition tput :: "uuid \<Rightarrow> 'r \<Rightarrow> 'r table \<Rightarrow> 'r table" where
  "tput k r t = AList.update k r t"

definition tids :: "'r table \<Rightarrow> uuid set" where
  "tids t = fst ` set t"

text \<open>The interface of a table that the services rely on, and what follows from it.\<close>

locale row_store =
  fixes get :: "'t \<Rightarrow> 'k \<Rightarrow> 'r option"
    and put :: "'k \<Rightarrow> 'r \<Rightarrow> 't \<Rightarrow> 't"
    and ids :: "'t \<Rightarrow> 'k set"
  assumes get_put: "get (put k r t) j = (if j = k then Some r else get t j)"
    and ids_get: "k \<in> ids t \<longleftrightarrow> get t k \<noteq> None"
begin

lemma get_put_same: "get (put k r t) k = Some r"
  by (simp add: get_put)

lemma get_put_other: "j \<noteq> k \<Longrightarrow> get (put k r t) j = get t j"
  by (simp add: get_put)

lemma get_put_put: "get (put k r (put k q t)) j = get (put k r t) j"
  by (simp add: get_put)

lemma ids_put: "j \<in> ids (put k r t) \<longleftrightarrow> j = k \<or> j \<in> ids t"
  by (simp add: ids_get get_put)

lemma update_frame:
  assumes "get t k = Some q" and "P q \<Longrightarrow> P r" and "\<forall>j q. get t j = Some q \<longrightarrow> P q"
  shows "\<forall>j q. get (put k r t) j = Some q \<longrightarrow> P q"
  using assms by (auto simp: get_put)

end

interpretation tbl: row_store tget tput tids
proof unfold_locales
  show "tget (tput k r t) j = (if j = k then Some r else tget t j)" for k j :: uuid and r :: 'r and t
    by (simp add: tget_def tput_def update_conv)
  show "k \<in> tids t \<longleftrightarrow> tget t k \<noteq> None" for k and t :: "'r table"
    by (simp add: tget_def tids_def map_of_eq_None_iff)
qed

declare tbl.get_put [simp]

lemma tput_tput [simp]: "tput k r (tput k q t) = tput k r t"
  by (simp add: tput_def)

section \<open>Databases and sessions\<close>

record db =
  tasks :: "task_row table"
  approvals :: "approval_row table"
  agent_runs :: "agent_run table"
  drafts :: "draft table"
  social_posts :: "social_post table"
  publish_attempts :: "publish_attempt table"
  verification_results :: "verification_result table"

definition empty_db :: db where
  "empty_db = \<lparr>tasks = [], approvals = [], agent_runs = [], drafts = [], social_posts = [],
     publish_attempts = [], verification_results = []\<rparr>"

record session =
  committed :: db
  work :: db
  fresh :: nat

definition open_session :: "db \<Rightarrow> nat \<Rightarrow> session" where
  "open_session d n = \<lparr>committed = d, work = d, fresh = n\<rparr>"

text \<open>What the database holds after the session is closed without a further commit.\<close>

definition close_session :: "session \<Rightarrow> db" where
  "close_session s = committed s"

text \<open>A new identifier; reading it also advances the clock of the created rows.\<close>

definition uuid4 :: "(session, uuid) op" where
  "uuid4 = (\<lambda>s. (Inr (fresh s), s\<lparr>fresh := Suc (fresh s)\<rparr>))"

definition commit :: "(session, unit) op" where
  "commit = modE (\<lambda>s. s\<lparr>committed := work s\<rparr>)"

definition put_task :: "uuid \<Rightarrow> task_row \<Rightarrow> (session, unit) op" where
  "put_task k r = modE (\<lambda>s. s\<lparr>work := (work s)\<lparr>tasks := tput k r (tasks (work s))\<rparr>\<rparr>)"

definition put_approval :: "uuid \<Rightarrow> approval_row \<Rightarrow> (session, unit) op" where
  "put_approval k r = modE (\<lambda>s. s\<lparr>work := (work s)\<lparr>approvals := tput k r (approvals (work s))\<rparr>\<rparr>)"

definition put_run :: "uuid \<Rightarrow> agent_run \<Rightarrow> (session, unit) op" where
  "put_run k r = modE (\<lambda>s. s\<lparr>work := (work s)\<lparr>agent_runs := tput k r (agent_runs (work s))\<rparr>\<rparr>)"

definition put_draft :: "uuid \<Rightarrow> draft \<Rightarrow> (session, unit) op" where
  "put_draft k r = modE (\<lambda>s. s\<lparr>work := (work s)\<lparr>drafts := tput k r (drafts (work s))\<rparr>\<rparr>)"

definition put_post :: "uuid \<Rightarrow> social_post \<Rightarrow> (session, unit) op" where
  "put_post k r = modE (\<lambda>s. s\<lparr>work := (work s)\<lparr>social_posts := tput k r (social_posts (work s))\<rparr>\<rparr>)"

definition put_attempt :: "uuid \<Rightarrow> publish_attempt \<Rightarrow> (session, unit) op" where
  "put_attempt k r =
     modE (\<lambda>s. s\<lparr>work := (work s)\<lparr>publish_attempts := tput k r (publish_attempts (work s))\<rparr>\<rparr>)"

definition put_verification :: "uuid \<Rightarrow> verification_result \<Rightarrow> (session, unit) op" where
  "put_verification k r =
     modE (\<lambda>s. s\<lparr>work := (work s)\<lparr>verification_results := tput k r (verification_results (work s))\<rparr>\<rparr>)"

lemmas session_ops = uuid4_def commit_def put_task_def put_approval_def put_run_def put_draft_def
  put_post_def put_attempt_def put_verification_def

text \<open>The unique constraint \<open>uq_social_posts_idempotency_key\<close>, checked when rows are flushed.\<close>

definition keys_unique :: "social_post table \<Rightarrow> bool" where
  "keys_unique t = distinct (map (\<lambda>(k, p). sp_idempotency_key p) t)"

end
