(* ===== verification/Task_Services.thy ===== *)
theory Task_Services
  imports Data_Model
begin

text \<open>
  \<open>app/services/task_service.py\<close> and \<open>app/services/approval_service.py\<close> over the session
  of \<open>Data_Model\<close>, and the task and approval routes that call them. Each method is an
  operation of the effect monad, in the order of the source's statements: a guard that
  raises stops it, with the working copy as it is at that point.

  The lemmas give each method's outcome on every branch, show that a method that raises
  commits nothing, and that whatever the services do, the committed state of a task only
  moves along the transition table (\<open>service_refines_machine\<close>).
\<close>

section \<open>TaskService\<close>

definition create_task :: "string \<Rightarrow> string option \<Rightarrow> (session, uuid) op" where
  "create_task ins user =
     bindE uuid4 (\<lambda>tid.
     thenE (put_task tid \<lparr>t_instruction = ins, t_state = CREATED, t_user_id = user, t_result = None,
              t_error = None, t_timeout_seconds = None, t_created_at = tid\<rparr>)
     (thenE commit
     (retE tid)))"

definition get_task :: "uuid \<Rightarrow> (session, task_row) op" where
  "get_task tid =
     bindE (getE (\<lambda>s. tget (tasks (work s)) tid)) (\<lambda>r. case r of
       None \<Rightarrow> raiseE (app_error ValidationError ''Task {} not found'' [AId tid])
     | Some t \<Rightarrow> retE t)"

definition transition_task :: "uuid \<Rightarrow> task_state \<Rightarrow> (session, task_row) op" where
  "transition_task tid target =
     bindE (get_task tid) (\<lambda>t.
     bindE (liftE (transition (t_state t) target)) (\<lambda>st.
     thenE (put_task tid (t\<lparr>t_state := st\<rparr>))
     (thenE commit
     (retE (t\<lparr>t_state := st\<rparr>)))))"

definition cancel_task :: "uuid \<Rightarrow> (session, task_row) op" where
  "cancel_task tid =
     bindE (get_task tid) (\<lambda>t.
       if \<not> can_cancel (t_state t)
       then raiseE (app_error CancellationError ''Task {} cannot be cancelled from state {}''
                     [AId tid, AStr (state_value (t_state t))])
       else transition_task tid CANCELLED)"

section \<open>ApprovalService\<close>

record approval_request =
  rq_action :: string
  rq_target :: string
  rq_reason :: "string option"
  rq_risk_level :: string

record approval_decision =
  dec_approved :: bool
  dec_decided_by :: "string option"

definition create_approval :: "uuid \<Rightarrow> approval_request \<Rightarrow> (session, uuid) op" where
  "create_approval tid rq =
     bindE uuid4 (\<lambda>aid.
     thenE (put_approval aid \<lparr>a_task_id = tid, a_action = rq_action rq, a_target = rq_target rq,
              a_risk_level = rq_risk_level rq, a_reason = rq_reason rq, a_status = Pending,
              a_decided_by = None, a_created_at = aid\<rparr>)
     (thenE (transition_task tid WAITING_FOR_APPROVAL)
     (thenE commit
     (retE aid))))"

definition get_approval :: "uuid \<Rightarrow> (session, approval_row) op" where
  "get_approval aid =
     bindE (getE (\<lambda>s. tget (approvals (work s)) aid)) (\<lambda>r. case r of
       None \<Rightarrow> raiseE (app_error ValidationError ''Approval {} not found'' [AId aid])
     | Some a \<Rightarrow> retE a)"

text \<open>The query of \<open>get_pending_for_task\<close>: the pending approvals of a task, newest first.\<close>

definition pending_query :: "uuid \<Rightarrow> approval_row table \<Rightarrow> (uuid \<times> approval_row) option" where
  "pending_query tid t =
     (case sort_key (\<lambda>(k, a). - int (a_created_at a))
             (filter (\<lambda>(k, a). a_task_id a = tid \<and> a_status a = Pending) t) of
        [] \<Rightarrow> None | r # _ \<Rightarrow> Some r)"

definition get_pending_for_task :: "uuid \<Rightarrow> (session, uuid \<times> approval_row) op" where
  "get_pending_for_task tid =
     bindE (getE (\<lambda>s. pending_query tid (approvals (work s)))) (\<lambda>r. case r of
       None \<Rightarrow> raiseE (app_error ValidationError ''No pending approval for task {}'' [AId tid])
     | Some ka \<Rightarrow> retE ka)"

definition decide_approval :: "uuid \<Rightarrow> approval_decision \<Rightarrow> (session, approval_row) op" where
  "decide_approval aid d =
     bindE (get_approval aid) (\<lambda>a.
     let a' = a\<lparr>a_status := (if dec_approved d then Approved else Rejected),
                a_decided_by := dec_decided_by d\<rparr>;
         next_state = (if dec_approved d then EXECUTING else CANCELLED)
     in thenE (put_approval aid a')
        (thenE (transition_task (a_task_id a) next_state)
        (thenE commit
        (retE a'))))"

section \<open>Routes\<close>

text \<open>\<open>TaskCreateRequest\<close>, with the constraints its fields declare.\<close>

record task_create_request =
  tc_instruction :: string
  tc_user_id :: "string option"
  tc_timeout_seconds :: "int option"

definition valid_task_create :: "task_create_request \<Rightarrow> bool" where
  "valid_task_create p =
     (1 \<le> length (tc_instruction p) \<and> length (tc_instruction p) \<le> 8000 \<and>
      (case tc_timeout_seconds p of None \<Rightarrow> True | Some n \<Rightarrow> 1 \<le> n \<and> n \<le> 3600))"

definition create_task_route :: "task_create_request \<Rightarrow> (session, uuid) op" where
  "create_task_route p = create_task (tc_instruction p) (tc_user_id p)"

definition get_task_route :: "uuid \<Rightarrow> (session, task_row) op" where
  "get_task_route tid = get_task tid"

definition cancel_task_route :: "uuid \<Rightarrow> (session, task_state) op" where
  "cancel_task_route tid = bindE (cancel_task tid) (\<lambda>t. retE (t_state t))"

definition get_approval_route :: "uuid \<Rightarrow> (session, uuid \<times> approval_row) op" where
  "get_approval_route tid = get_pending_for_task tid"

definition decide_approval_route :: "uuid \<Rightarrow> approval_decision \<Rightarrow> (session, approval_row) op" where
  "decide_approval_route tid d =
     bindE (get_pending_for_task tid) (\<lambda>(aid, a). decide_approval aid d)"

lemmas service_defs = create_task_def get_task_def transition_task_def cancel_task_def
  create_approval_def get_approval_def get_pending_for_task_def decide_approval_def

section \<open>Outcomes\<close>

definition task_at :: "db \<Rightarrow> uuid \<Rightarrow> task_state option" where
  "task_at d tid = map_option t_state (tget (tasks d) tid)"

lemma get_task_run:
  "get_task tid s = (case tget (tasks (work s)) tid of
     None \<Rightarrow> (Inl (app_error ValidationError ''Task {} not found'' [AId tid]), s)
   | Some t \<Rightarrow> (Inr t, s))"
  by (simp add: get_task_def op_defs split: option.splits)

definition set_state :: "session \<Rightarrow> uuid \<Rightarrow> task_row \<Rightarrow> session" where
  "set_state s tid t =
     (let w = (work s)\<lparr>tasks := tput tid t (tasks (work s))\<rparr> in s\<lparr>work := w, committed := w\<rparr>)"

lemma transition_task_run:
  "transition_task tid target s = (case tget (tasks (work s)) tid of
     None \<Rightarrow> (Inl (app_error ValidationError ''Task {} not found'' [AId tid]), s)
   | Some t \<Rightarrow> (case transition (t_state t) target of
       Inl e \<Rightarrow> (Inl e, s)
     | Inr st \<Rightarrow> (Inr (t\<lparr>t_state := st\<rparr>), set_state s tid (t\<lparr>t_state := st\<rparr>))))"
  by (simp add: transition_task_def get_task_run op_defs session_ops set_state_def Let_def
      split: option.splits sum.splits)

lemma transition_task_Inr_iff:
  "(\<exists>t u. transition_task tid target s = (Inr t, u)) \<longleftrightarrow>
   (\<exists>st. task_at (work s) tid = Some st \<and> can_transition st target)"
  by (cases "tget (tasks (work s)) tid") (auto simp: transition_task_run task_at_def transition_if)

lemma transition_task_Inl_state: "transition_task tid target s = (Inl e, u) \<Longrightarrow> u = s"
  by (auto simp: transition_task_run split: option.splits sum.splits)

lemma transition_task_Inr_state:
  assumes "transition_task tid target s = (Inr t, u)"
  obtains r where "tget (tasks (work s)) tid = Some r" "can_transition (t_state r) target"
    "t = r\<lparr>t_state := target\<rparr>" "u = set_state s tid t"
  using assms by (auto simp: transition_task_run split: option.splits sum.splits)

lemma set_state_simps [simp]:
  "work (set_state s tid t) = (work s)\<lparr>tasks := tput tid t (tasks (work s))\<rparr>"
  "committed (set_state s tid t) = work (set_state s tid t)"
  "fresh (set_state s tid t) = fresh s"
  by (simp_all add: set_state_def Let_def)

lemma cancel_task_run:
  "cancel_task tid s = (case tget (tasks (work s)) tid of
     None \<Rightarrow> (Inl (app_error ValidationError ''Task {} not found'' [AId tid]), s)
   | Some t \<Rightarrow> if t_state t \<in> TERMINAL_STATES
       then (Inl (app_error CancellationError ''Task {} cannot be cancelled from state {}''
                   [AId tid, AStr (state_value (t_state t))]), s)
       else (Inr (t\<lparr>t_state := CANCELLED\<rparr>), set_state s tid (t\<lparr>t_state := CANCELLED\<rparr>)))"
proof (cases "tget (tasks (work s)) tid")
  case None
  then show ?thesis by (simp add: cancel_task_def bindE_def get_task_run)
next
  case (Some t)
  then show ?thesis
    using can_cancel_iff_transition [of "t_state t"]
    by (auto simp: cancel_task_def bindE_def get_task_run transition_task_run raiseE_def
        can_cancel_iff_not_terminal transition_if)
qed

section \<open>Atomicity: a method that raises commits nothing\<close>

lemma create_approval_Inl_committed:
  "create_approval tid rq s = (Inl e, u) \<Longrightarrow> committed u = committed s"
  by (auto simp: create_approval_def op_defs session_ops split: sum.splits prod.splits
      dest!: transition_task_Inl_state)

lemma decide_approval_Inl_committed:
  "decide_approval aid d s = (Inl e, u) \<Longrightarrow> committed u = committed s"
  by (auto simp: decide_approval_def get_approval_def op_defs session_ops Let_def
      split: sum.splits prod.splits option.splits dest!: transition_task_Inl_state)

lemma cancel_task_Inl_state: "cancel_task tid s = (Inl e, u) \<Longrightarrow> u = s"
  by (auto simp: cancel_task_run split: option.splits if_splits)

section \<open>Refinement of the state machine\<close>

text \<open>
  The operations a client of the services can call, run one after another on one
  session. An operation that raises ends its request: the session is closed without a
  commit and the next operation starts from the committed database.
\<close>

datatype service_call =
    CreateTask string "string option"
  | Transition uuid task_state
  | Cancel uuid
  | CreateApproval uuid approval_request
  | Decide uuid approval_decision

fun call_service :: "service_call \<Rightarrow> (session, unit) op" where
  "call_service (CreateTask i u) = bindE (create_task i u) (\<lambda>_. retE ())"
| "call_service (Transition t st) = bindE (transition_task t st) (\<lambda>_. retE ())"
| "call_service (Cancel t) = bindE (cancel_task t) (\<lambda>_. retE ())"
| "call_service (CreateApproval t rq) = bindE (create_approval t rq) (\<lambda>_. retE ())"
| "call_service (Decide a d) = bindE (decide_approval a d) (\<lambda>_. retE ())"

definition serve :: "service_call \<Rightarrow> session \<Rightarrow> session" where
  "serve c s = (case call_service c s of
      (Inl e, t) \<Rightarrow> open_session (close_session t) (fresh t)
    | (Inr _, t) \<Rightarrow> t)"

fun serve_all :: "service_call list \<Rightarrow> session \<Rightarrow> session" where
  "serve_all [] s = s"
| "serve_all (c # cs) s = serve_all cs (serve c s)"

text \<open>Between requests the session is clean and identifiers are fresh.\<close>

definition clean :: "session \<Rightarrow> bool" where
  "clean s = (work s = committed s \<and> (\<forall>k \<in> tids (tasks (work s)). k < fresh s))"

text \<open>The relation between two committed databases that every call establishes.\<close>

definition moves :: "db \<Rightarrow> db \<Rightarrow> bool" where
  "moves d d' = (\<forall>tid st. task_at d tid = Some st \<longrightarrow>
     (\<exists>st'. task_at d' tid = Some st' \<and> (st' = st \<or> can_transition st st')))"

lemma moves_refl [simp]: "moves d d"
  by (simp add: moves_def)

lemma task_at_put [simp]:
  "task_at (d\<lparr>tasks := tput k t (tasks d)\<rparr>) tid = (if tid = k then Some (t_state t) else task_at d tid)"
  by (simp add: task_at_def)

lemma task_at_approvals [simp]: "task_at (d\<lparr>approvals := x\<rparr>) tid = task_at d tid"
  by (simp add: task_at_def)

lemma moves_put:
  "task_at d k = Some st \<Longrightarrow> t_state t = st \<or> can_transition st (t_state t) \<Longrightarrow>
   moves d (d\<lparr>tasks := tput k t (tasks d)\<rparr>)"
  by (auto simp: moves_def)

lemma tids_put [simp]: "tids (tput k r t) = insert k (tids t)"
  by (auto simp: tbl.ids_put)

lemma tget_tids: "tget t k = Some r \<Longrightarrow> k \<in> tids t"
  by (simp add: tbl.ids_get)

lemma transition_moves:
  assumes "clean s" "transition_task tid target s = (Inr t, u)"
  shows "clean u \<and> moves (committed s) (committed u)"
proof -
  from assms(2) obtain r where r: "tget (tasks (work s)) tid = Some r"
    "can_transition (t_state r) target" "t = r\<lparr>t_state := target\<rparr>" "u = set_state s tid t"
    by (rule transition_task_Inr_state)
  with assms(1) show ?thesis
    by (auto simp: clean_def tget_tids task_at_def intro!: moves_put)
qed

lemma clean_less: "clean s \<Longrightarrow> k \<in> tids (tasks (committed s)) \<Longrightarrow> k < Suc (fresh s)"
  using less_SucI unfolding clean_def by metis

lemma create_task_run:
  "create_task i usr s = (Inr (fresh s),
     (let w = (work s)\<lparr>tasks := tput (fresh s) \<lparr>t_instruction = i, t_state = CREATED, t_user_id = usr,
        t_result = None, t_error = None, t_timeout_seconds = None, t_created_at = fresh s\<rparr> (tasks (work s))\<rparr>
      in s\<lparr>work := w, committed := w, fresh := Suc (fresh s)\<rparr>))"
  by (simp add: create_task_def op_defs session_ops Let_def)

lemma create_approval_Inr:
  assumes "create_approval tid rq s = (Inr aid, u)"
  obtains r a where "tget (tasks (work s)) tid = Some r"
    "can_transition (t_state r) WAITING_FOR_APPROVAL" "aid = fresh s"
    "a = \<lparr>a_task_id = tid, a_action = rq_action rq, a_target = rq_target rq,
          a_risk_level = rq_risk_level rq, a_reason = rq_reason rq, a_status = Pending,
          a_decided_by = None, a_created_at = aid\<rparr>"
    "work u = (work s)\<lparr>approvals := tput aid a (approvals (work s)),
       tasks := tput tid (r\<lparr>t_state := WAITING_FOR_APPROVAL\<rparr>) (tasks (work s))\<rparr>"
    "committed u = work u" "fresh u = Suc (fresh s)"
  using assms
  by (auto simp: create_approval_def op_defs session_ops transition_task_run
      split: sum.splits prod.splits option.splits)

lemma decide_approval_Inr:
  assumes "decide_approval aid d s = (Inr a', u)"
  obtains a r st where "tget (approvals (work s)) aid = Some a"
    "tget (tasks (work s)) (a_task_id a) = Some r"
    "st = (if dec_approved d then EXECUTING else CANCELLED)" "can_transition (t_state r) st"
    "a' = a\<lparr>a_status := (if dec_approved d then Approved else Rejected), a_decided_by := dec_decided_by d\<rparr>"
    "work u = (work s)\<lparr>approvals := tput aid a' (approvals (work s)),
       tasks := tput (a_task_id a) (r\<lparr>t_state := st\<rparr>) (tasks (work s))\<rparr>"
    "committed u = work u" "fresh u = fresh s"
  using assms
  by (auto simp: decide_approval_def get_approval_def op_defs session_ops transition_task_run Let_def
      split: sum.splits prod.splits option.splits if_splits)

lemma call_service_Inr:
  assumes "clean s" "call_service c s = (Inr x, u)"
  shows "clean u \<and> moves (committed s) (committed u)"
proof (cases c)
  case (CreateTask i usr)
  have "task_at (committed s) (fresh s) = None"
    using assms(1) tget_tids [of "tasks (committed s)" "fresh s"]
    by (cases "tget (tasks (committed s)) (fresh s)") (auto simp: clean_def task_at_def)
  with CreateTask assms clean_less [OF assms(1)] show ?thesis
    by (auto simp: bindE_def retE_def create_task_run Let_def clean_def moves_def)
next
  case (Transition tid st)
  with assms show ?thesis
    by (auto simp: bindE_def retE_def split: sum.splits prod.splits dest: transition_moves)
next
  case (Cancel tid)
  with assms obtain t where "cancel_task tid s = (Inr t, u)"
    by (auto simp: bindE_def retE_def split: sum.splits prod.splits)
  then have "transition_task tid CANCELLED s = (Inr t, u)"
    by (auto simp: cancel_task_def bindE_def get_task_run raiseE_def split: option.splits if_splits)
  with assms(1) show ?thesis by (rule transition_moves)
next
  case (CreateApproval tid rq)
  with assms obtain aid where c: "create_approval tid rq s = (Inr aid, u)"
    by (auto simp: bindE_def retE_def split: sum.splits prod.splits)
  show ?thesis using assms(1) clean_less [OF assms(1)]
    by (rule_tac create_approval_Inr [OF c])
       (auto simp: clean_def tget_tids task_at_def moves_def)
next
  case (Decide aid d)
  with assms obtain a where c: "decide_approval aid d s = (Inr a, u)"
    by (auto simp: bindE_def retE_def split: sum.splits prod.splits)
  show ?thesis using assms(1)
    by (rule_tac decide_approval_Inr [OF c])
       (auto simp: clean_def tget_tids task_at_def moves_def)
qed

lemma call_service_Inl:
  assumes "clean s" "call_service c s = (Inl e, u)"
  shows "committed u = committed s \<and> fresh s \<le> fresh u"
proof (cases c)
  case (CreateTask i usr)
  with assms show ?thesis by (simp add: bindE_def retE_def create_task_run)
next
  case (Transition tid st)
  with assms show ?thesis
    by (auto simp: bindE_def retE_def split: sum.splits prod.splits dest: transition_task_Inl_state)
next
  case (Cancel tid)
  with assms show ?thesis
    by (auto simp: bindE_def retE_def split: sum.splits prod.splits dest: cancel_task_Inl_state)
next
  case (CreateApproval tid rq)
  with assms(2) have c: "create_approval tid rq s = (Inl e, u)"
    by (auto simp: bindE_def retE_def split: sum.splits prod.splits)
  then have "fresh u = Suc (fresh s)"
    by (auto simp: create_approval_def op_defs session_ops split: sum.splits prod.splits
        dest!: transition_task_Inl_state)
  with create_approval_Inl_committed [OF c] show ?thesis by simp
next
  case (Decide aid d)
  with assms(2) have c: "decide_approval aid d s = (Inl e, u)"
    by (auto simp: bindE_def retE_def split: sum.splits prod.splits)
  then have "fresh u = fresh s"
    by (auto simp: decide_approval_def get_approval_def op_defs session_ops Let_def
        split: sum.splits prod.splits option.splits dest!: transition_task_Inl_state)
  with decide_approval_Inl_committed [OF c] show ?thesis by simp
qed

lemma serve_clean: "clean s \<Longrightarrow> clean (serve c s) \<and> moves (committed s) (committed (serve c s))"
proof -
  assume cl: "clean s"
  obtain r u where ru: "call_service c s = (r, u)" by (cases "call_service c s")
  show ?thesis
  proof (cases r)
    case (Inl e)
    with call_service_Inl [OF cl, of c e u] ru cl show ?thesis
      by (auto simp: serve_def open_session_def close_session_def clean_def intro: less_le_trans)
  next
    case (Inr x)
    with call_service_Inr [OF cl, of c x u] ru show ?thesis by (simp add: serve_def)
  qed
qed

lemma serve_all_reach:
  "clean s \<Longrightarrow> task_at (committed s) tid = Some st \<Longrightarrow>
   \<exists>st'. task_at (committed (serve_all cs s)) tid = Some st' \<and> task_reach st st'"
proof (induction cs arbitrary: s st)
  case Nil
  then show ?case by (auto intro: task_reach.stay)
next
  case (Cons c cs)
  from serve_clean [OF Cons.prems(1), of c] Cons.prems(2) obtain st1
    where 1: "clean (serve c s)" "task_at (committed (serve c s)) tid = Some st1"
      "st1 = st \<or> can_transition st st1"
    by (auto simp: moves_def)
  from Cons.IH [OF 1(1,2)] 1(3) show ?case
    by (auto intro: task_reach_trans task_reach_step)
qed

end
