(* ===== verification/Policies.thy ===== *)
theory Policies
  imports Task_Services
begin

text \<open>
  The deterministic policies: \<open>app/policies/risk.py\<close>, \<open>app/policies/approval.py\<close>, the model
  router (\<open>app/llm/base.py\<close>, \<open>app/llm/router.py\<close>) with the routing criteria of the agents
  (\<open>app/agents/graphs/_helpers.py\<close>), the provider registry
  (\<open>app/llm/providers/registry.py\<close>) and the token accounting (\<open>app/llm/usage.py\<close>).
\<close>

section \<open>Risk and approval\<close>

datatype risk_level = LOW | MEDIUM | HIGH

fun risk_value :: "risk_level \<Rightarrow> string" where
  "risk_value LOW = ''low''"
| "risk_value MEDIUM = ''medium''"
| "risk_value HIGH = ''high''"

definition APPROVAL_REQUIRED_LEVELS :: "risk_level set" where
  "APPROVAL_REQUIRED_LEVELS = {HIGH}"

definition requires_approval :: "risk_level \<Rightarrow> bool" where
  "requires_approval r = (r \<in> APPROVAL_REQUIRED_LEVELS)"

definition build_approval_request ::
  "string \<Rightarrow> string \<Rightarrow> risk_level \<Rightarrow> string option \<Rightarrow> approval_request" where
  "build_approval_request action target r reason =
     \<lparr>rq_action = action, rq_target = target, rq_reason = reason, rq_risk_level = risk_value r\<rparr>"

lemma requires_approval_iff [simp]: "requires_approval r \<longleftrightarrow> r = HIGH"
  by (simp add: requires_approval_def APPROVAL_REQUIRED_LEVELS_def)

section \<open>Model routing\<close>

datatype model_class = FAST | TOOL_CALLING | REASONING | STRONGEST

datatype task_complexity = SIMPLE | MODERATE | COMPLEX

record routing_criteria =
  rc_task_complexity :: task_complexity
  rc_requires_tools :: bool
  rc_requires_reasoning :: bool
  rc_latency_sensitive :: bool
  rc_context_length_estimate :: int
  rc_requires_current_information :: bool
  rc_risk_level :: risk_level
  rc_structured_output :: bool
  rc_ambiguous :: bool
  rc_conflicting_evidence :: bool
  rc_execution_steps_estimate :: int
  rc_estimated_cost_sensitivity :: bool

text \<open>\<open>RoutingCriteria()\<close>: the defaults of the fields.\<close>

definition default_criteria :: routing_criteria where
  "default_criteria = \<lparr>rc_task_complexity = SIMPLE, rc_requires_tools = False,
     rc_requires_reasoning = False, rc_latency_sensitive = False, rc_context_length_estimate = 0,
     rc_requires_current_information = False, rc_risk_level = LOW, rc_structured_output = False,
     rc_ambiguous = False, rc_conflicting_evidence = False, rc_execution_steps_estimate = 1,
     rc_estimated_cost_sensitivity = True\<rparr>"

record routing_settings =
  rs_fast_model :: string
  rs_tool_calling_model :: string
  rs_reasoning_model :: string
  rs_strongest_model :: string
  rs_default_provider :: string

definition default_routing_settings :: routing_settings where
  "default_routing_settings = \<lparr>rs_fast_model = ''gpt-4o-mini'', rs_tool_calling_model = ''gpt-4o'',
     rs_reasoning_model = ''gpt-4o'', rs_strongest_model = ''gpt-4o'', rs_default_provider = ''litellm''\<rparr>"

record model_selection =
  ms_model_class :: model_class
  ms_provider :: string
  ms_model_name :: string
  ms_reasoning :: string

definition select_class :: "routing_criteria \<Rightarrow> model_class \<times> string" where
  "select_class c =
     (if rc_risk_level c = HIGH \<and> (rc_task_complexity c = COMPLEX \<or> rc_ambiguous c)
      then (STRONGEST, ''High-risk planning with complex/ambiguous input'')
      else if rc_conflicting_evidence c
      then (REASONING, ''Conflicting evidence requires reasoning model'')
      else if rc_task_complexity c = COMPLEX \<or> rc_ambiguous c
      then (REASONING, ''Complex or ambiguous task requires reasoning model'')
      else if rc_requires_tools c \<or> rc_execution_steps_estimate c > 1
      then (TOOL_CALLING, ''Task requires tool calls or multi-step execution'')
      else (FAST, ''Simple classification/formatting/extraction task''))"

fun model_name_for :: "routing_settings \<Rightarrow> model_class \<Rightarrow> string" where
  "model_name_for s FAST = rs_fast_model s"
| "model_name_for s TOOL_CALLING = rs_tool_calling_model s"
| "model_name_for s REASONING = rs_reasoning_model s"
| "model_name_for s STRONGEST = rs_strongest_model s"

definition route :: "routing_settings \<Rightarrow> routing_criteria \<Rightarrow> model_selection" where
  "route s c = (let (k, why) = select_class c in
     \<lparr>ms_model_class = k, ms_provider = rs_default_provider s,
      ms_model_name = model_name_for s k, ms_reasoning = why\<rparr>)"

definition RESEARCH_CRITERIA :: routing_criteria where
  "RESEARCH_CRITERIA = default_criteria\<lparr>rc_task_complexity := COMPLEX, rc_requires_tools := True,
     rc_requires_reasoning := True, rc_requires_current_information := True, rc_risk_level := LOW\<rparr>"

definition BROWSER_CRITERIA :: routing_criteria where
  "BROWSER_CRITERIA = default_criteria\<lparr>rc_task_complexity := MODERATE, rc_requires_tools := True,
     rc_risk_level := LOW\<rparr>"

definition CONTENT_CRITERIA :: routing_criteria where
  "CONTENT_CRITERIA = default_criteria\<lparr>rc_task_complexity := MODERATE, rc_requires_tools := True,
     rc_structured_output := True, rc_risk_level := MEDIUM\<rparr>"

definition FACT_CHECK_CRITERIA :: routing_criteria where
  "FACT_CHECK_CRITERIA = default_criteria\<lparr>rc_task_complexity := COMPLEX, rc_requires_tools := True,
     rc_requires_reasoning := True, rc_conflicting_evidence := True, rc_risk_level := LOW\<rparr>"

definition SOCIAL_CRITERIA :: routing_criteria where
  "SOCIAL_CRITERIA = default_criteria\<lparr>rc_task_complexity := MODERATE, rc_requires_tools := True,
     rc_risk_level := HIGH\<rparr>"

definition VERIFICATION_CRITERIA :: routing_criteria where
  "VERIFICATION_CRITERIA = default_criteria\<lparr>rc_task_complexity := SIMPLE, rc_requires_tools := True,
     rc_risk_level := LOW\<rparr>"

definition LOCAL_SYSTEM_CRITERIA :: routing_criteria where
  "LOCAL_SYSTEM_CRITERIA = default_criteria\<lparr>rc_task_complexity := MODERATE, rc_requires_tools := True,
     rc_risk_level := MEDIUM\<rparr>"

text \<open>The criteria of the tone checker.\<close>

definition TONE_CRITERIA :: routing_criteria where
  "TONE_CRITERIA = default_criteria\<lparr>rc_task_complexity := SIMPLE, rc_structured_output := True, rc_risk_level := MEDIUM\<rparr>"

lemmas agent_criteria_defs = RESEARCH_CRITERIA_def BROWSER_CRITERIA_def CONTENT_CRITERIA_def
  FACT_CHECK_CRITERIA_def SOCIAL_CRITERIA_def VERIFICATION_CRITERIA_def LOCAL_SYSTEM_CRITERIA_def
  default_criteria_def

lemma route_simps [simp]:
  "ms_model_class (route s c) = fst (select_class c)"
  "ms_provider (route s c) = rs_default_provider s"
  "ms_model_name (route s c) = model_name_for s (fst (select_class c))"
  "ms_reasoning (route s c) = snd (select_class c)"
  by (simp_all add: route_def split: prod.splits)

lemma select_class_strongest_iff:
  "fst (select_class c) = STRONGEST \<longleftrightarrow>
   rc_risk_level c = HIGH \<and> (rc_task_complexity c = COMPLEX \<or> rc_ambiguous c)"
  by (simp add: select_class_def)

lemma select_class_fast_iff:
  "fst (select_class c) = FAST \<longleftrightarrow>
   rc_task_complexity c \<noteq> COMPLEX \<and> \<not> rc_ambiguous c \<and> \<not> rc_conflicting_evidence c \<and>
   \<not> rc_requires_tools c \<and> rc_execution_steps_estimate c \<le> 1"
  by (auto simp: select_class_def)

lemma agent_classes:
  "fst (select_class RESEARCH_CRITERIA) = REASONING"
  "fst (select_class BROWSER_CRITERIA) = TOOL_CALLING"
  "fst (select_class CONTENT_CRITERIA) = TOOL_CALLING"
  "fst (select_class FACT_CHECK_CRITERIA) = REASONING"
  "fst (select_class SOCIAL_CRITERIA) = TOOL_CALLING"
  "fst (select_class VERIFICATION_CRITERIA) = TOOL_CALLING"
  "fst (select_class LOCAL_SYSTEM_CRITERIA) = TOOL_CALLING"
  by (simp_all add: select_class_def agent_criteria_defs)

section \<open>Provider registry\<close>

text \<open>A chat model is a value of the LangChain package: the type \<open>'m\<close> is a parameter.\<close>

type_synonym 'm provider_registry = "(string \<times> (string \<Rightarrow> 'm)) list"

definition register_provider ::
  "string \<Rightarrow> (string \<Rightarrow> 'm) \<Rightarrow> 'm provider_registry \<Rightarrow> 'm provider_registry" where
  "register_provider name f reg = AList.update name f reg"

definition get_provider :: "'m provider_registry \<Rightarrow> string \<Rightarrow> (string \<Rightarrow> 'm) result" where
  "get_provider reg name = (case map_of reg name of
      Some f \<Rightarrow> Inr f
    | None \<Rightarrow> Inl (app_error ModelError ''No LLM provider registered under {}'' [AStr name]))"

definition create_chat_model :: "'m provider_registry \<Rightarrow> string \<Rightarrow> string \<Rightarrow> 'm result" where
  "create_chat_model reg provider name =
     (case get_provider reg provider of Inl e \<Rightarrow> Inl e | Inr f \<Rightarrow> Inr (f name))"

definition resolve_model ::
  "'m provider_registry \<Rightarrow> routing_settings \<Rightarrow> routing_criteria \<Rightarrow> 'm result" where
  "resolve_model reg s c =
     (let sel = route s c in create_chat_model reg (ms_provider sel) (ms_model_name sel))"

lemma get_provider_register [simp]:
  "get_provider (register_provider n f reg) m = (if m = n then Inr f else get_provider reg m)"
  by (simp add: get_provider_def register_provider_def update_conv)

section \<open>Token usage\<close>

record token_usage =
  prompt_tokens :: int
  completion_tokens :: int
  total_tokens :: int

text \<open>
  The metadata mapping of a reply. A value of \<open>None\<close> or \<open>0\<close> is false in Python, so
  \<open>a or b\<close> falls through to the next key.
\<close>

type_synonym usage_metadata = "(string \<times> int) list"

definition truthy_get :: "usage_metadata \<Rightarrow> string \<Rightarrow> int" where
  "truthy_get m k = (case map_of m k of None \<Rightarrow> 0 | Some v \<Rightarrow> v)"

definition py_or :: "int \<Rightarrow> int \<Rightarrow> int" where
  "py_or a b = (if a \<noteq> 0 then a else b)"

datatype llm_reply =
    AIMessage "usage_metadata option" "usage_metadata option"
  | DictReply "usage_metadata option" "usage_metadata option"
  | OtherReply

definition nonempty :: "'a list option \<Rightarrow> 'a list option" where
  "nonempty m = (case m of Some (x # xs) \<Rightarrow> Some (x # xs) | _ \<Rightarrow> None)"

fun reply_metadata :: "llm_reply \<Rightarrow> usage_metadata option" where
  "reply_metadata (AIMessage u t) = (case nonempty u of Some m \<Rightarrow> Some m | None \<Rightarrow> t)"
| "reply_metadata (DictReply u t) = (case nonempty u of Some m \<Rightarrow> Some m | None \<Rightarrow> t)"
| "reply_metadata OtherReply = None"

definition extract_usage :: "llm_reply \<Rightarrow> token_usage" where
  "extract_usage r = (case nonempty (reply_metadata r) of
      None \<Rightarrow> \<lparr>prompt_tokens = 0, completion_tokens = 0, total_tokens = 0\<rparr>
    | Some m \<Rightarrow>
        let p = py_or (truthy_get m ''input_tokens'') (truthy_get m ''prompt_tokens'');
            c = py_or (truthy_get m ''output_tokens'') (truthy_get m ''completion_tokens'');
            t = py_or (truthy_get m ''total_tokens'') (p + c)
        in \<lparr>prompt_tokens = p, completion_tokens = c, total_tokens = t\<rparr>)"

lemma extract_usage_total:
  "nonempty (reply_metadata r) = Some m \<Longrightarrow> truthy_get m ''total_tokens'' = 0 \<Longrightarrow>
   total_tokens (extract_usage r) = prompt_tokens (extract_usage r) + completion_tokens (extract_usage r)"
  by (simp add: extract_usage_def Let_def py_or_def)

end
