(* ===== verification/Rate_Limiter.thy ===== *)
theory Rate_Limiter
  imports Policies Complex_Main
begin

text \<open>
  \<open>app/policies/rate_limit.py\<close>: one token bucket per tool name. The source's floats are
  rationals here, and \<open>time.monotonic()\<close> is the argument \<open>now\<close> of each call. The lemmas
  bound the calls a bucket grants over any schedule and show that waiting restores it.
\<close>

record rate_limiter =
  rl_rpm :: int
  rl_refill_rate :: rat
  rl_max_tokens :: rat
  rl_tokens :: "string \<rightharpoonup> rat"
  rl_last_refill :: "string \<rightharpoonup> rat"

definition new_limiter :: "int \<Rightarrow> rate_limiter result" where
  "new_limiter rpm =
     (if rpm < 1 then Inl (py_error PyValueError ''requests_per_minute must be >= 1'' [])
      else Inr \<lparr>rl_rpm = rpm, rl_refill_rate = of_int rpm / 60, rl_max_tokens = of_int rpm,
                rl_tokens = Map.empty, rl_last_refill = Map.empty\<rparr>)"

definition dict_get :: "('k \<rightharpoonup> 'v) \<Rightarrow> 'k \<Rightarrow> 'v \<Rightarrow> 'v" where
  "dict_get m k d = (case m k of None \<Rightarrow> d | Some v \<Rightarrow> v)"

definition refill :: "rat \<Rightarrow> string \<Rightarrow> rate_limiter \<Rightarrow> rate_limiter" where
  "refill now tool rl =
     (let last = dict_get (rl_last_refill rl) tool now;
          elapsed = now - last;
          current = dict_get (rl_tokens rl) tool (rl_max_tokens rl);
          new_tokens = min (current + elapsed * rl_refill_rate rl) (rl_max_tokens rl)
      in rl\<lparr>rl_tokens := (rl_tokens rl)(tool \<mapsto> new_tokens),
            rl_last_refill := (rl_last_refill rl)(tool \<mapsto> now)\<rparr>)"

definition acquire :: "rat \<Rightarrow> string \<Rightarrow> rate_limiter \<Rightarrow> bool \<times> rate_limiter" where
  "acquire now tool rl =
     (let rl1 = refill now tool rl;
          current = dict_get (rl_tokens rl1) tool (rl_max_tokens rl1)
      in if current \<ge> 1 then (True, rl1\<lparr>rl_tokens := (rl_tokens rl1)(tool \<mapsto> current - 1)\<rparr>)
         else (False, rl1))"

definition reset :: "string option \<Rightarrow> rate_limiter \<Rightarrow> rate_limiter" where
  "reset tool rl = (case tool of
      None \<Rightarrow> rl\<lparr>rl_tokens := Map.empty, rl_last_refill := Map.empty\<rparr>
    | Some n \<Rightarrow> rl\<lparr>rl_tokens := (rl_tokens rl)(n := None), rl_last_refill := (rl_last_refill rl)(n := None)\<rparr>)"

lemmas limiter_defs = refill_def acquire_def dict_get_def Let_def

section \<open>Well-formed limiters\<close>

text \<open>
  The bucket of a tool as a pair of its level and its last refill; an unused tool has a
  full bucket. In a well-formed limiter both dictionaries have the same keys and every
  level lies between zero and the burst size.
\<close>

definition limiter_ok :: "rate_limiter \<Rightarrow> bool" where
  "limiter_ok rl = (1 \<le> rl_rpm rl \<and> rl_refill_rate rl = of_int (rl_rpm rl) / 60 \<and>
     rl_max_tokens rl = of_int (rl_rpm rl) \<and> (\<forall>n. rl_tokens rl n = None \<longleftrightarrow> rl_last_refill rl n = None) \<and>
     (\<forall>n k. rl_tokens rl n = Some k \<longrightarrow> 0 \<le> k \<and> k \<le> rl_max_tokens rl))"

definition bucket :: "rate_limiter \<Rightarrow> string \<Rightarrow> (rat \<times> rat) option" where
  "bucket rl n = (case (rl_tokens rl n, rl_last_refill rl n) of
      (Some k, Some t) \<Rightarrow> Some (k, t) | _ \<Rightarrow> None)"

lemma new_limiter_ok: "new_limiter rpm = Inr rl \<Longrightarrow> limiter_ok rl"
  by (auto simp: new_limiter_def limiter_ok_def split: if_splits)

lemma limiter_ok_pos:
  "limiter_ok rl \<Longrightarrow> 0 < rl_refill_rate rl \<and> 1 \<le> rl_max_tokens rl"
  by (auto simp: limiter_ok_def)

lemma bucket_None_iff: "limiter_ok rl \<Longrightarrow> bucket rl n = None \<longleftrightarrow> rl_tokens rl n = None"
  unfolding limiter_ok_def bucket_def by (fastforce split: option.splits)

lemma bucket_None_last: "limiter_ok rl \<Longrightarrow> bucket rl n = None \<longleftrightarrow> rl_last_refill rl n = None"
  unfolding limiter_ok_def bucket_def by (fastforce split: option.splits)

text \<open>The level of a bucket when a call at time \<open>now\<close> has refilled it.\<close>

definition level_at :: "rate_limiter \<Rightarrow> string \<Rightarrow> rat \<Rightarrow> rat" where
  "level_at rl n now = (case bucket rl n of None \<Rightarrow> rl_max_tokens rl
     | Some (k, t) \<Rightarrow> min (k + (now - t) * rl_refill_rate rl) (rl_max_tokens rl))"

lemma acquire_level:
  assumes "limiter_ok rl"
  shows "acquire now n rl =
    (if 1 \<le> level_at rl n now
     then (True, rl\<lparr>rl_tokens := (rl_tokens rl)(n \<mapsto> level_at rl n now - 1),
                    rl_last_refill := (rl_last_refill rl)(n \<mapsto> now)\<rparr>)
     else (False, rl\<lparr>rl_tokens := (rl_tokens rl)(n \<mapsto> level_at rl n now),
                     rl_last_refill := (rl_last_refill rl)(n \<mapsto> now)\<rparr>))"
proof (cases "bucket rl n")
  case None
  then have "rl_tokens rl n = None" "rl_last_refill rl n = None"
    using assms bucket_None_iff bucket_None_last by blast+
  with None show ?thesis by (simp add: limiter_defs level_at_def)
next
  case (Some kt)
  then have "rl_tokens rl n = Some (fst kt)" "rl_last_refill rl n = Some (snd kt)"
    by (auto simp: bucket_def split: option.splits)
  with Some show ?thesis by (simp add: limiter_defs level_at_def split: prod.splits)
qed

lemma acquire_params [simp]:
  "rl_rpm (snd (acquire t n rl)) = rl_rpm rl"
  "rl_refill_rate (snd (acquire t n rl)) = rl_refill_rate rl"
  "rl_max_tokens (snd (acquire t n rl)) = rl_max_tokens rl"
  by (simp_all add: limiter_defs)

lemma acquire_other_fields:
  "m \<noteq> n \<Longrightarrow> rl_tokens (snd (acquire t m rl)) n = rl_tokens rl n"
  "m \<noteq> n \<Longrightarrow> rl_last_refill (snd (acquire t m rl)) n = rl_last_refill rl n"
  by (simp_all add: limiter_defs)

lemma acquire_other: "m \<noteq> n \<Longrightarrow> bucket (snd (acquire t m rl)) n = bucket rl n"
  by (simp add: acquire_other_fields bucket_def)

lemma acquire_bucket:
  "limiter_ok rl \<Longrightarrow> bucket (snd (acquire t n rl)) n =
     Some (if 1 \<le> level_at rl n t then level_at rl n t - 1 else level_at rl n t, t)"
  by (simp add: acquire_level bucket_def)

lemma level_nonneg:
  assumes "limiter_ok rl" "\<And>k t0. bucket rl n = Some (k, t0) \<Longrightarrow> t0 \<le> now"
  shows "0 \<le> level_at rl n now"
proof (cases "bucket rl n")
  case None
  with assms(1) show ?thesis by (simp add: level_at_def limiter_ok_def)
next
  case (Some kt)
  obtain k t0 where kt: "kt = (k, t0)" by (cases kt)
  with Some assms have "0 \<le> k" "t0 \<le> now" "0 < rl_refill_rate rl" "1 \<le> rl_max_tokens rl"
    using limiter_ok_pos by (auto simp: bucket_def limiter_ok_def split: option.splits)
  then show ?thesis using Some kt by (simp add: level_at_def)
qed

lemma level_le_max: "limiter_ok rl \<Longrightarrow> level_at rl n now \<le> rl_max_tokens rl"
  by (auto simp: level_at_def split: option.splits)

lemma acquire_ok:
  assumes "limiter_ok rl" "\<And>k t0. bucket rl n = Some (k, t0) \<Longrightarrow> t0 \<le> now"
  shows "limiter_ok (snd (acquire now n rl))"
proof -
  have "0 \<le> level_at rl n now" using assms by (rule level_nonneg)
  with assms(1) level_le_max [OF assms(1), of n now] show ?thesis
    by (cases "1 \<le> level_at rl n now") (auto simp: acquire_level limiter_ok_def split: if_splits)
qed

section \<open>How many calls a schedule grants\<close>

text \<open>
  A schedule is a list of calls (time, tool). \<open>grants n rs rl\<close> counts the granted calls
  of tool \<open>n\<close>. \<open>fresh_until\<close> bounds the last refills, so that time never runs backwards.
\<close>

fun run_calls :: "(rat \<times> string) list \<Rightarrow> rate_limiter \<Rightarrow> bool list \<times> rate_limiter" where
  "run_calls [] rl = ([], rl)"
| "run_calls ((t, n) # rs) rl =
     (let (ok, rl1) = acquire t n rl; (oks, rl2) = run_calls rs rl1 in (ok # oks, rl2))"

fun grants :: "string \<Rightarrow> (rat \<times> string) list \<Rightarrow> rate_limiter \<Rightarrow> nat" where
  "grants n [] rl = 0"
| "grants n ((t, m) # rs) rl =
     (if fst (acquire t m rl) \<and> m = n then 1 else 0) + grants n rs (snd (acquire t m rl))"

fun schedule :: "rat \<Rightarrow> rat \<Rightarrow> (rat \<times> string) list \<Rightarrow> bool" where
  "schedule t0 t1 [] = (t0 \<le> t1)"
| "schedule t0 t1 ((t, n) # rs) = (t0 \<le> t \<and> schedule t t1 rs)"

definition refilled_by :: "rate_limiter \<Rightarrow> rat \<Rightarrow> bool" where
  "refilled_by rl t = (\<forall>n k t0. bucket rl n = Some (k, t0) \<longrightarrow> t0 \<le> t)"

lemma schedule_le: "schedule t0 t1 rs \<Longrightarrow> t0 \<le> t1"
  by (induction t0 t1 rs rule: schedule.induct) auto

lemma acquire_refilled_by:
  assumes "limiter_ok rl" "refilled_by rl t0" "t0 \<le> t"
  shows "refilled_by (snd (acquire t m rl)) t"
  unfolding refilled_by_def
proof (intro allI impI)
  fix n k s assume b: "bucket (snd (acquire t m rl)) n = Some (k, s)"
  show "s \<le> t"
  proof (cases "m = n")
    case True
    with b assms(1) show ?thesis by (simp add: acquire_bucket)
  next
    case False
    with b have "bucket rl n = Some (k, s)" by (simp add: acquire_other)
    with assms(2,3) show ?thesis unfolding refilled_by_def by (meson order_trans)
  qed
qed

lemma acquire_ok_at:
  assumes "limiter_ok rl" "refilled_by rl t0" "t0 \<le> t"
  shows "limiter_ok (snd (acquire t m rl))"
  using assms by (intro acquire_ok) (auto simp: refilled_by_def intro: order_trans)

text \<open>The potential argument: what is granted plus what is left never exceeds the refill.\<close>

lemma level_grows:
  assumes "limiter_ok rl" "refilled_by rl t0" "t0 \<le> t"
  shows "level_at rl n t \<le> level_at rl n t0 + (t - t0) * rl_refill_rate rl"
proof (cases "bucket rl n")
  case None
  with assms limiter_ok_pos [OF assms(1)] show ?thesis by (simp add: level_at_def)
next
  case (Some kt)
  obtain k s where kt: "kt = (k, s)" by (cases kt)
  have r: "0 \<le> (t - t0) * rl_refill_rate rl" using assms(3) limiter_ok_pos [OF assms(1)] by simp
  have "k + (t - s) * rl_refill_rate rl = k + (t0 - s) * rl_refill_rate rl + (t - t0) * rl_refill_rate rl"
    by (simp add: algebra_simps)
  with r Some kt show ?thesis by (auto simp: level_at_def min_def)
qed

lemma level_after_acquire:
  assumes "limiter_ok rl" "refilled_by rl t0" "t0 \<le> t"
  shows "level_at (snd (acquire t m rl)) n t + (if fst (acquire t m rl) \<and> m = n then 1 else 0)
    \<le> level_at rl n t"
proof (cases "m = n")
  case True
  with assms(1) show ?thesis
    using level_le_max [OF assms(1), of n t]
    by (simp add: level_at_def [of "snd (acquire t n rl)"] acquire_bucket)
       (simp add: acquire_level)
next
  case False
  then show ?thesis by (simp add: level_at_def acquire_other split: option.splits)
qed

lemma grants_bound:
  assumes "limiter_ok rl" "refilled_by rl t0" "schedule t0 t1 rs"
  shows "of_nat (grants n rs rl) \<le> level_at rl n t0 + (t1 - t0) * rl_refill_rate rl"
  using assms
proof (induction rs arbitrary: rl t0)
  case Nil
  then have "0 \<le> level_at rl n t0" by (intro level_nonneg) (auto simp: refilled_by_def)
  with Nil limiter_ok_pos [OF Nil(1)] show ?case by simp
next
  case (Cons r rs)
  obtain t m where r: "r = (t, m)" by (cases r)
  let ?rl = "snd (acquire t m rl)" and ?g = "if fst (acquire t m rl) \<and> m = n then 1 else (0::nat)"
  have t: "t0 \<le> t" "schedule t t1 rs" using Cons.prems(3) r by auto
  have IH: "of_nat (grants n rs ?rl) \<le> level_at ?rl n t + (t1 - t) * rl_refill_rate rl"
    using Cons.IH [OF acquire_ok_at [OF Cons.prems(1,2) t(1)]
        acquire_refilled_by [OF Cons.prems(1,2) t(1)] t(2)] by simp
  have "of_nat (grants n (r # rs) rl) = of_nat ?g + (of_nat (grants n rs ?rl) :: rat)"
    using r by simp
  also have "\<dots> \<le> of_nat ?g + level_at ?rl n t + (t1 - t) * rl_refill_rate rl"
    using IH by simp
  also have "\<dots> \<le> level_at rl n t + (t1 - t) * rl_refill_rate rl"
    using level_after_acquire [OF Cons.prems(1,2) t(1), of m n] by (auto split: if_splits)
  also have "\<dots> \<le> level_at rl n t0 + (t - t0) * rl_refill_rate rl + (t1 - t) * rl_refill_rate rl"
    using level_grows [OF Cons.prems(1,2) t(1), of n] by simp
  also have "\<dots> = level_at rl n t0 + (t1 - t0) * rl_refill_rate rl" by (simp add: algebra_simps)
  finally show ?case .
qed

text \<open>Waiting a sixtieth of the budget, \<open>60 / rpm\<close> seconds, restores one call.\<close>

lemma acquire_after_wait:
  assumes "limiter_ok rl" "bucket rl n = Some (k, t0)" "t0 + 60 / of_int (rl_rpm rl) \<le> now"
  shows "fst (acquire now n rl)"
proof -
  have rpm: "1 \<le> rl_rpm rl" "rl_refill_rate rl = of_int (rl_rpm rl) / 60" and k: "0 \<le> k"
    using assms(1,2) by (auto simp: limiter_ok_def bucket_def split: option.splits)
  have "60 / of_int (rl_rpm rl) \<le> now - t0" using assms(3) by simp
  then have "(60 / of_int (rl_rpm rl)) * (of_int (rl_rpm rl) / 60) \<le> (now - t0) * rl_refill_rate rl"
    unfolding rpm(2) using rpm(1) by (intro mult_right_mono) auto
  moreover have "(60 / of_int (rl_rpm rl)) * (of_int (rl_rpm rl) / 60) = (1::rat)" using rpm(1) by simp
  ultimately have "1 \<le> k + (now - t0) * rl_refill_rate rl" using k by simp
  moreover have "1 \<le> rl_max_tokens rl" using limiter_ok_pos [OF assms(1)] by simp
  ultimately show ?thesis using assms(1,2) by (simp add: acquire_level level_at_def)
qed

end
