(* ===== verification/Tool_Engine.thy ===== *)
theory Tool_Engine
  imports Rate_Limiter
begin

text \<open>
  The tool layer: \<open>app/tools/base.py\<close>, \<open>app/tools/registry.py\<close>, \<open>app/tools/executor.py\<close>,
  the adapter \<open>app/tools/langchain_adapter.py\<close> and the registry that
  \<open>app/tools/factory.py\<close> builds.

  A tool's \<open>execute\<close> is an operation on a world \<open>'w\<close> (network, files, database), the
  inputs and outputs are type parameters. \<open>time.monotonic()\<close> reads the next value of a
  clock. The retry decorator of the package tenacity is the argument \<open>rt\<close>; what the
  engine relies on is its documented behaviour, \<open>tenacity_contract\<close>.
\<close>

section \<open>Tools and the registry\<close>

record tool_permissions =
  tp_risk_level :: risk_level
  tp_requires_approval :: bool
  tp_requires_authentication :: bool
  tp_supports_idempotency :: bool

text \<open>\<open>ToolPermissions(risk_level=..., requires_approval=...)\<close> with the defaults of the rest.\<close>

definition perms :: "risk_level \<Rightarrow> bool \<Rightarrow> tool_permissions" where
  "perms r a = \<lparr>tp_risk_level = r, tp_requires_approval = a, tp_requires_authentication = False,
     tp_supports_idempotency = False\<rparr>"

record ('i, 'o, 'w) tool =
  tool_name :: string
  tool_permissions :: tool_permissions
  tool_execute :: "'i \<Rightarrow> ('w, 'o) op"

text \<open>\<open>BaseTool.__call__\<close>: a \<open>ToolError\<close> passes, anything else becomes one.\<close>

definition tool_call :: "('i, 'o, 'w) tool \<Rightarrow> 'i \<Rightarrow> ('w, 'o) op" where
  "tool_call t inp = catchE (tool_execute t inp) (\<lambda>e.
     if is_app_instance e ToolError then raiseE e
     else raiseE (app_error ToolError ''Tool {} failed: {}'' [AStr (tool_name t), AMsg (exn_msg e)]))"

type_synonym ('i, 'o, 'w) registry = "(string \<times> ('i, 'o, 'w) tool) list"

definition register :: "('i, 'o, 'w) tool \<Rightarrow> ('i, 'o, 'w) registry \<Rightarrow> ('i, 'o, 'w) registry" where
  "register t reg = AList.update (tool_name t) t reg"

definition registry_get :: "('i, 'o, 'w) registry \<Rightarrow> string \<Rightarrow> ('i, 'o, 'w) tool result" where
  "registry_get reg name = (case map_of reg name of
      Some t \<Rightarrow> Inr t
    | None \<Rightarrow> Inl (app_error ValidationError ''No tool registered under {}'' [AStr name]))"

definition registry_contains :: "('i, 'o, 'w) registry \<Rightarrow> string \<Rightarrow> bool" where
  "registry_contains reg name = (map_of reg name \<noteq> None)"

definition list_tools :: "('i, 'o, 'w) registry \<Rightarrow> string list" where
  "list_tools reg = sort (map fst reg)"

text \<open>The registry is a table keyed by the tool's own name.\<close>

interpretation reg: row_store map_of "\<lambda>n t r. AList.update n (t :: ('i, 'o, 'w) tool) r" "\<lambda>r. fst ` set r"
  by unfold_locales (simp_all add: update_conv map_of_eq_None_iff)

definition registry_ok :: "('i, 'o, 'w) registry \<Rightarrow> bool" where
  "registry_ok reg = (distinct (map fst reg) \<and> (\<forall>(n, t) \<in> set reg. tool_name t = n))"

lemma register_ok:
  assumes "registry_ok reg"
  shows "registry_ok (register t reg)"
proof -
  have "distinct (map fst (register t reg))"
    using assms by (simp add: registry_ok_def register_def distinct_update)
  moreover have "tool_name u = n" if "(n, u) \<in> set (register t reg)" for n u
  proof -
    have "map_of (register t reg) n = Some u" using calculation that by simp
    then have "n = tool_name t \<and> u = t \<or> map_of reg n = Some u"
      by (auto simp: register_def update_conv split: if_splits)
    with assms show ?thesis by (auto simp: registry_ok_def dest!: map_of_SomeD)
  qed
  ultimately show ?thesis by (auto simp: registry_ok_def)
qed

lemma registry_get_register [simp]:
  "registry_get (register t reg) n = (if n = tool_name t then Inr t else registry_get reg n)"
  by (simp add: registry_get_def register_def update_conv)

lemma registry_get_Inr: "registry_get reg n = Inr t \<longleftrightarrow> map_of reg n = Some t"
  by (simp add: registry_get_def split: option.splits)

lemma registry_get_name: "registry_ok reg \<Longrightarrow> registry_get reg n = Inr t \<Longrightarrow> tool_name t = n"
  by (auto simp: registry_get_Inr registry_ok_def dest!: map_of_SomeD)

lemma list_tools_contains: "n \<in> set (list_tools reg) \<longleftrightarrow> registry_contains reg n"
  by (simp add: list_tools_def registry_contains_def map_of_eq_None_iff)

section \<open>The execution engine\<close>

record execution_context =
  ctx_agent_run_id :: "uuid option"
  ctx_authenticated :: bool
  ctx_approved_actions :: "string set"

definition default_context :: execution_context where
  "default_context = \<lparr>ctx_agent_run_id = None, ctx_authenticated = False, ctx_approved_actions = {}\<rparr>"

record ('i, 'o) tool_call_row =
  tc_agent_run_id :: uuid
  tc_tool_name :: string
  tc_risk_level :: string
  tc_status :: call_status
  tc_input :: 'i
  tc_output :: "'o option"
  tc_error :: "(emsg \<times> exn_class) option"
  tc_duration_seconds :: "rat option"

record ('i, 'o, 'w) engine =
  eng_has_session :: bool
  eng_limiter :: rate_limiter
  eng_calls :: "('i, 'o) tool_call_row table"
  eng_fresh :: nat
  eng_clock :: nat
  eng_world :: 'w

record 'o execution_result =
  er_tool_call_id :: "uuid option"
  er_output :: 'o
  er_duration_seconds :: rat

type_synonym ('s, 'o) retrier = "nat \<Rightarrow> (exn \<Rightarrow> bool) \<Rightarrow> ('s, 'o) op \<Rightarrow> ('s, 'o) op"

text \<open>
  Documented behaviour of \<open>retry(stop=stop_after_attempt(n), retry=retry_if_exception_type)\<close>
  without \<open>reraise\<close>: a result or an exception outside the retried types ends the call, a
  retried exception on the last attempt becomes a \<open>RetryError\<close>, otherwise the call is made again.
\<close>

definition tenacity_contract :: "('s, 'o) retrier \<Rightarrow> bool" where
  "tenacity_contract rt = (\<forall>n p m s. 0 < n \<longrightarrow> rt n p m s = (case m s of
      (Inr x, t) \<Rightarrow> (Inr x, t)
    | (Inl e, t) \<Rightarrow> if \<not> p e then (Inl e, t)
        else if n = 1 then (Inl (py_error TenacityRetryError ''{}'' [AMsg (exn_msg e)]), t)
        else rt (n - 1) p m t))"

definition monotonic :: "(nat \<Rightarrow> rat) \<Rightarrow> (('i, 'o, 'w) engine, rat) op" where
  "monotonic clk = (\<lambda>s. (Inr (clk (eng_clock s)), s\<lparr>eng_clock := Suc (eng_clock s)\<rparr>))"

definition in_world :: "('w, 'a) op \<Rightarrow> (('i, 'o, 'w) engine, 'a) op" where
  "in_world m = (\<lambda>s. case m (eng_world s) of (r, w) \<Rightarrow> (r, s\<lparr>eng_world := w\<rparr>))"

definition is_retryable_error :: "exn \<Rightarrow> bool" where
  "is_retryable_error e =
     (is_app_instance e RateLimitError \<or> is_app_instance e ModelError \<or> is_app_instance e ToolError)"

definition enforce_permissions :: "('i, 'o, 'w) tool \<Rightarrow> execution_context \<Rightarrow> unit result" where
  "enforce_permissions t ctx =
     (let p = tool_permissions t in
      if tp_requires_authentication p \<and> \<not> ctx_authenticated ctx
      then Inl (app_error AuthenticationError ''Tool {} requires authentication'' [AStr (tool_name t)])
      else if tp_requires_approval p \<or> requires_approval (tp_risk_level p)
      then if tool_name t \<notin> ctx_approved_actions ctx
           then Inl (app_error ApprovalRequiredError
                  ''Tool {} requires human approval before execution'' [AStr (tool_name t)])
           else Inr ()
      else Inr ())"

definition acquire_token :: "(nat \<Rightarrow> rat) \<Rightarrow> string \<Rightarrow> (('i, 'o, 'w) engine, bool) op" where
  "acquire_token clk name =
     bindE (monotonic clk) (\<lambda>now.
     (\<lambda>s. case acquire now name (eng_limiter s) of (ok, rl) \<Rightarrow> (Inr ok, s\<lparr>eng_limiter := rl\<rparr>)))"

definition start_tool_call ::
  "('i, 'o, 'w) tool \<Rightarrow> execution_context \<Rightarrow> 'i \<Rightarrow> (('i, 'o, 'v) engine, uuid option) op" where
  "start_tool_call t ctx inp = (\<lambda>s.
     case ctx_agent_run_id ctx of
       None \<Rightarrow> (Inr None, s)
     | Some rid \<Rightarrow>
         if \<not> eng_has_session s then (Inr None, s)
         else (Inr (Some (eng_fresh s)),
               s\<lparr>eng_fresh := Suc (eng_fresh s),
                 eng_calls := tput (eng_fresh s)
                   \<lparr>tc_agent_run_id = rid, tc_tool_name = tool_name t,
                    tc_risk_level = risk_value (tp_risk_level (tool_permissions t)),
                    tc_status = Running, tc_input = inp, tc_output = None, tc_error = None,
                    tc_duration_seconds = None\<rparr> (eng_calls s)\<rparr>))"

definition finish_state ::
  "uuid option \<Rightarrow> call_status \<Rightarrow> rat \<Rightarrow> 'o option \<Rightarrow> (emsg \<times> exn_class) option
   \<Rightarrow> ('i, 'o, 'w) engine \<Rightarrow> ('i, 'o, 'w) engine" where
  "finish_state row st dur out err s = (case row of
      None \<Rightarrow> s
    | Some k \<Rightarrow> if \<not> eng_has_session s then s else
        (case tget (eng_calls s) k of
           None \<Rightarrow> s
         | Some r \<Rightarrow> s\<lparr>eng_calls := tput k (r\<lparr>tc_status := st, tc_duration_seconds := Some dur,
             tc_output := out, tc_error := err\<rparr>) (eng_calls s)\<rparr>))"

definition finish_tool_call ::
  "uuid option \<Rightarrow> call_status \<Rightarrow> rat \<Rightarrow> 'o option \<Rightarrow> (emsg \<times> exn_class) option
   \<Rightarrow> (('i, 'o, 'w) engine, unit) op" where
  "finish_tool_call row st dur out err = modE (finish_state row st dur out err)"

definition execute_with_retry ::
  "('w, 'o) retrier \<Rightarrow> ('i, 'o, 'w) tool \<Rightarrow> 'i \<Rightarrow> ('w, 'o) op" where
  "execute_with_retry rt t inp = rt 3 is_retryable_error (tool_execute t inp)"

text \<open>
  \<open>ToolExecutionEngine.execute\<close>. A tool acts on a state \<open>'w\<close>, and \<open>lift\<close> runs that on the engine: a
  tool that knows nothing of the engine acts on its world (\<open>execute\<close>), one that calls the engine again
  acts on the engine itself (theory \<open>Agent_System\<close>).
\<close>

definition execute_through ::
  "(('w, 'o) op \<Rightarrow> (('i, 'o, 'v) engine, 'o) op) \<Rightarrow> ('w, 'o) retrier \<Rightarrow> (nat \<Rightarrow> rat) \<Rightarrow> ('i, 'o, 'w) registry
   \<Rightarrow> string \<Rightarrow> 'i \<Rightarrow> execution_context option \<Rightarrow> (('i, 'o, 'v) engine, 'o execution_result) op" where
  "execute_through lift rt clk reg name inp context =
     (let ctx = (case context of None \<Rightarrow> default_context | Some c \<Rightarrow> c) in
      bindE (liftE (registry_get reg name)) (\<lambda>t.
      thenE (liftE (enforce_permissions t ctx))
      (bindE (acquire_token clk name) (\<lambda>ok.
      if \<not> ok then raiseE (app_error RateLimitError ''Tool {} rate limit exceeded'' [AStr name])
      else
      bindE (start_tool_call t ctx inp) (\<lambda>row.
      bindE (monotonic clk) (\<lambda>started.
      bindE (tryE (lift (execute_with_retry rt t inp))) (\<lambda>r.
      bindE (monotonic clk) (\<lambda>now.
      case r of
        Inl e \<Rightarrow>
          thenE (finish_tool_call row Failed (now - started) None (Some (exn_msg e, exn_class e)))
          (if is_app_instance e ToolError then raiseE e
           else raiseE (app_error ToolError ''Tool {} failed: {}'' [AStr name, AMsg (exn_msg e)]))
      | Inr out \<Rightarrow>
          thenE (finish_tool_call row Success (now - started) (Some out) None)
          (retE \<lparr>er_tool_call_id = row, er_output = out, er_duration_seconds = now - started\<rparr>)))))))))"

definition execute ::
  "('w, 'o) retrier \<Rightarrow> (nat \<Rightarrow> rat) \<Rightarrow> ('i, 'o, 'w) registry \<Rightarrow> string \<Rightarrow> 'i \<Rightarrow> execution_context option
   \<Rightarrow> (('i, 'o, 'w) engine, 'o execution_result) op" where
  "execute = execute_through in_world"

lemmas execute_unfold = execute_def execute_through_def

text \<open>\<open>to_langchain_tool\<close>: the coroutine that the wrapped tool runs; \<open>validate\<close> is the input model.\<close>

definition langchain_run ::
  "('w, 'o) retrier \<Rightarrow> (nat \<Rightarrow> rat) \<Rightarrow> ('i, 'o, 'w) registry \<Rightarrow> ('k \<Rightarrow> 'i result) \<Rightarrow> ('i, 'o, 'w) tool
   \<Rightarrow> execution_context option \<Rightarrow> 'k \<Rightarrow> (('i, 'o, 'w) engine, 'o) op" where
  "langchain_run rt clk reg validate t context kwargs =
     bindE (liftE (validate kwargs)) (\<lambda>inp.
     bindE (execute rt clk reg (tool_name t) inp context) (\<lambda>r. retE (er_output r)))"

text \<open>\<open>collect_tools\<close> of \<open>app/agents/graphs/_helpers.py\<close>: the registered ones of the wanted names.\<close>

definition collect_tools :: "string list \<Rightarrow> ('i, 'o, 'w) registry \<Rightarrow> ('i, 'o, 'w) tool list" where
  "collect_tools names reg =
     concat (map (\<lambda>n. case map_of reg n of None \<Rightarrow> [] | Some t \<Rightarrow> [t]) (filter (registry_contains reg) names))"

section \<open>What the gate lets through\<close>

abbreviation ctx_of :: "execution_context option \<Rightarrow> execution_context" where
  "ctx_of context \<equiv> (case context of None \<Rightarrow> default_context | Some c \<Rightarrow> c)"

definition needs_approval :: "tool_permissions \<Rightarrow> bool" where
  "needs_approval p = (tp_requires_approval p \<or> tp_risk_level p = HIGH)"

lemma enforce_permissions_Inr_iff:
  "enforce_permissions t ctx = Inr () \<longleftrightarrow>
   (tp_requires_authentication (tool_permissions t) \<longrightarrow> ctx_authenticated ctx) \<and>
   (needs_approval (tool_permissions t) \<longrightarrow> tool_name t \<in> ctx_approved_actions ctx)"
  by (auto simp: enforce_permissions_def needs_approval_def Let_def)

lemma enforce_permissions_Inl_class:
  "enforce_permissions t ctx = Inl e \<Longrightarrow>
   exn_class e = App AuthenticationError \<or> exn_class e = App ApprovalRequiredError"
  by (auto simp: enforce_permissions_def Let_def split: if_splits)

lemma enforce_unapproved:
  "needs_approval (tool_permissions t) \<Longrightarrow> tool_name t \<notin> ctx_approved_actions ctx \<Longrightarrow>
   tp_requires_authentication (tool_permissions t) \<longrightarrow> ctx_authenticated ctx \<Longrightarrow>
   enforce_permissions t ctx = Inl (app_error ApprovalRequiredError
     ''Tool {} requires human approval before execution'' [AStr (tool_name t)])"
  by (auto simp: enforce_permissions_def needs_approval_def Let_def)

text \<open>The state in which the tool's body starts: clock read twice, token taken, row added.\<close>

definition after_token :: "(nat \<Rightarrow> rat) \<Rightarrow> string \<Rightarrow> ('i, 'o, 'w) engine \<Rightarrow> ('i, 'o, 'w) engine" where
  "after_token clk name s = s\<lparr>eng_clock := Suc (eng_clock s),
     eng_limiter := snd (acquire (clk (eng_clock s)) name (eng_limiter s))\<rparr>"

definition token_granted :: "(nat \<Rightarrow> rat) \<Rightarrow> string \<Rightarrow> ('i, 'o, 'w) engine \<Rightarrow> bool" where
  "token_granted clk name s = fst (acquire (clk (eng_clock s)) name (eng_limiter s))"

lemma acquire_token_run [simp]:
  "acquire_token clk n s = (Inr (token_granted clk n s), after_token clk n s)"
  by (simp add: acquire_token_def bindE_def monotonic_def token_granted_def after_token_def
      split: prod.splits)

lemma execute_through_cong:
  "registry_get reg n = registry_get reg' n \<Longrightarrow> execute_through lift rt clk reg n = execute_through lift rt clk reg' n"
  by (intro ext) (simp add: execute_through_def)

lemma execute_unknown: "registry_get reg n = Inl e \<Longrightarrow> execute rt clk reg n inp c s = (Inl e, s)"
  by (simp add: execute_unfold op_defs Let_def)

lemma execute_denied:
  "registry_get reg n = Inr t \<Longrightarrow> enforce_permissions t (ctx_of c) = Inl e \<Longrightarrow>
   execute rt clk reg n inp c s = (Inl e, s)"
  by (simp add: execute_unfold op_defs Let_def)

lemma execute_limited:
  "registry_get reg n = Inr t \<Longrightarrow> enforce_permissions t (ctx_of c) = Inr () \<Longrightarrow>
   \<not> token_granted clk n s \<Longrightarrow>
   execute rt clk reg n inp c s =
     (Inl (app_error RateLimitError ''Tool {} rate limit exceeded'' [AStr n]), after_token clk n s)"
  by (simp add: execute_unfold op_defs Let_def)

text \<open>The body runs: the result, the audit row and the world after it.\<close>

lemma execute_granted:
  assumes "registry_get reg n = Inr t" "enforce_permissions t (ctx_of c) = Inr ()"
    "token_granted clk n s"
    "start_tool_call t (ctx_of c) inp (after_token clk n s) = (Inr row, s1)"
    "execute_with_retry rt t inp (eng_world s) = (r, w)"
    "dur = clk (Suc (eng_clock s1)) - clk (eng_clock s1)"
    "s2 = s1\<lparr>eng_world := w, eng_clock := Suc (Suc (eng_clock s1))\<rparr>"
  shows "execute rt clk reg n inp c s = (case r of
      Inl e \<Rightarrow> (Inl (if is_app_instance e ToolError then e
                    else app_error ToolError ''Tool {} failed: {}'' [AStr n, AMsg (exn_msg e)]),
               finish_state row Failed dur None (Some (exn_msg e, exn_class e)) s2)
    | Inr out \<Rightarrow> (Inr \<lparr>er_tool_call_id = row, er_output = out, er_duration_seconds = dur\<rparr>,
               finish_state row Success dur (Some out) None s2))"
proof -
  have w: "eng_world s1 = eng_world s"
    using assms(4) by (auto simp: start_tool_call_def after_token_def split: option.splits if_splits)
  show ?thesis
    using assms w
    by (simp add: execute_unfold op_defs Let_def tryE_def in_world_def monotonic_def
        finish_tool_call_def modE_def split: sum.splits)
qed

lemma start_tool_call_Inr: "\<exists>row s1. start_tool_call t ctx inp s = (Inr row, s1)"
  by (simp add: start_tool_call_def split: option.splits)

lemma finish_world [simp]: "eng_world (finish_state row st d ou er s) = eng_world s"
  by (simp add: finish_state_def split: option.splits)

text \<open>How a call of the engine can go, for case analysis.\<close>

lemma execute_cases [consumes 0, case_names unknown denied limited granted]:
  obtains
    e where "registry_get reg n = Inl e" "execute rt clk reg n inp c s = (Inl e, s)"
  | t e where "registry_get reg n = Inr t" "enforce_permissions t (ctx_of c) = Inl e"
      "execute rt clk reg n inp c s = (Inl e, s)"
  | t where "registry_get reg n = Inr t" "enforce_permissions t (ctx_of c) = Inr ()"
      "\<not> token_granted clk n s"
      "execute rt clk reg n inp c s =
        (Inl (app_error RateLimitError ''Tool {} rate limit exceeded'' [AStr n]), after_token clk n s)"
  | t row s1 where "registry_get reg n = Inr t" "enforce_permissions t (ctx_of c) = Inr ()"
      "token_granted clk n s"
      "start_tool_call t (ctx_of c) inp (after_token clk n s) = (Inr row, s1)"
proof (cases "registry_get reg n")
  case (Inl e)
  then show ?thesis by (rule that(1)) (rule execute_unknown [OF Inl])
next
  case R: (Inr t)
  show ?thesis
  proof (cases "enforce_permissions t (ctx_of c)")
    case (Inl e)
    from R Inl show ?thesis by (rule that(2)) (rule execute_denied [OF R Inl])
  next
    case (Inr u)
    then have ok: "enforce_permissions t (ctx_of c) = Inr ()" by simp
    show ?thesis
    proof (cases "token_granted clk n s")
      case False
      from R ok False show ?thesis by (rule that(3)) (rule execute_limited [OF R ok False])
    next
      case True
      obtain row s1 where "start_tool_call t (ctx_of c) inp (after_token clk n s) = (Inr row, s1)"
        using start_tool_call_Inr [of t "ctx_of c" inp "after_token clk n s"] by auto
      with R ok True show ?thesis by (rule that(4))
    qed
  qed
qed

lemma execute_error_is_tool_error:
  assumes "registry_get reg n = Inr t" "enforce_permissions t (ctx_of c) = Inr ()"
    "token_granted clk n s" "execute rt clk reg n inp c s = (Inl e, u)"
  shows "is_app_instance e ToolError"
proof -
  obtain row s1 where st: "start_tool_call t (ctx_of c) inp (after_token clk n s) = (Inr row, s1)"
    using start_tool_call_Inr [of t "ctx_of c" inp "after_token clk n s"] by auto
  obtain r w where r: "execute_with_retry rt t inp (eng_world s) = (r, w)" by fastforce
  show ?thesis
    using execute_granted [OF assms(1-3) st r refl refl] assms(4)
    by (auto split: sum.splits if_splits)
qed

section \<open>Retries\<close>

lemma retry_attempts:
  assumes "tenacity_contract rt" "0 < n"
  shows "\<exists>k. 1 \<le> k \<and> k \<le> n \<and> snd (rt n p m s) = ((\<lambda>w. snd (m w)) ^^ k) s \<and>
    ((\<forall>e. fst (m s) = Inl e \<longrightarrow> \<not> p e) \<longrightarrow> k = 1 \<and> fst (rt n p m s) = fst (m s))"
  using assms(2)
proof (induction n arbitrary: s)
  case (Suc n)
  have eq: "rt (Suc n) p m s = (case m s of
      (Inr x, t) \<Rightarrow> (Inr x, t)
    | (Inl e, t) \<Rightarrow> if \<not> p e then (Inl e, t)
        else if Suc n = 1 then (Inl (py_error TenacityRetryError ''{}'' [AMsg (exn_msg e)]), t)
        else rt (Suc n - 1) p m t)"
    using assms(1) [unfolded tenacity_contract_def, rule_format, of "Suc n" p m s] by simp
  obtain r t where m: "m s = (r, t)" by (cases "m s")
  show ?case
  proof (cases "\<exists>e. r = Inl e \<and> p e \<and> n \<noteq> 0")
    case False
    with eq m show ?thesis
      by (intro exI [of _ 1]) (auto split: sum.splits)
  next
    case True
    then obtain e where e: "r = Inl e" "p e" "0 < n" by auto
    from Suc.IH [OF e(3), of t] obtain k
      where k: "1 \<le> k" "k \<le> n" "snd (rt n p m t) = ((\<lambda>w. snd (m w)) ^^ k) t" by auto
    have "snd (rt (Suc n) p m s) = ((\<lambda>w. snd (m w)) ^^ Suc k) s"
      using eq m e k by (simp add: funpow_Suc_right del: funpow.simps)
    with k m e show ?thesis by (intro exI [of _ "Suc k"]) auto
  qed
qed simp

lemma execute_world:
  assumes "tenacity_contract rt" "registry_get reg n = Inr t"
    "enforce_permissions t (ctx_of c) = Inr ()" "token_granted clk n s"
  shows "\<exists>k. 1 \<le> k \<and> k \<le> 3 \<and>
    eng_world (snd (execute rt clk reg n inp c s)) = ((\<lambda>w. snd (tool_execute t inp w)) ^^ k) (eng_world s) \<and>
    ((\<forall>e. fst (tool_execute t inp (eng_world s)) = Inl e \<longrightarrow> \<not> is_retryable_error e) \<longrightarrow> k = 1)"
proof -
  obtain row s1 where st: "start_tool_call t (ctx_of c) inp (after_token clk n s) = (Inr row, s1)"
    using start_tool_call_Inr [of t "ctx_of c" inp "after_token clk n s"] by auto
  obtain r w where r: "execute_with_retry rt t inp (eng_world s) = (r, w)" by fastforce
  have "eng_world (snd (execute rt clk reg n inp c s)) = w"
    using execute_granted [OF assms(2-4) st r refl refl] by (simp split: sum.splits)
  moreover have "w = snd (rt 3 is_retryable_error (tool_execute t inp) (eng_world s))"
    using r by (simp add: execute_with_retry_def)
  ultimately show ?thesis
    using retry_attempts [OF assms(1), of 3 is_retryable_error "tool_execute t inp" "eng_world s"] by auto
qed

text \<open>An operation that always raises raises through the retry; a retried error costs every attempt.\<close>

lemma retry_raises:
  assumes "tenacity_contract rt" "\<And>s. \<exists>e. fst (m s) = Inl e" "0 < n"
  shows "\<exists>e. fst (rt n p m s) = Inl e"
  using assms(3)
proof (induction n arbitrary: s)
  case (Suc n)
  obtain e t where m: "m s = (Inl e, t)" using assms(2) [of s] by (metis prod.collapse)
  have "rt (Suc n) p m s = (case m s of
      (Inr x, t) \<Rightarrow> (Inr x, t)
    | (Inl e, t) \<Rightarrow> if \<not> p e then (Inl e, t)
        else if Suc n = 1 then (Inl (py_error TenacityRetryError ''{}'' [AMsg (exn_msg e)]), t)
        else rt (Suc n - 1) p m t)"
    using assms(1) [unfolded tenacity_contract_def, rule_format, of "Suc n" p m s] by simp
  with m Suc.IH [of t] show ?case by (cases n) simp_all
qed simp

lemma retry_repeats:
  assumes "tenacity_contract rt" "\<And>s. \<exists>e. fst (m s) = Inl e \<and> p e" "0 < n"
  shows "\<exists>e. rt n p m s = (Inl (py_error TenacityRetryError ''{}'' [AMsg (exn_msg e)]), ((\<lambda>s. snd (m s)) ^^ n) s)"
  using assms(3)
proof (induction n arbitrary: s)
  case (Suc n)
  obtain e t where m: "m s = (Inl e, t)" "p e" using assms(2) [of s] by (metis prod.collapse)
  have "rt (Suc n) p m s = (case m s of
      (Inr x, t) \<Rightarrow> (Inr x, t)
    | (Inl e, t) \<Rightarrow> if \<not> p e then (Inl e, t)
        else if Suc n = 1 then (Inl (py_error TenacityRetryError ''{}'' [AMsg (exn_msg e)]), t)
        else rt (Suc n - 1) p m t)"
    using assms(1) [unfolded tenacity_contract_def, rule_format, of "Suc n" p m s] by simp
  with m Suc.IH [of t] show ?case by (cases n) (auto simp: funpow_Suc_right simp del: funpow.simps(2))
qed simp

text \<open>What one attempt keeps, the attempts of a retry keep.\<close>

lemma funpow_stays:
  assumes "reflp R" "transp R" "stays R m"
  shows "R s (((\<lambda>w. snd (m w)) ^^ k) s)"
proof (induction k)
  case 0
  show ?case using assms(1) by (simp add: reflp_def)
next
  case (Suc k)
  have "R (((\<lambda>w. snd (m w)) ^^ k) s) (snd (m (((\<lambda>w. snd (m w)) ^^ k) s)))"
    using assms(3) by (simp add: stays_def)
  with Suc assms(2) show ?case by (auto dest: transpD)
qed

lemma retry_stays:
  "tenacity_contract rt \<Longrightarrow> reflp R \<Longrightarrow> transp R \<Longrightarrow> stays R (tool_execute t inp) \<Longrightarrow> stays R (execute_with_retry rt t inp)"
proof -
  assume a: "tenacity_contract rt" "reflp R" "transp R" "stays R (tool_execute t inp)"
  have "R s (snd (rt 3 is_retryable_error (tool_execute t inp) s))" for s
  proof -
    obtain k where "snd (rt 3 is_retryable_error (tool_execute t inp) s) = ((\<lambda>w. snd (tool_execute t inp w)) ^^ k) s"
      using retry_attempts [OF a(1), of 3 is_retryable_error "tool_execute t inp" s] by (meson zero_less_numeral)
    with funpow_stays [OF a(2-4)] show ?thesis by simp
  qed
  then show "stays R (execute_with_retry rt t inp)" by (simp add: stays_def execute_with_retry_def)
qed

text \<open>A relation between worlds, on engines; a call keeps it when its body does.\<close>

definition world_rel :: "('w \<Rightarrow> 'w \<Rightarrow> bool) \<Rightarrow> ('i, 'o, 'w) engine \<Rightarrow> ('i, 'o, 'w) engine \<Rightarrow> bool" where
  "world_rel R s t = R (eng_world s) (eng_world t)"

lemma world_rel_order [steps_intro]:
  "reflp R \<Longrightarrow> reflp (world_rel R)" "transp R \<Longrightarrow> transp (world_rel R)"
  by (auto simp: world_rel_def reflp_def transp_def)

lemma in_world_stays [steps_intro]: "stays R m \<Longrightarrow> stays (world_rel R) (in_world m)"
  by (simp add: stays_def world_rel_def in_world_def case_prod_beta)

lemma bookkeeping_stays [steps_intro]:
  assumes "reflp R"
  shows "stays (world_rel R) (acquire_token clk n)" "stays (world_rel R) (monotonic clk)"
    "stays (world_rel R) (start_tool_call t ctx inp)" "stays (world_rel R) (finish_tool_call row st dur out err)"
  using assms
  by (auto simp: stays_def world_rel_def after_token_def monotonic_def start_tool_call_def finish_tool_call_def modE_def
      reflp_def split: option.splits)

lemma steps_try [steps_intro]: "stays R m \<Longrightarrow> stays R (tryE m)"
  by (simp add: stays_def tryE_def case_prod_beta)

lemma steps_bind_lift:
  "reflp R \<Longrightarrow> (\<And>x. r = Inr x \<Longrightarrow> stays R (f x)) \<Longrightarrow> stays R (bindE (liftE r) f)"
  by (cases r) (simp_all add: stays_def bindE_def liftE_def reflp_def)

lemma execute_through_stays:
  assumes "reflp R" "transp R"
    and body: "\<And>t. registry_get reg n = Inr t \<Longrightarrow> enforce_permissions t (ctx_of c) = Inr () \<Longrightarrow>
      stays (world_rel R) (lift (execute_with_retry rt t inp))"
  shows "stays (world_rel R) (execute_through lift rt clk reg n inp c)"
  unfolding execute_through_def Let_def thenE_def [of "liftE x" for x]
  by (intro steps_bind_lift steps_intro assms(1,2) body)
    (auto split: sum.splits intro!: steps_intro assms(1,2))

section \<open>The audit trail\<close>

lemma execute_audited:
  assumes "registry_get reg n = Inr t" "enforce_permissions t (ctx_of c) = Inr ()"
    "token_granted clk n s" "eng_has_session s" "ctx_agent_run_id (ctx_of c) = Some rid"
    "execute rt clk reg n inp c s = (res, u)"
  shows "\<exists>row. tget (eng_calls u) (eng_fresh s) = Some row \<and>
    (\<forall>k. k \<noteq> eng_fresh s \<longrightarrow> tget (eng_calls u) k = tget (eng_calls s) k) \<and>
    tc_agent_run_id row = rid \<and> tc_tool_name row = tool_name t \<and> tc_input row = inp \<and>
    tc_risk_level row = risk_value (tp_risk_level (tool_permissions t)) \<and>
    (case res of
       Inr x \<Rightarrow> tc_status row = Success \<and> tc_output row = Some (er_output x) \<and> tc_error row = None \<and>
               er_tool_call_id x = Some (eng_fresh s)
     | Inl e \<Rightarrow> tc_status row = Failed \<and> tc_output row = None \<and> tc_error row \<noteq> None)"
proof -
  obtain row s1 where st: "start_tool_call t (ctx_of c) inp (after_token clk n s) = (Inr row, s1)"
    using start_tool_call_Inr [of t "ctx_of c" inp "after_token clk n s"] by auto
  obtain r w where r: "execute_with_retry rt t inp (eng_world s) = (r, w)" by fastforce
  have "row = Some (eng_fresh s)"
    using st assms(4,5) by (simp add: start_tool_call_def after_token_def)
  with execute_granted [OF assms(1-3) st r refl refl] assms(4-6) st show ?thesis
    by (auto simp: start_tool_call_def after_token_def finish_state_def split: sum.splits)
qed

end
