(* ===== verification/Json_Values.thy ===== *)
theory Json_Values
  imports Operator_Errors Complex_Main
begin

text \<open>
  The values that decoded JSON has in Python, with the operations the source applies to
  them: lookup, iteration and truth. An operation on a value of the wrong type raises as
  Python does.
\<close>

datatype jvalue = JNull | JBool bool | JNumber rat | JText string | JArray "jvalue list"
  | JDict "(string \<times> jvalue) list"

definition attribute_error :: "string \<Rightarrow> exn" where
  "attribute_error name = py_error PyAttributeError ''object has no attribute {}'' [AStr name]"

definition type_error :: exn where
  "type_error = py_error (PyOther ''TypeError'') '''' []"

definition schema_error :: exn where
  "schema_error = py_error (PyOther ''pydantic.ValidationError'') '''' []"

text \<open>\<open>v.get(key, default)\<close>, \<open>for x in v\<close>, and \<open>bool(v)\<close>.\<close>

definition jget :: "jvalue \<Rightarrow> string \<Rightarrow> jvalue \<Rightarrow> jvalue result" where
  "jget v key d = (case v of
      JDict kv \<Rightarrow> Inr (case map_of kv key of None \<Rightarrow> d | Some x \<Rightarrow> x)
    | _ \<Rightarrow> Inl (attribute_error ''get''))"

definition jiter :: "jvalue \<Rightarrow> jvalue list result" where
  "jiter v = (case v of
      JArray xs \<Rightarrow> Inr xs
    | JDict kv \<Rightarrow> Inr (map (JText \<circ> fst) kv)
    | JText t \<Rightarrow> Inr (map (\<lambda>c. JText [c]) t)
    | _ \<Rightarrow> Inl type_error)"

fun jtrue :: "jvalue \<Rightarrow> bool" where
  "jtrue JNull = False"
| "jtrue (JBool b) = b"
| "jtrue (JNumber q) = (q \<noteq> 0)"
| "jtrue (JText t) = (t \<noteq> [])"
| "jtrue (JArray xs) = (xs \<noteq> [])"
| "jtrue (JDict kv) = (kv \<noteq> [])"

text \<open>A value where a model of pydantic wants a string.\<close>

definition jtext :: "jvalue \<Rightarrow> string result" where
  "jtext v = (case v of JText t \<Rightarrow> Inr t | _ \<Rightarrow> Inl schema_error)"

text \<open>\<open>float(v)\<close>, with the reading of a text as an argument.\<close>

definition jfloat :: "(string \<Rightarrow> rat result) \<Rightarrow> jvalue \<Rightarrow> rat result" where
  "jfloat read v = (case v of
      JNumber q \<Rightarrow> Inr q
    | JBool b \<Rightarrow> Inr (if b then 1 else 0)
    | JText t \<Rightarrow> read t
    | _ \<Rightarrow> Inl type_error)"

lemmas json_value_defs = jget_def jiter_def jtext_def jfloat_def

end
