(* ===== verification/Agents.thy ===== *)
theory Agents
  imports Tool_Engine Json_Values
begin

text \<open>
  The deterministic agents: the planner (\<open>app/agents/planner.py\<close>) with the plan schema it
  validates, and the recovery agent (\<open>app/agents/recovery_agent.py\<close>), over the interface of
  \<open>app/agents/base.py\<close>. The chat model is a parameter: what \<open>with_structured_output\<close> and
  \<open>ainvoke\<close> do is an operation on the world.
\<close>

section \<open>Settings\<close>

record limit_settings =
  max_iterations :: int
  max_tool_calls :: int
  max_execution_seconds :: int
  max_retries :: int
  max_research_sources :: int
  rate_limit_requests_per_minute :: int

definition default_limits :: limit_settings where
  "default_limits = \<lparr>max_iterations = 25, max_tool_calls = 50, max_execution_seconds = 900,
     max_retries = 3, max_research_sources = 15, rate_limit_requests_per_minute = 60\<rparr>"

section \<open>Agent interface\<close>

record agent_result =
  ag_success :: bool
  ag_output :: "(string \<times> string) option"
  ag_error :: "emsg option"

section \<open>Recovery\<close>

datatype recovery_action = RETRY | ESCALATE | FAIL

text \<open>The value of the key \<open>error\<close> in an observation: missing, a string, or an exception.\<close>

datatype observed_error = NoError | ErrorText emsg | ErrorExn exn

fun is_instance_of :: "observed_error \<Rightarrow> error_class \<Rightarrow> bool" where
  "is_instance_of (ErrorExn e) k = is_app_instance e k"
| "is_instance_of _ k = False"

fun error_retryable :: "observed_error \<Rightarrow> bool" where
  "error_retryable (ErrorExn e) = exn_retryable e"
| "error_retryable _ = False"

definition classify :: "limit_settings \<Rightarrow> observed_error \<Rightarrow> nat \<Rightarrow> recovery_action" where
  "classify lims err retry_count =
     (if is_instance_of err ValidationError \<or> is_instance_of err AuthenticationError
         \<or> is_instance_of err AuthorizationError then FAIL
      else if is_instance_of err ApprovalRequiredError then ESCALATE
      else if is_instance_of err TimeoutError then ESCALATE
      else if is_instance_of err AgentOperatorError \<and> \<not> error_retryable err then FAIL
      else if is_instance_of err RateLimitError \<or> is_instance_of err AgentOperatorError
      then if int retry_count < max_retries lims then RETRY else ESCALATE
      else FAIL)"

record recovery_decision =
  rd_action :: recovery_action
  rd_backoff_seconds :: nat
  rd_retry_count :: nat

definition recovery_decide :: "limit_settings \<Rightarrow> observed_error \<Rightarrow> nat \<Rightarrow> recovery_decision" where
  "recovery_decide lims err retry_count =
     (let action = classify lims err retry_count;
          backoff = (if action = RETRY then min (2 ^ retry_count) 30 else 0)
      in \<lparr>rd_action = action, rd_backoff_seconds = backoff, rd_retry_count = retry_count\<rparr>)"

lemma classify_text: "classify lims (ErrorText m) n = FAIL"
  by (simp add: classify_def)

lemma classify_none: "classify lims NoError n = FAIL"
  by (simp add: classify_def)

lemma classify_retry_iff:
  "classify lims (ErrorExn e) n = RETRY \<longleftrightarrow>
   (\<exists>k. exn_class e = App k \<and> exn_retryable e \<and> int n < max_retries lims \<and>
     k \<notin> {ValidationError, AuthenticationError, AuthorizationError, ApprovalRequiredError, TimeoutError})"
  by (cases "exn_class e") (auto simp: classify_def is_app_instance_def)

lemma classify_retry_raised:
  "classify lims (ErrorExn (app_error k t as)) n = RETRY \<longleftrightarrow>
   k \<in> {ToolError, BrowserError, ModelError, ResearchError, RateLimitError} \<and> int n < max_retries lims"
  by (cases k) (auto simp: classify_retry_iff)

lemma backoff_bounded: "rd_backoff_seconds (recovery_decide lims err n) \<le> 30"
  by (simp add: recovery_decide_def Let_def)

section \<open>Plans\<close>

definition STEP_KINDS :: "string set" where
  "STEP_KINDS = {''research'', ''browser'', ''content'', ''fact_check'', ''social'', ''verify'', ''local_system''}"

text \<open>The constraints that the fields of \<open>PlanStep\<close> declare, checked on construction.\<close>

definition valid_plan_step :: "plan_step \<Rightarrow> bool" where
  "valid_plan_step s =
     (1 \<le> length (ps_name s) \<and> length (ps_name s) \<le> 128 \<and> ps_agent s \<in> STEP_KINDS \<and>
      1 \<le> length (ps_description s) \<and> length (ps_description s) \<le> 2000)"

definition validate_plan :: "plan \<Rightarrow> plan result" where
  "validate_plan p = (if list_all valid_plan_step (plan_steps p) then Inr p else Inl schema_error)"

text \<open>What the structured-output call returns: a typed plan or something to be validated.\<close>

datatype plan_reply = TypedPlan plan | RawPlan plan

record plan_payload =
  pp_plan :: plan
  pp_model :: "(model_class \<times> string) option"

definition planner_criteria :: routing_criteria where
  "planner_criteria = default_criteria\<lparr>rc_task_complexity := COMPLEX, rc_ambiguous := True,
     rc_requires_reasoning := True, rc_risk_level := LOW\<rparr>"

text \<open>\<open>PlannerAgent.decide\<close>; \<open>ainvoke\<close> is the structured call of the chat model.\<close>

definition planner_decide ::
  "'m provider_registry \<Rightarrow> routing_settings \<Rightarrow> ('m \<Rightarrow> string \<Rightarrow> ('w, plan_reply) op) \<Rightarrow> string
   \<Rightarrow> ('w, plan_payload) op" where
  "planner_decide providers settings ainvoke raw_instruction =
     (let instruction = py_strip raw_instruction in
      if instruction = [] then retE \<lparr>pp_plan = \<lparr>plan_steps = []\<rparr>, pp_model = None\<rparr>
      else
        let selection = route settings planner_criteria in
        bindE (liftE (create_chat_model providers (ms_provider selection) (ms_model_name selection)))
          (\<lambda>chat_model.
        bindE (catchE (ainvoke chat_model instruction)
            (\<lambda>e. if exn_class e = PyNotImplementedError
                 then let step = \<lparr>ps_name = ''research'', ps_agent = ''research'',
                        ps_description = instruction, ps_requires_approval = False\<rparr>
                      in if valid_plan_step step then retE (TypedPlan \<lparr>plan_steps = [step]\<rparr>)
                         else raiseE schema_error
                 else raiseE e)) (\<lambda>reply.
        bindE (case reply of TypedPlan p \<Rightarrow> retE p | RawPlan p \<Rightarrow> liftE (validate_plan p)) (\<lambda>p.
        retE \<lparr>pp_plan = p, pp_model = Some (ms_model_class selection, ms_model_name selection)\<rparr>))))"

lemma planner_class: "ms_model_class (route s planner_criteria) = REASONING"
  by (simp add: select_class_def planner_criteria_def default_criteria_def)

end
