(* ===== verification/Orchestrator.thy ===== *)
theory Orchestrator
  imports Agents
begin

text \<open>
  \<open>app/agents/orchestrator.py\<close>: one run of the orchestrator over a task.

  The state of a run is the database session, the mutable \<open>OrchestratorState\<close>, the clock
  and a world \<open>'w\<close> that holds everything the run does not own: the chat models, the
  compiled subgraphs, the browser and the set \<open>cancelled_tasks\<close> that other coroutines
  write. The subgraphs, the planner and the browser manager are fields of the
  environment. \<open>o_calls\<close> records the steps whose subgraph was invoked; no definition of
  the program reads it. One run is modelled as the only writer of its session.
\<close>

section \<open>State and environment\<close>

record orch_state =
  os_plan :: "plan option"
  os_step_index :: nat
  os_iterations :: nat
  os_tool_call_count :: nat
  os_started_at :: rat
  os_step_outputs :: "step_output list"

type_synonym thread_id = "uuid \<times> string \<times> uuid"

record 'w orch =
  o_session :: session
  o_state :: orch_state
  o_clock :: nat
  o_world :: 'w
  o_calls :: "(thread_id \<times> plan_step) list"

record 'w orch_env =
  env_limits :: limit_settings
  env_planner :: "string \<Rightarrow> ('w, plan_payload) op"
  env_graphs :: "string \<rightharpoonup> (thread_id \<Rightarrow> string \<Rightarrow> string option \<Rightarrow> ('w, string list) op)"
  env_clock :: "nat \<Rightarrow> rat"
  env_has_browser :: bool
  env_browser_start :: "('w, unit) op"
  env_browser_open :: "('w, string) op"
  env_browser_close :: "string \<Rightarrow> ('w, unit) op"
  env_browser_stop :: "('w, unit) op"
  env_cancelled :: "'w \<Rightarrow> uuid \<Rightarrow> bool"

definition on_session :: "(session, 'a) op \<Rightarrow> ('w orch, 'a) op" where
  "on_session m = (\<lambda>s. case m (o_session s) of (r, x) \<Rightarrow> (r, s\<lparr>o_session := x\<rparr>))"

definition on_world :: "('w, 'a) op \<Rightarrow> ('w orch, 'a) op" where
  "on_world m = (\<lambda>s. case m (o_world s) of (r, x) \<Rightarrow> (r, s\<lparr>o_world := x\<rparr>))"

interpretation orch_session: component o_session "\<lambda>x s. s\<lparr>o_session := x\<rparr>" on_session
  by unfold_locales (simp_all add: on_session_def split: prod.splits)

interpretation orch_world: component o_world "\<lambda>x s. s\<lparr>o_world := x\<rparr>" on_world
  by unfold_locales (simp_all add: on_world_def split: prod.splits)

definition read_clock :: "'w orch_env \<Rightarrow> ('w orch, rat) op" where
  "read_clock env = (\<lambda>s. (Inr (env_clock env (o_clock s)), s\<lparr>o_clock := Suc (o_clock s)\<rparr>))"

definition mod_state :: "(orch_state \<Rightarrow> orch_state) \<Rightarrow> ('w orch, unit) op" where
  "mod_state f = modE (\<lambda>s. s\<lparr>o_state := f (o_state s)\<rparr>)"

text \<open>The class attribute \<open>_AGENT_KEY\<close>.\<close>

definition AGENT_KEY :: "string \<rightharpoonup> string" where
  "AGENT_KEY = map_of
     [(''research'', ''research''), (''browser'', ''browser''), (''content'', ''content''),
      (''fact_check'', ''fact_check''), (''social'', ''social''), (''verify'', ''verify''),
      (''local_system'', ''local_system'')]"

section \<open>Walking the state machine\<close>

definition HAPPY_PATH_ORDER :: "task_state list" where
  "HAPPY_PATH_ORDER = [CREATED, VALIDATING, PLANNING, RESEARCHING, DRAFTING, VALIDATING_RESULT,
     EXECUTING, VERIFYING, COMPLETED]"

definition py_index :: "'a list \<Rightarrow> 'a \<Rightarrow> nat option" where
  "py_index xs x = (if x \<in> set xs then Some (length (takeWhile (\<lambda>y. y \<noteq> x) xs)) else None)"

definition walk_to :: "uuid \<Rightarrow> task_state \<Rightarrow> (session, unit) op" where
  "walk_to tid target =
     bindE (get_task tid) (\<lambda>t.
     let current = t_state t in
     if current = target then retE ()
     else case (py_index HAPPY_PATH_ORDER current, py_index HAPPY_PATH_ORDER target) of
       (Some i, Some j) \<Rightarrow>
         if j \<le> i then retE ()
         else forE (take (j - i) (drop (Suc i) HAPPY_PATH_ORDER))
                (\<lambda>st. bindE (transition_task tid st) (\<lambda>_. retE ()))
     | _ \<Rightarrow> bindE (transition_task tid target) (\<lambda>_. retE ()))"

section \<open>Persistence helpers\<close>

definition start_agent_run :: "uuid \<Rightarrow> string \<Rightarrow> (session, uuid) op" where
  "start_agent_run tid agent =
     bindE uuid4 (\<lambda>rid.
     thenE (put_run rid \<lparr>ar_task_id = tid, ar_agent_name = agent, ar_status = Running,
              ar_output = None, ar_error = None\<rparr>)
     (retE rid))"

definition finish_agent_run ::
  "uuid \<Rightarrow> call_status \<Rightarrow> run_output option \<Rightarrow> emsg option \<Rightarrow> (session, unit) op" where
  "finish_agent_run rid st out err =
     bindE (getE (\<lambda>s. tget (agent_runs (work s)) rid)) (\<lambda>r. case r of
       None \<Rightarrow> retE ()
     | Some row \<Rightarrow> put_run rid (row\<lparr>ar_status := st,
         ar_output := (case out of None \<Rightarrow> ar_output row | Some x \<Rightarrow> Some x),
         ar_error := (case err of None \<Rightarrow> ar_error row | Some m \<Rightarrow> Some m)\<rparr>))"

definition empty_result :: task_result where
  "empty_result = \<lparr>res_plan = None, res_iterations = None, res_tool_calls = None, res_steps = None\<rparr>"

definition result_or_empty :: "task_row \<Rightarrow> task_result" where
  "result_or_empty t = (case t_result t of None \<Rightarrow> empty_result | Some r \<Rightarrow> r)"

definition persist_result :: "uuid \<Rightarrow> orch_state \<Rightarrow> (session, unit) op" where
  "persist_result tid st =
     bindE (getE (\<lambda>s. tget (tasks (work s)) tid)) (\<lambda>r. case r of
       None \<Rightarrow> retE ()
     | Some t \<Rightarrow> thenE (put_task tid (t\<lparr>t_result := Some ((result_or_empty t)
           \<lparr>res_iterations := Some (os_iterations st), res_tool_calls := Some (os_tool_call_count st),
            res_steps := Some (os_step_outputs st)\<rparr>)\<rparr>)) commit)"

definition persist_error :: "uuid \<Rightarrow> exn \<Rightarrow> (session, unit) op" where
  "persist_error tid e =
     bindE (getE (\<lambda>s. tget (tasks (work s)) tid)) (\<lambda>r. case r of
       None \<Rightarrow> retE ()
     | Some t \<Rightarrow> thenE (put_task tid (t\<lparr>t_error := Some (exn_msg e, exn_class e)\<rparr>)) commit)"

section \<open>Planning\<close>

definition new_plan :: "'w orch_env \<Rightarrow> uuid \<Rightarrow> task_row \<Rightarrow> ('w orch, plan) op" where
  "new_plan env tid t =
     bindE (on_session (start_agent_run tid ''planner'')) (\<lambda>rid.
     bindE (catchE (on_world (env_planner env (t_instruction t)))
        (\<lambda>e. thenE (on_session (finish_agent_run rid Failed None (Some (exn_msg e)))) (raiseE e)))
       (\<lambda>payload.
     thenE (on_session (finish_agent_run rid Success (Some (PlanOutput (pp_plan payload))) None))
     (bindE (liftE (validate_plan (pp_plan payload))) (\<lambda>p.
     thenE (on_session (put_task tid (t\<lparr>t_result := Some ((result_or_empty t)\<lparr>res_plan := Some p\<rparr>)\<rparr>)))
     (thenE (on_session commit)
     (retE p))))))"

definition cached_plan :: "task_row \<Rightarrow> plan option" where
  "cached_plan t = Option.bind (t_result t) res_plan"

definition plan_for :: "'w orch_env \<Rightarrow> uuid \<Rightarrow> task_row \<Rightarrow> ('w orch, plan) op" where
  "plan_for env tid t = (case cached_plan t of
      Some p \<Rightarrow> liftE (validate_plan p)
    | None \<Rightarrow> new_plan env tid t)"

section \<open>Limits\<close>

text \<open>\<open>min(task_timeout or max_execution_seconds, max_execution_seconds)\<close>: zero counts as absent.\<close>

definition effective_timeout :: "limit_settings \<Rightarrow> int option \<Rightarrow> int" where
  "effective_timeout lims timeout =
     min (case timeout of None \<Rightarrow> max_execution_seconds lims
          | Some n \<Rightarrow> if n = 0 then max_execution_seconds lims else n) (max_execution_seconds lims)"

definition check_limits :: "'w orch_env \<Rightarrow> uuid \<Rightarrow> int option \<Rightarrow> ('w orch, unit) op" where
  "check_limits env tid timeout =
     bindE (getE (\<lambda>s. env_cancelled env (o_world s) tid)) (\<lambda>cancelled.
     if cancelled then raiseE (app_error CancellationError ''Task {} was cancelled by user'' [AId tid])
     else
       bindE (read_clock env) (\<lambda>now.
       bindE (getE o_state) (\<lambda>st.
       let lims = env_limits env; limit = effective_timeout lims timeout in
       if now - os_started_at st > of_int limit
       then raiseE (app_error TimeoutError ''Task exceeded timeout of {}s'' [AInt limit])
       else if int (os_iterations st) \<ge> max_iterations lims
       then raiseE (app_error TimeoutError ''Task exceeded max_iterations={}'' [AInt (max_iterations lims)])
       else if int (os_tool_call_count st) \<ge> max_tool_calls lims
       then raiseE (app_error TimeoutError ''Task exceeded max_tool_calls={}'' [AInt (max_tool_calls lims)])
       else retE ())))"

section \<open>One step\<close>

definition step_failure :: "emsg \<Rightarrow> agent_result" where
  "step_failure m = \<lparr>ag_success = False, ag_output = None, ag_error = Some m\<rparr>"

definition invoke_subgraph ::
  "'w orch_env \<Rightarrow> uuid \<Rightarrow> plan_step \<Rightarrow> string option \<Rightarrow> ('w orch, agent_result) op" where
  "invoke_subgraph env tid step bs =
     (case Option.bind (AGENT_KEY (ps_agent step)) (env_graphs env) of
       None \<Rightarrow> retE (step_failure (Msg ''No compiled graph for agent {}'' [AStr (ps_agent step)]))
     | Some graph \<Rightarrow>
         bindE (on_session (start_agent_run tid (ps_agent step))) (\<lambda>rid.
         let thread = (tid, ps_name step, rid) in
         thenE (modE (\<lambda>s. s\<lparr>o_calls := o_calls s @ [(thread, step)]\<rparr>))
         (bindE (tryE (on_world (graph thread (ps_description step) bs))) (\<lambda>r. case r of
            Inr messages \<Rightarrow>
              let out = (if messages = [] then [] else last messages) in
              thenE (on_session (finish_agent_run rid Success (Some (StepOutput out (ps_name step))) None))
              (retE \<lparr>ag_success = True, ag_output = Some (out, ps_name step), ag_error = None\<rparr>)
          | Inl e \<Rightarrow>
              thenE (on_session (finish_agent_run rid Failed None (Some (exn_msg e))))
              (retE (step_failure (exn_msg e)))))))"

text \<open>What \<open>recovery.decide\<close> is given under the key \<open>error\<close>: \<open>result.error\<close>, a string or \<open>None\<close>.\<close>

definition observe_error :: "agent_result \<Rightarrow> observed_error" where
  "observe_error r = (case ag_error r of None \<Rightarrow> NoError | Some m \<Rightarrow> ErrorText m)"

definition count_tool_call :: "'w orch \<Rightarrow> 'w orch" where
  "count_tool_call s =
     s\<lparr>o_state := (o_state s)\<lparr>os_tool_call_count := Suc (os_tool_call_count (o_state s))\<rparr>\<rparr>"

lemma on_session_frame:
  "on_session m s = (r, t) \<Longrightarrow>
   o_state t = o_state s \<and> o_clock t = o_clock s \<and> o_world t = o_world s \<and> o_calls t = o_calls s"
  by (auto simp: on_session_def split: prod.splits)

lemma on_world_frame:
  "on_world m s = (r, t) \<Longrightarrow>
   o_state t = o_state s \<and> o_clock t = o_clock s \<and> o_session t = o_session s \<and> o_calls t = o_calls s"
  by (auto simp: on_world_def split: prod.splits)

lemma check_limits_Inr:
  assumes "check_limits env tid timeout s = (Inr x, t)"
  shows "t = s\<lparr>o_clock := Suc (o_clock s)\<rparr>"
    and "int (os_tool_call_count (o_state s)) < max_tool_calls (env_limits env)"
    and "int (os_iterations (o_state s)) < max_iterations (env_limits env)"
    and "\<not> env_cancelled env (o_world s) tid"
  using assms by (auto simp: check_limits_def op_defs read_clock_def Let_def split: if_splits)

lemma invoke_subgraph_state:
  "invoke_subgraph env tid step bs s = (r, t) \<Longrightarrow> o_state t = o_state s"
  by (auto simp: invoke_subgraph_def op_defs tryE_def on_session_def on_world_def Let_def
      split: option.splits sum.splits prod.splits if_splits)

text \<open>
  The loop of \<open>_run_step_with_recovery\<close>. Every iteration counts a tool call, and
  \<open>check_limits\<close> raises once the budget is used, so the loop ends whatever the recovery
  decides. The back-off sleep changes no modelled state.
\<close>

function run_step_with_recovery ::
  "'w orch_env \<Rightarrow> uuid \<Rightarrow> int option \<Rightarrow> plan_step \<Rightarrow> string option \<Rightarrow> nat \<Rightarrow> ('w orch, agent_result) op" where
  "run_step_with_recovery env tid timeout step bs retry s =
     (case check_limits env tid timeout s of
       (Inl e, t) \<Rightarrow> (Inl e, t)
     | (Inr _, t) \<Rightarrow> (case invoke_subgraph env tid step bs t of
         (Inl e, u) \<Rightarrow> (Inl e, u)
       | (Inr result, u) \<Rightarrow>
           let v = count_tool_call u in
           if ag_success result then (Inr result, v)
           else (case rd_action (recovery_decide (env_limits env) (observe_error result) retry) of
               RETRY \<Rightarrow> run_step_with_recovery env tid timeout step bs (Suc retry) v
             | ESCALATE \<Rightarrow> (Inl (app_error ApprovalRequiredError ''Recovery escalated step {}''
                             [AStr (ps_agent step)]), v)
             | FAIL \<Rightarrow> (Inl (py_error PyRuntimeError ''Step {} failed: {}''
                             [AStr (ps_agent step), case ag_error result of None \<Rightarrow> ANone | Some m \<Rightarrow> AMsg m]), v))))"
  by pat_completeness auto

termination
proof (relation "measure (\<lambda>(env, tid, timeout, step, bs, retry, s).
    nat (max_tool_calls (env_limits env) - int (os_tool_call_count (o_state s))))", goal_cases)
  case 1
  show ?case by simp
next
  case (2 env tid timeout step bs retry s r t y r' u y' v)
  then show ?case
    using check_limits_Inr(1,2) [of env tid timeout s y t] invoke_subgraph_state [of env tid step bs t r' u]
    by (auto simp: count_tool_call_def)
qed

declare run_step_with_recovery.simps [simp del]

section \<open>The plan loop\<close>

definition request_approval :: "uuid \<Rightarrow> plan_step \<Rightarrow> (session, uuid) op" where
  "request_approval tid step = create_approval tid
     (build_approval_request (ps_name step) (ps_agent step) HIGH (Some (ps_description step)))"

definition approved_actions_for :: "uuid \<Rightarrow> db \<Rightarrow> string set" where
  "approved_actions_for tid d =
     a_action ` snd ` set (filter (\<lambda>(k, a). a_task_id a = tid \<and> a_status a = Approved) (approvals d))"

definition record_step :: "plan_step \<Rightarrow> bool \<Rightarrow> orch_state \<Rightarrow> orch_state" where
  "record_step step ok st = st\<lparr>
     os_step_outputs := os_step_outputs st @ [\<lparr>so_step = ps_name step, so_agent = ps_agent step, so_success = ok\<rparr>],
     os_iterations := Suc (os_iterations st)\<rparr>"

fun execute_plan ::
  "'w orch_env \<Rightarrow> uuid \<Rightarrow> int option \<Rightarrow> string set \<Rightarrow> string option \<Rightarrow> nat \<Rightarrow> plan_step list
   \<Rightarrow> ('w orch, unit) op" where
  "execute_plan env tid timeout approved bs i [] = retE ()"
| "execute_plan env tid timeout approved bs i (step # steps) =
     thenE (mod_state (\<lambda>st. st\<lparr>os_step_index := i\<rparr>))
     (thenE (check_limits env tid timeout)
     (if ps_requires_approval step \<and> ps_name step \<notin> approved
      then thenE (bindE (on_session (request_approval tid step)) (\<lambda>_. retE ()))
        (raiseE (app_error ApprovalRequiredError ''Approval required for step {}'' [AStr (ps_name step)]))
      else bindE (run_step_with_recovery env tid timeout step bs 0) (\<lambda>result.
        thenE (mod_state (record_step step (ag_success result)))
        (execute_plan env tid timeout approved bs (Suc i) steps))))"

section \<open>The browser session of a run\<close>

definition open_browser_if_needed :: "'w orch_env \<Rightarrow> plan \<Rightarrow> ('w orch, string option) op" where
  "open_browser_if_needed env p =
     (if \<not> env_has_browser env then retE None
      else if \<not> list_ex (\<lambda>s. ps_agent s = ''browser'') (plan_steps p) then retE None
      else thenE (on_world (env_browser_start env))
           (bindE (on_world (env_browser_open env)) (\<lambda>sid. retE (Some sid))))"

definition close_browser :: "'w orch_env \<Rightarrow> string option \<Rightarrow> ('w orch, unit) op" where
  "close_browser env bs = (case bs of
      None \<Rightarrow> retE ()
    | Some sid \<Rightarrow> if \<not> env_has_browser env then retE ()
        else thenE (on_world (env_browser_close env sid)) (on_world (env_browser_stop env)))"

section \<open>\<open>run\<close>\<close>

definition run_body ::
  "'w orch_env \<Rightarrow> uuid \<Rightarrow> int option \<Rightarrow> plan \<Rightarrow> string set \<Rightarrow> string option \<Rightarrow> ('w orch, unit) op" where
  "run_body env tid timeout p approved bs =
     thenE (on_session (walk_to tid EXECUTING))
     (thenE (execute_plan env tid timeout approved bs 0 (plan_steps p))
     (thenE (on_session (walk_to tid VERIFYING))
     (thenE (on_session (walk_to tid COMPLETED))
     (bindE (getE o_state) (\<lambda>st. on_session (persist_result tid st))))))"

definition handle_failure :: "uuid \<Rightarrow> exn \<Rightarrow> (session, unit) op" where
  "handle_failure tid e =
     (if is_app_instance e ApprovalRequiredError then
        bindE (get_task tid) (\<lambda>t.
        whenE (can_transition (t_state t) WAITING_FOR_APPROVAL)
          (bindE (transition_task tid WAITING_FOR_APPROVAL) (\<lambda>_. retE ())))
      else if is_app_instance e TimeoutError then
        bindE (transition_task tid TIMED_OUT) (\<lambda>_. persist_error tid e)
      else bindE (transition_task tid FAILED) (\<lambda>_. persist_error tid e))"

definition new_state :: "rat \<Rightarrow> orch_state" where
  "new_state now = \<lparr>os_plan = None, os_step_index = 0, os_iterations = 0, os_tool_call_count = 0,
     os_started_at = now, os_step_outputs = []\<rparr>"

definition run_plan :: "'w orch_env \<Rightarrow> uuid \<Rightarrow> int option \<Rightarrow> plan \<Rightarrow> ('w orch, unit) op" where
  "run_plan env tid timeout p =
     bindE (getE (\<lambda>s. approved_actions_for tid (work (o_session s)))) (\<lambda>approved.
     catchE
       (bindE (open_browser_if_needed env p) (\<lambda>bs.
        finallyE (run_body env tid timeout p approved bs) (close_browser env bs)))
       (\<lambda>e. on_session (handle_failure tid e)))"

definition run :: "'w orch_env \<Rightarrow> uuid \<Rightarrow> ('w orch, orch_state) op" where
  "run env tid =
     bindE (on_session (get_task tid)) (\<lambda>t.
     bindE (read_clock env) (\<lambda>now.
     thenE (mod_state (\<lambda>_. new_state now))
     (bindE
       (if t_state t \<in> {CREATED, VALIDATING}
        then thenE (on_session (walk_to tid PLANNING)) (on_session (get_task tid))
        else retE t) (\<lambda>t'.
     bindE (plan_for env tid t') (\<lambda>p.
     thenE (mod_state (\<lambda>st. st\<lparr>os_plan := Some p\<rparr>))
     (thenE (run_plan env tid (t_timeout_seconds t) p)
     (getE o_state)))))))"

end
