(* ===== verification/Orchestrator_Runs.thy ===== *)
theory Orchestrator_Runs
  imports Orchestrator
begin

text \<open>
  What a run of the orchestrator does: the walk along the happy path, one step, the plan
  loop and the whole of \<open>run\<close>. The session of a run changes in two ways only, by rows
  of \<open>agent_runs\<close> (\<open>runs_only\<close>) and by transitions of its task.
\<close>

section \<open>Frames\<close>

definition runs_only :: "session \<Rightarrow> session \<Rightarrow> bool" where
  "runs_only s t = (committed t = committed s \<and> fresh s \<le> fresh t \<and>
     (\<exists>rs. work t = (work s)\<lparr>agent_runs := rs\<rparr>))"

lemma runs_only_refl [simp]: "runs_only s s"
  unfolding runs_only_def by (auto intro!: exI [of _ "agent_runs (work s)"])

lemma runs_only_trans: "runs_only s t \<Longrightarrow> runs_only t u \<Longrightarrow> runs_only s u"
  by (auto simp: runs_only_def)

lemma runs_onlyD:
  assumes "runs_only s t"
  shows "tasks (work t) = tasks (work s)" "approvals (work t) = approvals (work s)"
    "committed t = committed s" "fresh s \<le> fresh t"
  using assms by (auto simp: runs_only_def)

lemma start_agent_run_run:
  "\<exists>t. start_agent_run tid a s = (Inr (fresh s), t) \<and> runs_only s t \<and> fresh t = Suc (fresh s)"
  by (auto simp: start_agent_run_def op_defs session_ops runs_only_def)

lemma finish_agent_run_run:
  "\<exists>t. finish_agent_run rid st out err s = (Inr (), t) \<and> runs_only s t \<and> fresh t = fresh s"
  by (auto simp: finish_agent_run_def op_defs session_ops runs_only_def split: option.splits
      intro: exI [of _ "agent_runs (work s)"])

section \<open>Walking\<close>

text \<open>The states that \<open>walk_to\<close> enters, in order.\<close>

definition walk_path :: "task_state \<Rightarrow> task_state \<Rightarrow> task_state list" where
  "walk_path a target =
     (if a = target then []
      else case (py_index HAPPY_PATH_ORDER a, py_index HAPPY_PATH_ORDER target) of
        (Some i, Some j) \<Rightarrow> if j \<le> i then [] else take (j - i) (drop (Suc i) HAPPY_PATH_ORDER)
      | _ \<Rightarrow> [target])"

lemma walk_path_legal_all:
  "list_all (\<lambda>a. list_all (\<lambda>b. task_path a (walk_path a b)) HAPPY_PATH_ORDER) HAPPY_PATH_ORDER"
  by code_simp

lemma walk_path_legal:
  "a \<in> set HAPPY_PATH_ORDER \<Longrightarrow> b \<in> set HAPPY_PATH_ORDER \<Longrightarrow> task_path a (walk_path a b)"
  using walk_path_legal_all by (simp only: list_all_iff)

lemma walk_path_tables:
  "map (\<lambda>a. walk_path a EXECUTING = []) all_task_states
     = map (\<lambda>a. a \<in> {EXECUTING, VERIFYING, COMPLETED}) all_task_states"
  "list_all (\<lambda>a. walk_path a EXECUTING = [] \<or> last (walk_path a EXECUTING) = EXECUTING) all_task_states"
  "map (\<lambda>a. task_path a (walk_path a EXECUTING)) all_task_states
     = map (\<lambda>a. a \<notin> {FAILED, CANCELLED, TIMED_OUT, BLOCKED}) all_task_states"
  by code_simp+

lemma walk_path_executing:
  "walk_path a EXECUTING = [] \<longleftrightarrow> a \<in> {EXECUTING, VERIFYING, COMPLETED}"
  "walk_path a EXECUTING \<noteq> [] \<Longrightarrow> last (walk_path a EXECUTING) = EXECUTING"
  "task_path a (walk_path a EXECUTING) \<longleftrightarrow> a \<notin> {FAILED, CANCELLED, TIMED_OUT, BLOCKED}"
  using walk_path_tables all_task_states_complete [of a] unfolding map_eq_conv list_all_iff
  by blast+

lemma walk_path_final:
  "walk_path EXECUTING VERIFYING = [VERIFYING]" "walk_path VERIFYING VERIFYING = []"
  "walk_path COMPLETED VERIFYING = []" "walk_path VERIFYING COMPLETED = [COMPLETED]"
  "walk_path COMPLETED COMPLETED = []"
  by code_simp+

lemma walk_path_outside:
  "a \<notin> set HAPPY_PATH_ORDER \<or> b \<notin> set HAPPY_PATH_ORDER \<Longrightarrow> a \<noteq> b \<Longrightarrow> walk_path a b = [b]"
  by (auto simp: walk_path_def py_index_def)

definition walk_all :: "uuid \<Rightarrow> task_state list \<Rightarrow> (session, unit) op" where
  "walk_all tid ps = forE ps (\<lambda>st. bindE (transition_task tid st) (\<lambda>_. retE ()))"

lemma set_state_set_state [simp]: "set_state (set_state s tid t) tid u = set_state s tid u"
  by (simp add: set_state_def Let_def)

definition after_walk :: "uuid \<Rightarrow> task_row \<Rightarrow> task_state list \<Rightarrow> session \<Rightarrow> session" where
  "after_walk tid t ps s = (if ps = [] then s else set_state s tid (t\<lparr>t_state := last ps\<rparr>))"

lemma walk_all_run:
  "tget (tasks (work s)) tid = Some t \<Longrightarrow> task_path (t_state t) ps \<Longrightarrow>
   walk_all tid ps s = (Inr (), after_walk tid t ps s)"
proof (induction ps arbitrary: s t)
  case Nil
  then show ?case by (simp add: walk_all_def after_walk_def retE_def)
next
  case (Cons p ps)
  let ?s = "set_state s tid (t\<lparr>t_state := p\<rparr>)"
  have "transition_task tid p s = (Inr (t\<lparr>t_state := p\<rparr>), ?s)"
    using Cons.prems by (simp add: transition_task_run transition_if)
  moreover have "walk_all tid ps ?s = (Inr (), after_walk tid (t\<lparr>t_state := p\<rparr>) ps ?s)"
    by (rule Cons.IH) (use Cons.prems in simp_all)
  ultimately show ?case
    by (simp add: walk_all_def after_walk_def op_defs)
qed

lemma walk_to_run:
  assumes "tget (tasks (work s)) tid = Some t"
  shows "walk_to tid target s =
    (if task_path (t_state t) (walk_path (t_state t) target)
     then (Inr (), after_walk tid t (walk_path (t_state t) target) s)
     else (Inl (transition_error (t_state t) target), s))"
proof (cases "t_state t \<in> set HAPPY_PATH_ORDER \<and> target \<in> set HAPPY_PATH_ORDER")
  case True
  then have p: "task_path (t_state t) (walk_path (t_state t) target)" using walk_path_legal by blast
  have "walk_to tid target s = walk_all tid (walk_path (t_state t) target) s"
    using True assms
    by (auto simp: walk_to_def walk_all_def walk_path_def py_index_def get_task_run bindE_def Let_def)
  with walk_all_run [OF assms p] p show ?thesis by simp
next
  case False
  then show ?thesis
    using assms
    by (auto simp: walk_to_def walk_path_def py_index_def get_task_run bindE_def Let_def retE_def
        transition_task_run transition_if after_walk_def)
qed

lemma walk_to_None:
  "tget (tasks (work s)) tid = None \<Longrightarrow>
   walk_to tid target s = (Inl (app_error ValidationError ''Task {} not found'' [AId tid]), s)"
  by (simp add: walk_to_def get_task_run bindE_def)

lemma walk_to_executing:
  assumes "tget (tasks (work s)) tid = Some t"
  shows "walk_to tid EXECUTING s =
    (if t_state t \<in> {FAILED, CANCELLED, TIMED_OUT, BLOCKED}
     then (Inl (transition_error (t_state t) EXECUTING), s)
     else if t_state t \<in> {EXECUTING, VERIFYING, COMPLETED} then (Inr (), s)
     else (Inr (), set_state s tid (t\<lparr>t_state := EXECUTING\<rparr>)))"
proof (cases "walk_path (t_state t) EXECUTING = []")
  case True
  with walk_path_executing(1) [of "t_state t"] show ?thesis
    by (auto simp: walk_to_run [OF assms] after_walk_def)
next
  case False
  with walk_path_executing [of "t_state t"] show ?thesis
    by (simp only: walk_to_run [OF assms] after_walk_def if_False) simp
qed

lemma can_verify: "can_transition EXECUTING VERIFYING" "can_transition VERIFYING COMPLETED"
  by (simp_all add: state_table_defs)

lemma walk_to_verifying:
  assumes "tget (tasks (work s)) tid = Some t" "t_state t \<in> {EXECUTING, VERIFYING, COMPLETED}"
  shows "walk_to tid VERIFYING s = (Inr (), if t_state t = EXECUTING
      then set_state s tid (t\<lparr>t_state := VERIFYING\<rparr>) else s)"
  using assms(2) by (auto simp: walk_to_run [OF assms(1)] walk_path_final after_walk_def can_verify)

lemma walk_to_completed:
  assumes "tget (tasks (work s)) tid = Some t" "t_state t \<in> {VERIFYING, COMPLETED}"
  shows "walk_to tid COMPLETED s = (Inr (), if t_state t = COMPLETED then s
      else set_state s tid (t\<lparr>t_state := COMPLETED\<rparr>))"
  using assms(2) by (auto simp: walk_to_run [OF assms(1)] walk_path_final after_walk_def can_verify)

lemma walk_to_done:
  assumes "tget (tasks (work s)) tid = Some t" "t_state t \<in> {EXECUTING, VERIFYING, COMPLETED}"
  shows "thenE (walk_to tid VERIFYING) (walk_to tid COMPLETED) s =
    (Inr (), if t_state t = COMPLETED then s else set_state s tid (t\<lparr>t_state := COMPLETED\<rparr>))"
  using assms(2) walk_to_completed [OF assms(1)]
    walk_to_completed [of "set_state s tid (t\<lparr>t_state := VERIFYING\<rparr>)" tid "t\<lparr>t_state := VERIFYING\<rparr>"]
  by (auto simp: thenE_def bindE_def walk_to_verifying [OF assms])

section \<open>One step\<close>

lemma on_session_Inr:
  "m (o_session s) = (r, x) \<Longrightarrow> on_session m s = (r, s\<lparr>o_session := x\<rparr>)"
  by (simp add: on_session_def)

lemma invoke_subgraph_outcome:
  "\<exists>res v. invoke_subgraph env tid step bs s = (Inr res, v) \<and> o_state v = o_state s \<and>
     runs_only (o_session s) (o_session v) \<and>
     (\<not> ag_success res \<longrightarrow> ag_error res \<noteq> None) \<and>
     (if Option.bind (AGENT_KEY (ps_agent step)) (env_graphs env) = None
      then \<not> ag_success res \<and> v = s
      else o_calls v = o_calls s @ [((tid, ps_name step, fresh (o_session s)), step)] \<and>
        fresh (o_session v) = Suc (fresh (o_session s)))"
proof (cases "Option.bind (AGENT_KEY (ps_agent step)) (env_graphs env)")
  case None
  then show ?thesis by (simp add: invoke_subgraph_def retE_def step_failure_def)
next
  case (Some graph)
  obtain t where t: "start_agent_run tid (ps_agent step) (o_session s) = (Inr (fresh (o_session s)), t)"
    "runs_only (o_session s) t" "fresh t = Suc (fresh (o_session s))"
    using start_agent_run_run by blast
  let ?th = "(tid, ps_name step, fresh (o_session s))"
  obtain r w where w: "graph ?th (ps_description step) bs (o_world s) = (r, w)" by fastforce
  show ?thesis
  proof (cases r)
    case (Inl e)
    obtain u where "finish_agent_run (fresh (o_session s)) Failed None (Some (exn_msg e)) t = (Inr (), u)"
      "runs_only t u" "fresh u = fresh t"
      using finish_agent_run_run by blast
    with Some t w Inl show ?thesis
      by (auto simp: invoke_subgraph_def op_defs tryE_def on_session_def on_world_def step_failure_def Let_def
          intro: runs_only_trans)
  next
    case (Inr msgs)
    obtain u where "finish_agent_run (fresh (o_session s)) Success
        (Some (StepOutput (if msgs = [] then [] else last msgs) (ps_name step))) None t = (Inr (), u)"
      "runs_only t u" "fresh u = fresh t"
      using finish_agent_run_run by blast
    with Some t w Inr show ?thesis
      by (auto simp: invoke_subgraph_def op_defs tryE_def on_session_def on_world_def Let_def
          intro: runs_only_trans)
  qed
qed

text \<open>A failed step is never retried or escalated: the recovery sees a string.\<close>

lemma run_step_once:
  "run_step_with_recovery env tid timeout step bs n s =
     (case check_limits env tid timeout s of
       (Inl e, t) \<Rightarrow> (Inl e, t)
     | (Inr _, t) \<Rightarrow> (case invoke_subgraph env tid step bs t of
         (Inl e, u) \<Rightarrow> (Inl e, u)
       | (Inr res, u) \<Rightarrow> (if ag_success res then Inr res
           else Inl (py_error PyRuntimeError ''Step {} failed: {}'' [AStr (ps_agent step),
             case ag_error res of None \<Rightarrow> ANone | Some m \<Rightarrow> AMsg m]), count_tool_call u)))"
proof -
  have "rd_action (recovery_decide lims (observe_error res) k) = FAIL" for lims res k
    by (simp add: recovery_decide_def observe_error_def classify_text classify_none split: option.split)
  then show ?thesis
    by (subst run_step_with_recovery.simps) (auto simp: Let_def split: sum.splits prod.splits)
qed

definition step_errors :: "exn \<Rightarrow> bool" where
  "step_errors e = (is_app_instance e TimeoutError \<or> is_app_instance e CancellationError \<or>
     exn_class e = PyRuntimeError)"

lemma step_errors_not_approval: "step_errors e \<Longrightarrow> \<not> is_app_instance e ApprovalRequiredError"
  by (auto simp: step_errors_def is_app_instance_def split: exn_class.splits)

lemma check_limits_state: "check_limits env tid timeout s = (r, t) \<Longrightarrow>
   t = s \<or> t = s\<lparr>o_clock := Suc (o_clock s)\<rparr>"
  by (auto simp: check_limits_def op_defs read_clock_def Let_def split: if_splits)

lemma check_limits_Inl:
  "check_limits env tid timeout s = (Inl e, t) \<Longrightarrow>
   step_errors e \<and> o_session t = o_session s \<and> o_state t = o_state s \<and> o_calls t = o_calls s"
  by (auto simp: check_limits_def op_defs read_clock_def Let_def step_errors_def split: if_splits)

lemma run_step_cases [consumes 1, case_names limit no_graph failed finished]:
  assumes "run_step_with_recovery env tid timeout step bs n s = (r, u)"
  obtains
    e where "r = Inl e" "step_errors e" "o_session u = o_session s" "o_state u = o_state s"
      "o_calls u = o_calls s"
  | e where "r = Inl e" "step_errors e" "o_session u = o_session s"
      "o_state u = o_state (count_tool_call s)" "o_calls u = o_calls s"
      "int (os_tool_call_count (o_state s)) < max_tool_calls (env_limits env)"
  | e where "r = Inl e" "step_errors e" "runs_only (o_session s) (o_session u)"
      "o_state u = o_state (count_tool_call s)"
      "o_calls u = o_calls s @ [((tid, ps_name step, fresh (o_session s)), step)]"
      "fresh (o_session u) = Suc (fresh (o_session s))"
      "int (os_tool_call_count (o_state s)) < max_tool_calls (env_limits env)"
      "Option.bind (AGENT_KEY (ps_agent step)) (env_graphs env) \<noteq> None"
  | x where "r = Inr x" "ag_success x" "runs_only (o_session s) (o_session u)"
      "o_state u = o_state (count_tool_call s)"
      "o_calls u = o_calls s @ [((tid, ps_name step, fresh (o_session s)), step)]"
      "fresh (o_session u) = Suc (fresh (o_session s))"
      "int (os_tool_call_count (o_state s)) < max_tool_calls (env_limits env)"
      "Option.bind (AGENT_KEY (ps_agent step)) (env_graphs env) \<noteq> None"
proof -
  obtain c t where ct: "check_limits env tid timeout s = (c, t)" by fastforce
  show thesis
  proof (cases c)
    case (Inl e)
    with assms ct have "r = Inl e" "u = t" by (auto simp: run_step_once)
    with check_limits_Inl [OF ct [unfolded Inl]] show thesis by (intro that(1)) auto
  next
    case (Inr x)
    note t = check_limits_Inr [OF ct [unfolded Inr]]
    obtain res v where v: "invoke_subgraph env tid step bs t = (Inr res, v)" "o_state v = o_state t"
      "runs_only (o_session t) (o_session v)"
      "if Option.bind (AGENT_KEY (ps_agent step)) (env_graphs env) = None
       then \<not> ag_success res \<and> v = t
       else o_calls v = o_calls t @ [((tid, ps_name step, fresh (o_session t)), step)] \<and>
         fresh (o_session v) = Suc (fresh (o_session t))"
      using invoke_subgraph_outcome [of env tid step bs t] by blast
    have u: "u = count_tool_call v" "ag_success res \<Longrightarrow> r = Inr res"
      "\<not> ag_success res \<Longrightarrow> \<exists>e. r = Inl e \<and> step_errors e"
      using assms ct Inr v by (auto simp: run_step_once step_errors_def split: if_splits)
    show thesis
    proof (cases "Option.bind (AGENT_KEY (ps_agent step)) (env_graphs env) = None")
      case True
      with u t v show thesis by (auto simp: count_tool_call_def intro: that(2))
    next
      case G: False
      show thesis
      proof (cases "ag_success res")
        case True
        with G u t v show thesis by (intro that(4)) (auto simp: count_tool_call_def)
      next
        case False
        then obtain e where "r = Inl e" "step_errors e" using u by blast
        with G u t v show thesis by (intro that(3)) (auto simp: count_tool_call_def)
      qed
    qed
  qed
qed

section \<open>The plan loop\<close>

text \<open>
  The invocations of one pass over a plan: an initial segment of its steps in order, each
  on a thread of its own, and each permitted to run.
\<close>

definition thread_run :: "thread_id \<times> plan_step \<Rightarrow> uuid" where
  "thread_run c = snd (snd (fst c))"

definition permitted :: "string set \<Rightarrow> plan_step \<Rightarrow> bool" where
  "permitted approved step = (ps_requires_approval step \<longrightarrow> ps_name step \<in> approved)"

definition calls_ok ::
  "uuid \<Rightarrow> string set \<Rightarrow> plan_step list \<Rightarrow> nat \<Rightarrow> nat \<Rightarrow> (thread_id \<times> plan_step) list \<Rightarrow> bool" where
  "calls_ok tid approved steps lo hi calls =
     (map snd calls = take (length calls) steps \<and> length calls \<le> length steps \<and>
      list_all (\<lambda>(th, st). permitted approved st \<and> fst th = tid \<and> fst (snd th) = ps_name st) calls \<and>
      list_all (\<lambda>c. lo \<le> thread_run c \<and> thread_run c < hi) calls \<and>
      sorted_wrt (\<lambda>c d. thread_run c < thread_run d) calls)"

lemma calls_ok_Nil [simp]: "calls_ok tid approved steps lo hi []"
  by (simp add: calls_ok_def)

lemma calls_ok_single:
  "permitted approved step \<Longrightarrow> n < hi \<Longrightarrow>
   calls_ok tid approved (step # steps) n hi [((tid, ps_name step, n), step)]"
  by (simp add: calls_ok_def thread_run_def)

lemma calls_ok_Cons:
  assumes "permitted approved step" "calls_ok tid approved steps (Suc n) hi calls" "Suc n \<le> hi"
  shows "calls_ok tid approved (step # steps) n hi (((tid, ps_name step, n), step) # calls)"
  using assms by (auto simp: calls_ok_def thread_run_def list_all_iff)

text \<open>How a pass ends: through the plan, by an error of a step, or at an approval gate.\<close>

definition all_done :: "plan_step list \<Rightarrow> orch_state \<Rightarrow> orch_state \<Rightarrow> bool" where
  "all_done steps st st' =
     (os_step_outputs st' = os_step_outputs st @
        map (\<lambda>p. \<lparr>so_step = ps_name p, so_agent = ps_agent p, so_success = True\<rparr>) steps \<and>
      os_iterations st' = os_iterations st + length steps \<and>
      os_tool_call_count st' = os_tool_call_count st + length steps)"

definition gate_result :: "uuid \<Rightarrow> string set \<Rightarrow> plan_step list \<Rightarrow> session \<Rightarrow> session \<Rightarrow> exn \<Rightarrow> bool" where
  "gate_result tid approved steps s t e =
     (\<exists>step s1 x. step \<in> set steps \<and> \<not> permitted approved step \<and> runs_only s s1 \<and>
        request_approval tid step s1 = (x, t) \<and>
        (case x of Inl e' \<Rightarrow> e = e' | Inr _ \<Rightarrow> is_app_instance e ApprovalRequiredError))"

lemma gate_result_mono:
  "gate_result tid approved steps t u e \<Longrightarrow> runs_only s t \<Longrightarrow> gate_result tid approved (p # steps) s u e"
  unfolding gate_result_def by (meson list.set_intros(2) runs_only_trans)

definition pass_outcome ::
  "uuid \<Rightarrow> string set \<Rightarrow> plan_step list \<Rightarrow> 'w orch \<Rightarrow> unit result \<Rightarrow> 'w orch \<Rightarrow> bool" where
  "pass_outcome tid approved steps s r u =
     (case r of
       Inr _ \<Rightarrow> runs_only (o_session s) (o_session u) \<and> all_done steps (o_state s) (o_state u)
     | Inl e \<Rightarrow> (runs_only (o_session s) (o_session u) \<and> step_errors e) \<or>
         gate_result tid approved steps (o_session s) (o_session u) e)"

lemma request_approval_fresh: "request_approval tid step s = (r, t) \<Longrightarrow> fresh t = Suc (fresh s)"
  by (auto simp: request_approval_def create_approval_def op_defs session_ops transition_task_run
      split: sum.splits prod.splits option.splits)

lemma gate_result_fresh: "gate_result tid approved steps s t e \<Longrightarrow> fresh s \<le> fresh t"
  by (auto simp: gate_result_def dest!: request_approval_fresh runs_onlyD(4))

lemma pass_outcome_fresh:
  "pass_outcome tid approved steps s r u \<Longrightarrow> fresh (o_session s) \<le> fresh (o_session u)"
  by (auto simp: pass_outcome_def dest: runs_onlyD(4) gate_result_fresh split: sum.splits)

lemma step_index_frame [simp]:
  "mod_state f s = (Inr (), s\<lparr>o_state := f (o_state s)\<rparr>)"
  by (simp add: mod_state_def modE_def)

lemma execute_plan_Cons:
  "execute_plan env tid timeout approved bs i (step # steps) s =
    (let s0 = s\<lparr>o_state := (o_state s)\<lparr>os_step_index := i\<rparr>\<rparr> in
     case check_limits env tid timeout s0 of
       (Inl e, t) \<Rightarrow> (Inl e, t)
     | (Inr _, t) \<Rightarrow>
       if \<not> permitted approved step then
         (case request_approval tid step (o_session t) of
           (Inl e, x) \<Rightarrow> (Inl e, t\<lparr>o_session := x\<rparr>)
         | (Inr _, x) \<Rightarrow> (Inl (app_error ApprovalRequiredError ''Approval required for step {}''
                          [AStr (ps_name step)]), t\<lparr>o_session := x\<rparr>))
       else (case run_step_with_recovery env tid timeout step bs 0 t of
           (Inl e, u) \<Rightarrow> (Inl e, u)
         | (Inr res, u) \<Rightarrow> execute_plan env tid timeout approved bs (Suc i) steps
             (u\<lparr>o_state := record_step step (ag_success res) (o_state u)\<rparr>)))"
  by (auto simp: thenE_def bindE_def permitted_def retE_def raiseE_def on_session_def Let_def
      split: sum.splits prod.splits)

declare execute_plan.simps(2) [simp del]

lemma execute_plan_gate:
  assumes ct: "check_limits env tid timeout (s\<lparr>o_state := (o_state s)\<lparr>os_step_index := i\<rparr>\<rparr>) = (Inr x, t)"
    and no: "\<not> permitted approved step"
    and r: "execute_plan env tid timeout approved bs i (step # steps) s = (r, u)"
  obtains z e where "u = t\<lparr>o_session := z\<rparr>" "r = Inl e"
    "gate_result tid approved (step # steps) (o_session s) z e"
proof -
  note t = check_limits_Inr(1) [OF ct]
  obtain y z where yz: "request_approval tid step (o_session t) = (y, z)" by fastforce
  with r ct no have u: "u = t\<lparr>o_session := z\<rparr>"
    and "\<exists>e. r = Inl e \<and> (case y of Inl e' \<Rightarrow> e = e' | Inr _ \<Rightarrow> is_app_instance e ApprovalRequiredError)"
    by (auto simp: execute_plan_Cons Let_def split: sum.splits)
  then obtain e where e: "r = Inl e"
    "case y of Inl e' \<Rightarrow> e = e' | Inr _ \<Rightarrow> is_app_instance e ApprovalRequiredError" by blast
  have "gate_result tid approved (step # steps) (o_session s) z e"
    unfolding gate_result_def using no yz t e
    by (intro exI [of _ step] exI [of _ "o_session s"] exI [of _ y]) auto
  with u e(1) show thesis by (rule that)
qed

text \<open>What holds after a pass over the rest of a plan, extended by the step that ran before it.\<close>

definition pass_ok ::
  "uuid \<Rightarrow> string set \<Rightarrow> plan_step list \<Rightarrow> 'w orch \<Rightarrow> unit result \<Rightarrow> 'w orch \<Rightarrow> bool" where
  "pass_ok tid approved steps s r u =
     (\<exists>calls. o_calls u = o_calls s @ calls \<and>
       calls_ok tid approved steps (fresh (o_session s)) (fresh (o_session u)) calls \<and>
       (r = Inr () \<longrightarrow> length calls = length steps) \<and> pass_outcome tid approved steps s r u)"

lemma pass_ok_step:
  assumes ok: "permitted approved step" and v: "runs_only (o_session s) (o_session v)"
      "fresh (o_session v) = Suc (fresh (o_session s))"
      "o_calls v = o_calls s @ [((tid, ps_name step, fresh (o_session s)), step)]"
      "o_state v = (o_state s)\<lparr>os_step_index := i,
         os_tool_call_count := Suc (os_tool_call_count (o_state s))\<rparr>"
    and rest: "pass_ok tid approved steps (v\<lparr>o_state := record_step step True (o_state v)\<rparr>) r u"
  shows "pass_ok tid approved (step # steps) s r u"
proof -
  let ?w = "v\<lparr>o_state := record_step step True (o_state v)\<rparr>"
  from rest obtain calls where calls: "o_calls u = o_calls ?w @ calls"
    "calls_ok tid approved steps (fresh (o_session ?w)) (fresh (o_session u)) calls"
    "r = Inr () \<longrightarrow> length calls = length steps" "pass_outcome tid approved steps ?w r u"
    by (auto simp: pass_ok_def)
  have "Suc (fresh (o_session s)) \<le> fresh (o_session u)"
    using pass_outcome_fresh [OF calls(4)] v by simp
  then have "calls_ok tid approved (step # steps) (fresh (o_session s)) (fresh (o_session u))
      (((tid, ps_name step, fresh (o_session s)), step) # calls)"
    using calls_ok_Cons [OF ok] calls(2) v by simp
  moreover have "pass_outcome tid approved (step # steps) s r u"
    using calls(4) v
    by (auto simp: pass_outcome_def all_done_def record_step_def
        split: sum.splits intro: runs_only_trans gate_result_mono)
  ultimately show ?thesis unfolding pass_ok_def using calls(1,3) v by fastforce
qed

lemma execute_plan_pass:
  "execute_plan env tid timeout approved bs i steps s = (r, u) \<Longrightarrow> pass_ok tid approved steps s r u"
proof (induction steps arbitrary: i s)
  case Nil
  then show ?case by (auto simp: pass_ok_def retE_def pass_outcome_def all_done_def)
next
  case (Cons step steps)
  let ?s0 = "s\<lparr>o_state := (o_state s)\<lparr>os_step_index := i\<rparr>\<rparr>"
  obtain c t where ct: "check_limits env tid timeout ?s0 = (c, t)" by fastforce
  show ?case
  proof (cases c)
    case (Inl e)
    with ct Cons.prems have "r = Inl e" "u = t" by (auto simp: execute_plan_Cons Let_def)
    with check_limits_Inl [OF ct [unfolded Inl]] show ?thesis by (simp add: pass_ok_def pass_outcome_def)
  next
    case (Inr x)
    note t = check_limits_Inr(1) [OF ct [unfolded Inr]]
    show ?thesis
    proof (cases "permitted approved step")
      case False
      from execute_plan_gate [OF ct [unfolded Inr] False Cons.prems] obtain z e where
        "u = t\<lparr>o_session := z\<rparr>" "r = Inl e" "gate_result tid approved (step # steps) (o_session s) z e" .
      with t show ?thesis by (simp add: pass_ok_def pass_outcome_def)
    next
      case ok: True
      obtain q v where qv: "run_step_with_recovery env tid timeout step bs 0 t = (q, v)" by fastforce
      from qv show ?thesis
      proof (cases rule: run_step_cases)
        case (finished y)
        then have "pass_ok tid approved steps (v\<lparr>o_state := record_step step True (o_state v)\<rparr>) r u"
          using Cons.prems ct Inr ok qv by (intro Cons.IH) (simp add: execute_plan_Cons Let_def)
        with finished t show ?thesis by (intro pass_ok_step [OF ok]) (auto simp: count_tool_call_def)
      qed (use Cons.prems ct Inr ok qv t calls_ok_single [OF ok] in
          \<open>auto simp: execute_plan_Cons Let_def pass_ok_def pass_outcome_def\<close>)
    qed
  qed
qed

lemmas execute_plan_outcome = execute_plan_pass [unfolded pass_ok_def]

text \<open>The budget: a pass never exceeds the configured number of tool calls or iterations.\<close>

definition within_limits :: "limit_settings \<Rightarrow> orch_state \<Rightarrow> bool" where
  "within_limits lims st = (int (os_tool_call_count st) \<le> max 0 (max_tool_calls lims) \<and>
     int (os_iterations st) \<le> max 0 (max_iterations lims) \<and>
     length (os_step_outputs st) = os_iterations st)"

lemma check_limits_o_state: "check_limits env tid timeout s = (r, t) \<Longrightarrow> o_state t = o_state s"
  using check_limits_state by fastforce

lemma execute_plan_within:
  "execute_plan env tid timeout approved bs i steps s = (r, u) \<Longrightarrow>
   within_limits (env_limits env) (o_state s) \<Longrightarrow> within_limits (env_limits env) (o_state u)"
proof (induction steps arbitrary: i s)
  case Nil
  then show ?case by (auto simp: retE_def)
next
  case (Cons step steps)
  let ?s0 = "s\<lparr>o_state := (o_state s)\<lparr>os_step_index := i\<rparr>\<rparr>"
  obtain c t where ct: "check_limits env tid timeout ?s0 = (c, t)" by fastforce
  have wt: "within_limits (env_limits env) (o_state t)"
    using check_limits_o_state [OF ct] Cons.prems(2) by (simp add: within_limits_def)
  show ?case
  proof (cases "c = Inr () \<and> permitted approved step")
    case False
    with ct Cons.prems(1) have "o_state u = o_state t"
      by (cases c) (auto simp: execute_plan_Cons Let_def split: prod.splits sum.splits)
    with wt show ?thesis by simp
  next
    case True
    note t = check_limits_Inr [OF ct [unfolded True [THEN conjunct1]]]
    obtain q v where qv: "run_step_with_recovery env tid timeout step bs 0 t = (q, v)" by fastforce
    have wv: "within_limits (env_limits env) (o_state v)"
      using qv wt by (cases rule: run_step_cases) (auto simp: within_limits_def count_tool_call_def)
    have si: "os_iterations (o_state v) = os_iterations (o_state t)"
      using qv by (cases rule: run_step_cases) (auto simp: count_tool_call_def)
    show ?thesis
    proof (cases q)
      case (Inl e)
      with True ct Cons.prems(1) qv wv show ?thesis by (auto simp: execute_plan_Cons Let_def)
    next
      case (Inr x)
      let ?w = "v\<lparr>o_state := record_step step (ag_success x) (o_state v)\<rparr>"
      have rec: "execute_plan env tid timeout approved bs (Suc i) steps ?w = (r, u)"
        using True ct Cons.prems(1) qv Inr by (simp add: execute_plan_Cons Let_def)
      show ?thesis
        by (rule Cons.IH [OF rec]) (use wv si t in \<open>auto simp: within_limits_def record_step_def\<close>)
    qed
  qed
qed

end
