(* ===== verification/Orchestrator_Outcomes.thy ===== *)
theory Orchestrator_Outcomes
  imports Orchestrator_Runs
begin

text \<open>
  The outcomes of \<open>run\<close>: what the failure handler and the persistence helpers leave in
  the database, how the body of a run ends, and the states in which a run can leave its
  task.
\<close>

section \<open>Equations of the persistence helpers\<close>

definition with_steps :: "orch_state \<Rightarrow> task_row \<Rightarrow> task_row" where
  "with_steps st t = t\<lparr>t_result := Some ((result_or_empty t)
     \<lparr>res_iterations := Some (os_iterations st), res_tool_calls := Some (os_tool_call_count st),
      res_steps := Some (os_step_outputs st)\<rparr>)\<rparr>"

lemma with_steps_state [simp]: "t_state (with_steps st t) = t_state t"
  by (simp add: with_steps_def)

lemma persist_result_run:
  "tget (tasks (work s)) tid = Some t \<Longrightarrow>
   persist_result tid st s = (Inr (), set_state s tid (with_steps st t))"
  by (simp add: persist_result_def op_defs session_ops set_state_def Let_def with_steps_def)

lemma persist_error_run:
  "tget (tasks (work s)) tid = Some t \<Longrightarrow>
   persist_error tid e s = (Inr (), set_state s tid (t\<lparr>t_error := Some (exn_msg e, exn_class e)\<rparr>))"
  by (simp add: persist_error_def op_defs session_ops set_state_def Let_def)

definition failed_row :: "task_state \<Rightarrow> exn \<Rightarrow> task_row \<Rightarrow> task_row" where
  "failed_row st e t = t\<lparr>t_state := st, t_error := Some (exn_msg e, exn_class e)\<rparr>"

lemma handle_failure_approval:
  assumes "tget (tasks (work s)) tid = Some t" "is_app_instance e ApprovalRequiredError"
  shows "handle_failure tid e s = (Inr (), if can_transition (t_state t) WAITING_FOR_APPROVAL
      then set_state s tid (t\<lparr>t_state := WAITING_FOR_APPROVAL\<rparr>) else s)"
  using assms
  by (simp add: handle_failure_def op_defs get_task_run transition_task_run transition_if)

lemma transition_persist:
  assumes "tget (tasks (work s)) tid = Some t"
  shows "bindE (transition_task tid st) (\<lambda>_. persist_error tid e) s =
    (if can_transition (t_state t) st then (Inr (), set_state s tid (failed_row st e t))
     else (Inl (transition_error (t_state t) st), s))"
  using assms
  by (simp add: bindE_def transition_task_run transition_if persist_error_run failed_row_def)

lemma handle_failure_other:
  assumes "tget (tasks (work s)) tid = Some t" "\<not> is_app_instance e ApprovalRequiredError"
  shows "handle_failure tid e s =
    (if t_state t \<in> TERMINAL_STATES
     then (Inl (transition_error (t_state t) (if is_app_instance e TimeoutError then TIMED_OUT else FAILED)), s)
     else (Inr (), set_state s tid
            (failed_row (if is_app_instance e TimeoutError then TIMED_OUT else FAILED) e t)))"
  using assms
  by (simp add: handle_failure_def transition_persist can_transition_table ESCALATION_TARGETS_def)

section \<open>The body of a run\<close>

definition synced :: "session \<Rightarrow> uuid \<Rightarrow> task_row \<Rightarrow> bool" where
  "synced s tid t = (tasks (committed s) = tasks (work s) \<and> tget (tasks (work s)) tid = Some t)"

lemma synced_runs_only: "synced s tid t \<Longrightarrow> runs_only s u \<Longrightarrow> synced u tid t"
  by (simp add: synced_def runs_onlyD)

lemma synced_set_state [simp]: "synced (set_state s tid t) tid t' \<longleftrightarrow> t' = t"
  by (auto simp: synced_def)

definition gate_row :: "plan_step \<Rightarrow> uuid \<Rightarrow> approval_row \<Rightarrow> bool" where
  "gate_row step tid a = (a_task_id a = tid \<and> a_action a = ps_name step \<and> a_target a = ps_agent step \<and>
     a_status a = Pending \<and> a_risk_level a = ''high'')"

text \<open>At a gate the task waits for approval with a pending row for the step, or the request failed.\<close>

lemma request_approval_outcome:
  assumes "synced s tid t" "request_approval tid step s = (x, u)"
  shows "(\<exists>aid a. x = Inr aid \<and> tget (approvals (committed u)) aid = Some a \<and> gate_row step tid a \<and>
      can_transition (t_state t) WAITING_FOR_APPROVAL \<and> synced u tid (t\<lparr>t_state := WAITING_FOR_APPROVAL\<rparr>)) \<or>
    (\<exists>e. x = Inl e \<and> \<not> is_app_instance e ApprovalRequiredError \<and>
      \<not> can_transition (t_state t) WAITING_FOR_APPROVAL \<and> synced u tid t)"
  using assms
  by (auto simp: request_approval_def create_approval_def op_defs session_ops transition_task_run
      transition_if synced_def gate_row_def build_approval_request_def is_app_instance_def
      split: sum.splits prod.splits option.splits if_splits)


lemma thenE_run: "thenE a b s = (case a s of (Inl e, t) \<Rightarrow> (Inl e, t) | (Inr _, t) \<Rightarrow> b t)"
  by (simp add: thenE_def bindE_def)

lemmas on_session_run = orch_session.run_eq

definition completed_row :: "plan_step list \<Rightarrow> orch_state \<Rightarrow> task_row \<Rightarrow> bool" where
  "completed_row steps st t = (t_state t = COMPLETED \<and>
     (\<exists>r. t_result t = Some r \<and> res_steps r = Some (os_step_outputs st) \<and>
        res_iterations r = Some (os_iterations st) \<and> res_tool_calls r = Some (os_tool_call_count st)))"

definition gate_pending :: "uuid \<Rightarrow> string set \<Rightarrow> plan_step list \<Rightarrow> session \<Rightarrow> bool" where
  "gate_pending tid approved steps s =
     (\<exists>step aid a. step \<in> set steps \<and> \<not> permitted approved step \<and>
        tget (approvals (committed s)) aid = Some a \<and> gate_row step tid a)"

text \<open>How the body of a run ends, whatever state the task is in.\<close>

definition body_end ::
  "uuid \<Rightarrow> task_row \<Rightarrow> string set \<Rightarrow> plan_step list \<Rightarrow> 'w orch \<Rightarrow> unit result \<Rightarrow> 'w orch \<Rightarrow> bool" where
  "body_end tid t0 approved steps s r u =
     (case r of
       Inr _ \<Rightarrow> all_done steps (o_state s) (o_state u) \<and>
         (\<exists>t. synced (o_session u) tid t \<and> completed_row steps (o_state u) t)
     | Inl e \<Rightarrow> (\<exists>t. synced (o_session u) tid t \<and>
         (t_state t \<in> TERMINAL_STATES \<longrightarrow> t_state t0 \<in> TERMINAL_STATES) \<and>
         (is_app_instance e ApprovalRequiredError \<longrightarrow>
            t_state t = WAITING_FOR_APPROVAL \<and> gate_pending tid approved steps (o_session u))))"

lemma walk_to_executing_outcome:
  assumes "synced s tid t" "walk_to tid EXECUTING s = (r, u)"
  shows "fresh u = fresh s \<and>
    ((\<exists>e. r = Inl e \<and> \<not> is_app_instance e ApprovalRequiredError \<and> synced u tid t) \<or>
     (r = Inr () \<and> (\<exists>t'. synced u tid t' \<and> t_state t' \<in> {EXECUTING, VERIFYING, COMPLETED} \<and>
        (t_state t' = t_state t \<or> t_state t' = EXECUTING))))"
  using assms
  by (auto simp: synced_def walk_to_executing transition_error_def split: if_splits)

lemma finish_body:
  assumes "synced (o_session s) tid t" "t_state t \<in> {EXECUTING, VERIFYING, COMPLETED}"
  shows "\<exists>t'. thenE (on_session (walk_to tid VERIFYING))
      (thenE (on_session (walk_to tid COMPLETED))
      (bindE (getE o_state) (\<lambda>st. on_session (persist_result tid st)))) s =
    (Inr (), s\<lparr>o_session := set_state (o_session s) tid t'\<rparr>) \<and> completed_row steps (o_state s) t'"
proof -
  let ?x = "o_session s"
  let ?t = "t\<lparr>t_state := COMPLETED\<rparr>"
  let ?y = "if t_state t = COMPLETED then ?x else set_state ?x tid ?t"
  have x: "tget (tasks (work ?x)) tid = Some t" using assms(1) by (simp add: synced_def)
  have "thenE (walk_to tid VERIFYING) (walk_to tid COMPLETED) ?x = (Inr (), ?y)"
    using walk_to_done [OF x assms(2)] .
  then obtain z where z: "walk_to tid VERIFYING ?x = (Inr (), z)" "walk_to tid COMPLETED z = (Inr (), ?y)"
    by (cases "walk_to tid VERIFYING ?x") (auto simp: thenE_run split: sum.splits)
  have y: "tget (tasks (work ?y)) tid = Some ?t" using x by auto
  have p: "persist_result tid (o_state s) ?y = (Inr (), set_state ?x tid (with_steps (o_state s) ?t))"
    using persist_result_run [OF y] by (auto split: if_splits)
  show ?thesis
    using z p
    by (intro exI [of _ "with_steps (o_state s) ?t"])
      (simp add: thenE_run on_session_run bindE_def getE_def completed_row_def with_steps_def)
qed

lemma pass_interrupted_end:
  assumes t1: "synced (o_session s1) tid t1" "t_state t1 \<in> TERMINAL_STATES \<longrightarrow> t_state t \<in> TERMINAL_STATES"
    and pass: "pass_outcome tid approved (plan_steps p) s1 (Inl e) v"
  shows "body_end tid t approved (plan_steps p) s (Inl e) v"
proof -
  from pass have "(runs_only (o_session s1) (o_session v) \<and> step_errors e) \<or>
      gate_result tid approved (plan_steps p) (o_session s1) (o_session v) e"
    by (simp add: pass_outcome_def)
  then show ?thesis
  proof
    assume "runs_only (o_session s1) (o_session v) \<and> step_errors e"
    with t1 show ?thesis
      by (auto simp: body_end_def dest: synced_runs_only step_errors_not_approval)
  next
    assume "gate_result tid approved (plan_steps p) (o_session s1) (o_session v) e"
    then obtain step x z where g: "step \<in> set (plan_steps p)" "\<not> permitted approved step"
      "runs_only (o_session s1) x" "request_approval tid step x = (z, o_session v)"
      "case z of Inl e' \<Rightarrow> e = e' | Inr _ \<Rightarrow> is_app_instance e ApprovalRequiredError"
      by (auto simp: gate_result_def)
    from request_approval_outcome [OF synced_runs_only [OF t1(1) g(3)] g(4)] show ?thesis
    proof (elim disjE exE conjE)
      fix aid a
      assume "z = Inr aid" "tget (approvals (committed (o_session v))) aid = Some a"
        "gate_row step tid a" "synced (o_session v) tid (t1\<lparr>t_state := WAITING_FOR_APPROVAL\<rparr>)"
      moreover from this have "gate_pending tid approved (plan_steps p) (o_session v)"
        using g by (auto simp: gate_pending_def)
      ultimately show ?thesis
        by (auto simp: body_end_def TERMINAL_STATES_def
            intro!: exI [of _ "t1\<lparr>t_state := WAITING_FOR_APPROVAL\<rparr>"])
    next
      fix e'
      assume "z = Inl e'" "\<not> is_app_instance e' ApprovalRequiredError" "synced (o_session v) tid t1"
      with g t1(2) show ?thesis by (auto simp: body_end_def)
    qed
  qed
qed

lemma run_body_after_pass:
  assumes w: "walk_to tid EXECUTING (o_session s) = (Inr y, x)"
    and q: "execute_plan env tid timeout approved bs 0 (plan_steps p) (s\<lparr>o_session := x\<rparr>) = (q, v)"
  shows "q = Inl e \<Longrightarrow> run_body env tid timeout p approved bs s = (Inl e, v)"
    and "q = Inr () \<Longrightarrow> synced (o_session v) tid t1 \<Longrightarrow> t_state t1 \<in> {EXECUTING, VERIFYING, COMPLETED} \<Longrightarrow>
      \<exists>t'. run_body env tid timeout p approved bs s = (Inr (), v\<lparr>o_session := set_state (o_session v) tid t'\<rparr>) \<and>
        completed_row (plan_steps p) (o_state v) t'"
proof -
  assume "q = Inl e"
  with w q show "run_body env tid timeout p approved bs s = (Inl e, v)"
    by (simp add: run_body_def thenE_run on_session_run)
next
  assume I: "q = Inr ()" and sv: "synced (o_session v) tid t1" "t_state t1 \<in> {EXECUTING, VERIFYING, COMPLETED}"
  from finish_body [OF sv] obtain t' where
    "thenE (on_session (walk_to tid VERIFYING)) (thenE (on_session (walk_to tid COMPLETED))
      (bindE (getE o_state) (\<lambda>st. on_session (persist_result tid st)))) v =
      (Inr (), v\<lparr>o_session := set_state (o_session v) tid t'\<rparr>)"
    "completed_row (plan_steps p) (o_state v) t'" by blast
  with w q I show "\<exists>t'. run_body env tid timeout p approved bs s =
      (Inr (), v\<lparr>o_session := set_state (o_session v) tid t'\<rparr>) \<and> completed_row (plan_steps p) (o_state v) t'"
    by (auto simp: run_body_def on_session_run thenE_run [where b = "thenE x y" for x y])
qed

lemma run_body_outcome:
  assumes s: "synced (o_session s) tid t" and r: "run_body env tid timeout p approved bs s = (r, u)"
  shows "\<exists>calls. o_calls u = o_calls s @ calls \<and>
     calls_ok tid approved (plan_steps p) (fresh (o_session s)) (fresh (o_session u)) calls \<and>
     (r = Inr () \<longrightarrow> length calls = length (plan_steps p)) \<and>
     body_end tid t approved (plan_steps p) s r u"
proof -
  obtain w x where w: "walk_to tid EXECUTING (o_session s) = (w, x)" by fastforce
  note walk = walk_to_executing_outcome [OF s w]
  show ?thesis
  proof (cases w)
    case (Inl e)
    with r w walk have "r = Inl e" "u = s\<lparr>o_session := x\<rparr>"
      by (auto simp: run_body_def thenE_run on_session_run)
    with walk Inl show ?thesis by (auto simp: body_end_def)
  next
    case (Inr y)
    with walk obtain t1 where t1: "synced x tid t1" "t_state t1 \<in> {EXECUTING, VERIFYING, COMPLETED}"
      "t_state t1 \<in> TERMINAL_STATES \<longrightarrow> t_state t \<in> TERMINAL_STATES"
      by (auto simp: TERMINAL_STATES_def)
    let ?s1 = "s\<lparr>o_session := x\<rparr>"
    obtain q v where q: "execute_plan env tid timeout approved bs 0 (plan_steps p) ?s1 = (q, v)" by fastforce
    from execute_plan_outcome [OF q] walk obtain calls where calls: "o_calls v = o_calls s @ calls"
      "calls_ok tid approved (plan_steps p) (fresh (o_session s)) (fresh (o_session v)) calls"
      "q = Inr () \<longrightarrow> length calls = length (plan_steps p)"
      "pass_outcome tid approved (plan_steps p) ?s1 q v" by auto
    note after = run_body_after_pass [OF w [unfolded Inr] q]
    show ?thesis
    proof (cases q)
      case (Inl e)
      from after(1) [OF Inl] r have "r = Inl e" "u = v" by simp_all
      moreover have "body_end tid t approved (plan_steps p) s (Inl e) v"
        by (rule pass_interrupted_end [of ?s1]) (use t1(1,3) calls(4) Inl in simp_all)
      ultimately show ?thesis using calls Inl by auto
    next
      case (Inr y')
      with calls(4) have d: "runs_only x (o_session v)" "all_done (plan_steps p) (o_state s) (o_state v)"
        by (auto simp: pass_outcome_def)
      from after(2) [OF _ synced_runs_only [OF t1(1) d(1)] t1(2)] Inr r calls d
      show ?thesis by (auto simp: body_end_def)
    qed
  qed
qed


section \<open>The guarded part of a run\<close>

text \<open>The browser manager raises browser errors, never \<open>ApprovalRequiredError\<close>.\<close>

definition quiet :: "('w, 'a) op \<Rightarrow> bool" where
  "quiet m = (\<forall>w e w'. m w = (Inl e, w') \<longrightarrow> \<not> is_app_instance e ApprovalRequiredError)"

definition quiet_browser :: "'w orch_env \<Rightarrow> bool" where
  "quiet_browser env = (quiet (env_browser_start env) \<and> quiet (env_browser_open env) \<and>
     (\<forall>sid. quiet (env_browser_close env sid)) \<and> quiet (env_browser_stop env))"

lemma on_world_cases:
  assumes "on_world m s = (r, t)"
  shows "o_session t = o_session s" "o_state t = o_state s" "o_calls t = o_calls s"
  using on_world_frame [OF assms] by auto

lemma on_world_quiet:
  "quiet m \<Longrightarrow> on_world m s = (Inl e, t) \<Longrightarrow> \<not> is_app_instance e ApprovalRequiredError"
  by (auto simp: on_world_def quiet_def split: prod.splits)

definition same_but_world :: "'w orch \<Rightarrow> 'w orch \<Rightarrow> bool" where
  "same_but_world s t = (o_session t = o_session s \<and> o_state t = o_state s \<and> o_calls t = o_calls s)"

lemma open_browser_frame:
  "open_browser_if_needed env p s = (r, t) \<Longrightarrow> same_but_world s t"
  by (auto simp: open_browser_if_needed_def op_defs same_but_world_def on_world_def
      split: if_splits sum.splits prod.splits)

lemma open_browser_quiet:
  "quiet_browser env \<Longrightarrow> open_browser_if_needed env p s = (Inl e, t) \<Longrightarrow>
   \<not> is_app_instance e ApprovalRequiredError"
  by (auto simp: open_browser_if_needed_def thenE_run bindE_def retE_def quiet_browser_def
      split: if_splits sum.splits prod.splits dest: on_world_quiet)

lemma close_browser_frame:
  "close_browser env bs s = (r, t) \<Longrightarrow> same_but_world s t"
  by (auto simp: close_browser_def op_defs same_but_world_def on_world_def
      split: if_splits sum.splits prod.splits option.splits)

lemma close_browser_quiet:
  "quiet_browser env \<Longrightarrow> close_browser env bs s = (Inl e, t) \<Longrightarrow>
   \<not> is_app_instance e ApprovalRequiredError"
  by (auto simp: close_browser_def thenE_run retE_def quiet_browser_def
      split: if_splits sum.splits prod.splits option.splits dest: on_world_quiet)


definition closes_cleanly :: "'w orch_env \<Rightarrow> bool" where
  "closes_cleanly env = (\<forall>bs s. \<exists>t. close_browser env bs s = (Inr (), t))"

text \<open>The calls of a run, and how its guarded part ends.\<close>

definition calls_of ::
  "uuid \<Rightarrow> string set \<Rightarrow> plan_step list \<Rightarrow> 'w orch \<Rightarrow> 'w orch \<Rightarrow> (thread_id \<times> plan_step) list \<Rightarrow> bool" where
  "calls_of tid approved steps s u calls = (o_calls u = o_calls s @ calls \<and>
     calls_ok tid approved steps (fresh (o_session s)) (fresh (o_session u)) calls)"

definition guarded ::
  "'w orch_env \<Rightarrow> uuid \<Rightarrow> int option \<Rightarrow> plan \<Rightarrow> string set \<Rightarrow> ('w orch, unit) op" where
  "guarded env tid timeout p approved =
     bindE (open_browser_if_needed env p) (\<lambda>bs.
       finallyE (run_body env tid timeout p approved bs) (close_browser env bs))"

definition good_end :: "uuid \<Rightarrow> plan_step list \<Rightarrow> orch_state \<Rightarrow> 'w orch \<Rightarrow> task_row \<Rightarrow> bool" where
  "good_end tid steps st u t = (all_done steps st (o_state u) \<and> completed_row steps (o_state u) t)"

lemma body_end_frame:
  "same_but_world s0 s \<Longrightarrow> same_but_world u u' \<Longrightarrow>
   body_end tid t approved steps s r u \<Longrightarrow> body_end tid t approved steps s0 r u'"
  by (simp add: body_end_def same_but_world_def split: sum.splits)

lemma guarded_outcome:
  assumes s: "synced (o_session s) tid t" and q: "quiet_browser env"
    and r: "guarded env tid timeout p approved s = (r, u)"
  shows "\<exists>calls t'. calls_of tid approved (plan_steps p) s u calls \<and> synced (o_session u) tid t' \<and>
    (case r of
      Inr _ \<Rightarrow> length calls = length (plan_steps p) \<and> good_end tid (plan_steps p) (o_state s) u t'
    | Inl e \<Rightarrow> (closes_cleanly env \<and> t_state t' \<in> TERMINAL_STATES \<longrightarrow> t_state t \<in> TERMINAL_STATES) \<and>
        (is_app_instance e ApprovalRequiredError \<longrightarrow>
          t_state t' = WAITING_FOR_APPROVAL \<and> gate_pending tid approved (plan_steps p) (o_session u)))"
proof -
  obtain b s1 where b: "open_browser_if_needed env p s = (b, s1)" by fastforce
  note f1 = open_browser_frame [OF b]
  show ?thesis
  proof (cases b)
    case (Inl e)
    with r b have "r = Inl e" "u = s1" by (auto simp: guarded_def bindE_def)
    with f1 s open_browser_quiet [OF q b [unfolded Inl]] show ?thesis
      by (auto simp: same_but_world_def calls_of_def)
  next
    case (Inr bs)
    obtain d v where d: "run_body env tid timeout p approved bs s1 = (d, v)" by fastforce
    obtain c w where c: "close_browser env bs v = (c, w)" by fastforce
    note f2 = close_browser_frame [OF c]
    from s f1 have s1: "synced (o_session s1) tid t" by (simp add: same_but_world_def)
    from run_body_outcome [OF s1 d] obtain calls where k: "o_calls v = o_calls s1 @ calls"
      "calls_ok tid approved (plan_steps p) (fresh (o_session s1)) (fresh (o_session v)) calls"
      "d = Inr () \<longrightarrow> length calls = length (plan_steps p)"
      "body_end tid t approved (plan_steps p) s1 d v" by blast
    note e = body_end_frame [OF f1 f2 k(4)]
    have ru: "u = w" "r = (case c of Inl e \<Rightarrow> Inl e | Inr _ \<Rightarrow> d)"
      using r b Inr d c by (auto simp: guarded_def bindE_def finallyE_def split: sum.splits)
    have co: "calls_of tid approved (plan_steps p) s u calls"
      using k(1,2) f1 f2 ru by (simp add: same_but_world_def calls_of_def)
    show ?thesis
    proof (cases c)
      case (Inl x)
      then have nc: "\<not> closes_cleanly env" using c unfolding closes_cleanly_def
        by (metis Inl_Inr_False prod.inject)
      have "\<exists>t'. synced (o_session u) tid t'" using e ru by (auto simp: body_end_def split: sum.splits)
      with co nc ru Inl close_browser_quiet [OF q c [unfolded Inl]] show ?thesis by auto
    next
      case (Inr y)
      with e ru co k(3) show ?thesis by (fastforce simp: body_end_def good_end_def split: sum.splits)
    qed
  qed
qed

text \<open>What a run leaves when it returns, and the only way in which its guarded part can raise.\<close>

datatype ending = Finished | Paused | TimedOut | Broke

fun ended :: "uuid \<Rightarrow> string set \<Rightarrow> plan_step list \<Rightarrow> orch_state \<Rightarrow> 'w orch \<Rightarrow> task_row \<Rightarrow> ending \<Rightarrow> bool" where
  "ended tid approved steps st u t Finished = good_end tid steps st u t"
| "ended tid approved steps st u t Paused =
     (t_state t = WAITING_FOR_APPROVAL \<and> gate_pending tid approved steps (o_session u))"
| "ended tid approved steps st u t TimedOut =
     (t_state t = TIMED_OUT \<and> (\<exists>m. t_error t = Some (m, App TimeoutError)))"
| "ended tid approved steps st u t Broke =
     (t_state t = FAILED \<and> (\<exists>m k. t_error t = Some (m, k) \<and> k \<noteq> App TimeoutError \<and> k \<noteq> App ApprovalRequiredError))"

lemma gate_pending_set_state:
  "gate_pending tid approved steps s \<Longrightarrow> committed s = work s \<Longrightarrow>
   gate_pending tid approved steps (set_state s tid t)"
  by (auto simp: gate_pending_def)

lemma run_plan_guarded:
  "run_plan env tid timeout p s =
     catchE (guarded env tid timeout p (approved_actions_for tid (work (o_session s))))
       (\<lambda>e. on_session (handle_failure tid e)) s"
  by (simp add: run_plan_def guarded_def bindE_def getE_def)

lemma is_app_class: "k \<noteq> AgentOperatorError \<Longrightarrow> is_app_instance e k \<longleftrightarrow> exn_class e = App k"
  by (auto simp: is_app_instance_def split: exn_class.splits)

lemma handled_failure_end:
  assumes t: "synced (o_session v) tid t'"
    and e: "is_app_instance e ApprovalRequiredError \<Longrightarrow>
      t_state t' = WAITING_FOR_APPROVAL \<and> gate_pending tid approved steps (o_session v)"
    and h: "handle_failure tid e (o_session v) = (r, x)"
  obtains e' where "r = Inl e'" "x = o_session v" "t_state t' \<in> TERMINAL_STATES"
      "\<not> is_app_instance e ApprovalRequiredError"
  | t2 k where "r = Inr ()" "synced x tid t2" "fresh x = fresh (o_session v)"
      "ended tid approved steps st (v\<lparr>o_session := x\<rparr>) t2 k" "k \<noteq> Finished"
proof -
  have tg: "tget (tasks (work (o_session v))) tid = Some t'" using t by (simp add: synced_def)
  show thesis
  proof (cases "is_app_instance e ApprovalRequiredError")
    case True
    note w = e [OF True]
    have "\<not> can_transition WAITING_FOR_APPROVAL WAITING_FOR_APPROVAL" by (simp add: state_table_defs)
    with handle_failure_approval [OF tg True] h w have "r = Inr ()" "x = o_session v" by simp_all
    with t w show thesis by (intro that(2) [of t' Paused]) auto
  next
    case False
    note h' = handle_failure_other [OF tg False]
    show thesis
    proof (cases "t_state t' \<in> TERMINAL_STATES")
      case True
      with h h' False show thesis by (intro that(1)) auto
    next
      case nt: False
      let ?row = "failed_row (if is_app_instance e TimeoutError then TIMED_OUT else FAILED) e t'"
      from h h' nt have x: "r = Inr ()" "x = set_state (o_session v) tid ?row" by simp_all
      have "\<exists>k. ended tid approved steps st (v\<lparr>o_session := x\<rparr>) ?row k \<and> k \<noteq> Finished"
        using False by (cases "is_app_instance e TimeoutError")
          (auto simp: failed_row_def is_app_class intro: exI [of _ TimedOut] exI [of _ Broke])
      with x that(2) [of ?row] show thesis by auto
    qed
  qed
qed

lemma run_plan_outcome:
  assumes s: "synced (o_session s) tid t" and q: "quiet_browser env"
    and r: "run_plan env tid timeout p s = (r, u)"
    and a: "approved = approved_actions_for tid (work (o_session s))"
  shows "\<exists>calls t'. calls_of tid approved (plan_steps p) s u calls \<and> synced (o_session u) tid t' \<and>
    (case r of
      Inr _ \<Rightarrow> \<exists>k. ended tid approved (plan_steps p) (o_state s) u t' k \<and>
        (k = Finished \<longrightarrow> length calls = length (plan_steps p))
    | Inl e \<Rightarrow> t_state t' \<in> TERMINAL_STATES \<and> (closes_cleanly env \<longrightarrow> t_state t \<in> TERMINAL_STATES))"
proof -
  obtain g v where g: "guarded env tid timeout p approved s = (g, v)" by fastforce
  from guarded_outcome [OF s q g] obtain calls t' where k:
    "calls_of tid approved (plan_steps p) s v calls" "synced (o_session v) tid t'"
    "case g of
      Inr _ \<Rightarrow> length calls = length (plan_steps p) \<and> good_end tid (plan_steps p) (o_state s) v t'
    | Inl e \<Rightarrow> (closes_cleanly env \<and> t_state t' \<in> TERMINAL_STATES \<longrightarrow> t_state t \<in> TERMINAL_STATES) \<and>
        (is_app_instance e ApprovalRequiredError \<longrightarrow>
          t_state t' = WAITING_FOR_APPROVAL \<and> gate_pending tid approved (plan_steps p) (o_session v))"
    by blast
  show ?thesis
  proof (cases g)
    case (Inr x)
    with r g a have "r = Inr x" "u = v" by (auto simp: run_plan_guarded catchE_def)
    with k Inr show ?thesis
      by (intro exI [of _ calls] exI [of _ t']) (auto intro!: exI [of _ Finished])
  next
    case (Inl e)
    obtain y x where h: "handle_failure tid e (o_session v) = (y, x)" by fastforce
    with r g a Inl have ru: "r = y" "u = v\<lparr>o_session := x\<rparr>"
      by (auto simp: run_plan_guarded catchE_def on_session_run)
    from k(3) Inl have
      "is_app_instance e ApprovalRequiredError \<Longrightarrow>
         t_state t' = WAITING_FOR_APPROVAL \<and> gate_pending tid approved (plan_steps p) (o_session v)" by simp
    note ends = handled_failure_end [OF k(2) this h, where st = "o_state s"]
    show ?thesis
    proof (rule ends)
      fix e'
      assume "y = Inl e'" "x = o_session v" "t_state t' \<in> TERMINAL_STATES" "\<not> is_app_instance e ApprovalRequiredError"
      with k Inl ru show ?thesis by (auto intro!: exI [of _ calls] exI [of _ t'])
    next
      fix t2 j
      assume "y = Inr ()" "synced x tid t2" "fresh x = fresh (o_session v)" "j \<noteq> Finished"
        "ended tid approved (plan_steps p) (o_state s) (v\<lparr>o_session := x\<rparr>) t2 j"
      with k(1) ru show ?thesis
        by (intro exI [of _ calls] exI [of _ t2]) (auto simp: calls_of_def)
    qed
  qed
qed


section \<open>The plan is fixed during a run\<close>

definition has_plan :: "plan option \<Rightarrow> 'w orch \<Rightarrow> bool" where
  "has_plan p s = (os_plan (o_state s) = p)"

lemma preserves_on_session: "preserves (has_plan p) (on_session m)"
  by (simp add: preserves_def has_plan_def on_session_run)

lemma preserves_on_world: "preserves (has_plan p) (on_world m)"
  by (auto simp: preserves_def has_plan_def on_world_def split: prod.splits)

lemma preserves_mod_state:
  "(\<And>st. os_plan (f st) = os_plan st) \<Longrightarrow> preserves (has_plan p) (mod_state f)"
  by (simp add: preserves_def has_plan_def)

lemma preserves_run_step: "preserves (has_plan p) (run_step_with_recovery env tid timeout step bs n)"
  for env :: "'w orch_env"
  unfolding preserves_def
proof (intro allI impI)
  fix s :: "'w orch" assume s: "has_plan p s"
  obtain r u where "run_step_with_recovery env tid timeout step bs n s = (r, u)" by fastforce
  moreover from this s have "has_plan p u"
    by (cases rule: run_step_cases) (simp_all add: has_plan_def count_tool_call_def)
  ultimately show "has_plan p (snd (run_step_with_recovery env tid timeout step bs n s))" by simp
qed

lemma preserves_execute_plan: "preserves (has_plan p) (execute_plan env tid timeout approved bs i steps)"
proof (induction steps arbitrary: i)
  case Nil
  show ?case by (simp add: preserves_ret)
next
  case (Cons step steps)
  have "preserves (has_plan p) (check_limits env tid timeout)"
    unfolding preserves_def has_plan_def
    by (metis check_limits_o_state prod.collapse)
  then show ?case
    unfolding execute_plan.simps(2)
    by (intro preserves_intro preserves_on_session preserves_run_step preserves_mod_state Cons.IH)
      (simp_all add: record_step_def)
qed

lemma preserves_run_plan: "preserves (has_plan p) (run_plan env tid timeout q)"
  unfolding run_plan_def run_body_def
proof (intro preserves_intro preserves_on_session preserves_execute_plan)
  show "preserves (has_plan p) (open_browser_if_needed env q)"
    unfolding open_browser_if_needed_def by (intro preserves_intro preserves_on_world)
  show "preserves (has_plan p) (close_browser env bs)" for bs
    unfolding close_browser_def
    by (cases bs) (auto intro!: preserves_intro preserves_on_world)
qed

lemma within_limits_run_body:
  "run_body env tid timeout p approved bs s = (r, u) \<Longrightarrow>
   within_limits (env_limits env) (o_state s) \<Longrightarrow> within_limits (env_limits env) (o_state u)"
  by (auto simp: run_body_def thenE_run on_session_run bindE_def getE_def
      split: sum.splits prod.splits dest!: execute_plan_within)

lemma within_limits_run_plan:
  assumes "run_plan env tid timeout p s = (r, u)" "within_limits (env_limits env) (o_state s)"
  shows "within_limits (env_limits env) (o_state u)"
proof -
  let ?a = "approved_actions_for tid (work (o_session s))"
  obtain g v where g: "guarded env tid timeout p ?a s = (g, v)" by fastforce
  have u: "o_state u = o_state v"
    using assms(1) g by (auto simp: run_plan_guarded catchE_def on_session_run split: sum.splits)
  obtain b s1 where b: "open_browser_if_needed env p s = (b, s1)" by fastforce
  have s1: "o_state s1 = o_state s" using open_browser_frame [OF b] by (simp add: same_but_world_def)
  show ?thesis
  proof (cases b)
    case (Inl e)
    with g b u s1 assms(2) show ?thesis by (auto simp: guarded_def bindE_def)
  next
    case (Inr bs)
    obtain d w where d: "run_body env tid timeout p ?a bs s1 = (d, w)" by fastforce
    obtain c z where c: "close_browser env bs w = (c, z)" by fastforce
    have "v = z" using g b Inr d c by (auto simp: guarded_def bindE_def finallyE_def split: sum.splits)
    with close_browser_frame [OF c] u within_limits_run_body [OF d] s1 assms(2) show ?thesis
      by (simp add: same_but_world_def)
  qed
qed

section \<open>Planning\<close>

lemma plan_for_outcome:
  assumes s: "synced (o_session s) tid t" and r: "plan_for env tid t s = (r, u)"
  shows "o_state u = o_state s \<and> o_calls u = o_calls s \<and> fresh (o_session s) \<le> fresh (o_session u) \<and>
    approvals (work (o_session u)) = approvals (work (o_session s)) \<and>
    (case r of
      Inl e \<Rightarrow> synced (o_session u) tid t
    | Inr p \<Rightarrow> list_all valid_plan_step (plan_steps p) \<and>
        (\<exists>t'. synced (o_session u) tid t' \<and> t_state t' = t_state t \<and> cached_plan t' = Some p))"
proof (cases "cached_plan t")
  case (Some p)
  with r s show ?thesis
    by (auto simp: plan_for_def liftE_def validate_plan_def split: if_splits)
next
  case None
  let ?rid = "fresh (o_session s)"
  obtain x where x: "start_agent_run tid ''planner'' (o_session s) = (Inr ?rid, x)"
    "runs_only (o_session s) x" using start_agent_run_run by blast
  obtain q w where q: "env_planner env (t_instruction t) (o_world s) = (q, w)" by fastforce
  show ?thesis
  proof (cases q)
    case (Inl e)
    obtain y where y: "finish_agent_run ?rid Failed None (Some (exn_msg e)) x = (Inr (), y)" "runs_only x y"
      using finish_agent_run_run by blast
    with None r x q Inl have u: "r = Inl e" "u = s\<lparr>o_session := y, o_world := w\<rparr>"
      by (auto simp: plan_for_def new_plan_def bindE_def thenE_run catchE_def raiseE_def on_session_run on_world_def)
    note xy = runs_only_trans [OF x(2) y(2)]
    from u runs_onlyD [OF xy] synced_runs_only [OF s xy] show ?thesis by simp
  next
    case (Inr payload)
    obtain y where y: "finish_agent_run ?rid Success (Some (PlanOutput (pp_plan payload))) None x = (Inr (), y)"
      "runs_only x y" using finish_agent_run_run by blast
    note xy = runs_only_trans [OF x(2) y(2)]
    note yt = runs_onlyD [OF xy] synced_runs_only [OF s xy]
    let ?t = "t\<lparr>t_result := Some ((result_or_empty t)\<lparr>res_plan := Some (pp_plan payload)\<rparr>)\<rparr>"
    have "(r, u) = (if list_all valid_plan_step (plan_steps (pp_plan payload))
        then (Inr (pp_plan payload), s\<lparr>o_session := set_state y tid ?t, o_world := w\<rparr>)
        else (Inl schema_error, s\<lparr>o_session := y, o_world := w\<rparr>))"
      using None r x y q Inr
      by (auto simp: plan_for_def new_plan_def bindE_def thenE_run catchE_def retE_def liftE_def
          validate_plan_def on_session_run on_world_def session_ops modE_def set_state_def Let_def
          split: if_splits)
    with yt show ?thesis by (auto simp: cached_plan_def split: if_splits)
  qed
qed


section \<open>The whole run\<close>

definition planning_row :: "task_row \<Rightarrow> task_row" where
  "planning_row t = (if t_state t \<in> {CREATED, VALIDATING} then t\<lparr>t_state := PLANNING\<rparr> else t)"

lemma planning_path:
  "walk_path CREATED PLANNING = [VALIDATING, PLANNING]" "walk_path VALIDATING PLANNING = [PLANNING]"
  "task_path CREATED [VALIDATING, PLANNING]" "task_path VALIDATING [PLANNING]"
  by code_simp+

text \<open>The state in which planning starts.\<close>

definition begin_run :: "'w orch_env \<Rightarrow> uuid \<Rightarrow> task_row \<Rightarrow> 'w orch \<Rightarrow> 'w orch" where
  "begin_run env tid t s = s\<lparr>o_clock := Suc (o_clock s), o_state := new_state (env_clock env (o_clock s)),
     o_session := (if t_state t \<in> {CREATED, VALIDATING} then set_state (o_session s) tid (planning_row t)
                   else o_session s)\<rparr>"

definition with_plan :: "plan \<Rightarrow> 'w orch \<Rightarrow> 'w orch" where
  "with_plan p s = s\<lparr>o_state := (o_state s)\<lparr>os_plan := Some p\<rparr>\<rparr>"

lemma begin_run_synced: "synced (o_session s) tid t \<Longrightarrow> synced (o_session (begin_run env tid t s)) tid (planning_row t)"
  by (auto simp: begin_run_def planning_row_def)

lemma walk_to_planning:
  assumes "tget (tasks (work s)) tid = Some t" "t_state t \<in> {CREATED, VALIDATING}"
  shows "walk_to tid PLANNING s = (Inr (), set_state s tid (t\<lparr>t_state := PLANNING\<rparr>))"
  using assms(2) planning_path by (auto simp: walk_to_run [OF assms(1)] after_walk_def)

lemma run_eq:
  assumes "tget (tasks (work (o_session s))) tid = Some t"
  shows "run env tid s =
    (case plan_for env tid (planning_row t) (begin_run env tid t s) of
      (Inl e, v) \<Rightarrow> (Inl e, v)
    | (Inr p, v) \<Rightarrow> (case run_plan env tid (t_timeout_seconds t) p (with_plan p v) of
        (Inl e, u) \<Rightarrow> (Inl e, u)
      | (Inr _, u) \<Rightarrow> (Inr (o_state u), u)))"
proof -
  let ?s = "s\<lparr>o_clock := Suc (o_clock s), o_state := new_state (env_clock env (o_clock s))\<rparr>"
  have "(if t_state t \<in> {CREATED, VALIDATING}
        then thenE (on_session (walk_to tid PLANNING)) (on_session (get_task tid))
        else retE t) ?s = (Inr (planning_row t), begin_run env tid t s)"
    using walk_to_planning [OF assms]
    by (auto simp: begin_run_def planning_row_def thenE_run on_session_run get_task_run retE_def)
  then show ?thesis
    using assms
    by (simp add: run_def bindE_def thenE_run on_session_run get_task_run read_clock_def getE_def
        with_plan_def split: sum.splits prod.splits)
qed

text \<open>The ways a run ends, from a task row \<open>t\<close> in the state \<open>s\<close>.\<close>

definition run_returned :: "'w orch_env \<Rightarrow> uuid \<Rightarrow> 'w orch \<Rightarrow> orch_state \<Rightarrow> 'w orch \<Rightarrow> task_row \<Rightarrow> bool" where
  "run_returned env tid s st u t' = (st = o_state u \<and> within_limits (env_limits env) st \<and>
     (\<exists>p calls k. os_plan st = Some p \<and> list_all valid_plan_step (plan_steps p) \<and>
        calls_of tid (approved_actions_for tid (work (o_session s))) (plan_steps p) s u calls \<and>
        ended tid (approved_actions_for tid (work (o_session s))) (plan_steps p)
          ((new_state (env_clock env (o_clock s)))\<lparr>os_plan := Some p\<rparr>) u t' k \<and>
        (k = Finished \<longrightarrow> length calls = length (plan_steps p))))"

lemma calls_of_later:
  "calls_of tid a steps s u calls \<Longrightarrow> o_calls s0 = o_calls s \<Longrightarrow>
   fresh (o_session s0) \<le> fresh (o_session s) \<Longrightarrow> calls_of tid a steps s0 u calls"
  by (auto simp: calls_of_def calls_ok_def list_all_iff)

lemma within_new_state: "within_limits lims ((new_state c)\<lparr>os_plan := p\<rparr>)"
  by (simp add: within_limits_def new_state_def)

lemma planned_run_outcome:
  assumes t1: "synced (o_session v) tid t1" "list_all valid_plan_step (plan_steps p)" and q: "quiet_browser env"
    and v: "o_calls v = o_calls s" "fresh (o_session s) \<le> fresh (o_session v)"
      "approvals (work (o_session v)) = approvals (work (o_session s))"
      "o_state v = new_state (env_clock env (o_clock s))"
    and d: "run_plan env tid timeout p (with_plan p v) = (d, u)"
  shows "(\<exists>calls. calls_of tid (approved_actions_for tid (work (o_session s))) (plan_steps p) s u calls) \<and>
    (\<exists>t'. synced (o_session u) tid t' \<and>
      (case d of
        Inr _ \<Rightarrow> run_returned env tid s (o_state u) u t'
      | Inl e \<Rightarrow> t_state t' \<in> TERMINAL_STATES \<and> (closes_cleanly env \<longrightarrow> t_state t1 \<in> TERMINAL_STATES)))"
proof -
  let ?a = "approved_actions_for tid (work (o_session s))" and ?w = "with_plan p v"
  have w: "synced (o_session ?w) tid t1" "o_calls ?w = o_calls s" "fresh (o_session s) \<le> fresh (o_session ?w)"
    "?a = approved_actions_for tid (work (o_session ?w))"
    "o_state ?w = (new_state (env_clock env (o_clock s)))\<lparr>os_plan := Some p\<rparr>"
    using t1 v by (simp_all add: with_plan_def approved_actions_for_def)
  from run_plan_outcome [OF w(1) q d w(4)] obtain calls t' where k:
    "calls_of tid ?a (plan_steps p) ?w u calls" "synced (o_session u) tid t'"
    "case d of
      Inr _ \<Rightarrow> \<exists>k. ended tid ?a (plan_steps p) (o_state ?w) u t' k \<and>
        (k = Finished \<longrightarrow> length calls = length (plan_steps p))
    | Inl e \<Rightarrow> t_state t' \<in> TERMINAL_STATES \<and> (closes_cleanly env \<longrightarrow> t_state t1 \<in> TERMINAL_STATES)"
    by blast
  note calls = calls_of_later [OF k(1) w(2) [symmetric] w(3)]
  have "os_plan (o_state u) = Some p"
    using preservesD [OF preserves_run_plan _ d, of "Some p"] w(5) by (simp add: has_plan_def)
  moreover have "within_limits (env_limits env) (o_state u)"
    using within_limits_run_plan [OF d] w(5) within_new_state by simp
  ultimately have "run_returned env tid s (o_state u) u t'" if "d = Inr y" for y
    unfolding run_returned_def using k(3) calls that t1(2) w(5) by auto
  with calls k(2,3) show ?thesis by (auto split: sum.splits)
qed

lemma run_outcome:
  assumes s: "synced (o_session s) tid t" and q: "quiet_browser env" and r: "run env tid s = (r, u)"
  shows "\<exists>t'. synced (o_session u) tid t' \<and>
    (case r of
      Inr st \<Rightarrow> run_returned env tid s st u t'
    | Inl e \<Rightarrow> (\<exists>calls (p :: plan). calls_of tid (approved_actions_for tid (work (o_session s))) (plan_steps p) s u calls) \<and>
       ((\<exists>v. plan_for env tid (planning_row t) (begin_run env tid t s) = (Inl e, v) \<and>
           t' = planning_row t \<and> o_calls u = o_calls s) \<or>
        (t_state t' \<in> TERMINAL_STATES \<and> (closes_cleanly env \<longrightarrow> t_state t \<in> TERMINAL_STATES))))"
proof -
  let ?b = "begin_run env tid t s"
  let ?a = "approved_actions_for tid (work (o_session s))"
  have tg: "tget (tasks (work (o_session s))) tid = Some t" using s by (simp add: synced_def)
  obtain c v where c: "plan_for env tid (planning_row t) ?b = (c, v)" by fastforce
  note pl = plan_for_outcome [OF begin_run_synced [OF s] c]
  have b: "o_calls ?b = o_calls s" "fresh (o_session ?b) = fresh (o_session s)"
    "approvals (work (o_session ?b)) = approvals (work (o_session s))"
    "o_state ?b = new_state (env_clock env (o_clock s))"
    by (auto simp: begin_run_def)
  show ?thesis
  proof (cases c)
    case (Inl e)
    with r c run_eq [OF tg, of env] have "r = Inl e" "u = v" by auto
    with pl c Inl b have "synced (o_session u) tid (planning_row t)" "o_calls u = o_calls s"
      "calls_of tid ?a (plan_steps p) s u []" for p :: plan by (auto simp: calls_of_def)
    with \<open>r = Inl e\<close> \<open>u = v\<close> c Inl show ?thesis by auto
  next
    case (Inr p)
    with pl obtain t1 where t1: "synced (o_session v) tid t1" "t_state t1 = t_state (planning_row t)"
      "list_all valid_plan_step (plan_steps p)" by auto
    obtain d x where d: "run_plan env tid (t_timeout_seconds t) p (with_plan p v) = (d, x)" by fastforce
    have ru: "u = x" "r = (case d of Inl e \<Rightarrow> Inl e | Inr _ \<Rightarrow> Inr (o_state x))"
      using r c Inr d run_eq [OF tg, of env] by (auto split: sum.splits)
    have "t_state t1 \<in> TERMINAL_STATES \<longrightarrow> t_state t \<in> TERMINAL_STATES"
      using t1(2) by (auto simp: planning_row_def TERMINAL_STATES_def split: if_splits)
    with planned_run_outcome [OF t1(1,3) q _ _ _ _ d, of s] pl b ru show ?thesis
      by (fastforce split: sum.splits)
  qed
qed

end
