(* ===== verification/Core_Properties.thy ===== *)
theory Core_Properties
  imports Orchestrator_Outcomes
begin

text \<open>
  The properties of the core: the task state machine, the services over it, the tool
  engine, the rate limiter, the recovery policy and the runs of the orchestrator, each
  with an instance on which its hypotheses hold.
\<close>

section \<open>A small deployment for the instances\<close>

definition demo_step :: "string \<Rightarrow> string \<Rightarrow> bool \<Rightarrow> plan_step" where
  "demo_step n a q = \<lparr>ps_name = n, ps_agent = a, ps_description = ''do it'', ps_requires_approval = q\<rparr>"

definition demo_env :: "plan_step list \<Rightarrow> nat orch_env" where
  "demo_env steps = \<lparr>env_limits = default_limits,
     env_planner = (\<lambda>i w. (Inr \<lparr>pp_plan = \<lparr>plan_steps = steps\<rparr>, pp_model = None\<rparr>, w)),
     env_graphs = [''research'' \<mapsto> (\<lambda>th d bs w. (Inr [''found''], Suc w)),
                   ''content'' \<mapsto> (\<lambda>th d bs w. (Inl (app_error ToolError ''no'' []), Suc w))],
     env_clock = of_nat, env_has_browser = False, env_browser_start = retE (),
     env_browser_open = retE [], env_browser_close = (\<lambda>_. retE ()), env_browser_stop = retE (),
     env_cancelled = (\<lambda>_ _. False)\<rparr>"

definition demo_task :: "task_state \<Rightarrow> task_row" where
  "demo_task st = \<lparr>t_instruction = ''find it'', t_state = st, t_user_id = None, t_result = None,
     t_error = None, t_timeout_seconds = None, t_created_at = 0\<rparr>"

definition demo_db :: "task_state \<Rightarrow> db" where
  "demo_db st = empty_db\<lparr>tasks := [(1, demo_task st)]\<rparr>"

definition demo_orch :: "task_state \<Rightarrow> nat orch" where
  "demo_orch st = \<lparr>o_session = open_session (demo_db st) 7, o_state = new_state 0, o_clock = 0,
     o_world = 0, o_calls = []\<rparr>"

lemma demo_synced: "synced (o_session (demo_orch st)) 1 (demo_task st)"
  by (simp add: synced_def demo_orch_def demo_db_def open_session_def empty_db_def tget_def)

lemma demo_quiet: "quiet_browser (demo_env steps)" "closes_cleanly (demo_env steps)"
  by (simp_all add: quiet_browser_def quiet_def closes_cleanly_def demo_env_def close_browser_def
      retE_def split: option.splits)

lemma demo_plan: "t_state t = st \<Longrightarrow> cached_plan (demo_task st) = None"
  by (simp add: cached_plan_def demo_task_def)

section \<open>Runs of the orchestrator\<close>

lemma plan_for_Inl:
  assumes "plan_for env tid t s = (Inl e, u)"
  shows "(\<exists>p. cached_plan t = Some p \<and> \<not> list_all valid_plan_step (plan_steps p)) \<or>
    (\<exists>q w. env_planner env (t_instruction t) (o_world s) = (q, w) \<and>
      (\<forall>x. q = Inr x \<longrightarrow> \<not> list_all valid_plan_step (plan_steps (pp_plan x))))"
proof (cases "cached_plan t")
  case (Some p)
  with assms show ?thesis
    by (auto simp: plan_for_def liftE_def validate_plan_def split: if_splits)
next
  case None
  obtain q w where q: "env_planner env (t_instruction t) (o_world s) = (q, w)" by fastforce
  obtain x where x: "start_agent_run tid ''planner'' (o_session s) = (Inr (fresh (o_session s)), x)"
    using start_agent_run_run by blast
  have "\<not> list_all valid_plan_step (plan_steps (pp_plan y))" if y: "q = Inr y" for y
  proof -
    obtain z where "finish_agent_run (fresh (o_session s)) Success (Some (PlanOutput (pp_plan y))) None x
      = (Inr (), z)" using finish_agent_run_run by blast
    with assms None q x y show ?thesis
      by (auto simp: plan_for_def new_plan_def bindE_def thenE_run catchE_def retE_def liftE_def
          validate_plan_def on_session_run on_world_def session_ops modE_def split: if_splits)
  qed
  with q show ?thesis by blast
qed

definition plans_well :: "'w orch_env \<Rightarrow> bool" where
  "plans_well env = (\<forall>i w. \<exists>q w'. env_planner env i w = (Inr q, w') \<and>
     list_all valid_plan_step (plan_steps (pp_plan q)))"

lemma planning_row_simps [simp]:
  "cached_plan (planning_row t) = cached_plan t" "t_instruction (planning_row t) = t_instruction t"
  by (simp_all add: planning_row_def cached_plan_def)

definition resting :: "task_state set" where
  "resting = {COMPLETED, WAITING_FOR_APPROVAL, TIMED_OUT, FAILED}"

lemma ended_state: "ended tid a steps st u t k \<Longrightarrow> t_state t =
    (case k of Finished \<Rightarrow> COMPLETED | Paused \<Rightarrow> WAITING_FOR_APPROVAL | TimedOut \<Rightarrow> TIMED_OUT | Broke \<Rightarrow> FAILED)"
  by (cases k) (auto simp: good_end_def completed_row_def)


lemma demo_plans: "list_all valid_plan_step steps \<Longrightarrow> plans_well (demo_env steps)"
  by (simp add: plans_well_def demo_env_def)

lemma demo_step_valid:
  "valid_plan_step (demo_step ''a'' ''research'' q)" "valid_plan_step (demo_step ''b'' ''content'' q)"
  by (simp_all add: valid_plan_step_def demo_step_def STEP_KINDS_def)



text \<open>The calls of a run, whether it returns or raises.\<close>

lemma run_calls:
  assumes "synced (o_session s) tid t" "quiet_browser env" "run env tid s = (r, u)"
  shows "\<exists>calls steps. o_calls u = o_calls s @ calls \<and>
    calls_ok tid (approved_actions_for tid (work (o_session s))) steps
      (fresh (o_session s)) (fresh (o_session u)) calls \<and>
    (\<forall>st. r = Inr st \<longrightarrow> map_option plan_steps (os_plan st) = Some steps)"
proof (cases r)
  case (Inl e)
  with run_outcome [OF assms] show ?thesis unfolding calls_of_def by auto
next
  case (Inr st)
  with run_outcome [OF assms] obtain t' where "run_returned env tid s st u t'" by auto
  then obtain p calls where "os_plan st = Some p"
    "calls_of tid (approved_actions_for tid (work (o_session s))) (plan_steps p) s u calls"
    unfolding run_returned_def by blast
  with Inr show ?thesis unfolding calls_of_def by auto
qed

lemma approved_action_row:
  assumes "n \<in> approved_actions_for tid d"
  obtains k a where "(k, a) \<in> set (approvals d)" "a_task_id a = tid" "a_status a = Approved" "a_action a = n"
  using assms by (auto simp: approved_actions_for_def)

lemma calls_ok_permitted:
  "calls_ok tid A steps lo hi calls \<Longrightarrow> (th, step) \<in> set calls \<Longrightarrow> permitted A step"
  by (auto simp: calls_ok_def list_all_iff)

text \<open>
  C2. The approval gate: in every run, however it ends, a subgraph is invoked for a step
  that requires approval only if the task had an approved approval row for that step when
  the run began.
\<close>

theorem run_approval_gate:
  assumes "synced (o_session s) tid t" "quiet_browser env" "run env tid s = (r, u)"
    and "o_calls s = []" "(th, step) \<in> set (o_calls u)" "ps_requires_approval step"
  shows "\<exists>k a. (k, a) \<in> set (approvals (work (o_session s))) \<and> a_task_id a = tid \<and>
    a_status a = Approved \<and> a_action a = ps_name step"
proof -
  from run_calls [OF assms(1-3)] assms(4,5) have
    "permitted (approved_actions_for tid (work (o_session s))) step"
    by (auto dest: calls_ok_permitted)
  with assms(6) have "ps_name step \<in> approved_actions_for tid (work (o_session s))"
    by (simp add: permitted_def)
  then show ?thesis by (rule approved_action_row) blast
qed

definition demo_approval :: approval_row where
  "demo_approval = \<lparr>a_task_id = 1, a_action = ''a'', a_target = ''research'', a_risk_level = ''high'',
     a_reason = None, a_status = Approved, a_decided_by = None, a_created_at = 3\<rparr>"

definition demo_approved :: "nat orch" where
  "demo_approved = (demo_orch WAITING_FOR_APPROVAL)\<lparr>o_session :=
     open_session ((demo_db WAITING_FOR_APPROVAL)\<lparr>approvals := [(3, demo_approval)]\<rparr>) 7\<rparr>"

lemma demo_approved_run:
  "((1, ''a'', 8), demo_step ''a'' ''research'' True) \<in>
   set (o_calls (snd (run (demo_env [demo_step ''a'' ''research'' True]) 1 demo_approved)))"
  by code_simp

lemma demo_approved_synced: "synced (o_session demo_approved) 1 (demo_task WAITING_FOR_APPROVAL)"
  by (simp add: synced_def demo_approved_def demo_db_def open_session_def empty_db_def tget_def)

theorem run_approval_gate_witness:
  "\<exists>k a. (k, a) \<in> set (approvals (work (o_session demo_approved))) \<and> a_task_id a = 1 \<and>
    a_status a = Approved \<and> a_action a = ps_name (demo_step ''a'' ''research'' True)"
  by (rule run_approval_gate [OF demo_approved_synced demo_quiet(1) prod.collapse [symmetric] _ demo_approved_run])
    (simp_all add: demo_approved_def demo_orch_def demo_step_def)


lemma calls_ok_distinct_threads:
  "calls_ok tid A steps lo hi calls \<Longrightarrow> distinct (map fst calls)"
proof -
  assume "calls_ok tid A steps lo hi calls"
  then have "sorted_wrt (\<lambda>c d. thread_run c < thread_run d) calls" by (simp add: calls_ok_def)
  then show ?thesis
    by (induction calls) (auto simp: thread_run_def)
qed

text \<open>
  C3. Context quarantine: the subgraphs invoked by one run are an initial segment of the
  plan's steps, in the plan's order, and each runs on its own thread, named by the task,
  the step and a new agent run.
\<close>

theorem run_quarantine:
  assumes "synced (o_session s) tid t" "quiet_browser env" "run env tid s = (Inr st, u)"
    and "o_calls s = []" "os_plan st = Some p"
  shows "\<exists>n. map snd (o_calls u) = take n (plan_steps p) \<and> distinct (map fst (o_calls u)) \<and>
    (\<forall>(th, step) \<in> set (o_calls u). fst th = tid \<and> fst (snd th) = ps_name step \<and>
       fresh (o_session s) \<le> snd (snd th))"
proof -
  from run_calls [OF assms(1-3)] assms(4,5) have
    c: "calls_ok tid (approved_actions_for tid (work (o_session s))) (plan_steps p)
      (fresh (o_session s)) (fresh (o_session u)) (o_calls u)" by auto
  then have "\<forall>(th, step) \<in> set (o_calls u). fst th = tid \<and> fst (snd th) = ps_name step \<and>
      fresh (o_session s) \<le> snd (snd th)"
    by (fastforce simp: calls_ok_def list_all_iff thread_run_def)
  with c calls_ok_distinct_threads [OF c] show ?thesis
    by (auto simp: calls_ok_def intro!: exI [of _ "length (o_calls u)"])
qed

text \<open>A plan with a step that succeeds and one that fails, run from the start.\<close>

definition demo_steps :: "plan_step list" where
  "demo_steps = [demo_step ''a'' ''research'' False, demo_step ''b'' ''content'' False]"

definition demo_result :: "exn + orch_state" where
  "demo_result = fst (run (demo_env demo_steps) 1 (demo_orch CREATED))"

lemma demo_run: "case demo_result of Inl e \<Rightarrow> False | Inr st \<Rightarrow> os_plan st = Some \<lparr>plan_steps = demo_steps\<rparr>"
  by code_simp

lemma demo_run_Inr:
  obtains st u where "run (demo_env demo_steps) 1 (demo_orch CREATED) = (Inr st, u)"
    "os_plan st = Some \<lparr>plan_steps = demo_steps\<rparr>"
  using demo_run unfolding demo_result_def
  by (cases "run (demo_env demo_steps) 1 (demo_orch CREATED)") (auto split: sum.splits)

theorem run_quarantine_witness:
  "\<exists>st u n. run (demo_env demo_steps) 1 (demo_orch CREATED) = (Inr st, u) \<and>
    map snd (o_calls u) = take n demo_steps \<and> distinct (map fst (o_calls u))"
proof -
  obtain st u where r: "run (demo_env demo_steps) 1 (demo_orch CREATED) = (Inr st, u)"
    "os_plan st = Some \<lparr>plan_steps = demo_steps\<rparr>" by (rule demo_run_Inr)
  have "o_calls (demo_orch CREATED) = []" by (simp add: demo_orch_def)
  from run_quarantine [OF demo_synced demo_quiet(1) r(1) this r(2)] r(1) show ?thesis by auto
qed

text \<open>
  C9. Completion is earned: a run that returns with the task completed has invoked the
  subgraph of every step of the plan exactly once, in order, each successfully, and the
  committed result records these steps, their number and as many tool calls.
\<close>

theorem run_completed:
  assumes "synced (o_session s) tid t" "quiet_browser env" "run env tid s = (Inr st, u)"
    and "o_calls s = []" "tget (tasks (committed (o_session u))) tid = Some t'" "t_state t' = COMPLETED"
  shows "\<exists>p r. os_plan st = Some p \<and> map snd (o_calls u) = plan_steps p \<and> t_result t' = Some r \<and>
    res_steps r = Some (map (\<lambda>x. \<lparr>so_step = ps_name x, so_agent = ps_agent x, so_success = True\<rparr>) (plan_steps p)) \<and>
    res_iterations r = Some (length (plan_steps p)) \<and> res_tool_calls r = Some (length (plan_steps p))"
proof -
  from run_outcome [OF assms(1-3)] obtain x where x: "synced (o_session u) tid x"
    "run_returned env tid s st u x" by auto
  then have xt: "x = t'" using assms(5) by (simp add: synced_def)
  from x(2) obtain p calls k where p: "st = o_state u" "os_plan st = Some p"
    "calls_of tid (approved_actions_for tid (work (o_session s))) (plan_steps p) s u calls"
    "ended tid (approved_actions_for tid (work (o_session s))) (plan_steps p)
       ((new_state (env_clock env (o_clock s)))\<lparr>os_plan := Some p\<rparr>) u x k"
    "k = Finished \<longrightarrow> length calls = length (plan_steps p)"
    unfolding run_returned_def by blast
  have k: "k = Finished" using ended_state [OF p(4)] assms(6) xt by (cases k) auto
  have c: "o_calls u = calls" "map snd calls = take (length calls) (plan_steps p)"
    using p(3) assms(4) by (auto simp: calls_of_def calls_ok_def)
  have "good_end tid (plan_steps p) ((new_state (env_clock env (o_clock s)))\<lparr>os_plan := Some p\<rparr>) u t'"
    using p(4) k xt by simp
  then show ?thesis
    using c k p xt by (auto simp: good_end_def completed_row_def all_done_def new_state_def)
qed

lemma demo_completed:
  "case run (demo_env [demo_step ''a'' ''research'' False]) 1 (demo_orch CREATED) of
    (Inl e, u) \<Rightarrow> False
  | (Inr st, u) \<Rightarrow> task_at (committed (o_session u)) 1 = Some COMPLETED"
  by code_simp

theorem run_completed_witness:
  "\<exists>st u p. run (demo_env [demo_step ''a'' ''research'' False]) 1 (demo_orch CREATED) = (Inr st, u) \<and>
    os_plan st = Some p \<and> map snd (o_calls u) = plan_steps p"
proof -
  obtain st u t' where r: "run (demo_env [demo_step ''a'' ''research'' False]) 1 (demo_orch CREATED) = (Inr st, u)"
    "tget (tasks (committed (o_session u))) 1 = Some t'" "t_state t' = COMPLETED"
    using demo_completed by (auto simp: task_at_def split: prod.splits sum.splits)
  have "o_calls (demo_orch CREATED) = []" by (simp add: demo_orch_def)
  from run_completed [OF demo_synced demo_quiet(1) r(1) this r(2,3)] r(1) show ?thesis by auto
qed

text \<open>
  C10. A run that pauses has asked: if it returns with the task waiting for approval, a
  pending approval row of risk level high is committed for a step of the plan that needs
  approval and has none.
\<close>

theorem run_paused:
  assumes "synced (o_session s) tid t" "quiet_browser env" "run env tid s = (Inr st, u)"
    and "task_at (committed (o_session u)) tid = Some WAITING_FOR_APPROVAL" "os_plan st = Some p"
  shows "\<exists>step aid a. step \<in> set (plan_steps p) \<and> ps_requires_approval step \<and>
    ps_name step \<notin> approved_actions_for tid (work (o_session s)) \<and>
    tget (approvals (committed (o_session u))) aid = Some a \<and> a_task_id a = tid \<and>
    a_action a = ps_name step \<and> a_status a = Pending \<and> a_risk_level a = ''high''"
proof -
  from run_outcome [OF assms(1-3)] obtain x where x: "synced (o_session u) tid x"
    "run_returned env tid s st u x" by auto
  from x(2) obtain q calls k where p: "os_plan st = Some q"
    "ended tid (approved_actions_for tid (work (o_session s))) (plan_steps q)
       ((new_state (env_clock env (o_clock s)))\<lparr>os_plan := Some q\<rparr>) u x k"
    unfolding run_returned_def by blast
  have "t_state x = WAITING_FOR_APPROVAL" using x(1) assms(4) by (auto simp: synced_def task_at_def)
  then have "k = Paused" using ended_state [OF p(2)] by (cases k) auto
  with p assms(5) show ?thesis by (fastforce simp: gate_pending_def gate_row_def permitted_def)
qed

lemma demo_paused:
  "case run (demo_env [demo_step ''a'' ''research'' True]) 1 (demo_orch CREATED) of
    (Inl e, u) \<Rightarrow> False
  | (Inr st, u) \<Rightarrow> task_at (committed (o_session u)) 1 = Some WAITING_FOR_APPROVAL \<and>
      os_plan st = Some \<lparr>plan_steps = [demo_step ''a'' ''research'' True]\<rparr>"
  by code_simp

theorem run_paused_witness:
  "\<exists>st u aid a. run (demo_env [demo_step ''a'' ''research'' True]) 1 (demo_orch CREATED) = (Inr st, u) \<and>
    tget (approvals (committed (o_session u))) aid = Some a \<and> a_action a = ''a''"
proof -
  obtain st u where r: "run (demo_env [demo_step ''a'' ''research'' True]) 1 (demo_orch CREATED) = (Inr st, u)"
    "task_at (committed (o_session u)) 1 = Some WAITING_FOR_APPROVAL"
    "os_plan st = Some \<lparr>plan_steps = [demo_step ''a'' ''research'' True]\<rparr>"
    using demo_paused by (auto split: prod.splits sum.splits)
  from run_paused [OF demo_synced demo_quiet(1) r] r(1) show ?thesis by (auto simp: demo_step_def)
qed




lemma plan_for_planner_raises:
  assumes "cached_plan t = None" "env_planner env (t_instruction t) (o_world s) = (Inl e, w)"
  shows "\<exists>v. plan_for env tid t s = (Inl e, v)"
proof -
  obtain x where x: "start_agent_run tid ''planner'' (o_session s) = (Inr (fresh (o_session s)), x)"
    using start_agent_run_run by blast
  obtain y where "finish_agent_run (fresh (o_session s)) Failed None (Some (exn_msg e)) x = (Inr (), y)"
    using finish_agent_run_run by blast
  with x assms show ?thesis
    by (auto simp: plan_for_def new_plan_def bindE_def thenE_run catchE_def raiseE_def on_session_run
        on_world_def)
qed

text \<open>
  A planner that raises strands its task: the exception leaves \<open>run\<close>, no step is
  invoked, and the task stays committed in the state planning, without an error recorded.
\<close>

theorem run_planner_failure:
  assumes "synced (o_session s) tid t" "quiet_browser env" "t_state t \<in> {CREATED, VALIDATING}"
    "cached_plan t = None" "\<And>w. fst (env_planner env (t_instruction t) w) = Inl e"
  shows "\<exists>u t'. run env tid s = (Inl e, u) \<and> o_calls u = o_calls s \<and>
    tget (tasks (committed (o_session u))) tid = Some t' \<and> t_state t' = PLANNING \<and> t_error t' = t_error t"
proof -
  let ?b = "begin_run env tid t s"
  have tg: "tget (tasks (work (o_session s))) tid = Some t" using assms(1) by (simp add: synced_def)
  obtain q w where q: "env_planner env (t_instruction (planning_row t)) (o_world ?b) = (q, w)" by fastforce
  then have "q = Inl e" using assms(5) [of "o_world ?b"] by simp
  with q assms(4) obtain v where v: "plan_for env tid (planning_row t) ?b = (Inl e, v)"
    using plan_for_planner_raises [of "planning_row t" env ?b e w tid] by auto
  note pl = plan_for_outcome [OF begin_run_synced [OF assms(1)] v]
  have "run env tid s = (Inl e, v)" using run_eq [OF tg, of env] v by simp
  moreover have "o_calls v = o_calls s" using pl by (simp add: begin_run_def)
  moreover have "tget (tasks (committed (o_session v))) tid = Some (planning_row t)"
    using pl by (simp add: synced_def)
  moreover have "t_state (planning_row t) = PLANNING" "t_error (planning_row t) = t_error t"
    using assms(3) by (simp_all add: planning_row_def)
  ultimately show ?thesis by blast
qed

definition broken_planner :: "nat orch_env" where
  "broken_planner = (demo_env [])\<lparr>env_planner := (\<lambda>i w. (Inl (py_error (PyOther ''ServiceUnavailable'') '''' []), w))\<rparr>"

theorem run_planner_failure_witness:
  "\<exists>u t'. run broken_planner 1 (demo_orch CREATED) = (Inl (py_error (PyOther ''ServiceUnavailable'') '''' []), u) \<and>
    o_calls u = [] \<and> tget (tasks (committed (o_session u))) 1 = Some t' \<and> t_state t' = PLANNING \<and>
    t_error t' = None"
proof -
  have "quiet_browser broken_planner"
    using demo_quiet(1) [of "[]"] by (simp add: broken_planner_def quiet_browser_def)
  from run_planner_failure [OF demo_synced this, of CREATED] show ?thesis
    by (auto simp: demo_task_def cached_plan_def broken_planner_def demo_orch_def)
qed

text \<open>
  A step is never retried: the subgraph of a step is invoked at most once, a result
  that is returned is a success, and a failure raises an error that is not an escalation,
  for every retry limit.
\<close>

theorem run_step_not_retried:
  assumes "run_step_with_recovery env tid timeout step bs n s = (r, u)"
  shows "length (o_calls u) \<le> Suc (length (o_calls s)) \<and>
    os_tool_call_count (o_state u) \<le> Suc (os_tool_call_count (o_state s)) \<and>
    (case r of Inr x \<Rightarrow> ag_success x | Inl e \<Rightarrow> \<not> is_app_instance e ApprovalRequiredError)"
  using assms by (cases rule: run_step_cases)
    (auto simp: count_tool_call_def dest: step_errors_not_approval)

theorem run_step_not_retried_witness:
  "\<exists>r u. run_step_with_recovery (demo_env []) 1 None (demo_step ''b'' ''content'' False) None 0 (demo_orch EXECUTING)
      = (r, u) \<and> length (o_calls u) \<le> 1"
proof -
  obtain r u where r: "run_step_with_recovery (demo_env []) 1 None (demo_step ''b'' ''content'' False) None 0
    (demo_orch EXECUTING) = (r, u)" by fastforce
  from run_step_not_retried [OF r] r show ?thesis by (simp add: demo_orch_def)
qed

end
