(* ===== verification/Service_Properties.thy ===== *)
theory Service_Properties
  imports Agents
begin

text \<open>
  The properties of the task state machine, of the services and routes over it, of the
  tool engine with its rate limiter, and of the recovery and planning policies.
\<close>

section \<open>State machine and services\<close>

definition small_task :: "task_state \<Rightarrow> task_row" where
  "small_task st = \<lparr>t_instruction = ''go'', t_state = st, t_user_id = None, t_result = None,
     t_error = None, t_timeout_seconds = None, t_created_at = 0\<rparr>"

definition small_approval :: "approval_status \<Rightarrow> approval_row" where
  "small_approval st = \<lparr>a_task_id = 1, a_action = ''post'', a_target = ''social'', a_risk_level = ''high'',
     a_reason = None, a_status = st, a_decided_by = None, a_created_at = 2\<rparr>"

definition small_session :: "task_state \<Rightarrow> session" where
  "small_session st = open_session (empty_db\<lparr>tasks := [(1, small_task st)],
     approvals := [(2, small_approval Pending)]\<rparr>) 5"

lemma small_session_simps [simp]:
  "tget (tasks (work (small_session st))) 1 = Some (small_task st)"
  "tget (tasks (work (small_session st))) (Suc 0) = Some (small_task st)"
  "approvals (work (small_session st)) = [(2, small_approval Pending)]"
  "committed (small_session st) = work (small_session st)"
  "task_at (work (small_session st)) 1 = Some st" "task_at (work (small_session st)) (Suc 0) = Some st"
  by (simp_all add: small_session_def open_session_def empty_db_def tget_def task_at_def small_task_def)

lemma small_clean: "clean (small_session st)"
  by (simp add: clean_def small_session_def open_session_def empty_db_def tids_def)

text \<open>
  C5. The services refine the state machine: whatever requests the services handle, and
  whichever of them fail, the committed state of a task afterwards is one that the machine
  can reach from its state before.
\<close>

theorem services_refine_machine:
  assumes "clean s" "task_at (committed s) tid = Some st"
  shows "\<exists>st'. task_at (committed (serve_all cs s)) tid = Some st' \<and> task_reach st st'"
  using serve_all_reach [OF assms] .

theorem services_refine_machine_witness:
  "\<exists>st'. task_at (committed (serve_all [Transition 1 COMPLETED, Cancel 1] (small_session PLANNING))) 1 = Some st' \<and>
    task_reach PLANNING st'"
  by (rule services_refine_machine [OF small_clean]) simp

text \<open>
  A task that was created and is completed has passed through validation of its
  result, execution and verification.
\<close>

lemma executing_needs_gate:
  "task_path s ps \<Longrightarrow> EXECUTING \<in> set ps \<Longrightarrow> s \<in> early_states \<Longrightarrow> VALIDATING_RESULT \<in> set ps"
  by (rule ccontr) (use path_gate [of s ps] in \<open>auto simp: early_states_def\<close>)

theorem completed_path:
  assumes "task_path CREATED ps" "COMPLETED \<in> set ps"
  shows "VERIFYING \<in> set ps \<and> EXECUTING \<in> set ps \<and> VALIDATING_RESULT \<in> set ps"
proof -
  have v: "VERIFYING \<in> set ps" using completed_needs_verifying [OF assms] by simp
  then have e: "EXECUTING \<in> set ps" using verifying_needs_executing [OF assms(1)] by simp
  then have "VALIDATING_RESULT \<in> set ps"
    by (rule executing_needs_gate [OF assms(1)]) (simp add: early_states_def)
  with v e show ?thesis by simp
qed

theorem completed_path_witness:
  "VERIFYING \<in> set [VALIDATING, PLANNING, DRAFTING, VALIDATING_RESULT, EXECUTING, VERIFYING, COMPLETED]"
  by (rule completed_path [THEN conjunct1]) (simp_all add: state_table_defs)

text \<open>
  The states from which a task can still complete are exactly those that are neither
  failed, cancelled, timed out nor blocked; in particular a blocked task, which is not
  terminal, can never complete.
\<close>

theorem completable_states: "task_reach s COMPLETED \<longleftrightarrow> s \<notin> {FAILED, CANCELLED, TIMED_OUT, BLOCKED}"
  by (rule can_complete_iff)

text \<open>
  A service method that raises has committed nothing: the database after the request
  is the one before it.
\<close>

theorem failed_call_commits_nothing:
  assumes "clean s" "call_service c s = (Inl e, u)"
  shows "close_session u = committed s"
  using call_service_Inl [OF assms] by (simp add: close_session_def)

definition small_request :: approval_request where
  "small_request = \<lparr>rq_action = ''post'', rq_target = ''social'', rq_reason = None, rq_risk_level = ''high''\<rparr>"

lemma small_failed:
  "case call_service (CreateApproval 1 small_request) (small_session PLANNING) of
    (Inl e, u) \<Rightarrow> work u \<noteq> committed u | (Inr x, u) \<Rightarrow> False"
  by code_simp

theorem failed_call_commits_nothing_witness:
  "\<exists>e u. call_service (CreateApproval 1 small_request) (small_session PLANNING) = (Inl e, u) \<and>
    close_session u = committed (small_session PLANNING) \<and> work u \<noteq> committed u"
proof -
  obtain e u where u: "call_service (CreateApproval 1 small_request) (small_session PLANNING) = (Inl e, u)"
    "work u \<noteq> committed u"
    using raised_outcome [OF small_failed] by blast
  from failed_call_commits_nothing [OF small_clean u(1)] u show ?thesis
    by (intro exI conjI)
qed

section \<open>Deciding an approval\<close>

lemma pending_query_Some:
  assumes "pending_query tid t = Some (k, a)"
  shows "(k, a) \<in> set t \<and> a_task_id a = tid \<and> a_status a = Pending \<and>
    (\<forall>(j, b) \<in> set t. a_task_id b = tid \<and> a_status b = Pending \<longrightarrow> a_created_at b \<le> a_created_at a)"
proof -
  let ?P = "\<lambda>(k, a). a_task_id a = tid \<and> a_status a = Pending"
  let ?f = "\<lambda>(k :: nat, a). - int (a_created_at a)"
  from assms obtain rest where r: "sort_key ?f (filter ?P t) = (k, a) # rest"
    by (auto simp: pending_query_def split: list.splits)
  have st: "set ((k, a) # rest) = set (filter ?P t)" unfolding r [symmetric] by (rule set_sort)
  then have m: "(k, a) \<in> set (filter ?P t)" by auto
  have "sorted (map ?f ((k, a) # rest))" unfolding r [symmetric] by (rule sorted_sort_key)
  then have "?f x \<ge> ?f (k, a)" if "x \<in> set ((k, a) # rest)" for x using that by auto
  with st m show ?thesis by fastforce
qed

text \<open>
  C21. Deciding through the route settles the newest pending approval of the task and
  nothing else: its row becomes approved or rejected, the task moves to executing or
  cancelled, every other approval and task is as before, and all of it is committed.
\<close>

theorem decide_route_effect:
  assumes "decide_approval_route tid d s = (Inr a', u)" "distinct (map fst (approvals (work s)))"
  shows "\<exists>aid a t. tget (approvals (work s)) aid = Some a \<and> a_task_id a = tid \<and> a_status a = Pending \<and>
    (\<forall>(j, b) \<in> set (approvals (work s)). a_task_id b = tid \<and> a_status b = Pending \<longrightarrow>
       a_created_at b \<le> a_created_at a) \<and>
    a_status a' = (if dec_approved d then Approved else Rejected) \<and>
    (\<forall>j. tget (approvals (committed u)) j = (if j = aid then Some a' else tget (approvals (work s)) j)) \<and>
    tget (tasks (work s)) tid = Some t \<and>
    (\<forall>j. tget (tasks (committed u)) j = (if j = tid
       then Some (t\<lparr>t_state := (if dec_approved d then EXECUTING else CANCELLED)\<rparr>)
       else tget (tasks (work s)) j))"
proof -
  from assms(1) obtain aid a where q: "pending_query tid (approvals (work s)) = Some (aid, a)"
    "decide_approval aid d s = (Inr a', u)"
    by (auto simp: decide_approval_route_def get_pending_for_task_def op_defs split: option.splits)
  note p = pending_query_Some [OF q(1)]
  with assms(2) have t: "tget (approvals (work s)) aid = Some a" by (simp add: tget_def)
  obtain r where r: "tget (tasks (work s)) tid = Some r"
    "a' = a\<lparr>a_status := (if dec_approved d then Approved else Rejected), a_decided_by := dec_decided_by d\<rparr>"
    "work u = (work s)\<lparr>approvals := tput aid a' (approvals (work s)),
       tasks := tput tid (r\<lparr>t_state := (if dec_approved d then EXECUTING else CANCELLED)\<rparr>) (tasks (work s))\<rparr>"
    "committed u = work u"
    by (rule decide_approval_Inr [OF q(2)], rule that) (use t p in \<open>simp_all\<close>)
  show ?thesis
    by (intro exI [of _ aid] exI [of _ a] exI [of _ r]) (use p t r in simp)
qed

definition approve :: approval_decision where
  "approve = \<lparr>dec_approved = True, dec_decided_by = Some ''ops''\<rparr>"

lemma small_decide:
  "case decide_approval_route 1 approve (small_session WAITING_FOR_APPROVAL) of
    (Inl e, u) \<Rightarrow> False | (Inr a', u) \<Rightarrow> True"
  by code_simp

theorem decide_route_effect_witness:
  "\<exists>a' u. decide_approval_route 1 approve (small_session WAITING_FOR_APPROVAL) = (Inr a', u) \<and>
    task_at (committed u) 1 = Some EXECUTING"
proof -
  obtain a' u where d: "decide_approval_route 1 approve (small_session WAITING_FOR_APPROVAL) = (Inr a', u)"
    using returned_outcome [OF small_decide] by blast
  from decide_route_effect [OF d] d show ?thesis
    by (auto simp: task_at_def approve_def)
qed


section \<open>The tool engine\<close>

text \<open>A retrier that keeps tenacity's contract, and a registry with a high-risk tool.\<close>

fun sample_retry :: "('s, 'o) retrier" where
  "sample_retry 0 p m s = m s"
| "sample_retry (Suc n) p m s = (case m s of
      (Inr x, t) \<Rightarrow> (Inr x, t)
    | (Inl e, t) \<Rightarrow> if \<not> p e then (Inl e, t)
        else if n = 0 then (Inl (py_error TenacityRetryError ''{}'' [AMsg (exn_msg e)]), t)
        else sample_retry n p m t)"

lemma sample_retry_contract: "tenacity_contract sample_retry"
  unfolding tenacity_contract_def
proof (intro allI impI)
  fix n :: nat and p m s assume "0 < n"
  then obtain k where "n = Suc k" by (cases n) auto
  then show "sample_retry n p m s = (case m s of
      (Inr x, t) \<Rightarrow> (Inr x, t)
    | (Inl e, t) \<Rightarrow> if \<not> p e then (Inl e, t)
        else if n = 1 then (Inl (py_error TenacityRetryError ''{}'' [AMsg (exn_msg e)]), t)
        else sample_retry (n - 1) p m t)" by (simp split: prod.splits sum.splits)
qed

definition sample_tool :: "string \<Rightarrow> risk_level \<Rightarrow> (nat, nat, nat) tool" where
  "sample_tool n r = \<lparr>tool_name = n, tool_permissions = perms r False,
     tool_execute = (\<lambda>i w. (Inr (i + w), Suc w))\<rparr>"

definition sample_registry :: "(nat, nat, nat) registry" where
  "sample_registry = register (sample_tool ''safe'' LOW) (register (sample_tool ''wipe'' HIGH) [])"

definition sample_engine :: "(nat, nat, nat) engine" where
  "sample_engine = \<lparr>eng_has_session = True, eng_limiter = \<lparr>rl_rpm = 60, rl_refill_rate = 1, rl_max_tokens = 60,
     rl_tokens = Map.empty, rl_last_refill = Map.empty\<rparr>, eng_calls = [], eng_fresh = 4, eng_clock = 0, eng_world = 0\<rparr>"

definition sample_context :: "string set \<Rightarrow> execution_context option" where
  "sample_context ok = Some \<lparr>ctx_agent_run_id = Some 9, ctx_authenticated = False, ctx_approved_actions = ok\<rparr>"

lemma sample_lookup:
  "registry_get sample_registry ''safe'' = Inr (sample_tool ''safe'' LOW)"
  "registry_get sample_registry ''wipe'' = Inr (sample_tool ''wipe'' HIGH)"
  by (simp_all add: sample_registry_def sample_tool_def)

lemma sample_engine_simps:
  "eng_fresh sample_engine = 4" "eng_world sample_engine = 0"
  by (simp_all add: sample_engine_def)

lemma sample_token: "token_granted of_nat n sample_engine"
  by (simp add: token_granted_def sample_engine_def limiter_defs)

text \<open>
  C6. Nothing acts unapproved: if the execution of a tool changed anything outside the
  engine, then the tool is registered, it had the authentication it asks for, and, where
  it is high-risk or asks for approval, its name was among the approved actions of the
  context.
\<close>

theorem execute_gate:
  assumes "eng_world (snd (execute rt clk reg n inp c s)) \<noteq> eng_world s"
  shows "\<exists>t. registry_get reg n = Inr t \<and>
    (needs_approval (tool_permissions t) \<longrightarrow> tool_name t \<in> ctx_approved_actions (ctx_of c)) \<and>
    (tp_requires_authentication (tool_permissions t) \<longrightarrow> ctx_authenticated (ctx_of c)) \<and>
    token_granted clk n s"
proof (cases rule: execute_cases [of reg n rt clk inp c s])
  case (limited t)
  with assms show ?thesis by (simp add: after_token_def)
next
  case (granted t row s1)
  then show ?thesis using enforce_permissions_Inr_iff [of t "ctx_of c"] by blast
qed (use assms in simp_all)

lemma sample_executes:
  "eng_world (snd (execute sample_retry of_nat sample_registry ''wipe'' 2 (sample_context {''wipe''}) sample_engine)) = 1"
  by code_simp

theorem execute_gate_witness:
  "\<exists>t. registry_get sample_registry ''wipe'' = Inr t \<and>
    (needs_approval (tool_permissions t) \<longrightarrow> tool_name t \<in> {''wipe''})"
proof -
  have "eng_world (snd (execute sample_retry of_nat sample_registry ''wipe'' 2 (sample_context {''wipe''}) sample_engine))
    \<noteq> eng_world sample_engine" unfolding sample_executes by (simp add: sample_engine_def)
  from execute_gate [OF this] show ?thesis by (auto simp: sample_context_def)
qed

text \<open>
  What a call of the engine can raise: a lookup error, a permission error, a rate
  limit error or a tool error, and nothing else.
\<close>

theorem execute_errors:
  assumes "execute rt clk reg n inp c s = (Inl e, u)"
  shows "exn_class e \<in> App ` {ValidationError, AuthenticationError, ApprovalRequiredError, RateLimitError, ToolError}"
proof (cases rule: execute_cases [of reg n rt clk inp c s])
  case (unknown x)
  with assms show ?thesis by (auto simp: registry_get_def split: option.splits)
next
  case (denied t x)
  with assms enforce_permissions_Inl_class [of t "ctx_of c" x] show ?thesis by auto
next
  case (limited t)
  with assms show ?thesis by auto
next
  case (granted t row s1)
  from execute_error_is_tool_error [OF granted(1-3) assms] show ?thesis
    by (auto simp: is_app_instance_def split: exn_class.splits)
qed

theorem execute_errors_witness:
  "\<exists>e u. execute sample_retry of_nat sample_registry ''wipe'' 2 (sample_context {}) sample_engine = (Inl e, u) \<and>
    exn_class e = App ApprovalRequiredError \<and>
    exn_class e \<in> App ` {ValidationError, AuthenticationError, ApprovalRequiredError, RateLimitError, ToolError}"
proof -
  have "execute sample_retry of_nat sample_registry ''wipe'' 2 (sample_context {}) sample_engine =
    (Inl (app_error ApprovalRequiredError ''Tool {} requires human approval before execution'' [AStr ''wipe'']),
     sample_engine)"
    by (rule execute_denied [OF sample_lookup(2)])
      (simp add: sample_context_def enforce_permissions_def sample_tool_def perms_def)
  from execute_errors [OF this] this show ?thesis by auto
qed

text \<open>
  Bounded retries: under tenacity's contract an admitted call runs the tool's body at
  least once and at most three times, and exactly once unless the first attempt raised a
  retryable error.
\<close>

theorem execute_attempts:
  assumes "tenacity_contract rt" "registry_get reg n = Inr t"
    "enforce_permissions t (ctx_of c) = Inr ()" "token_granted clk n s"
  shows "\<exists>k. 1 \<le> k \<and> k \<le> 3 \<and>
    eng_world (snd (execute rt clk reg n inp c s)) = ((\<lambda>w. snd (tool_execute t inp w)) ^^ k) (eng_world s) \<and>
    ((\<forall>e. fst (tool_execute t inp (eng_world s)) = Inl e \<longrightarrow> \<not> is_retryable_error e) \<longrightarrow> k = 1)"
  by (rule execute_world [OF assms])

lemma sample_allowed: "enforce_permissions (sample_tool ''safe'' LOW) (ctx_of (sample_context ok)) = Inr ()"
  by (simp add: enforce_permissions_def sample_tool_def perms_def)

theorem execute_attempts_witness:
  "\<exists>k \<le> 3. eng_world (snd (execute sample_retry of_nat sample_registry ''safe'' 2 (sample_context {}) sample_engine))
    = (Suc ^^ k) 0"
  using execute_attempts [OF sample_retry_contract sample_lookup(1) sample_allowed sample_token, of 2]
  by (auto simp: sample_tool_def sample_engine_simps)




section \<open>The rate limiter\<close>




definition drained :: rate_limiter where
  "drained = \<lparr>rl_rpm = 1, rl_refill_rate = 1 / 60, rl_max_tokens = 1,
     rl_tokens = [''s'' \<mapsto> 0], rl_last_refill = [''s'' \<mapsto> 0]\<rparr>"


section \<open>Recovery and planning\<close>

text \<open>
  When the recovery retries: exactly when it is given an exception of the hierarchy,
  raised by its class, that is transient (tool, browser, model, research or rate limit) and
  the retries are not used up. A string or a missing error is never retried, and the
  back-off never exceeds thirty seconds.
\<close>

theorem recovery_retries:
  "(rd_action (recovery_decide lims (ErrorExn (app_error k m as)) n) = RETRY \<longleftrightarrow>
      k \<in> {ToolError, BrowserError, ModelError, ResearchError, RateLimitError} \<and> int n < max_retries lims) \<and>
   rd_action (recovery_decide lims (ErrorText txt) n) = FAIL \<and>
   rd_action (recovery_decide lims NoError n) = FAIL \<and>
   rd_backoff_seconds (recovery_decide lims err n) \<le> 30"
  using classify_retry_raised [of lims k m as n] backoff_bounded [of lims err n]
  by (simp add: recovery_decide_def classify_text classify_none Let_def)

text \<open>
  C37. What the planner returns: a blank instruction gives the empty plan without a model
  call; otherwise, if the model's typed answers keep the schema, every plan it returns
  consists of valid steps for the seven agents, made with the reasoning model.
\<close>

theorem planner_returns_valid:
  assumes "\<And>m i w p w'. ainvoke m i w = (Inr (TypedPlan p), w') \<Longrightarrow> list_all valid_plan_step (plan_steps p)"
    and "planner_decide providers settings ainvoke ins w = (Inr payload, w')"
  shows "list_all valid_plan_step (plan_steps (pp_plan payload)) \<and>
    (if py_strip ins = [] then plan_steps (pp_plan payload) = [] \<and> w' = w
     else \<exists>name. pp_model payload = Some (REASONING, name))"
proof (cases "py_strip ins = []")
  case True
  with assms(2) show ?thesis by (auto simp: planner_decide_def retE_def)
next
  case False
  with assms(2) False show ?thesis
    by (auto simp: planner_decide_def Let_def bindE_def liftE_def catchE_def retE_def raiseE_def
        validate_plan_def planner_class [simplified] split: sum.splits prod.splits if_splits plan_reply.splits
        dest: assms(1))
qed


theorem planner_returns_valid_witness:
  "list_all valid_plan_step (plan_steps (pp_plan \<lparr>pp_plan = \<lparr>plan_steps = [\<lparr>ps_name = ''research'', ps_agent = ''research'',
     ps_description = ''go'', ps_requires_approval = False\<rparr>]\<rparr>, pp_model = Some (REASONING, ''gpt-4o'')\<rparr>))"
proof -
  let ?ai = "\<lambda>(m :: string) (i :: string). raiseE (py_error PyNotImplementedError '''' []) :: (nat, plan_reply) op"
  have "planner_decide [(''litellm'', \<lambda>n. n)] default_routing_settings ?ai ''go'' 0 =
    (Inr \<lparr>pp_plan = \<lparr>plan_steps = [\<lparr>ps_name = ''research'', ps_agent = ''research'',
     ps_description = ''go'', ps_requires_approval = False\<rparr>]\<rparr>, pp_model = Some (REASONING, ''gpt-4o'')\<rparr>, 0)"
    by code_simp
  from planner_returns_valid [OF _ this] show ?thesis by (simp add: raiseE_def)
qed

end
