(* ===== verification/Task_Worker.thy ===== *)
theory Task_Worker
  imports Orchestrator_Outcomes
begin

text \<open>
  \<open>app/workers/task_worker.py\<close>: the worker that polls the database for created tasks and
  runs the orchestrator on each of them. \<open>asyncio\<close> interleaves the poll loop with the
  running tasks; the model interleaves whole polls, whole runs of a task and requests of
  the services as steps of a transition relation. \<open>wk_started\<close> records which tasks were
  started, in order; no definition of the program reads it.
\<close>

section \<open>Operations\<close>

record 'w worker =
  wk_running :: bool
  wk_active :: "uuid list"
  wk_db :: db
  wk_fresh :: nat
  wk_clock :: nat
  wk_world :: 'w
  wk_started :: "uuid list"

text \<open>The query of \<open>_poll_once\<close>: the oldest created tasks, at most the concurrency limit.\<close>

definition poll_query :: "nat \<Rightarrow> task_row table \<Rightarrow> uuid list" where
  "poll_query limit t =
     map fst (take limit (sort_key (\<lambda>(k, r). t_created_at r) (filter (\<lambda>(k, r). t_state r = CREATED) t)))"

fun claim_tasks :: "nat \<Rightarrow> uuid list \<Rightarrow> uuid list \<Rightarrow> uuid list" where
  "claim_tasks limit active [] = []"
| "claim_tasks limit active (k # ks) =
     (if k \<in> set active then claim_tasks limit active ks
      else if limit \<le> length active then []
      else k # claim_tasks limit (k # active) ks)"

definition poll_once :: "nat \<Rightarrow> 'w worker \<Rightarrow> 'w worker" where
  "poll_once limit s =
     (let new = claim_tasks limit (wk_active s) (poll_query limit (tasks (wk_db s)))
      in s\<lparr>wk_active := rev new @ wk_active s, wk_started := wk_started s @ new\<rparr>)"

text \<open>
  \<open>_run_task\<close>: a session of its own, the orchestrator without subgraphs and without a
  browser, every exception logged and dropped, and the task no longer active.
\<close>

definition worker_env :: "'w orch_env \<Rightarrow> 'w orch_env" where
  "worker_env env = env\<lparr>env_limits := default_limits, env_graphs := Map.empty, env_has_browser := False,
     env_cancelled := (\<lambda>_ _. False)\<rparr>"

definition task_orch :: "'w worker \<Rightarrow> 'w orch" where
  "task_orch s = \<lparr>o_session = open_session (wk_db s) (wk_fresh s), o_state = new_state 0,
     o_clock = wk_clock s, o_world = wk_world s, o_calls = []\<rparr>"

definition run_task :: "'w orch_env \<Rightarrow> uuid \<Rightarrow> 'w worker \<Rightarrow> 'w worker" where
  "run_task env tid s =
     (case run (worker_env env) tid (task_orch s) of (r, u) \<Rightarrow>
        s\<lparr>wk_db := close_session (o_session u), wk_fresh := fresh (o_session u),
          wk_clock := o_clock u, wk_world := o_world u, wk_active := removeAll tid (wk_active s)\<rparr>)"

definition start_worker :: "'w worker \<Rightarrow> 'w worker" where
  "start_worker s = s\<lparr>wk_running := True\<rparr>"

definition stop_worker :: "'w worker \<Rightarrow> 'w worker" where
  "stop_worker s = s\<lparr>wk_running := False\<rparr>"

definition handle_request :: "service_call \<Rightarrow> 'w worker \<Rightarrow> 'w worker" where
  "handle_request c s =
     (let t = serve c (open_session (wk_db s) (wk_fresh s))
      in s\<lparr>wk_db := close_session t, wk_fresh := fresh t\<rparr>)"

inductive worker_step :: "'w orch_env \<Rightarrow> nat \<Rightarrow> 'w worker \<Rightarrow> 'w worker \<Rightarrow> bool"
  for env :: "'w orch_env" and limit :: nat where
  start: "worker_step env limit s (start_worker s)"
| stop: "worker_step env limit s (stop_worker s)"
| poll: "wk_running s \<Longrightarrow> worker_step env limit s (poll_once limit s)"
| task: "tid \<in> set (wk_active s) \<Longrightarrow> worker_step env limit s (run_task env tid s)"
| request: "worker_step env limit s (handle_request c s)"

inductive worker_reach :: "'w orch_env \<Rightarrow> nat \<Rightarrow> 'w worker \<Rightarrow> 'w worker \<Rightarrow> bool"
  for env :: "'w orch_env" and limit :: nat and s :: "'w worker" where
  start: "worker_reach env limit s s"
| step: "worker_reach env limit s t \<Longrightarrow> worker_step env limit t u \<Longrightarrow> worker_reach env limit s u"

interpretation working: step_system "worker_step env limit" "worker_reach env limit"
proof unfold_locales
  show "worker_reach env limit s s" for s by (rule worker_reach.start)
  show "worker_reach env limit s t \<Longrightarrow> worker_step env limit t u \<Longrightarrow> worker_reach env limit s u" for s t u
    by (rule worker_reach.step)
  show "P t" if "worker_reach env limit s t" "P s"
      "\<And>t u. worker_reach env limit s t \<Longrightarrow> P t \<Longrightarrow> worker_step env limit t u \<Longrightarrow> P u" for s t P
    using that
  proof (induction rule: worker_reach.induct)
    case (step t u)
    from step.IH [OF step.prems] have "P t" .
    with step.hyps(1) show ?case using step.hyps(2) by (rule step.prems(2))
  qed
qed

inductive_cases worker_step_cases: "worker_step env limit s t"

section \<open>Claiming\<close>

lemma claim_tasks_bound:
  "distinct active \<Longrightarrow> length active \<le> limit \<Longrightarrow>
   length (claim_tasks limit active ks) + length active \<le> limit \<and>
   distinct (claim_tasks limit active ks @ active)"
proof (induction ks arbitrary: active)
  case Nil
  then show ?case by simp
next
  case (Cons k ks)
  then show ?case
    using Cons.IH [of "k # active"] Cons.IH [of active]
    by (cases "k \<in> set active"; cases "limit \<le> length active") auto
qed

lemma claim_tasks_subset: "set (claim_tasks limit active ks) \<subseteq> set ks"
  by (induction ks arbitrary: active) (auto split: if_splits)

lemma poll_query_created:
  "k \<in> set (poll_query limit t) \<Longrightarrow> \<exists>r. (k, r) \<in> set t \<and> t_state r = CREATED"
  by (auto simp: poll_query_def dest!: in_set_takeD)

lemma length_poll_query: "length (poll_query limit t) \<le> limit"
  by (simp add: poll_query_def)

definition worker_ok :: "nat \<Rightarrow> 'w worker \<Rightarrow> bool" where
  "worker_ok limit s = (distinct (wk_active s) \<and> length (wk_active s) \<le> limit)"

lemma poll_once_ok: "worker_ok limit s \<Longrightarrow> worker_ok limit (poll_once limit s)"
  using claim_tasks_bound [of "wk_active s" limit "poll_query limit (tasks (wk_db s))"]
  by (auto simp: worker_ok_def poll_once_def Let_def)

lemma run_task_ok: "worker_ok limit s \<Longrightarrow> worker_ok limit (run_task env tid s)"
  unfolding worker_ok_def
  by (auto simp: run_task_def distinct_removeAll removeAll_filter_not_eq split: prod.splits
      intro: le_trans [OF length_filter_le])

lemma worker_step_ok: "worker_step env limit s t \<Longrightarrow> worker_ok limit s \<Longrightarrow> worker_ok limit t"
  by (erule worker_step_cases)
    (auto simp: poll_once_ok run_task_ok, auto simp: worker_ok_def start_worker_def stop_worker_def
      handle_request_def Let_def)

lemma worker_reach_ok: "worker_reach env limit s t \<Longrightarrow> worker_ok limit s \<Longrightarrow> worker_ok limit t"
  by (erule working.reach_invariant) (auto dest: worker_step_ok)

section \<open>What a run of the worker can do\<close>

definition calls_are :: "(thread_id \<times> plan_step) list \<Rightarrow> 'w orch \<Rightarrow> bool" where
  "calls_are c s = (o_calls s = c)"

lemma calls_on_session: "preserves (calls_are c) (on_session m)"
  by (rule orch_session.run_keeps) (simp add: calls_are_def)

lemma calls_on_world: "preserves (calls_are c) (on_world m)"
  by (rule orch_world.run_keeps) (simp add: calls_are_def)

lemma calls_mod_state: "preserves (calls_are c) (mod_state f)"
  by (simp add: preserves_def calls_are_def)

lemma calls_check_limits: "preserves (calls_are c) (check_limits env tid timeout)"
  unfolding preserves_def calls_are_def
  by (metis check_limits_state prod.collapse orch.select_convs(5) orch.surjective orch.update_convs(3))

lemma calls_run_step:
  fixes env :: "'w orch_env"
  assumes "env_graphs env = Map.empty"
  shows "preserves (calls_are c) (run_step_with_recovery env tid timeout step bs n)"
  unfolding preserves_def
proof (intro allI impI)
  fix s :: "'w orch" assume s: "calls_are c s"
  obtain r u where "run_step_with_recovery env tid timeout step bs n s = (r, u)" by fastforce
  moreover from this s assms have "calls_are c u"
    by (cases rule: run_step_cases) (auto simp: calls_are_def split: bind_split_asm)
  ultimately show "calls_are c (snd (run_step_with_recovery env tid timeout step bs n s))" by simp
qed

lemma calls_execute_plan:
  "env_graphs env = Map.empty \<Longrightarrow> preserves (calls_are c) (execute_plan env tid timeout approved bs i steps)"
proof (induction steps arbitrary: i)
  case (Cons step steps)
  then show ?case unfolding execute_plan.simps(2)
    by (intro preserves_intro calls_on_session calls_run_step calls_mod_state calls_check_limits) auto
qed (simp add: preserves_ret)

lemma calls_run:
  assumes "env_graphs env = Map.empty"
  shows "preserves (calls_are c) (run env tid)"
proof -
  have "preserves (calls_are c) (open_browser_if_needed env p)" for p
    unfolding open_browser_if_needed_def by (intro preserves_intro calls_on_world)
  moreover have "preserves (calls_are c) (close_browser env bs)" for bs
    unfolding close_browser_def by (cases bs) (auto intro!: preserves_intro calls_on_world)
  ultimately have rp: "preserves (calls_are c) (run_plan env tid timeout p)" for timeout p
    unfolding run_plan_def run_body_def
    by (intro preserves_intro calls_on_session calls_execute_plan assms)
  have pf: "preserves (calls_are c) (plan_for env tid t)" for t
    unfolding plan_for_def new_plan_def
    by (cases "cached_plan t") (auto intro!: preserves_intro calls_on_session calls_on_world)
  have "preserves (calls_are c) (read_clock env)"
    by (simp add: preserves_def calls_are_def read_clock_def)
  with rp pf show ?thesis
    unfolding run_def by (intro preserves_intro calls_on_session calls_mod_state)
qed


lemma worker_env_browser: "quiet_browser env \<Longrightarrow> quiet_browser (worker_env env)"
  by (simp add: quiet_browser_def worker_env_def)

lemma worker_env_closes: "closes_cleanly (worker_env env)"
  by (simp add: closes_cleanly_def close_browser_def worker_env_def retE_def split: option.splits)

lemma task_orch_synced:
  "tget (tasks (wk_db s)) tid = Some t \<Longrightarrow> synced (o_session (task_orch s)) tid t"
  by (simp add: synced_def task_orch_def open_session_def)

lemma worker_run_completed:
  assumes "synced (o_session s) tid t" "quiet_browser env" "env_graphs env = Map.empty"
    "run env tid s = (Inr st, u)" "synced (o_session u) tid t'" "t_state t' = COMPLETED"
  shows "\<exists>r. t_result t' = Some r \<and> res_steps r = Some []"
proof -
  from run_outcome [OF assms(1,2,4)] obtain x where x: "synced (o_session u) tid x"
    "run_returned env tid s st u x" by auto
  then have xt: "x = t'" using assms(5) by (simp add: synced_def)
  from x(2) obtain p calls k where p:
    "calls_of tid (approved_actions_for tid (work (o_session s))) (plan_steps p) s u calls"
    "ended tid (approved_actions_for tid (work (o_session s))) (plan_steps p)
       ((new_state (env_clock env (o_clock s)))\<lparr>os_plan := Some p\<rparr>) u x k"
    "k = Finished \<longrightarrow> length calls = length (plan_steps p)"
    unfolding run_returned_def by blast
  have "k = Finished" using p(2) assms(6) xt by (cases k) auto
  moreover have "o_calls u = o_calls s"
    using preservesD [OF calls_run [OF assms(3)] _ assms(4), of "o_calls s"] by (simp add: calls_are_def)
  ultimately have "plan_steps p = []" using p(1,3) by (simp add: calls_of_def)
  with p(2) \<open>k = Finished\<close> xt show ?thesis
    by (auto simp: good_end_def completed_row_def all_done_def new_state_def)
qed

lemma worker_run_task:
  assumes "tget (tasks (wk_db s)) tid = Some t" "t_state t = CREATED" "quiet_browser env"
  shows "\<exists>t'. tget (tasks (wk_db (run_task env tid s))) tid = Some t' \<and>
    t_state t' \<in> {PLANNING, COMPLETED, WAITING_FOR_APPROVAL, TIMED_OUT, FAILED} \<and>
    (t_state t' = COMPLETED \<longrightarrow> (\<exists>r. t_result t' = Some r \<and> res_steps r = Some []))"
proof -
  obtain r u where r: "run (worker_env env) tid (task_orch s) = (r, u)" by fastforce
  note sy = task_orch_synced [OF assms(1)] and q = worker_env_browser [OF assms(3)]
  from run_outcome [OF sy q r] obtain t' where t': "synced (o_session u) tid t'"
    "case r of Inr st \<Rightarrow> run_returned (worker_env env) tid (task_orch s) st u t'
     | Inl e \<Rightarrow> t' = planning_row t \<or> t_state t' \<in> TERMINAL_STATES \<and> (closes_cleanly (worker_env env) \<longrightarrow> t_state t \<in> TERMINAL_STATES)"
    by (cases r) auto
  have db: "tget (tasks (wk_db (run_task env tid s))) tid = Some t'"
    using t'(1) r by (simp add: run_task_def close_session_def synced_def)
  show ?thesis
  proof (cases r)
    case (Inl e)
    with t'(2) worker_env_closes [of env] assms(2) have "t' = planning_row t"
      by (auto simp: TERMINAL_STATES_def)
    with db assms(2) show ?thesis by (simp add: planning_row_def)
  next
    case (Inr st)
    with t'(2) obtain a steps x k where "ended tid a steps x u t' k" unfolding run_returned_def by auto
    then have "t_state t' \<in> {COMPLETED, WAITING_FOR_APPROVAL, TIMED_OUT, FAILED}"
      by (cases k) (auto simp: good_end_def completed_row_def)
    moreover have "t_state t' = COMPLETED \<Longrightarrow> \<exists>r. t_result t' = Some r \<and> res_steps r = Some []"
      by (rule worker_run_completed [OF sy q _ r [unfolded Inr] t'(1)]) (simp_all add: worker_env_def)
    ultimately show ?thesis using db by auto
  qed
qed

section \<open>Properties\<close>

text \<open>
  C23. The concurrency limit: in every reachable state of a worker that started idle, the
  active tasks are distinct and no more than the configured limit, whatever polls, runs and
  requests are interleaved.
\<close>

theorem worker_capacity:
  assumes "worker_reach env limit s t" "wk_active s = []"
  shows "distinct (wk_active t) \<and> length (wk_active t) \<le> limit"
  using worker_reach_ok [OF assms(1)] assms(2) by (simp add: worker_ok_def)

definition idle_worker :: "nat worker" where
  "idle_worker = \<lparr>wk_running = True, wk_active = [], wk_db = empty_db, wk_fresh = 1, wk_clock = 0,
     wk_world = 0, wk_started = []\<rparr>"

theorem worker_capacity_witness:
  "length (wk_active (poll_once 3 (handle_request (CreateTask ''go'' None) idle_worker))) \<le> 3"
proof -
  have "worker_reach undefined 3 idle_worker (handle_request (CreateTask ''go'' None) idle_worker)"
    by (rule worker_reach.step [OF worker_reach.start]) (rule worker_step.request)
  moreover have "worker_step undefined 3 (handle_request (CreateTask ''go'' None) idle_worker)
      (poll_once 3 (handle_request (CreateTask ''go'' None) idle_worker))"
    by (rule worker_step.poll) (simp add: handle_request_def idle_worker_def Let_def)
  ultimately have "worker_reach undefined 3 idle_worker
      (poll_once 3 (handle_request (CreateTask ''go'' None) idle_worker))"
    by (rule worker_reach.step)
  from worker_capacity [OF this] show ?thesis by (simp add: idle_worker_def)
qed

text \<open>
  The worker runs without subgraphs: a created task that it runs ends in planning,
  completed, waiting for approval, timed out or failed, and it is completed only if no step
  was executed.
\<close>

theorem worker_completes_only_empty:
  assumes "tget (tasks (wk_db s)) tid = Some t" "t_state t = CREATED" "quiet_browser env"
  shows "\<exists>t'. tget (tasks (wk_db (run_task env tid s))) tid = Some t' \<and>
    t_state t' \<in> {PLANNING, COMPLETED, WAITING_FOR_APPROVAL, TIMED_OUT, FAILED} \<and>
    (t_state t' = COMPLETED \<longrightarrow> (\<exists>r. t_result t' = Some r \<and> res_steps r = Some []))"
  by (rule worker_run_task [OF assms])

definition one_task_db :: db where
  "one_task_db = empty_db\<lparr>tasks := [(1, \<lparr>t_instruction = ''go'', t_state = CREATED, t_user_id = None,
     t_result = None, t_error = None, t_timeout_seconds = None, t_created_at = 1\<rparr>)]\<rparr>"

definition planning_env :: "nat orch_env" where
  "planning_env = \<lparr>env_limits = default_limits,
     env_planner = (\<lambda>i w. (Inr \<lparr>pp_plan = \<lparr>plan_steps = [\<lparr>ps_name = ''r'', ps_agent = ''research'',
       ps_description = i, ps_requires_approval = False\<rparr>]\<rparr>, pp_model = None\<rparr>, w)),
     env_graphs = Map.empty, env_clock = of_nat, env_has_browser = False, env_browser_start = retE (),
     env_browser_open = retE [], env_browser_close = (\<lambda>_. retE ()), env_browser_stop = retE (),
     env_cancelled = (\<lambda>_ _. False)\<rparr>"

theorem worker_completes_only_empty_witness:
  "\<exists>t'. tget (tasks (wk_db (run_task planning_env 1 (idle_worker\<lparr>wk_db := one_task_db\<rparr>)))) 1 = Some t' \<and>
    t_state t' \<in> {PLANNING, COMPLETED, WAITING_FOR_APPROVAL, TIMED_OUT, FAILED}"
proof -
  have "quiet_browser planning_env" by (simp add: quiet_browser_def quiet_def planning_env_def retE_def)
  moreover obtain t where "tget (tasks (wk_db (idle_worker\<lparr>wk_db := one_task_db\<rparr>))) 1 = Some t" "t_state t = CREATED"
    by (simp add: one_task_db_def tget_def)
  ultimately show ?thesis using worker_completes_only_empty by blast
qed

text \<open>
  Only created tasks are picked up, and no task twice at once: whatever a poll starts
  is in the state created in the database and was not active.
\<close>

theorem poll_starts_created:
  assumes "k \<in> set (claim_tasks limit (wk_active s) (poll_query limit (tasks (wk_db s))))" "worker_ok limit s"
  shows "(\<exists>r. (k, r) \<in> set (tasks (wk_db s)) \<and> t_state r = CREATED) \<and> k \<notin> set (wk_active s) \<and>
    k \<in> set (wk_active (poll_once limit s))"
proof -
  have "distinct (claim_tasks limit (wk_active s) (poll_query limit (tasks (wk_db s))) @ wk_active s)"
    "k \<in> set (poll_query limit (tasks (wk_db s)))"
    using claim_tasks_bound [of "wk_active s" limit "poll_query limit (tasks (wk_db s))"]
      claim_tasks_subset assms
    by (auto simp: worker_ok_def)
  with assms(1) poll_query_created [of k limit] show ?thesis by (auto simp: poll_once_def Let_def)
qed

theorem poll_starts_created_witness:
  "1 \<in> set (wk_active (poll_once 3 (idle_worker\<lparr>wk_db := one_task_db\<rparr>)))"
proof -
  have "1 \<in> set (claim_tasks 3 (wk_active (idle_worker\<lparr>wk_db := one_task_db\<rparr>))
      (poll_query 3 (tasks (wk_db (idle_worker\<lparr>wk_db := one_task_db\<rparr>)))))"
    by (simp add: idle_worker_def one_task_db_def poll_query_def)
  from poll_starts_created [OF this] show ?thesis by (simp add: worker_ok_def idle_worker_def)
qed

end
