(* ===== verification/Browser.thy ===== *)
theory Browser
  imports Json_Values "HOL-Library.AList"
begin

text \<open>
  The browser layer: \<open>app/browser/session.py\<close> and \<open>selectors.py\<close>, \<open>app/schemas/browser.py\<close>,
  the tools of \<open>app/tools/builtin/browser_toolkit.py\<close> and the routes of
  \<open>app/api/routes/browser.py\<close>.

  Playwright is a record of operations on a world \<open>'w\<close>; pages, contexts, browsers and
  downloads are handles (numbers). The scripts that are evaluated in a page are named by a
  datatype; \<open>dv_uuid n\<close> is the text of the \<open>n\<close>-th uuid drawn. A session object is stored in
  the manager's dictionary and every method changes it there.
\<close>

section \<open>Actions and selectors\<close>

datatype browser_action = Navigate | Inspect | Click | TypeText | SelectOption | Scroll | Wait | Extract
  | Screenshot | Download | NewTab | SwitchTab | ListTabs

datatype selector_strategy = AriaRole | ByLabel | TestAttribute | Css | ByText | Xpath | Coordinates

record action_result =
  ac_success :: bool
  ac_action :: browser_action
  ac_target :: "string option"
  ac_url :: "string option"
  ac_details :: "(string \<times> jvalue) list"

definition STRATEGY_PRIORITY :: "selector_strategy list" where
  "STRATEGY_PRIORITY = [AriaRole, ByLabel, TestAttribute, Css, ByText, Xpath, Coordinates]"

datatype locator = RoleLocator string string | LabelLocator string | CssLocator string | TextLocator string

fun strategy_name :: "selector_strategy \<Rightarrow> string" where
  "strategy_name AriaRole = ''aria_role''"
| "strategy_name ByLabel = ''label''"
| "strategy_name TestAttribute = ''test_attribute''"
| "strategy_name Css = ''css''"
| "strategy_name ByText = ''text''"
| "strategy_name Xpath = ''xpath''"
| "strategy_name Coordinates = ''coordinates''"

definition QUOTE :: char where
  "QUOTE = CHR 0x27"

fun resolve_locator :: "selector_strategy \<Rightarrow> string \<Rightarrow> string option \<Rightarrow> locator result" where
  "resolve_locator AriaRole value role = (case role of
      None \<Rightarrow> Inl (py_error PyValueError ''aria_role strategy requires a role'' [])
    | Some r \<Rightarrow> Inr (RoleLocator r value))"
| "resolve_locator ByLabel value role = Inr (LabelLocator value)"
| "resolve_locator TestAttribute value role = Inr (CssLocator (''[data-testid='' @ [QUOTE] @ value @ [QUOTE] @ '']''))"
| "resolve_locator Css value role = Inr (CssLocator value)"
| "resolve_locator ByText value role = Inr (TextLocator value)"
| "resolve_locator Xpath value role = Inr (CssLocator (''xpath='' @ value))"
| "resolve_locator Coordinates value role =
     Inl (py_error PyValueError ''coordinates strategy has no Locator equivalent'' [])"

section \<open>Playwright\<close>

datatype script = HeadingsScript | InteractiveScript | LinksScript | ScrollBy int int

text \<open>What \<open>download_info.value\<close> is: the download itself, or something to be awaited for it.\<close>

datatype download_value = PendingDownload | DownloadObject string nat

datatype headless_option = HeadlessText string | HeadlessFalse

record launch_options =
  lo_channel :: "string option"
  lo_executable_path :: "string option"
  lo_headless :: headless_option

record 'w driver =
  dv_goto :: "nat \<Rightarrow> string \<Rightarrow> int \<Rightarrow> ('w, unit) op"
  dv_url :: "nat \<Rightarrow> 'w \<Rightarrow> string"
  dv_title :: "nat \<Rightarrow> ('w, string) op"
  dv_is_closed :: "nat \<Rightarrow> 'w \<Rightarrow> bool"
  dv_viewport_size :: "nat \<Rightarrow> 'w \<Rightarrow> (int \<times> int) option"
  dv_evaluate :: "nat \<Rightarrow> script \<Rightarrow> ('w, jvalue) op"
  dv_click :: "nat \<Rightarrow> locator \<Rightarrow> ('w, unit) op"
  dv_fill :: "nat \<Rightarrow> locator \<Rightarrow> string \<Rightarrow> ('w, unit) op"
  dv_type :: "nat \<Rightarrow> locator \<Rightarrow> string \<Rightarrow> ('w, unit) op"
  dv_select_option :: "nat \<Rightarrow> locator \<Rightarrow> string \<Rightarrow> ('w, unit) op"
  dv_wait_for :: "nat \<Rightarrow> locator \<Rightarrow> int \<Rightarrow> ('w, unit) op"
  dv_screenshot :: "nat \<Rightarrow> ('w, string) op"
  dv_inner_text :: "nat \<Rightarrow> string \<Rightarrow> ('w, string) op"
  dv_expect_download :: "nat \<Rightarrow> int \<Rightarrow> ('w, unit) op \<Rightarrow> ('w, download_value) op"
  dv_download_path :: "nat \<Rightarrow> ('w, (string \<times> int) option) op"
  dv_new_page :: "nat \<Rightarrow> ('w, nat) op"
  dv_pages :: "nat \<Rightarrow> 'w \<Rightarrow> nat list"
  dv_close_page :: "nat \<Rightarrow> ('w, unit) op"
  dv_close_context :: "nat \<Rightarrow> ('w, unit) op"
  dv_start :: "('w, unit) op"
  dv_launch :: "launch_options \<Rightarrow> ('w, nat) op"
  dv_new_context :: "nat \<Rightarrow> ('w, nat) op"
  dv_set_timeouts :: "nat \<Rightarrow> int \<Rightarrow> int \<Rightarrow> 'w \<Rightarrow> 'w"
  dv_uuid :: "nat \<Rightarrow> string"
  dv_close_browser :: "nat \<Rightarrow> ('w, unit) op"
  dv_stop :: "('w, unit) op"

section \<open>Sessions\<close>

text \<open>
  A session: its page is the active tab; \<open>bo_watched\<close> are the pages on which
  \<open>_install_crash_handler\<close> registered the session's two listeners.
\<close>

record session_obj =
  bo_session_id :: string
  bo_context :: nat
  bo_page :: nat
  bo_crash_count :: nat
  bo_watched :: "nat list"

record 'w browsing =
  bw_session :: session_obj
  bw_world :: 'w

type_synonym ('w, 'a) session_op = "('w browsing, 'a) op"

definition drive :: "('w, 'a) op \<Rightarrow> ('w, 'a) session_op" where
  "drive m = (\<lambda>s. case m (bw_world s) of (r, w) \<Rightarrow> (r, s\<lparr>bw_world := w\<rparr>))"

definition active :: "(nat \<Rightarrow> ('w, 'a) session_op) \<Rightarrow> ('w, 'a) session_op" where
  "active f = (\<lambda>s. f (bo_page (bw_session s)) s)"

definition page_url :: "'w driver \<Rightarrow> ('w, string) session_op" where
  "page_url d = getE (\<lambda>s. dv_url d (bo_page (bw_session s)) (bw_world s))"

text \<open>\<open>try: ... except Exception as exc: raise BrowserError(...) from exc\<close>.\<close>

definition or_browser_error :: "string \<Rightarrow> marg list \<Rightarrow> ('w, 'a) session_op \<Rightarrow> ('w, 'a) session_op" where
  "or_browser_error template args m =
     catchE m (\<lambda>e. raiseE (app_error BrowserError template (args @ [AMsg (exn_msg e)])))"

definition succeed ::
  "'w driver \<Rightarrow> browser_action \<Rightarrow> string option \<Rightarrow> (string \<times> jvalue) list \<Rightarrow> ('w, action_result) session_op" where
  "succeed d a target details = bindE (page_url d) (\<lambda>url.
     retE \<lparr>ac_success = True, ac_action = a, ac_target = target, ac_url = Some url, ac_details = details\<rparr>)"

definition navigate :: "'w driver \<Rightarrow> string \<Rightarrow> int \<Rightarrow> ('w, action_result) session_op" where
  "navigate d url timeout_ms =
     thenE (or_browser_error ''Navigation to {} failed: {}'' [AStr url] (active (\<lambda>p. drive (dv_goto d p url timeout_ms))))
     (succeed d Navigate None [])"

definition viewport_value :: "(int \<times> int) option \<Rightarrow> jvalue" where
  "viewport_value v = (let (w, h) = (case v of None \<Rightarrow> (1280, 720) | Some wh \<Rightarrow> wh) in
     JDict [(''width'', JNumber (of_int w)), (''height'', JNumber (of_int h))])"

definition inspect :: "'w driver \<Rightarrow> ('w, action_result) session_op" where
  "inspect d = or_browser_error ''inspect failed: {}'' [] (active (\<lambda>p.
     bindE (drive (dv_title d p)) (\<lambda>title.
     bindE (getE (\<lambda>s. dv_viewport_size d p (bw_world s))) (\<lambda>viewport.
     bindE (drive (dv_evaluate d p HeadingsScript)) (\<lambda>headings.
     bindE (drive (dv_evaluate d p InteractiveScript)) (\<lambda>interactive_count.
     bindE (drive (dv_evaluate d p LinksScript)) (\<lambda>links.
     succeed d Inspect None
       [(''title'', JText title), (''viewport'', viewport_value viewport), (''headings'', headings),
        (''interactive_count'', interactive_count), (''links'', links)])))))))"

text \<open>The locator of the active page, resolved inside the same \<open>try\<close> as its use.\<close>

definition on_locator ::
  "selector_strategy \<Rightarrow> string \<Rightarrow> string option \<Rightarrow> (nat \<Rightarrow> locator \<Rightarrow> ('w, 'a) session_op) \<Rightarrow> ('w, 'a) session_op" where
  "on_locator strategy value role f = bindE (liftE (resolve_locator strategy value role)) (\<lambda>l. active (\<lambda>p. f p l))"

definition click :: "'w driver \<Rightarrow> selector_strategy \<Rightarrow> string \<Rightarrow> string option \<Rightarrow> ('w, action_result) session_op" where
  "click d strategy value role =
     thenE (or_browser_error ''Click on {} via {} failed: {}'' [AStr value, AStr (strategy_name strategy)]
       (on_locator strategy value role (\<lambda>p l. drive (dv_click d p l))))
     (succeed d Click (Some value) [])"

definition type_text ::
  "'w driver \<Rightarrow> selector_strategy \<Rightarrow> string \<Rightarrow> string \<Rightarrow> string option \<Rightarrow> bool \<Rightarrow> ('w, action_result) session_op" where
  "type_text d strategy value body role clear =
     thenE (or_browser_error ''Type into {} via {} failed: {}'' [AStr value, AStr (strategy_name strategy)]
       (on_locator strategy value role (\<lambda>p l. drive (if clear then dv_fill d p l body else dv_type d p l body))))
     (succeed d TypeText (Some value) [])"

definition screenshot :: "'w driver \<Rightarrow> ('w, action_result) session_op" where
  "screenshot d = bindE (active (\<lambda>p. drive (dv_screenshot d p))) (\<lambda>shot.
     succeed d Screenshot None [(''bytes'', JNumber (of_nat (length shot)))])"

text \<open>\<open>text[:n]\<close> for an integer \<open>n\<close>, which may be negative.\<close>

definition slice_to :: "int \<Rightarrow> string \<Rightarrow> string" where
  "slice_to n t = (if 0 \<le> n then take (nat n) t else take (length t - nat (- n)) t)"

definition extract_page_text :: "'w driver \<Rightarrow> string option \<Rightarrow> int \<Rightarrow> ('w, action_result) session_op" where
  "extract_page_text d selector max_chars =
     bindE (or_browser_error ''extract_text failed: {}'' [] (active (\<lambda>p. drive (dv_inner_text d p (case selector of
         None \<Rightarrow> ''body'' | Some s \<Rightarrow> if s = [] then ''body'' else s))))) (\<lambda>body.
     succeed d Extract None
       [(''text'', JText (slice_to max_chars body)),
        (''selector'', case selector of None \<Rightarrow> JNull | Some s \<Rightarrow> JText s),
        (''truncated'', JBool (int (length body) > max_chars))])"

datatype scroll_direction = Up | Down | Left | Right

fun direction_name :: "scroll_direction \<Rightarrow> string" where
  "direction_name Up = ''up''"
| "direction_name Down = ''down''"
| "direction_name Left = ''left''"
| "direction_name Right = ''right''"

definition scroll_offset :: "scroll_direction \<Rightarrow> int \<Rightarrow> int \<times> int" where
  "scroll_offset direction pixels = (case direction of
      Down \<Rightarrow> (0, pixels) | Up \<Rightarrow> (0, - pixels) | Right \<Rightarrow> (pixels, 0) | Left \<Rightarrow> (- pixels, 0))"

definition scroll :: "'w driver \<Rightarrow> scroll_direction \<Rightarrow> int \<Rightarrow> ('w, action_result) session_op" where
  "scroll d direction pixels = (case scroll_offset direction pixels of (dx, dy) \<Rightarrow>
     thenE (or_browser_error ''scroll {} {}px failed: {}'' [AStr (direction_name direction), AInt pixels]
       (active (\<lambda>p. drive (dv_evaluate d p (ScrollBy dx dy)))))
     (succeed d Scroll None []))"

definition wait_for_selector ::
  "'w driver \<Rightarrow> selector_strategy \<Rightarrow> string \<Rightarrow> string option \<Rightarrow> int \<Rightarrow> ('w, action_result) session_op" where
  "wait_for_selector d strategy value role timeout_ms =
     thenE (or_browser_error ''Wait for {} via {} timed out: {}'' [AStr value, AStr (strategy_name strategy)]
       (on_locator strategy value role (\<lambda>p l. drive (dv_wait_for d p l timeout_ms))))
     (succeed d Wait (Some value) [])"

definition select_option ::
  "'w driver \<Rightarrow> selector_strategy \<Rightarrow> string \<Rightarrow> string \<Rightarrow> string option \<Rightarrow> ('w, action_result) session_op" where
  "select_option d strategy value option role =
     thenE (or_browser_error ''select option {} on {} via {} failed: {}'' [AStr option, AStr value, AStr (strategy_name strategy)]
       (on_locator strategy value role (\<lambda>p l. drive (dv_select_option d p l option))))
     (succeed d SelectOption (Some value) [(''option'', JText option)])"

text \<open>
  The download: \<open>expect_download\<close> runs the click and waits. What it yields is used as it is,
  without awaiting it.
\<close>

definition download ::
  "'w driver \<Rightarrow> selector_strategy \<Rightarrow> string \<Rightarrow> string option \<Rightarrow> int \<Rightarrow> ('w, action_result) session_op" where
  "download d strategy value role timeout_ms =
     bindE (or_browser_error ''download via {} failed: {}'' [AStr value]
       (on_locator strategy value role (\<lambda>p l.
          bindE (drive (dv_expect_download d p timeout_ms (dv_click d p l))) (\<lambda>v. case v of
            PendingDownload \<Rightarrow> raiseE (attribute_error ''suggested_filename'')
          | DownloadObject suggested h \<Rightarrow>
              bindE (drive (dv_download_path d h)) (\<lambda>path. retE (suggested, path)))))) (\<lambda>(suggested, path).
     succeed d Download None
       [(''suggested_filename'', JText suggested),
        (''path'', JText (case path of None \<Rightarrow> ''None'' | Some (t, n) \<Rightarrow> t)),
        (''size'', JNumber (case path of None \<Rightarrow> 0 | Some (t, n) \<Rightarrow> of_int n))])"

section \<open>Tabs\<close>

definition install_crash_handler :: "('w, unit) session_op" where
  "install_crash_handler = modE (\<lambda>s. s\<lparr>bw_session := (bw_session s)
     \<lparr>bo_watched := bo_watched (bw_session s) @ [bo_page (bw_session s)]\<rparr>\<rparr>)"

definition set_page :: "nat \<Rightarrow> ('w, unit) session_op" where
  "set_page p = modE (\<lambda>s. s\<lparr>bw_session := (bw_session s)\<lparr>bo_page := p\<rparr>\<rparr>)"

definition new_page :: "'w driver \<Rightarrow> ('w, nat) session_op" where
  "new_page d = bindE (getE (bo_context \<circ> bw_session)) (\<lambda>c. drive (dv_new_page d c))"

definition context_pages :: "'w driver \<Rightarrow> ('w, nat list) session_op" where
  "context_pages d = getE (\<lambda>s. dv_pages d (bo_context (bw_session s)) (bw_world s))"

definition new_tab :: "'w driver \<Rightarrow> string option \<Rightarrow> ('w, action_result) session_op" where
  "new_tab d url =
     thenE (or_browser_error ''new_tab failed: {}'' []
       (bindE (new_page d) (\<lambda>p.
        thenE install_crash_handler
        (thenE (set_page p)
        (case url of None \<Rightarrow> retE () | Some u \<Rightarrow> drive (dv_goto d p u 30000))))))
     (bindE (getE (bo_session_id \<circ> bw_session)) (\<lambda>sid.
      succeed d NewTab None [(''session_id'', JText sid)]))"

definition switch_tab :: "'w driver \<Rightarrow> int \<Rightarrow> ('w, action_result) session_op" where
  "switch_tab d index =
     thenE (or_browser_error ''switch_tab failed: {}'' []
       (bindE (context_pages d) (\<lambda>pages.
        if index < 0 \<or> int (length pages) \<le> index
        then raiseE (app_error BrowserError ''Tab index {} out of range (have {} pages)'' [AInt index, AInt (int (length pages))])
        else set_page (pages ! nat index))))
     (succeed d SwitchTab None [(''active_index'', JNumber (of_int index))])"

fun tab_entries :: "'w driver \<Rightarrow> nat \<Rightarrow> nat list \<Rightarrow> ('w, jvalue list) session_op" where
  "tab_entries d i [] = retE []"
| "tab_entries d i (p # ps) =
     bindE (getE (\<lambda>s. dv_url d p (bw_world s))) (\<lambda>url.
     bindE (getE (\<lambda>s. dv_is_closed d p (bw_world s))) (\<lambda>closed.
     bindE (if closed then retE ''[closed]'' else drive (dv_title d p)) (\<lambda>title.
     bindE (tab_entries d (Suc i) ps) (\<lambda>rest.
     retE (JDict [(''index'', JNumber (of_nat i)), (''url'', JText url), (''title'', JText title)] # rest)))))"

text \<open>\<open>pages.index(p) if p in pages else -1\<close>.\<close>

fun index_of :: "nat \<Rightarrow> nat list \<Rightarrow> int" where
  "index_of x [] = -1"
| "index_of x (y # ys) = (if x = y then 0 else if index_of x ys = -1 then -1 else index_of x ys + 1)"

definition list_tabs :: "'w driver \<Rightarrow> ('w, action_result) session_op" where
  "list_tabs d = or_browser_error ''list_tabs failed: {}'' []
     (bindE (context_pages d) (\<lambda>pages.
      bindE (tab_entries d 0 pages) (\<lambda>tabs.
      bindE (getE (bo_page \<circ> bw_session)) (\<lambda>p.
      succeed d ListTabs None [(''tabs'', JArray tabs), (''active_index'', JNumber (of_int (index_of p pages)))]))))"

section \<open>Crashes\<close>

definition on_crash :: "('w, unit) session_op" where
  "on_crash = modE (\<lambda>s. s\<lparr>bw_session := (bw_session s)\<lparr>bo_crash_count := bo_crash_count (bw_session s) + 1\<rparr>\<rparr>)"

definition on_load :: "('w, unit) session_op" where
  "on_load = modE (\<lambda>s. s\<lparr>bw_session := (bw_session s)\<lparr>bo_crash_count := 0\<rparr>\<rparr>)"

definition recover_crashed_page :: "'w driver \<Rightarrow> string \<Rightarrow> int \<Rightarrow> ('w, action_result) session_op" where
  "recover_crashed_page d url timeout_ms =
     bindE (getE (bo_crash_count \<circ> bw_session)) (\<lambda>crashes.
     if crashes > 1
     then raiseE (Exn (App BrowserError) (Msg ''Page crashed again after recovery attempt; escalating to user'' []) False)
     else
       thenE (catchE (active (\<lambda>p. drive (dv_close_page d p))) (\<lambda>e. retE ()))
       (bindE (new_page d) (\<lambda>p.
        thenE install_crash_handler
        (thenE (set_page p) (navigate d url timeout_ms)))))"

definition close_browsing :: "'w driver \<Rightarrow> ('w, unit) session_op" where
  "close_browsing d = bindE (getE (bo_context \<circ> bw_session)) (\<lambda>c. drive (dv_close_context d c))"

end
