(* ===== verification/Browser_Manager.thy ===== *)
theory Browser_Manager
  imports Browser
begin

text \<open>
  The owner of the browser and its sessions (class \<open>BrowserSessionManager\<close> of
  \<open>app/browser/session.py\<close>), the browser settings of \<open>app/config.py\<close>, the thirteen tools of
  \<open>app/tools/builtin/browser_toolkit.py\<close> and the routes of \<open>app/api/routes/browser.py\<close>.
\<close>

section \<open>The manager\<close>

datatype headless_mode = HeadlessNew | HeadlessOld | Headed
datatype browser_channel = Chromium | Chrome | MsEdge | Brave

record browser_settings =
  bs_headless :: bool
  bs_headless_mode :: headless_mode
  bs_channel :: browser_channel
  bs_executable_path :: "string option"
  bs_default_timeout_ms :: int
  bs_navigation_timeout_ms :: int
  bs_user_data_dir :: "string option"

definition default_browser_settings :: browser_settings where
  "default_browser_settings = \<lparr>bs_headless = True, bs_headless_mode = HeadlessNew, bs_channel = Chromium,
     bs_executable_path = None, bs_default_timeout_ms = 30000, bs_navigation_timeout_ms = 30000,
     bs_user_data_dir = None\<rparr>"

record 'w manager =
  mg_playwright :: bool
  mg_browser :: "nat option"
  mg_sessions :: "(string \<times> session_obj) list"
  mg_uuids :: nat
  mg_world :: 'w

type_synonym ('w, 'a) manager_op = "('w manager, 'a) op"

definition in_browser :: "('w, 'a) op \<Rightarrow> ('w, 'a) manager_op" where
  "in_browser m = (\<lambda>s. case m (mg_world s) of (r, w) \<Rightarrow> (r, s\<lparr>mg_world := w\<rparr>))"

interpretation manager_world: component mg_world "\<lambda>x s. s\<lparr>mg_world := x\<rparr>" in_browser
  by unfold_locales (simp_all add: in_browser_def split: prod.splits)

definition launch_options_of :: "browser_settings \<Rightarrow> launch_options" where
  "launch_options_of st = \<lparr>
     lo_channel = (case bs_channel st of
         Chromium \<Rightarrow> None | Chrome \<Rightarrow> Some ''chrome'' | MsEdge \<Rightarrow> Some ''msedge'' | Brave \<Rightarrow> Some ''brave''),
     lo_executable_path = (if truthy (bs_executable_path st) then bs_executable_path st else None),
     lo_headless = (case bs_headless_mode st of
         HeadlessNew \<Rightarrow> HeadlessText ''new'' | HeadlessOld \<Rightarrow> HeadlessText ''old'' | Headed \<Rightarrow> HeadlessFalse)\<rparr>"

definition start_manager :: "'w driver \<Rightarrow> browser_settings \<Rightarrow> ('w, unit) manager_op" where
  "start_manager d st =
     thenE (in_browser (dv_start d))
     (thenE (modE (\<lambda>s. s\<lparr>mg_playwright := True\<rparr>))
     (bindE (in_browser (dv_launch d (launch_options_of st))) (\<lambda>b.
      modE (\<lambda>s. s\<lparr>mg_browser := Some b\<rparr>))))"

text \<open>A method of the session object under a key; its changes are seen in the dictionary.\<close>

definition run_session :: "string \<Rightarrow> session_obj \<Rightarrow> ('w, 'a) session_op \<Rightarrow> ('w, 'a) manager_op" where
  "run_session sid obj m = (\<lambda>s. case m \<lparr>bw_session = obj, bw_world = mg_world s\<rparr> of
     (r, b) \<Rightarrow> (r, s\<lparr>mg_world := bw_world b, mg_sessions := AList.update sid (bw_session b) (mg_sessions s)\<rparr>))"

fun close_all :: "'w driver \<Rightarrow> session_obj list \<Rightarrow> ('w, unit) manager_op" where
  "close_all d [] = retE ()"
| "close_all d (o1 # os) = thenE (in_browser (dv_close_context d (bo_context o1))) (close_all d os)"

definition stop_manager :: "'w driver \<Rightarrow> ('w, unit) manager_op" where
  "stop_manager d =
     bindE (getE (map snd \<circ> mg_sessions)) (\<lambda>open_sessions.
     thenE (close_all d open_sessions)
     (thenE (modE (\<lambda>s. s\<lparr>mg_sessions := []\<rparr>))
     (thenE (bindE (getE mg_browser) (\<lambda>b. case b of None \<Rightarrow> retE () | Some h \<Rightarrow> in_browser (dv_close_browser d h)))
     (bindE (getE mg_playwright) (\<lambda>p. whenE p (in_browser (dv_stop d)))))))"

definition open_browsing :: "'w driver \<Rightarrow> browser_settings \<Rightarrow> ('w, session_obj) manager_op" where
  "open_browsing d st =
     bindE (getE mg_browser) (\<lambda>b. case b of
       None \<Rightarrow> raiseE (app_error BrowserError ''BrowserSessionManager.start() must be called first'' [])
     | Some h \<Rightarrow>
         bindE (in_browser (dv_new_context d h)) (\<lambda>c.
         thenE (modE (\<lambda>s. s\<lparr>mg_world := dv_set_timeouts d c (bs_default_timeout_ms st) (bs_navigation_timeout_ms st) (mg_world s)\<rparr>))
         (bindE (in_browser (dv_new_page d c)) (\<lambda>p.
          bindE (getE mg_uuids) (\<lambda>n.
          let obj = \<lparr>bo_session_id = dv_uuid d n, bo_context = c, bo_page = p, bo_crash_count = 0, bo_watched = []\<rparr> in
          thenE (modE (\<lambda>s. s\<lparr>mg_uuids := Suc n, mg_sessions := AList.update (dv_uuid d n) obj (mg_sessions s)\<rparr>))
          (retE obj))))))"

definition get_browsing :: "string \<Rightarrow> ('w, session_obj) manager_op" where
  "get_browsing sid = bindE (getE (\<lambda>s. map_of (mg_sessions s) sid)) (\<lambda>found. case found of
       None \<Rightarrow> raiseE (app_error BrowserError ''No open browser session {}'' [AStr sid])
     | Some obj \<Rightarrow> retE obj)"

definition close_browsing_session :: "'w driver \<Rightarrow> string \<Rightarrow> ('w, unit) manager_op" where
  "close_browsing_session d sid = bindE (getE (\<lambda>s. map_of (mg_sessions s) sid)) (\<lambda>found. case found of
       None \<Rightarrow> retE ()
     | Some obj \<Rightarrow>
         thenE (modE (\<lambda>s. s\<lparr>mg_sessions := AList.delete sid (mg_sessions s)\<rparr>))
         (in_browser (dv_close_context d (bo_context obj))))"

section \<open>The tools\<close>

definition on_session :: "string \<Rightarrow> ('w, 'a) session_op \<Rightarrow> ('w, 'a) manager_op" where
  "on_session sid m = bindE (get_browsing sid) (\<lambda>obj. run_session sid obj m)"

definition browser_navigate_execute :: "'w driver \<Rightarrow> string \<Rightarrow> string \<Rightarrow> int \<Rightarrow> ('w, action_result) manager_op" where
  "browser_navigate_execute d sid url timeout_ms = on_session sid (navigate d url timeout_ms)"

definition browser_inspect_execute :: "'w driver \<Rightarrow> string \<Rightarrow> ('w, action_result) manager_op" where
  "browser_inspect_execute d sid = on_session sid (inspect d)"

definition browser_click_execute ::
  "'w driver \<Rightarrow> string \<Rightarrow> selector_strategy \<Rightarrow> string \<Rightarrow> string option \<Rightarrow> ('w, action_result) manager_op" where
  "browser_click_execute d sid strategy value role = on_session sid (click d strategy value role)"

definition browser_type_execute ::
  "'w driver \<Rightarrow> string \<Rightarrow> selector_strategy \<Rightarrow> string \<Rightarrow> string \<Rightarrow> string option \<Rightarrow> bool \<Rightarrow> ('w, action_result) manager_op" where
  "browser_type_execute d sid strategy value body role clear = on_session sid (type_text d strategy value body role clear)"

definition browser_select_execute ::
  "'w driver \<Rightarrow> string \<Rightarrow> selector_strategy \<Rightarrow> string \<Rightarrow> string \<Rightarrow> string option \<Rightarrow> ('w, action_result) manager_op" where
  "browser_select_execute d sid strategy value option role = on_session sid (select_option d strategy value option role)"

definition browser_extract_execute :: "'w driver \<Rightarrow> string \<Rightarrow> string option \<Rightarrow> int \<Rightarrow> ('w, action_result) manager_op" where
  "browser_extract_execute d sid selector max_chars = on_session sid (extract_page_text d selector max_chars)"

definition browser_scroll_execute :: "'w driver \<Rightarrow> string \<Rightarrow> scroll_direction \<Rightarrow> int \<Rightarrow> ('w, action_result) manager_op" where
  "browser_scroll_execute d sid direction pixels = on_session sid (scroll d direction pixels)"

definition browser_screenshot_execute :: "'w driver \<Rightarrow> string \<Rightarrow> ('w, action_result) manager_op" where
  "browser_screenshot_execute d sid = on_session sid (screenshot d)"

definition browser_wait_execute ::
  "'w driver \<Rightarrow> string \<Rightarrow> selector_strategy \<Rightarrow> string \<Rightarrow> string option \<Rightarrow> int \<Rightarrow> ('w, action_result) manager_op" where
  "browser_wait_execute d sid strategy value role timeout_ms = on_session sid (wait_for_selector d strategy value role timeout_ms)"

definition browser_download_execute ::
  "'w driver \<Rightarrow> string \<Rightarrow> selector_strategy \<Rightarrow> string \<Rightarrow> string option \<Rightarrow> int \<Rightarrow> ('w, action_result) manager_op" where
  "browser_download_execute d sid strategy value role timeout_ms = on_session sid (download d strategy value role timeout_ms)"

definition browser_new_tab_execute :: "'w driver \<Rightarrow> string \<Rightarrow> string option \<Rightarrow> ('w, action_result) manager_op" where
  "browser_new_tab_execute d sid url = on_session sid (new_tab d url)"

definition browser_switch_tab_execute :: "'w driver \<Rightarrow> string \<Rightarrow> int \<Rightarrow> ('w, action_result) manager_op" where
  "browser_switch_tab_execute d sid index = on_session sid (switch_tab d index)"

definition browser_list_tabs_execute :: "'w driver \<Rightarrow> string \<Rightarrow> ('w, action_result) manager_op" where
  "browser_list_tabs_execute d sid = on_session sid (list_tabs d)"

text \<open>The inputs of the tools, and the tool that each one is for.\<close>

datatype browser_request =
    NavigateTo string int | InspectPage | ClickOn selector_strategy string "string option"
  | TypeInto selector_strategy string string "string option" bool
  | SelectIn selector_strategy string string "string option"
  | ExtractFrom "string option" int | ScrollPage scroll_direction int | TakeScreenshot
  | WaitFor selector_strategy string "string option" int
  | DownloadFrom selector_strategy string "string option" int
  | OpenTab "string option" | SwitchTo int | ListAll

fun browser_call :: "'w driver \<Rightarrow> string \<Rightarrow> browser_request \<Rightarrow> ('w, action_result) manager_op" where
  "browser_call d sid (NavigateTo url timeout_ms) = browser_navigate_execute d sid url timeout_ms"
| "browser_call d sid InspectPage = browser_inspect_execute d sid"
| "browser_call d sid (ClickOn st v role) = browser_click_execute d sid st v role"
| "browser_call d sid (TypeInto st v body role clear) = browser_type_execute d sid st v body role clear"
| "browser_call d sid (SelectIn st v option role) = browser_select_execute d sid st v option role"
| "browser_call d sid (ExtractFrom selector n) = browser_extract_execute d sid selector n"
| "browser_call d sid (ScrollPage direction n) = browser_scroll_execute d sid direction n"
| "browser_call d sid TakeScreenshot = browser_screenshot_execute d sid"
| "browser_call d sid (WaitFor st v role timeout_ms) = browser_wait_execute d sid st v role timeout_ms"
| "browser_call d sid (DownloadFrom st v role timeout_ms) = browser_download_execute d sid st v role timeout_ms"
| "browser_call d sid (OpenTab url) = browser_new_tab_execute d sid url"
| "browser_call d sid (SwitchTo i) = browser_switch_tab_execute d sid i"
| "browser_call d sid ListAll = browser_list_tabs_execute d sid"

section \<open>The routes\<close>

record session_read =
  se_id :: string
  se_status :: string
  se_current_url :: "string option"

definition open_session_route :: "'w driver \<Rightarrow> browser_settings \<Rightarrow> ('w, session_read) manager_op" where
  "open_session_route d st =
     bindE (getE mg_browser) (\<lambda>b.
     thenE (whenE (b = None) (start_manager d st))
     (bindE (open_browsing d st) (\<lambda>obj.
      retE \<lparr>se_id = bo_session_id obj, se_status = ''open'', se_current_url = None\<rparr>)))"

definition get_session_route :: "'w driver \<Rightarrow> string \<Rightarrow> ('w, session_read) manager_op" where
  "get_session_route d sid =
     bindE (get_browsing sid) (\<lambda>obj.
     bindE (getE (\<lambda>s. dv_url d (bo_page obj) (mg_world s))) (\<lambda>url.
     retE \<lparr>se_id = bo_session_id obj, se_status = ''open'', se_current_url = Some url\<rparr>))"

definition close_session_route :: "'w driver \<Rightarrow> string \<Rightarrow> ('w, unit) manager_op" where
  "close_session_route d sid = catchE (close_browsing_session d sid)
     (\<lambda>e. if is_app_instance e BrowserError then retE () else raiseE e)"

end
