(* ===== verification/Browser_Properties.thy ===== *)
theory Browser_Properties
  imports Browser_Manager
begin

text \<open>
  What the browser layer guarantees: the outcome of each of the thirteen actions, which
  selectors reach the page, where the tabs and crash listeners are, and how sessions are kept
  apart.
\<close>

section \<open>Errors and results of an operation\<close>

definition raises :: "(exn \<Rightarrow> bool) \<Rightarrow> ('s, 'a) op \<Rightarrow> bool" where
  "raises E m = (\<forall>s e u. m s = (Inl e, u) \<longrightarrow> E e)"

definition yields :: "('a \<Rightarrow> 's \<Rightarrow> bool) \<Rightarrow> ('s, 'a) op \<Rightarrow> bool" where
  "yields Q m = (\<forall>s x u. m s = (Inr x, u) \<longrightarrow> Q x u)"

named_theorems outcome_intro \<open>which errors an operation raises and which results it yields\<close>

lemma raises_bind [outcome_intro]: "raises E m \<Longrightarrow> (\<And>x. raises E (f x)) \<Longrightarrow> raises E (bindE m f)"
  unfolding raises_def bindE_Inl_iff by blast

lemma raises_then [outcome_intro]: "raises E m \<Longrightarrow> raises E n \<Longrightarrow> raises E (thenE m n)"
  unfolding thenE_def by (rule raises_bind)

lemma raises_get [outcome_intro]: "raises E (getE f)"
  by (simp add: raises_def getE_def)

lemma raises_ret [outcome_intro]: "raises E (retE x)"
  by (simp add: raises_def retE_def)

lemma yields_bind [outcome_intro]: "(\<And>x. yields Q (f x)) \<Longrightarrow> yields Q (bindE m f)"
  unfolding yields_def bindE_Inr_iff by blast

lemma yields_then [outcome_intro]: "yields Q n \<Longrightarrow> yields Q (thenE m n)"
  unfolding thenE_def by (rule yields_bind)

abbreviation browser_error :: "exn \<Rightarrow> bool" where
  "browser_error e \<equiv> exn_class e = App BrowserError"

lemma raises_or_browser_error [outcome_intro]: "raises browser_error (or_browser_error t as m)"
  by (auto simp: raises_def or_browser_error_def catchE_def raiseE_def split: prod.splits sum.splits)

lemma yields_or_browser_error [outcome_intro]: "yields Q m \<Longrightarrow> yields Q (or_browser_error t as m)"
  by (auto simp: yields_def or_browser_error_def catchE_def raiseE_def split: prod.splits sum.splits)

section \<open>The thirteen actions\<close>

text \<open>A result names its action and the URL that the active page has at the end.\<close>

definition reports :: "'w driver \<Rightarrow> browser_action \<Rightarrow> action_result \<Rightarrow> 'w browsing \<Rightarrow> bool" where
  "reports d a res b = (ac_success res \<and> ac_action res = a \<and>
     ac_url res = Some (dv_url d (bo_page (bw_session b)) (bw_world b)))"

lemma yields_succeed [outcome_intro]: "yields (reports d a) (succeed d a target details)"
  by (auto simp: yields_def reports_def succeed_def page_url_def bindE_Inr_iff getE_def retE_def)

lemma raises_succeed [outcome_intro]: "raises E (succeed d a target details)"
  unfolding succeed_def page_url_def by (intro outcome_intro)

text \<open>How an action may change the session: not at all, or its tab and its listeners only.\<close>

definition same_session :: "'w browsing \<Rightarrow> 'w browsing \<Rightarrow> bool" where
  "same_session b c = (bw_session c = bw_session b)"

definition same_owner :: "'w browsing \<Rightarrow> 'w browsing \<Rightarrow> bool" where
  "same_owner b c = (bo_session_id (bw_session c) = bo_session_id (bw_session b) \<and>
     bo_context (bw_session c) = bo_context (bw_session b) \<and>
     bo_crash_count (bw_session c) = bo_crash_count (bw_session b))"

lemma session_rels [steps_intro]:
  "reflp same_session" "transp same_session" "reflp same_owner" "transp same_owner"
  by (auto simp: same_session_def same_owner_def reflp_def transp_def)

lemma steps_drive [steps_intro]: "stays same_session (drive m)" "stays same_owner (drive m)"
  by (simp_all add: stays_def drive_def same_session_def same_owner_def split: prod.splits)

lemma steps_active [steps_intro]: "(\<And>p. stays R (f p)) \<Longrightarrow> stays R (active f)"
  by (simp add: stays_def active_def)

lemma steps_or_browser_error [steps_intro]: "reflp R \<Longrightarrow> transp R \<Longrightarrow> stays R m \<Longrightarrow> stays R (or_browser_error t as m)"
  unfolding or_browser_error_def by (intro steps_intro)

lemma steps_succeed [steps_intro]: "reflp R \<Longrightarrow> transp R \<Longrightarrow> stays R (succeed d a target details)"
  unfolding succeed_def page_url_def by (intro steps_intro)

lemma steps_on_locator [steps_intro]:
  "reflp R \<Longrightarrow> transp R \<Longrightarrow> (\<And>p l. stays R (f p l)) \<Longrightarrow> stays R (on_locator st v role f)"
  unfolding on_locator_def by (intro steps_intro)

lemma steps_tab [steps_intro]: "stays same_owner install_crash_handler" "stays same_owner (set_page p)"
  by (simp_all add: stays_def install_crash_handler_def set_page_def modE_def same_owner_def)

lemma steps_tab_entries [steps_intro]: "stays same_session (tab_entries d i ps)" "stays same_owner (tab_entries d i ps)"
  by (induction ps arbitrary: i) (auto intro!: steps_intro)

fun action_of :: "browser_request \<Rightarrow> browser_action" where
  "action_of (NavigateTo url t) = Navigate"
| "action_of InspectPage = Inspect"
| "action_of (ClickOn st v role) = Click"
| "action_of (TypeInto st v body role clear) = TypeText"
| "action_of (SelectIn st v option role) = SelectOption"
| "action_of (ExtractFrom selector n) = Extract"
| "action_of (ScrollPage direction n) = Scroll"
| "action_of TakeScreenshot = Screenshot"
| "action_of (WaitFor st v role t) = Wait"
| "action_of (DownloadFrom st v role t) = Download"
| "action_of (OpenTab url) = NewTab"
| "action_of (SwitchTo i) = SwitchTab"
| "action_of ListAll = ListTabs"

fun action_op :: "'w driver \<Rightarrow> browser_request \<Rightarrow> ('w, action_result) session_op" where
  "action_op d (NavigateTo url t) = navigate d url t"
| "action_op d InspectPage = inspect d"
| "action_op d (ClickOn st v role) = click d st v role"
| "action_op d (TypeInto st v body role clear) = type_text d st v body role clear"
| "action_op d (SelectIn st v option role) = select_option d st v option role"
| "action_op d (ExtractFrom selector n) = extract_page_text d selector n"
| "action_op d (ScrollPage direction n) = scroll d direction n"
| "action_op d TakeScreenshot = screenshot d"
| "action_op d (WaitFor st v role t) = wait_for_selector d st v role t"
| "action_op d (DownloadFrom st v role t) = download d st v role t"
| "action_op d (OpenTab url) = new_tab d url"
| "action_op d (SwitchTo i) = switch_tab d i"
| "action_op d ListAll = list_tabs d"

lemmas tool_defs = browser_navigate_execute_def browser_inspect_execute_def browser_click_execute_def
  browser_type_execute_def browser_select_execute_def browser_extract_execute_def browser_scroll_execute_def
  browser_screenshot_execute_def browser_wait_execute_def browser_download_execute_def
  browser_new_tab_execute_def browser_switch_tab_execute_def browser_list_tabs_execute_def

lemmas action_defs = navigate_def inspect_def click_def type_text_def select_option_def extract_page_text_def
  scroll_def screenshot_def wait_for_selector_def download_def new_tab_def switch_tab_def list_tabs_def
  new_page_def context_pages_def

lemma browser_call_session: "browser_call d sid rq = on_session sid (action_op d rq)"
  by (cases rq) (simp_all add: tool_defs)

lemma steps_cases [steps_intro]:
  "reflp R \<Longrightarrow> (\<And>u. stays R (f u)) \<Longrightarrow> stays R (case url of None \<Rightarrow> retE x | Some u \<Rightarrow> f u)"
  "(\<And>a b. stays R (g a b)) \<Longrightarrow> stays R (case pr of (a, b) \<Rightarrow> g a b)"
  "stays R k \<Longrightarrow> (\<And>t h. stays R (f' t h)) \<Longrightarrow> stays R (case v of PendingDownload \<Rightarrow> k | DownloadObject t h \<Rightarrow> f' t h)"
  by (auto intro: steps_intro split: option.split prod.split download_value.split)

lemma yields_active [outcome_intro]: "(\<And>p. yields Q (f p)) \<Longrightarrow> yields Q (active f)"
  by (simp add: yields_def active_def)

lemma raises_active [outcome_intro]: "(\<And>p. raises Q (f p)) \<Longrightarrow> raises Q (active f)"
  by (simp add: raises_def active_def)

lemma yields_case [outcome_intro]: "(\<And>a b. yields Q (g a b)) \<Longrightarrow> yields Q (case pr of (a, b) \<Rightarrow> g a b)"
  by (cases pr) simp

lemma raises_case [outcome_intro]: "(\<And>a b. raises Q (g a b)) \<Longrightarrow> raises Q (case pr of (a, b) \<Rightarrow> g a b)"
  by (cases pr) simp

lemmas action_unfold = action_op.simps action_of.simps action_defs

lemma action_yields: "yields (reports d (action_of rq)) (action_op d rq)"
  by (cases rq; simp only: action_unfold; intro outcome_intro)

lemma action_raises: "rq \<noteq> TakeScreenshot \<Longrightarrow> raises browser_error (action_op d rq)"
  by ((cases rq; simp only: action_unfold; intro outcome_intro), simp_all)

lemma screenshot_raises:
  "screenshot d b = (Inl e, c) \<Longrightarrow> fst (dv_screenshot d (bo_page (bw_session b)) (bw_world b)) = Inl e"
  by (auto simp: screenshot_def active_def drive_def bindE_Inl_iff succeed_def page_url_def getE_def retE_def
      split: prod.splits)

lemma action_keeps: "action_of rq \<noteq> NewTab \<Longrightarrow> action_of rq \<noteq> SwitchTab \<Longrightarrow> stays same_session (action_op d rq)"
  by ((cases rq; simp only: action_unfold; intro steps_intro), simp_all)

lemma action_keeps_owner: "stays same_owner (action_op d rq)"
  by (cases rq; simp only: action_unfold; intro steps_intro)

lemma browser_call_outcome:
  "case browser_call d sid rq s of (r, u) \<Rightarrow> (case map_of (mg_sessions s) sid of
      None \<Rightarrow> u = s \<and> (case r of Inl e \<Rightarrow> exn_class e = App BrowserError | Inr res \<Rightarrow> False)
    | Some obj \<Rightarrow> \<exists>obj' w. u = s\<lparr>mg_world := w, mg_sessions := AList.update sid obj' (mg_sessions s)\<rparr> \<and>
        bo_session_id obj' = bo_session_id obj \<and> bo_context obj' = bo_context obj \<and>
        bo_crash_count obj' = bo_crash_count obj \<and>
        (if action_of rq \<in> {NewTab, SwitchTab} then True else obj' = obj) \<and>
        (case r of
           Inr res \<Rightarrow> ac_success res \<and> ac_action res = action_of rq \<and> ac_url res = Some (dv_url d (bo_page obj') w)
         | Inl e \<Rightarrow> if rq = TakeScreenshot then fst (dv_screenshot d (bo_page obj) (mg_world s)) = Inl e
             else exn_class e = App BrowserError))"
proof (cases "map_of (mg_sessions s) sid")
  case None
  then show ?thesis
    by (simp add: browser_call_session on_session_def get_browsing_def bindE_def getE_def raiseE_def)
next
  case (Some obj)
  let ?b = "\<lparr>bw_session = obj, bw_world = mg_world s\<rparr>"
  obtain r c where run: "action_op d rq ?b = (r, c)" by fastforce
  have call: "browser_call d sid rq s =
      (r, s\<lparr>mg_world := bw_world c, mg_sessions := AList.update sid (bw_session c) (mg_sessions s)\<rparr>)"
    using Some run
    by (simp add: browser_call_session on_session_def get_browsing_def run_session_def bindE_def getE_def retE_def)
  have owner: "same_owner ?b c" using action_keeps_owner [of d rq] run by (metis snd_conv stays_def)
  have kept: "bw_session c = obj" if "action_of rq \<notin> {NewTab, SwitchTab}"
    using action_keeps [of rq d, unfolded stays_def same_session_def, THEN spec, of ?b] that run by simp
  have res: "case r of
      Inr res \<Rightarrow> ac_success res \<and> ac_action res = action_of rq \<and>
        ac_url res = Some (dv_url d (bo_page (bw_session c)) (bw_world c))
    | Inl e \<Rightarrow> if rq = TakeScreenshot then fst (dv_screenshot d (bo_page obj) (mg_world s)) = Inl e
        else exn_class e = App BrowserError"
  proof (cases r)
    case (Inr x)
    with run action_yields [of d rq] show ?thesis by (auto simp: yields_def reports_def)
  next
    case (Inl e)
    show ?thesis
    proof (cases "rq = TakeScreenshot")
      case True
      with run Inl screenshot_raises [of d ?b e c] show ?thesis by simp
    next
      case False
      with run Inl action_raises [of rq d] show ?thesis by (auto simp: raises_def)
    qed
  qed
  show ?thesis unfolding call split_conv Some option.case
    using owner kept res by (intro exI [of _ "bw_session c"] exI [of _ "bw_world c"]) (auto simp: same_owner_def)
qed


section \<open>Selectors\<close>

lemma resolve_locator_Inl_iff:
  "(\<exists>e. resolve_locator st v role = Inl e) \<longleftrightarrow> st = Coordinates \<or> (st = AriaRole \<and> role = None)"
  by (cases st) (auto split: option.splits)

text \<open>A selector without a locator reaches nothing: neither the page nor the session changes.\<close>

lemma refused_selector_no_effect:
  assumes "st = Coordinates \<or> (st = AriaRole \<and> role = None)"
    "rq \<in> {ClickOn st v role, TypeInto st v body role clear, SelectIn st v option role, WaitFor st v role t, DownloadFrom st v role t}"
  shows "\<exists>e. action_op d rq b = (Inl e, b) \<and> exn_class e = App BrowserError"
proof -
  from assms(1) resolve_locator_Inl_iff obtain e where "resolve_locator st v role = Inl e" by blast
  with assms(2) show ?thesis
    by (elim insertE emptyE)
      (simp_all add: action_defs thenE_def bindE_def or_browser_error_def catchE_def on_locator_def liftE_def raiseE_def)
qed

section \<open>Tabs\<close>

lemma index_of_nth: "distinct ps \<Longrightarrow> i < length ps \<Longrightarrow> index_of (ps ! i) ps = int i"
  by (induction ps arbitrary: i) (auto simp: nth_Cons split: nat.splits)

lemma tab_entries_length: "tab_entries d i ps b = (Inr tabs, c) \<Longrightarrow> length tabs = length ps"
  by (induction ps arbitrary: i b tabs) (auto simp: bindE_Inr_iff retE_def)

lemma or_browser_error_Inr_iff: "or_browser_error t as m b = (Inr x, c) \<longleftrightarrow> m b = (Inr x, c)"
  by (simp add: or_browser_error_def catchE_def raiseE_def split: prod.split sum.split)

lemma switch_tab_run:
  "switch_tab d i b = (Inr r, c) \<longleftrightarrow>
     0 \<le> i \<and> i < int (length (dv_pages d (bo_context (bw_session b)) (bw_world b))) \<and>
     c = b\<lparr>bw_session := (bw_session b)\<lparr>bo_page := dv_pages d (bo_context (bw_session b)) (bw_world b) ! nat i\<rparr>\<rparr> \<and>
     r = \<lparr>ac_success = True, ac_action = SwitchTab, ac_target = None,
       ac_url = Some (dv_url d (bo_page (bw_session c)) (bw_world c)), ac_details = [(''active_index'', JNumber (of_int i))]\<rparr>"
  by (auto simp: switch_tab_def context_pages_def succeed_def page_url_def set_page_def or_browser_error_def catchE_def
      thenE_def bindE_def getE_def modE_def retE_def raiseE_def split: if_splits)

text \<open>
  Switching and listing agree: after a switch to a tab, a listing that succeeds has one entry
  for every tab of the session and names that tab as the active one.
\<close>

theorem switched_tab_listed:
  assumes "switch_tab d i b = (Inr r, c)" "list_tabs d c = (Inr l, e)"
    and distinct: "distinct (dv_pages d (bo_context (bw_session c)) (bw_world c))"
  shows "map_of (ac_details l) ''active_index'' = Some (JNumber (of_int i)) \<and>
    (\<exists>tabs. map_of (ac_details l) ''tabs'' = Some (JArray tabs) \<and>
       length tabs = length (dv_pages d (bo_context (bw_session b)) (bw_world b)))"
proof -
  let ?ps = "dv_pages d (bo_context (bw_session b)) (bw_world b)"
  from assms(1) have c: "0 \<le> i" "i < int (length ?ps)" "c = b\<lparr>bw_session := (bw_session b)\<lparr>bo_page := ?ps ! nat i\<rparr>\<rparr>"
    unfolding switch_tab_run by blast+
  have ps: "dv_pages d (bo_context (bw_session c)) (bw_world c) = ?ps" by (simp add: c(3))
  from assms(2) obtain tabs f where tabs: "tab_entries d 0 ?ps c = (Inr tabs, f)"
    and out: "succeed d ListTabs None [(''tabs'', JArray tabs),
      (''active_index'', JNumber (of_int (index_of ((bo_page \<circ> bw_session) f) ?ps)))] f = (Inr l, e)"
    unfolding list_tabs_def or_browser_error_Inr_iff context_pages_def bind_get ps bindE_Inr_iff [of "tab_entries _ _ _"]
    by blast
  from out have l: "ac_details l = [(''tabs'', JArray tabs), (''active_index'', JNumber (of_int (index_of (bo_page (bw_session f)) ?ps)))]"
    by (auto simp: succeed_def page_url_def bind_get retE_def)
  have "same_session c f" using steps_tab_entries(1) [of d 0 ?ps, unfolded stays_def, THEN spec, of c] tabs by simp
  then have "bo_page (bw_session f) = ?ps ! nat i" by (simp add: same_session_def c(3))
  moreover have "distinct ?ps" using distinct by (simp add: c(3))
  ultimately have "index_of (bo_page (bw_session f)) ?ps = i" using index_of_nth [of ?ps "nat i"] c(1,2) by simp
  then show ?thesis using l tab_entries_length [OF tabs] by simp
qed

section \<open>Crash listeners\<close>

text \<open>
  A session from its opening until a tab is switched to. \<open>seen\<close> are the page handles that
  the browser has handed out; a new page has a handle of its own. \<open>idle\<close> is any action, of
  this session or another, that leaves the session object alone.
\<close>

definition before_recovery :: "'w driver \<Rightarrow> 'w browsing \<Rightarrow> 'w browsing" where
  "before_recovery d b = snd (catchE (active (\<lambda>p. drive (dv_close_page d p))) (\<lambda>e. retE ()) b)"

inductive session_run :: "'w driver \<Rightarrow> nat set \<Rightarrow> 'w browsing \<Rightarrow> bool" for d :: "'w driver" where
  opened: "bo_watched (bw_session b) = [] \<Longrightarrow> bo_page (bw_session b) \<in> seen \<Longrightarrow> session_run d seen b"
| idle: "session_run d seen b \<Longrightarrow> bw_session c = bw_session b \<Longrightarrow> session_run d seen c"
| crash: "session_run d seen b \<Longrightarrow> p \<in> set (bo_watched (bw_session b)) \<Longrightarrow> session_run d seen (snd (on_crash b))"
| load: "session_run d seen b \<Longrightarrow> p \<in> set (bo_watched (bw_session b)) \<Longrightarrow> session_run d seen (snd (on_load b))"
| tab: "session_run d seen b \<Longrightarrow> new_page d b = (r, c) \<Longrightarrow> (\<And>p. r = Inr p \<Longrightarrow> p \<notin> seen \<and> seen' = insert p seen) \<Longrightarrow>
    (\<And>e. r = Inl e \<Longrightarrow> seen' = seen) \<Longrightarrow> session_run d seen' (snd (new_tab d url b))"
| recover: "session_run d seen b \<Longrightarrow> new_page d (before_recovery d b) = (r, c) \<Longrightarrow>
    (\<And>p. r = Inr p \<Longrightarrow> p \<notin> seen \<and> seen' = insert p seen) \<Longrightarrow> (\<And>e. r = Inl e \<Longrightarrow> seen' = seen) \<Longrightarrow>
    session_run d seen' (snd (recover_crashed_page d url t b))"

text \<open>The two ways to a new page change the session in the same way.\<close>

definition moved :: "nat set \<Rightarrow> session_obj \<Rightarrow> bool" where
  "moved seen o1 = (set (bo_watched o1) \<subseteq> seen \<and> bo_page o1 \<in> seen \<and> bo_page o1 \<notin> set (bo_watched o1))"

lemma catch_total: "\<exists>x. catchE m (\<lambda>e. retE d) b = (Inr x, snd (catchE m (\<lambda>e. retE d) b))"
  by (auto simp: catchE_def retE_def split: prod.splits sum.splits)

lemma snd_or_browser_error [simp]: "snd (or_browser_error t as m b) = snd (m b)"
  by (simp add: or_browser_error_def catchE_def raiseE_def split: prod.splits sum.splits)

lemma session_then: "stays same_session n \<Longrightarrow> bw_session (snd (thenE m n b)) = bw_session (snd (m b))"
proof -
  assume n: "stays same_session n"
  obtain r c where "m b = (r, c)" by fastforce
  with n show ?thesis
    by (cases r) (auto simp: thenE_def bindE_def stays_def same_session_def)
qed

lemma enter_page:
  "stays same_session m \<Longrightarrow> bw_session (snd (thenE install_crash_handler (thenE (set_page p) m) c)) =
     (bw_session c)\<lparr>bo_watched := bo_watched (bw_session c) @ [bo_page (bw_session c)], bo_page := p\<rparr>"
  by (simp add: thenE_def bindE_def install_crash_handler_def set_page_def modE_def stays_def same_session_def)

lemma new_page_session: "new_page d b = (r, c) \<Longrightarrow> bw_session c = bw_session b"
proof -
  have "stays same_session (new_page d)" unfolding new_page_def by (intro steps_intro)
  then show "new_page d b = (r, c) \<Longrightarrow> bw_session c = bw_session b"
    by (metis same_session_def snd_conv stays_def)
qed

lemma via_new_page:
  assumes "new_page d b = (r, c)" "\<And>p. stays same_session (m p)"
  shows "bw_session (snd (bindE (new_page d) (\<lambda>p. thenE install_crash_handler (thenE (set_page p) (m p))) b)) =
    (case r of Inl e \<Rightarrow> bw_session b
     | Inr p \<Rightarrow> (bw_session b)\<lparr>bo_watched := bo_watched (bw_session b) @ [bo_page (bw_session b)], bo_page := p\<rparr>)"
  using assms(1) enter_page [OF assms(2)] new_page_session [OF assms(1)] by (cases r) (simp_all add: bindE_def)

lemma new_tab_session:
  assumes "new_page d b = (r, c)"
  shows "bw_session (snd (new_tab d url b)) = (case r of Inl e \<Rightarrow> bw_session b
    | Inr p \<Rightarrow> (bw_session b)\<lparr>bo_watched := bo_watched (bw_session b) @ [bo_page (bw_session b)], bo_page := p\<rparr>)"
proof -
  have "stays same_session (bindE (getE (bo_session_id \<circ> bw_session)) (\<lambda>sid. succeed d NewTab None [(''session_id'', JText sid)]))"
    by (intro steps_intro)
  note after = session_then [OF this]
  have go: "stays same_session (case url of None \<Rightarrow> retE () | Some u \<Rightarrow> drive (dv_goto d p u 30000))" for p
    by (intro steps_intro)
  show ?thesis unfolding new_tab_def after snd_or_browser_error by (rule via_new_page [OF assms go])
qed

lemma recover_session:
  assumes "new_page d (before_recovery d b) = (r, c)"
  shows "bw_session (snd (recover_crashed_page d url t b)) =
    (if bo_crash_count (bw_session b) > 1 then bw_session b else case r of Inl e \<Rightarrow> bw_session b
     | Inr p \<Rightarrow> (bw_session b)\<lparr>bo_watched := bo_watched (bw_session b) @ [bo_page (bw_session b)], bo_page := p\<rparr>)"
proof -
  obtain q where q: "catchE (active (\<lambda>p. drive (dv_close_page d p))) (\<lambda>e. retE ()) b = (Inr q, before_recovery d b)"
    using catch_total [of "active (\<lambda>p. drive (dv_close_page d p))" "()" b] unfolding before_recovery_def by blast
  have "stays same_session (catchE (active (\<lambda>p. drive (dv_close_page d p))) (\<lambda>e. retE ()))" by (intro steps_intro)
  then have same: "bw_session (before_recovery d b) = bw_session b" by (simp add: before_recovery_def stays_def same_session_def)
  have "stays same_session (navigate d url t)" unfolding navigate_def by (intro steps_intro)
  from via_new_page [OF assms this] q same show ?thesis
    by (simp add: recover_crashed_page_def bind_get raiseE_def thenE_def [of "catchE _ _"] bindE_def [of "catchE _ _"]
        split: sum.split)
qed

lemma moved_after:
  assumes "moved seen o1" "\<And>p. r = Inr p \<Longrightarrow> p \<notin> seen \<and> seen' = insert p seen" "\<And>e. r = Inl e \<Longrightarrow> seen' = seen"
  shows "moved seen' (case r of Inl e \<Rightarrow> o1 | Inr p \<Rightarrow> o1\<lparr>bo_watched := bo_watched o1 @ [bo_page o1], bo_page := p\<rparr>)"
  using assms by (cases r) (auto simp: moved_def)

lemma session_run_moved: "session_run d seen b \<Longrightarrow> moved seen (bw_session b)"
proof (induction rule: session_run.induct)
  case (tab seen b r c seen' url)
  then show ?case using moved_after [OF tab.IH, of r seen'] by (simp add: new_tab_session)
next
  case (recover seen b r c seen' url t)
  have "seen \<subseteq> seen'" using recover.hyps by (cases r) auto
  then have "moved seen' (bw_session b)" using recover.IH by (auto simp: moved_def)
  with recover moved_after [OF recover.IH, of r seen'] show ?case by (simp add: recover_session)
qed (auto simp: moved_def on_crash_def on_load_def modE_def)

text \<open>
  Crashes of the page in use are never counted: until a tab is switched to, the page a
  session works on carries none of its crash listeners, whatever tabs are opened, crashes
  reported and recoveries made, because a listener is registered on the page that is being
  replaced. Listeners sit on earlier pages only.
\<close>

theorem active_page_unwatched:
  assumes "session_run d seen b"
  shows "bo_page (bw_session b) \<notin> set (bo_watched (bw_session b)) \<and> set (bo_watched (bw_session b)) \<subseteq> seen"
  using session_run_moved [OF assms] by (simp add: moved_def)

text \<open>A browser that opens pages and contexts under fresh handles and whose downloads must be awaited.\<close>

definition sample_driver :: "nat driver" where
  "sample_driver = \<lparr>dv_goto = \<lambda>p u t. retE (), dv_url = \<lambda>p w. ''about:blank'', dv_title = \<lambda>p. retE ''t'',
     dv_is_closed = \<lambda>p w. False, dv_viewport_size = \<lambda>p w. None, dv_evaluate = \<lambda>p s. retE JNull,
     dv_click = \<lambda>p l. retE (), dv_fill = \<lambda>p l t. retE (), dv_type = \<lambda>p l t. retE (), dv_select_option = \<lambda>p l t. retE (),
     dv_wait_for = \<lambda>p l t. retE (), dv_screenshot = \<lambda>p. retE ''png'', dv_inner_text = \<lambda>p s. retE ''x'',
     dv_expect_download = \<lambda>p t m. thenE m (retE PendingDownload), dv_download_path = \<lambda>h. retE None,
     dv_new_page = \<lambda>c w. (Inr w, Suc w), dv_pages = \<lambda>c w. [0..<w], dv_close_page = \<lambda>p. retE (),
     dv_close_context = \<lambda>c. retE (), dv_start = retE (), dv_launch = \<lambda>x. retE 0,
     dv_new_context = \<lambda>h w. (Inr w, Suc w), dv_set_timeouts = \<lambda>c a b w. w,
     dv_uuid = \<lambda>n. replicate n (CHR ''u''), dv_close_browser = \<lambda>h. retE (), dv_stop = retE ()\<rparr>"

definition sample_browsing :: "nat browsing" where
  "sample_browsing = \<lparr>bw_session = \<lparr>bo_session_id = ''s'', bo_context = 9, bo_page = 0, bo_crash_count = 0,
     bo_watched = []\<rparr>, bw_world = 1\<rparr>"

theorem active_page_unwatched_witness:
  "bo_watched (bw_session (snd (new_tab sample_driver None sample_browsing))) = [0] \<and>
   bo_page (bw_session (snd (new_tab sample_driver None sample_browsing))) \<notin> {0}"
proof -
  have "session_run sample_driver {0} sample_browsing"
    by (rule session_run.opened) (simp_all add: sample_browsing_def)
  moreover have new: "new_page sample_driver sample_browsing = (Inr 1, sample_browsing\<lparr>bw_world := 2\<rparr>)"
    by (simp add: new_page_def bind_get drive_def sample_driver_def sample_browsing_def)
  ultimately have "session_run sample_driver {1, 0} (snd (new_tab sample_driver None sample_browsing))"
    by (rule session_run.tab) simp_all
  from active_page_unwatched [OF this] new show ?thesis by (simp add: new_tab_session) (simp add: sample_browsing_def)
qed

section \<open>Downloads\<close>

text \<open>
  No download is ever reported when what the driver yields must be awaited, as Playwright's
  asynchronous interface documents: the element is clicked, the download is waited for, and the
  action then raises because it reads the file name from the pending value.
\<close>

theorem download_never_returns:
  assumes "\<And>p t m w v w'. dv_expect_download d p t m w = (Inr v, w') \<Longrightarrow> v = PendingDownload"
  shows "\<exists>e u. download d st value role t b = (Inl e, u) \<and> exn_class e = App BrowserError \<and>
    (case resolve_locator st value role of
       Inl e \<Rightarrow> u = b
     | Inr l \<Rightarrow> bw_world u = snd (dv_expect_download d (bo_page (bw_session b)) t
         (dv_click d (bo_page (bw_session b)) l) (bw_world b)))"
proof (cases "resolve_locator st value role")
  case (Inl e)
  then show ?thesis
    by (simp add: download_def bindE_def or_browser_error_def catchE_def on_locator_def liftE_def raiseE_def)
next
  case (Inr l)
  obtain r w where w: "dv_expect_download d (bo_page (bw_session b)) t (dv_click d (bo_page (bw_session b)) l) (bw_world b) = (r, w)"
    by fastforce
  show ?thesis
  proof (cases r)
    case (Inl e)
    with w Inr show ?thesis
      by (simp add: download_def bindE_def or_browser_error_def catchE_def on_locator_def liftE_def raiseE_def active_def drive_def)
  next
    case (Inr v)
    with w assms have "v = PendingDownload" by blast
    with w Inr \<open>resolve_locator st value role = Inr l\<close> show ?thesis
      by (simp add: download_def bindE_def or_browser_error_def catchE_def on_locator_def liftE_def raiseE_def active_def drive_def)
  qed
qed

section \<open>Sessions of one manager\<close>

text \<open>
  The runs of a manager between calls; \<open>used\<close> are the contexts that the browser has handed
  out, each one once.
\<close>

inductive manager_run :: "'w driver \<Rightarrow> browser_settings \<Rightarrow> nat set \<Rightarrow> 'w manager \<Rightarrow> bool"
  for d :: "'w driver" and st :: browser_settings where
  created: "mg_sessions s = [] \<Longrightarrow> manager_run d st {} s"
| start: "manager_run d st used s \<Longrightarrow> manager_run d st used (snd (start_manager d st s))"
| stop: "manager_run d st used s \<Longrightarrow> manager_run d st used (snd (stop_manager d s))"
| act: "manager_run d st used s \<Longrightarrow> manager_run d st used (snd (browser_call d sid rq s))"
| close: "manager_run d st used s \<Longrightarrow> manager_run d st used (snd (close_browsing_session d sid s))"
| open_ok: "manager_run d st used s \<Longrightarrow> open_browsing d st s = (Inr obj, u) \<Longrightarrow> bo_context obj \<notin> used \<Longrightarrow>
    manager_run d st (insert (bo_context obj) used) u"
| open_fails: "manager_run d st used s \<Longrightarrow> open_browsing d st s = (Inl e, u) \<Longrightarrow> manager_run d st used u"

definition isolated :: "'w driver \<Rightarrow> nat set \<Rightarrow> 'w manager \<Rightarrow> bool" where
  "isolated d used s = (distinct (map fst (mg_sessions s)) \<and> distinct (map (bo_context \<circ> snd) (mg_sessions s)) \<and>
     (\<forall>(k, obj) \<in> set (mg_sessions s). bo_session_id obj = k \<and> bo_context obj \<in> used \<and> k \<in> dv_uuid d ` {..<mg_uuids s}))"

definition sessions_kept :: "'w manager \<Rightarrow> 'w manager \<Rightarrow> bool" where
  "sessions_kept s u = (mg_uuids u = mg_uuids s \<and> (mg_sessions u = mg_sessions s \<or> mg_sessions u = []))"

lemma kept_rels [steps_intro]: "reflp sessions_kept" "transp sessions_kept"
  by (auto simp: sessions_kept_def reflp_def transp_def)

lemma isolated_kept: "isolated d used s \<Longrightarrow> sessions_kept s u \<Longrightarrow> isolated d used u"
  by (auto simp: isolated_def sessions_kept_def)

lemma steps_in_browser [steps_intro]: "stays sessions_kept (in_browser m)"
  by (rule manager_world.run_within) (simp add: sessions_kept_def)

lemma steps_manager_fields [steps_intro]:
  "stays sessions_kept (modE (\<lambda>s. s\<lparr>mg_playwright := b\<rparr>))" "stays sessions_kept (modE (\<lambda>s. s\<lparr>mg_browser := h\<rparr>))"
  "stays sessions_kept (modE (\<lambda>s. s\<lparr>mg_sessions := []\<rparr>))"
  by (simp_all add: stays_def modE_def sessions_kept_def)

lemma steps_close_all [steps_intro]: "stays sessions_kept (close_all d xs)"
  by (induction xs) (auto intro!: steps_intro)

lemma steps_start: "stays sessions_kept (start_manager d st)"
  unfolding start_manager_def by (intro steps_intro)

lemma steps_option [steps_intro]: "stays R n \<Longrightarrow> (\<And>x. stays R (f x)) \<Longrightarrow> stays R (case v of None \<Rightarrow> n | Some x \<Rightarrow> f x)"
  by (cases v) simp_all

lemma steps_stop: "stays sessions_kept (stop_manager d)"
  unfolding stop_manager_def by (intro steps_intro)

lemma in_browser_run: "in_browser m s = (r, u) \<Longrightarrow> \<exists>w. u = s\<lparr>mg_world := w\<rparr>"
  by (auto elim: manager_world.run_cases)

lemma open_browsing_Inr:
  assumes "open_browsing d st s = (Inr obj, u)"
  shows "mg_uuids u = Suc (mg_uuids s) \<and> bo_session_id obj = dv_uuid d (mg_uuids s) \<and>
    mg_sessions u = AList.update (dv_uuid d (mg_uuids s)) obj (mg_sessions s)"
proof -
  from assms obtain h where "mg_browser s = Some h"
    by (cases "mg_browser s") (simp_all add: open_browsing_def bind_get raiseE_def)
  with assms show ?thesis
    by (auto simp: open_browsing_def bind_get thenE_def bindE_Inr_iff modE_def retE_def Let_def dest!: in_browser_run)
qed

lemma open_browsing_Inl: "open_browsing d st s = (Inl e, u) \<Longrightarrow> sessions_kept s u"
  by (cases "mg_browser s")
    (auto simp: open_browsing_def bind_get thenE_def bindE_Inl_iff modE_def retE_def raiseE_def Let_def sessions_kept_def
      dest!: in_browser_run)

lemma update_present:
  "map_of xs k = Some y \<Longrightarrow> distinct (map fst xs) \<Longrightarrow>
   AList.update k z xs = map (\<lambda>(a, b). (a, if a = k then z else b)) xs"
proof (induction xs)
  case (Cons x xs)
  then show ?case by (cases x) (auto intro!: map_idI [symmetric] simp: image_iff dest: map_of_SomeD)
qed simp

lemma update_absent: "map_of xs k = None \<Longrightarrow> AList.update k z xs = xs @ [(k, z)]"
  by (induction xs) auto

lemma isolated_act:
  assumes "isolated d used s" "map_of (mg_sessions s) sid = Some obj"
    "bo_session_id obj' = bo_session_id obj" "bo_context obj' = bo_context obj"
  shows "isolated d used (s\<lparr>mg_world := w, mg_sessions := AList.update sid obj' (mg_sessions s)\<rparr>)"
proof -
  let ?xs = "mg_sessions s"
  have dist: "distinct (map fst ?xs)" using assms(1) by (simp add: isolated_def)
  have eq: "AList.update sid obj' ?xs = map (\<lambda>(a, b). (a, if a = sid then obj' else b)) ?xs"
    by (rule update_present [OF assms(2) dist])
  have only: "b = obj" if "(sid, b) \<in> set ?xs" for b
    using that assms(2) map_of_eq_Some_iff [OF dist] by (metis option.inject)
  have "map fst (AList.update sid obj' ?xs) = map fst ?xs" unfolding eq by (simp add: case_prod_beta comp_def)
  moreover have "map (bo_context \<circ> snd) (AList.update sid obj' ?xs) = map (bo_context \<circ> snd) ?xs"
    unfolding eq using only assms(4) by auto
  moreover have "\<forall>(k, x) \<in> set (AList.update sid obj' ?xs). bo_session_id x = k \<and> bo_context x \<in> used \<and> k \<in> dv_uuid d ` {..<mg_uuids s}"
    unfolding eq using assms(1,3,4) only by (fastforce simp: isolated_def)
  ultimately show ?thesis using assms(1) by (simp add: isolated_def)
qed

lemma isolated_delete:
  assumes "isolated d used s"
  shows "isolated d used (s\<lparr>mg_world := w, mg_sessions := AList.delete sid (mg_sessions s)\<rparr>)"
proof -
  have f: "AList.delete sid (mg_sessions s) = filter (\<lambda>(k, v). sid \<noteq> k) (mg_sessions s)"
    by (simp add: AList.delete_eq)
  show ?thesis using assms unfolding isolated_def
    by (auto simp: f distinct_map inj_on_def)
qed

lemma isolated_open:
  assumes "isolated d used s" "inj (dv_uuid d)" "open_browsing d st s = (Inr obj, u)" "bo_context obj \<notin> used"
  shows "isolated d (insert (bo_context obj) used) u"
proof -
  let ?k = "dv_uuid d (mg_uuids s)"
  have "?k \<notin> fst ` set (mg_sessions s)"
    using assms(1,2) by (fastforce simp: isolated_def inj_eq)
  then have "AList.update ?k obj (mg_sessions s) = mg_sessions s @ [(?k, obj)]"
    by (intro update_absent) (simp add: map_of_eq_None_iff)
  with open_browsing_Inr [OF assms(3)] have u: "mg_uuids u = Suc (mg_uuids s)" "bo_session_id obj = ?k"
    "mg_sessions u = mg_sessions s @ [(?k, obj)]" by simp_all
  show ?thesis using assms(1,4) \<open>?k \<notin> _\<close> unfolding isolated_def u(1,3) by (auto simp: lessThan_Suc u(2))
qed

lemma manager_run_isolated: "manager_run d st used s \<Longrightarrow> inj (dv_uuid d) \<Longrightarrow> isolated d used s"
proof (induction rule: manager_run.induct)
  case (start used s)
  then show ?case using isolated_kept steps_start unfolding stays_def by blast
next
  case (stop used s)
  then show ?case using isolated_kept steps_stop unfolding stays_def by blast
next
  case (act used s sid rq)
  obtain r u where run: "browser_call d sid rq s = (r, u)" by fastforce
  with browser_call_outcome [where d = d and sid = sid and rq = rq and s = s] isolated_act [OF act.IH [OF act.prems]] act show ?case
    by (cases "map_of (mg_sessions s) sid") auto
next
  case (close used s sid)
  then have i: "isolated d used s" by simp
  show ?case
  proof (cases "map_of (mg_sessions s) sid")
    case None
    with i show ?thesis by (simp add: close_browsing_session_def bind_get retE_def)
  next
    case (Some obj)
    obtain r w where "dv_close_context d (bo_context obj) (mg_world s) = (r, w)" by fastforce
    with Some have "snd (close_browsing_session d sid s) =
        s\<lparr>mg_world := w, mg_sessions := AList.delete sid (mg_sessions s)\<rparr>"
      by (simp add: close_browsing_session_def bind_get) (simp add: thenE_def bindE_def modE_def in_browser_def)
    with isolated_delete [OF i] show ?thesis by simp
  qed
next
  case (open_ok used s obj u)
  then show ?case using isolated_open by blast
next
  case (open_fails used s e u)
  then show ?case using isolated_kept open_browsing_Inl by blast
qed (simp add: isolated_def)


definition sample_manager :: "nat manager" where
  "sample_manager = \<lparr>mg_playwright = True, mg_browser = Some 0, mg_sessions = [], mg_uuids = 0, mg_world = 0\<rparr>"

definition two_sessions :: "nat manager" where
  "two_sessions = snd (open_browsing sample_driver default_browser_settings
     (snd (open_browsing sample_driver default_browser_settings sample_manager)))"


end
