(* ===== verification/Browser_Runs.thy ===== *)
theory Browser_Runs
  imports Core_Properties Browser_Properties
begin

text \<open>
  The orchestrator over the modelled browser manager: \<open>_open_browser_session_if_needed\<close> and
  \<open>_close_browser_session\<close> of \<open>app/agents/orchestrator.py\<close> with the manager of
  \<open>app/browser/session.py\<close> in place of the four operations that a run takes from its environment.
\<close>

text \<open>
  The environment of an orchestrator that was given a manager and settings; the world of its
  planner and subgraphs is the manager, with everything else in the driver's world.
\<close>

definition with_browser :: "'w driver \<Rightarrow> browser_settings \<Rightarrow> 'w manager orch_env \<Rightarrow> 'w manager orch_env" where
  "with_browser d bst env = env\<lparr>env_has_browser := True, env_browser_start := start_manager d bst,
     env_browser_open := bindE (open_browsing d bst) (\<lambda>obj. retE (bo_session_id obj)),
     env_browser_close := close_browsing_session d, env_browser_stop := stop_manager d\<rparr>"

text \<open>A driver whose life-cycle calls succeed; page operations may fail.\<close>

definition never_raises :: "('s, 'a) op \<Rightarrow> bool" where
  "never_raises m = (\<forall>s. \<exists>x u. m s = (Inr x, u))"

definition responsive :: "'w driver \<Rightarrow> bool" where
  "responsive d = (never_raises (dv_start d) \<and> (\<forall>x. never_raises (dv_launch d x)) \<and> (\<forall>h. never_raises (dv_new_context d h)) \<and>
     (\<forall>c. never_raises (dv_new_page d c)) \<and> (\<forall>c. never_raises (dv_close_context d c)) \<and>
     (\<forall>h. never_raises (dv_close_browser d h)) \<and> never_raises (dv_stop d))"

section \<open>The life cycle of the manager\<close>

lemma never_raisesE:
  assumes "never_raises m"
  obtains x u where "m s = (Inr x, u)"
  using assms unfolding never_raises_def by blast

lemma never_bind: "never_raises m \<Longrightarrow> (\<And>x. never_raises (f x)) \<Longrightarrow> never_raises (bindE m f)"
  unfolding never_raises_def bindE_def by (metis (no_types, lifting) case_prod_conv old.sum.simps(6))

lemma never_then: "never_raises m \<Longrightarrow> never_raises n \<Longrightarrow> never_raises (thenE m n)"
  by (simp add: thenE_def never_bind)

lemma never_simple: "never_raises (retE x)" "never_raises (modE g)" "never_raises (getE h)"
  by (simp_all add: never_raises_def retE_def modE_def getE_def)

lemma never_in_browser: "never_raises m \<Longrightarrow> never_raises (in_browser m)"
  by (auto simp: never_raises_def in_browser_def split: prod.splits) (metis prod.inject)

lemma never_case_option: "never_raises n \<Longrightarrow> (\<And>x. never_raises (f x)) \<Longrightarrow>
    never_raises (case v of None \<Rightarrow> n | Some x \<Rightarrow> f x)"
  by (cases v) simp_all

lemmas never_intro = never_bind never_then never_simple never_in_browser never_case_option

lemma never_close_all: "responsive d \<Longrightarrow> never_raises (close_all d xs)"
  by (induction xs) (auto intro!: never_intro simp: responsive_def)

lemma never_close: "responsive d \<Longrightarrow> never_raises (close_browsing_session d sid)"
  unfolding close_browsing_session_def by (intro never_intro) (simp add: responsive_def)

lemma never_stop: "responsive d \<Longrightarrow> never_raises (stop_manager d)"
  unfolding stop_manager_def whenE_def
  by (intro never_intro never_close_all) (auto intro: never_intro simp: responsive_def)

lemma start_run:
  assumes "responsive d"
  shows "\<exists>u h. start_manager d bst s = (Inr (), u) \<and> mg_browser u = Some h"
proof -
  from assms have live: "never_raises (dv_start d)" "never_raises (dv_launch d (launch_options_of bst))"
    by (simp_all add: responsive_def)
  obtain x1 w1 where "dv_start d (mg_world s) = (Inr x1, w1)" using live(1) by (rule never_raisesE)
  moreover obtain b w2 where "dv_launch d (launch_options_of bst) w1 = (Inr b, w2)"
    using live(2) by (rule never_raisesE)
  ultimately show ?thesis by (simp add: start_manager_def op_defs in_browser_def)
qed

lemma open_run:
  assumes "responsive d" "mg_browser s = Some h"
  shows "\<exists>obj u. open_browsing d bst s = (Inr obj, u)"
proof -
  from assms(1) have live: "never_raises (dv_new_context d h)" "never_raises (dv_new_page d c)" for c
    by (simp_all add: responsive_def)
  obtain c w1 where "dv_new_context d h (mg_world s) = (Inr c, w1)" using live(1) by (rule never_raisesE)
  moreover obtain p w2 where
    "dv_new_page d c (dv_set_timeouts d c (bs_default_timeout_ms bst) (bs_navigation_timeout_ms bst) w1) = (Inr p, w2)"
    using live(2) by (rule never_raisesE)
  ultimately show ?thesis
    using assms(2) by (simp add: open_browsing_def op_defs in_browser_def Let_def)
qed

lemma stop_clears:
  assumes "responsive d"
  shows "\<exists>u. stop_manager d s = (Inr (), u) \<and> mg_sessions u = []"
proof -
  let ?rest = "thenE (bindE (getE mg_browser) (\<lambda>b. case b of None \<Rightarrow> retE () | Some h \<Rightarrow> in_browser (dv_close_browser d h)))
     (bindE (getE mg_playwright) (\<lambda>p. whenE p (in_browser (dv_stop d))))"
  have rest: "stays sessions_kept ?rest" by (intro steps_intro)
  obtain y u where "stop_manager d s = (Inr y, u)" using never_stop [OF assms] by (rule never_raisesE)
  then have u: "stop_manager d s = (Inr (), u)" by simp
  then obtain t where "?rest (t\<lparr>mg_sessions := []\<rparr>) = (Inr (), u)"
    by (auto simp: stop_manager_def bind_get thenE_def bindE_Inr_iff modE_def)
  with rest have "sessions_kept (t\<lparr>mg_sessions := []\<rparr>) u" unfolding stays_def by (metis snd_conv)
  with u show ?thesis by (simp add: sessions_kept_def)
qed

section \<open>The life cycle within a run\<close>

lemma with_browser_sel [simp]:
  "env_has_browser (with_browser d bst env)" "env_browser_start (with_browser d bst env) = start_manager d bst"
  "env_browser_open (with_browser d bst env) = bindE (open_browsing d bst) (\<lambda>obj. retE (bo_session_id obj))"
  "env_browser_close (with_browser d bst env) = close_browsing_session d"
  "env_browser_stop (with_browser d bst env) = stop_manager d"
  by (simp_all add: with_browser_def)

lemma opens_session:
  assumes "responsive d" "list_ex (\<lambda>x. ps_agent x = ''browser'') (plan_steps p)"
  shows "\<exists>sid u. open_browser_if_needed (with_browser d bst env) p s = (Inr (Some sid), u)"
proof -
  from start_run [OF assms(1)] obtain v h where v: "start_manager d bst (o_world s) = (Inr (), v)" "mg_browser v = Some h"
    by blast
  from open_run [OF assms(1) v(2)] obtain obj w where "open_browsing d bst v = (Inr obj, w)" by blast
  with v(1) assms(2) show ?thesis
    by (simp add: open_browser_if_needed_def on_world_def op_defs)
qed

lemma closes_all:
  assumes "responsive d"
  shows "\<exists>u. close_browser (with_browser d bst env) (Some sid) s = (Inr (), u) \<and> mg_sessions (o_world u) = []"
proof -
  obtain y v where "close_browsing_session d sid (o_world s) = (Inr y, v)"
    using never_close [OF assms] by (rule never_raisesE)
  then have v: "close_browsing_session d sid (o_world s) = (Inr (), v)" by simp
  obtain u where "stop_manager d v = (Inr (), u)" "mg_sessions u = []" using stop_clears [OF assms] by blast
  with v show ?thesis by (simp add: close_browser_def on_world_def op_defs)
qed

lemma run_plan_clears:
  assumes "responsive d" "list_ex (\<lambda>x. ps_agent x = ''browser'') (plan_steps p)"
    "run_plan (with_browser d bst env) tid timeout p s = (r, u)"
  shows "mg_sessions (o_world u) = []"
proof -
  let ?env = "with_browser d bst env"
  let ?a = "approved_actions_for tid (work (o_session s))"
  obtain sid s1 where b: "open_browser_if_needed ?env p s = (Inr (Some sid), s1)"
    using opens_session [OF assms(1,2)] by blast
  obtain e v where e: "run_body ?env tid timeout p ?a (Some sid) s1 = (e, v)" by fastforce
  obtain w where w: "close_browser ?env (Some sid) v = (Inr (), w)" "mg_sessions (o_world w) = []"
    using closes_all [OF assms(1)] by blast
  have "guarded ?env tid timeout p ?a s = (e, w)"
    using b e w(1) by (simp add: guarded_def bindE_def finallyE_def)
  with assms(3) have "o_world u = o_world w"
    by (auto simp: run_plan_guarded catchE_def on_session_run split: sum.splits)
  with w(2) show ?thesis by simp
qed


text \<open>A manager with a session of someone else, and a task whose plan browses.\<close>

definition browsing_env :: "nat manager orch_env" where
  "browsing_env = \<lparr>env_limits = default_limits,
     env_planner = (\<lambda>i w. (Inr \<lparr>pp_plan = \<lparr>plan_steps = [demo_step ''look'' ''browser'' False]\<rparr>, pp_model = None\<rparr>, w)),
     env_graphs = [''browser'' \<mapsto> (\<lambda>th d bs w. (Inr [''seen''], w))],
     env_clock = of_nat, env_has_browser = False, env_browser_start = retE (),
     env_browser_open = retE [], env_browser_close = (\<lambda>_. retE ()), env_browser_stop = retE (),
     env_cancelled = (\<lambda>_ _. False)\<rparr>"

definition browsing_orch :: "nat manager orch" where
  "browsing_orch = \<lparr>o_session = open_session (demo_db CREATED) 7, o_state = new_state 0, o_clock = 0,
     o_world = two_sessions, o_calls = []\<rparr>"


end
