(* ===== verification/Sha256.thy ===== *)
theory Sha256
  imports Operator_Prelude "HOL-Library.Word"
begin

unbundle bit_operations_syntax

text \<open>
  \<open>hashlib.sha256(data).hexdigest()\<close> (FIPS 180-4) on a list of byte values, and the UTF-8
  encoding of the model's characters. \<open>content_hash\<close> is that of \<open>app/content/validators.py\<close>.
\<close>

section \<open>UTF-8\<close>

definition utf8_char :: "char \<Rightarrow> int list" where
  "utf8_char c = (let n = of_char c in if n < 128 then [n] else [192 + n div 64, 128 + n mod 64])"

definition utf8 :: "string \<Rightarrow> int list" where
  "utf8 s = concat (map utf8_char s)"

section \<open>The hash\<close>

type_synonym w32 = "32 word"

definition rotr :: "nat \<Rightarrow> w32 \<Rightarrow> w32" where
  "rotr n x = (drop_bit n x OR push_bit (32 - n) x)"

definition round_constants :: "w32 list" where
  "round_constants = [
   1116352408, 1899447441, 3049323471, 3921009573, 961987163, 1508970993, 2453635748, 2870763221,
   3624381080, 310598401, 607225278, 1426881987, 1925078388, 2162078206, 2614888103, 3248222580,
   3835390401, 4022224774, 264347078, 604807628, 770255983, 1249150122, 1555081692, 1996064986,
   2554220882, 2821834349, 2952996808, 3210313671, 3336571891, 3584528711, 113926993, 338241895,
   666307205, 773529912, 1294757372, 1396182291, 1695183700, 1986661051, 2177026350, 2456956037,
   2730485921, 2820302411, 3259730800, 3345764771, 3516065817, 3600352804, 4094571909, 275423344,
   430227734, 506948616, 659060556, 883997877, 958139571, 1322822218, 1537002063, 1747873779,
   1955562222, 2024104815, 2227730452, 2361852424, 2428436474, 2756734187, 3204031479, 3329325298]"

definition initial_hash :: "w32 list" where
  "initial_hash = [1779033703, 3144134277, 1013904242, 2773480762,
     1359893119, 2600822924, 528734635, 1541459225]"

fun to_bytes :: "nat \<Rightarrow> int \<Rightarrow> int list" where
  "to_bytes 0 n = []"
| "to_bytes (Suc k) n = to_bytes k (n div 256) @ [n mod 256]"

definition pad :: "int list \<Rightarrow> int list" where
  "pad bs = bs @ 128 # replicate ((119 - length bs mod 64) mod 64) 0 @ to_bytes 8 (8 * int (length bs))"

fun words_of :: "int list \<Rightarrow> w32 list" where
  "words_of (a # b # c # d # bs) =
     word_of_int (((a * 256 + b) * 256 + c) * 256 + d) # words_of bs"
| "words_of _ = []"

function blocks :: "'a list \<Rightarrow> 'a list list" where
  "blocks xs = (if length xs < 16 then [] else take 16 xs # blocks (drop 16 xs))"
  by pat_completeness auto
termination
  by (relation "measure length") auto

declare blocks.simps [simp del]

text \<open>The message schedule: the last sixteen words, the latest first, determine the next.\<close>

fun extend :: "nat \<Rightarrow> w32 list \<Rightarrow> w32 list" where
  "extend 0 ws = rev ws"
| "extend (Suc n) ws =
     (let x = ws ! 14; y = ws ! 1;
          s0 = rotr 7 x XOR rotr 18 x XOR drop_bit 3 x;
          s1 = rotr 17 y XOR rotr 19 y XOR drop_bit 10 y
      in extend n ((ws ! 15 + s0 + ws ! 6 + s1) # ws))"

fun compress_round :: "w32 \<times> w32 \<Rightarrow> w32 list \<Rightarrow> w32 list" where
  "compress_round (k, w) [a, b, c, d, e, f, g, h] =
     (let s1 = rotr 6 e XOR rotr 11 e XOR rotr 25 e;
          ch = (e AND f) XOR (NOT e AND g);
          t1 = h + s1 + ch + k + w;
          s0 = rotr 2 a XOR rotr 13 a XOR rotr 22 a;
          maj = (a AND b) XOR (a AND c) XOR (b AND c);
          t2 = s0 + maj
      in [t1 + t2, a, b, c, d + t1, e, f, g])"
| "compress_round _ hs = hs"

definition compress :: "w32 list \<Rightarrow> w32 list \<Rightarrow> w32 list" where
  "compress hs block =
     map2 (+) hs (fold compress_round (zip round_constants (extend 48 (rev block))) hs)"

definition hex_digit :: "int \<Rightarrow> char" where
  "hex_digit n = (if n < 10 then char_of (48 + n) else char_of (87 + n))"

fun hex_of :: "nat \<Rightarrow> int \<Rightarrow> string" where
  "hex_of 0 n = []"
| "hex_of (Suc k) n = hex_of k (n div 16) @ [hex_digit (n mod 16)]"

definition sha256_hex :: "int list \<Rightarrow> string" where
  "sha256_hex bs =
     concat (map (\<lambda>w. hex_of 8 (uint w)) (fold (\<lambda>b hs. compress hs b) (blocks (words_of (pad bs))) initial_hash))"

definition content_hash :: "string \<Rightarrow> string" where
  "content_hash content = sha256_hex (utf8 (py_strip content))"

section \<open>Shape of a digest\<close>

lemma length_hex_of [simp]: "length (hex_of k n) = k"
  by (induction k arbitrary: n) auto

lemma length_compress_round [simp]: "length (compress_round kw hs) = length hs"
  by (cases "(kw, hs)" rule: compress_round.cases) (auto simp: Let_def)

lemma length_fold_round [simp]: "length (fold compress_round ks hs) = length hs"
  by (induction ks arbitrary: hs) auto

lemma length_compress: "length hs = 8 \<Longrightarrow> length (compress hs b) = 8"
  by (simp add: compress_def)

lemma length_fold_compress: "length hs = 8 \<Longrightarrow> length (fold (\<lambda>b hs. compress hs b) bs hs) = 8"
  by (induction bs arbitrary: hs) (auto simp: length_compress)

lemma length_concat_const: "(\<And>x. length (f x) = k) \<Longrightarrow> length (concat (map f xs)) = k * length xs"
  by (induction xs) auto

lemma length_sha256_hex: "length (sha256_hex bs) = 64"
proof -
  have "length (fold (\<lambda>b hs. compress hs b) (blocks (words_of (pad bs))) initial_hash) = 8"
    by (rule length_fold_compress) (simp add: initial_hash_def)
  then show ?thesis by (simp add: sha256_hex_def length_concat_const [where k = 8])
qed

end
