(* ===== verification/Social_Publish.thy ===== *)
theory Social_Publish
  imports Sha256 Task_Services Tool_Engine
begin

text \<open>
  Publishing: the X and LinkedIn adapters (\<open>app/social\<close>), the publish tools and the
  verification tool (\<open>app/tools/builtin/social_publish.py\<close>, \<open>social_verify.py\<close>) and the
  routes of \<open>app/api/routes/social.py\<close>.

  The HTTP client is a parameter: a request is an operation on the world that answers a
  status, the header \<open>X-RestLi-Id\<close> and a JSON body, or raises. The state of a tool is its
  database session, the world and \<open>pb_sent\<close>, the publish requests sent so far, which no
  definition of the program reads. The time stamps of the outputs are not modelled.
\<close>

section \<open>Responses\<close>

datatype json = JStr string | JObj "(string \<times> json) list" | JOther

text \<open>\<open>value.get(key, default)\<close>, and the use of a value where the code needs a string.\<close>

definition json_get :: "json \<Rightarrow> string \<Rightarrow> json \<Rightarrow> json result" where
  "json_get j k d = (case j of
      JObj kv \<Rightarrow> Inr (case map_of kv k of None \<Rightarrow> d | Some v \<Rightarrow> v)
    | _ \<Rightarrow> Inl (py_error PyAttributeError ''get'' []))"

definition json_text :: "json \<Rightarrow> string result" where
  "json_text j = (case j of JStr s \<Rightarrow> Inr s | _ \<Rightarrow> Inl (py_error (PyOther ''pydantic.ValidationError'') '''' []))"

record http_response =
  hr_status :: nat
  hr_restli_id :: "string option"
  hr_body :: "exn + json"

datatype post_payload = XPost string | LinkedInPost string string

record 'w http =
  http_post :: "string \<Rightarrow> string \<Rightarrow> post_payload \<Rightarrow> ('w, http_response) op"
  http_get :: "string \<Rightarrow> string \<Rightarrow> ('w, http_response) op"

record adapter_result =
  ap_external_id :: string
  ap_url :: string

record 'w pub =
  pb_session :: session
  pb_world :: 'w
  pb_sent :: "(platform \<times> string \<times> string) list"

definition pub_session :: "(session, 'a) op \<Rightarrow> ('w pub, 'a) op" where
  "pub_session m = (\<lambda>s. case m (pb_session s) of (r, x) \<Rightarrow> (r, s\<lparr>pb_session := x\<rparr>))"

definition pub_world :: "('w, 'a) op \<Rightarrow> ('w pub, 'a) op" where
  "pub_world m = (\<lambda>s. case m (pb_world s) of (r, x) \<Rightarrow> (r, s\<lparr>pb_world := x\<rparr>))"

interpretation pub_rows: component pb_session "\<lambda>x s. s\<lparr>pb_session := x\<rparr>" pub_session
  by unfold_locales (simp_all add: pub_session_def split: prod.splits)

interpretation pub_net: component pb_world "\<lambda>x s. s\<lparr>pb_world := x\<rparr>" pub_world
  by unfold_locales (simp_all add: pub_world_def split: prod.splits)

definition log_sent :: "platform \<Rightarrow> string \<Rightarrow> string \<Rightarrow> ('w pub, unit) op" where
  "log_sent p content key = modE (\<lambda>s. s\<lparr>pb_sent := pb_sent s @ [(p, content, key)]\<rparr>)"

section \<open>The X adapter\<close>

record x_credentials =
  x_access_token :: "string option"
  x_bearer_token :: "string option"

definition x_require_credentials :: "x_credentials \<Rightarrow> unit result" where
  "x_require_credentials c =
     (if \<not> truthy (x_access_token c) \<and> \<not> truthy (x_bearer_token c)
      then Inl (app_error AuthenticationError ''X credentials are not configured'' []) else Inr ())"

text \<open>The token of the header \<open>Authorization\<close>.\<close>

definition x_headers :: "x_credentials \<Rightarrow> string result" where
  "x_headers c = (case (x_access_token c, x_bearer_token c) of
      (Some (a # as), _) \<Rightarrow> Inr (a # as)
    | (_, Some (b # bs)) \<Rightarrow> Inr (b # bs)
    | _ \<Rightarrow> Inl (app_error AuthenticationError ''No valid X credentials available'' []))"

definition x_url :: "string \<Rightarrow> string" where
  "x_url i = ''https://x.com/i/web/status/'' @ i"

definition x_published :: "http_response \<Rightarrow> adapter_result result" where
  "x_published r =
     (if hr_status r = 201 then
        bindR (hr_body r) (\<lambda>j. bindR (json_get j ''data'' (JObj [])) (\<lambda>d.
        bindR (json_get d ''id'' (JStr [])) (\<lambda>v. bindR (json_text v) (\<lambda>i.
        Inr \<lparr>ap_external_id = i, ap_url = x_url i\<rparr>))))
      else if hr_status r = 429
      then Inl (app_error RateLimitError ''X API rate limit exceeded'' [])
      else if hr_status r = 401 \<or> hr_status r = 403
      then Inl (app_error AuthenticationError ''X API authentication failed: {}'' [AInt (int (hr_status r))])
      else Inl (app_error ToolError ''X API publish failed: HTTP {}'' [AInt (int (hr_status r))]))"

definition x_publish :: "'w http \<Rightarrow> x_credentials \<Rightarrow> string \<Rightarrow> string \<Rightarrow> ('w pub, adapter_result) op" where
  "x_publish h c content key =
     thenE (liftE (x_require_credentials c))
     (bindE (liftE (x_headers c)) (\<lambda>token.
      thenE (log_sent X content key)
      (bindE (pub_world (http_post h ''https://api.twitter.com/2/tweets'' token (XPost content))) (\<lambda>r.
       liftE (x_published r)))))"

text \<open>\<open>verify\<close> answers whether the post exists, and details for the record.\<close>

type_synonym verify_answer = "bool \<times> (string \<times> emsg) list"

definition said :: "string \<Rightarrow> emsg" where
  "said s = Msg s []"

definition not_verified :: "emsg \<Rightarrow> verify_answer" where
  "not_verified m = (False, [(''error'', m)])"

definition x_verified :: "string \<Rightarrow> http_response \<Rightarrow> verify_answer result" where
  "x_verified i r =
     (if hr_status r = 200 then
        bindR (hr_body r) (\<lambda>j. bindR (json_get j ''data'' (JObj [])) (\<lambda>d.
        bindR (json_get d ''text'' (JStr [])) (\<lambda>tj. bindR (json_text tj) (\<lambda>t.
        bindR (json_get d ''created_at'' (JStr [])) (\<lambda>cj. bindR (json_text cj) (\<lambda>c.
        Inr (True, [(''text'', said t), (''created_at'', said c)])))))))
      else if hr_status r = 404 then Inr (not_verified (Msg ''Tweet {} not found'' [AStr i]))
      else if hr_status r = 429 then Inr (not_verified (said ''Rate limited during verification''))
      else Inr (not_verified (Msg ''HTTP {}'' [AInt (int (hr_status r))])))"

definition x_verify :: "'w http \<Rightarrow> x_credentials \<Rightarrow> string option \<Rightarrow> ('w pub, verify_answer) op" where
  "x_verify h c ext = (case ext of
      None \<Rightarrow> retE (not_verified (said ''No external_id provided''))
    | Some i \<Rightarrow>
        if i = [] then retE (not_verified (said ''No external_id provided''))
        else if x_require_credentials c \<noteq> Inr ()
        then retE (not_verified (said ''X credentials not configured for verification''))
        else bindE (liftE (x_headers c)) (\<lambda>token.
          bindE (pub_world (http_get h (''https://api.twitter.com/2/tweets/'' @ i) token)) (\<lambda>r.
          liftE (x_verified i r))))"

definition x_idempotency_key :: "string \<Rightarrow> string \<Rightarrow> string" where
  "x_idempotency_key draft_id content = ''x:'' @ draft_id @ '':'' @ content_hash content"

text \<open>\<open>create_draft\<close>: an object that is not stored; its status is the default the column gets when it is.\<close>

definition x_create_draft :: "string \<Rightarrow> draft" where
  "x_create_draft content = \<lparr>d_task_id = None, d_platform = X, d_content = content, d_status = DraftNew\<rparr>"


section \<open>The LinkedIn adapter\<close>

record li_credentials =
  li_access_token :: "string option"
  li_author_urn :: "string option"

definition li_require_credentials :: "li_credentials \<Rightarrow> unit result" where
  "li_require_credentials c =
     (if \<not> truthy (li_access_token c)
      then Inl (app_error AuthenticationError ''LinkedIn credentials are not configured'' []) else Inr ())"

definition li_url :: "string \<Rightarrow> string" where
  "li_url i = ''https://www.linkedin.com/feed/update/'' @ i"

definition li_published :: "http_response \<Rightarrow> adapter_result result" where
  "li_published r =
     (if hr_status r = 200 \<or> hr_status r = 201 then
        bindR (if truthy (hr_restli_id r) then Inr (the (hr_restli_id r))
               else bindR (hr_body r) (\<lambda>j. bindR (json_get j ''id'' (JStr [])) json_text)) (\<lambda>i.
        Inr \<lparr>ap_external_id = i, ap_url = li_url i\<rparr>)
      else if hr_status r = 429
      then Inl (app_error RateLimitError ''LinkedIn API rate limit exceeded'' [])
      else if hr_status r = 401 \<or> hr_status r = 403
      then Inl (app_error AuthenticationError ''LinkedIn API authentication failed: {}'' [AInt (int (hr_status r))])
      else Inl (app_error ToolError ''LinkedIn API publish failed: HTTP {}'' [AInt (int (hr_status r))]))"

definition li_publish :: "'w http \<Rightarrow> li_credentials \<Rightarrow> string \<Rightarrow> string \<Rightarrow> ('w pub, adapter_result) op" where
  "li_publish h c content key =
     thenE (liftE (li_require_credentials c))
     (if \<not> truthy (li_author_urn c)
      then raiseE (app_error AuthenticationError ''LinkedIn author URN is required for publishing'' [])
      else
        thenE (log_sent LinkedIn content key)
        (bindE (pub_world (http_post h ''https://api.linkedin.com/v2/posts'' (the (li_access_token c))
            (LinkedInPost (the (li_author_urn c)) content))) (\<lambda>r.
         liftE (li_published r))))"

definition li_verified :: "string \<Rightarrow> http_response \<Rightarrow> verify_answer result" where
  "li_verified i r =
     (if hr_status r = 200 then
        bindR (hr_body r) (\<lambda>d.
        bindR (json_get d ''commentary'' (JStr [])) (\<lambda>tj. bindR (json_text tj) (\<lambda>t.
        bindR (json_get d ''createdTime'' (JStr [])) (\<lambda>cj. bindR (json_text cj) (\<lambda>c.
        Inr (True, [(''commentary'', said t), (''created_time'', said c)]))))))
      else if hr_status r = 404 then Inr (not_verified (Msg ''Post {} not found'' [AStr i]))
      else if hr_status r = 429 then Inr (not_verified (said ''Rate limited during verification''))
      else Inr (not_verified (Msg ''HTTP {}'' [AInt (int (hr_status r))])))"

definition li_verify :: "'w http \<Rightarrow> li_credentials \<Rightarrow> string option \<Rightarrow> ('w pub, verify_answer) op" where
  "li_verify h c ext = (case ext of
      None \<Rightarrow> retE (not_verified (said ''No external_id provided''))
    | Some i \<Rightarrow>
        if i = [] then retE (not_verified (said ''No external_id provided''))
        else if li_require_credentials c \<noteq> Inr ()
        then retE (not_verified (said ''LinkedIn credentials not configured for verification''))
        else
          bindE (pub_world (http_get h (''https://api.linkedin.com/v2/posts/'' @ i) (the (li_access_token c))))
            (\<lambda>r. liftE (li_verified i r)))"

definition li_create_draft :: "string \<Rightarrow> draft" where
  "li_create_draft content = \<lparr>d_task_id = None, d_platform = LinkedIn, d_content = content, d_status = DraftNew\<rparr>"

definition li_idempotency_key :: "string \<Rightarrow> string \<Rightarrow> string" where
  "li_idempotency_key draft_id content = ''linkedin:'' @ draft_id @ '':'' @ content_hash content"

section \<open>The publish tools\<close>

record publish_input =
  pin_draft_id :: uuid
  pin_key :: string

record publish_output =
  pout_post_id :: string
  pout_url :: string

text \<open>
  \<open>flush\<close> sends the pending rows: the unique constraint on the key can fail, which rolls
  the transaction back.
\<close>

definition flush_posts :: "(session, unit) op" where
  "flush_posts = (\<lambda>s. if keys_unique (social_posts (work s)) then (Inr (), s)
     else (Inl (py_error DbIntegrityError ''uq_social_posts_idempotency_key'' []), s\<lparr>work := committed s\<rparr>))"

definition find_duplicate :: "string \<Rightarrow> (session, (uuid \<times> social_post) option) op" where
  "find_duplicate key =
     bindE (getE (\<lambda>s. filter (\<lambda>(k, p). sp_idempotency_key p = key \<and> sp_execution_status p = ExecSucceeded)
               (social_posts (work s)))) (\<lambda>rows. case rows of
       [] \<Rightarrow> retE None
     | [r] \<Rightarrow> retE (Some r)
     | _ \<Rightarrow> raiseE (py_error DbMultipleResults '''' []))"

definition record_attempt ::
  "uuid \<Rightarrow> exec_status \<Rightarrow> (string \<times> string) option \<Rightarrow> (emsg \<times> exn_class) option \<Rightarrow> (session, unit) op" where
  "record_attempt pid st resp err =
     bindE uuid4 (\<lambda>aid. put_attempt aid \<lparr>pa_social_post_id = pid, pa_status = st, pa_response = resp, pa_error = err\<rparr>)"

text \<open>\<open>f"{value}"\<close> of an optional string.\<close>

definition show_opt :: "string option \<Rightarrow> string" where
  "show_opt v = (case v of None \<Rightarrow> ''None'' | Some s \<Rightarrow> s)"

definition new_post :: "platform \<Rightarrow> uuid \<Rightarrow> draft \<Rightarrow> string \<Rightarrow> nat \<Rightarrow> social_post" where
  "new_post plat did d key now = \<lparr>sp_draft_id = Some did, sp_platform = plat, sp_idempotency_key = key,
     sp_content_hash = content_hash (d_content d), sp_external_id = None, sp_execution_status = ExecPending,
     sp_verification_status = Unverified, sp_created_at = now\<rparr>"

text \<open>
  The body of both tools after the credential check. The source repeats it in the two
  classes; the platform, the post's URL and the adapter's \<open>publish\<close> are arguments here.
\<close>

definition publish_flow ::
  "platform \<Rightarrow> (string \<Rightarrow> string) \<Rightarrow> (string \<Rightarrow> string \<Rightarrow> ('w pub, adapter_result) op) \<Rightarrow> publish_input
   \<Rightarrow> ('w pub, publish_output) op" where
  "publish_flow plat url publish inp =
     bindE (pub_session (find_duplicate (pin_key inp))) (\<lambda>existing. case existing of
       Some (k, p) \<Rightarrow>
         retE \<lparr>pout_post_id = (case sp_external_id p of None \<Rightarrow> [] | Some i \<Rightarrow> i),
               pout_url = url (show_opt (sp_external_id p))\<rparr>
     | None \<Rightarrow>
         bindE (getE (\<lambda>s. tget (drafts (work (pb_session s))) (pin_draft_id inp))) (\<lambda>dr. case dr of
           None \<Rightarrow> raiseE (app_error ToolError ''Draft {} not found'' [AId (pin_draft_id inp)])
         | Some d \<Rightarrow>
             bindE (pub_session uuid4) (\<lambda>pid.
             let row = new_post plat (pin_draft_id inp) d (pin_key inp) pid in
             thenE (pub_session (put_post pid row))
             (thenE (pub_session flush_posts)
             (bindE (tryE (publish (d_content d) (pin_key inp))) (\<lambda>r. case r of
                Inl e \<Rightarrow>
                  thenE (pub_session (put_post pid (row\<lparr>sp_execution_status := ExecFailed\<rparr>)))
                  (thenE (pub_session (record_attempt pid ExecFailed None (Some (exn_msg e, exn_class e))))
                  (thenE (pub_session commit)
                  (raiseE e)))
              | Inr res \<Rightarrow>
                  thenE (pub_session (put_post pid (row\<lparr>sp_external_id := Some (ap_external_id res),
                      sp_execution_status := ExecSucceeded\<rparr>)))
                  (thenE (pub_session (record_attempt pid ExecSucceeded
                      (Some (ap_external_id res, ap_url res)) None))
                  (thenE (pub_session commit)
                  (retE \<lparr>pout_post_id = ap_external_id res, pout_url = ap_url res\<rparr>)))))))))"

definition x_publish_tool_execute ::
  "'w http \<Rightarrow> x_credentials \<Rightarrow> publish_input \<Rightarrow> ('w pub, publish_output) op" where
  "x_publish_tool_execute h c inp =
     (if \<not> truthy (x_access_token c) \<and> \<not> truthy (x_bearer_token c)
      then raiseE (app_error AuthenticationError ''X access token or bearer token is required for publishing'' [])
      else publish_flow X x_url (x_publish h c) inp)"

definition li_publish_tool_execute ::
  "'w http \<Rightarrow> li_credentials \<Rightarrow> publish_input \<Rightarrow> ('w pub, publish_output) op" where
  "li_publish_tool_execute h c inp =
     (if \<not> truthy (li_access_token c)
      then raiseE (app_error AuthenticationError ''LinkedIn access token is required for publishing'' [])
      else publish_flow LinkedIn li_url (li_publish h c) inp)"

definition publish_permissions :: tool_permissions where
  "publish_permissions = (perms HIGH True)\<lparr>tp_supports_idempotency := True\<rparr>"

definition x_publish_tool :: "'w http \<Rightarrow> x_credentials \<Rightarrow> (publish_input, publish_output, 'w pub) tool" where
  "x_publish_tool h c = \<lparr>tool_name = ''social_publish_x'', tool_permissions = publish_permissions,
     tool_execute = x_publish_tool_execute h c\<rparr>"

definition li_publish_tool :: "'w http \<Rightarrow> li_credentials \<Rightarrow> (publish_input, publish_output, 'w pub) tool" where
  "li_publish_tool h c = \<lparr>tool_name = ''social_publish_linkedin'', tool_permissions = publish_permissions,
     tool_execute = li_publish_tool_execute h c\<rparr>"


section \<open>The verification tool\<close>

record verify_input =
  vin_platform :: platform
  vin_post_id :: string
  vin_expected_hash :: string

record verify_output =
  vout_status :: verif_status
  vout_details :: "(string \<times> emsg) list"

definition find_post :: "string \<Rightarrow> (session, uuid \<times> social_post) op" where
  "find_post ext =
     bindE (getE (\<lambda>s. filter (\<lambda>(k, p). sp_external_id p = Some ext) (social_posts (work s)))) (\<lambda>rows. case rows of
       [] \<Rightarrow> raiseE (app_error ToolError ''SocialPost with external_id {} not found'' [AStr ext])
     | [r] \<Rightarrow> retE r
     | _ \<Rightarrow> raiseE (py_error DbMultipleResults '''' []))"

definition verify_x ::
  "'w http \<Rightarrow> x_credentials \<Rightarrow> string option \<Rightarrow> ('w pub, verify_answer) op" where
  "verify_x h c ext =
     (if \<not> truthy ext then retE (not_verified (said ''No external_id to verify''))
      else if \<not> truthy (x_access_token c) \<and> \<not> truthy (x_bearer_token c)
      then retE (not_verified (said ''X credentials not configured for verification''))
      else x_verify h c ext)"

definition verify_linkedin ::
  "'w http \<Rightarrow> li_credentials \<Rightarrow> string option \<Rightarrow> ('w pub, verify_answer) op" where
  "verify_linkedin h c ext =
     (if \<not> truthy ext then retE (not_verified (said ''No external_id to verify''))
      else if \<not> truthy (li_access_token c)
      then retE (not_verified (said ''LinkedIn credentials not configured for verification''))
      else li_verify h c ext)"

definition show_bool :: "bool \<Rightarrow> string" where
  "show_bool b = (if b then ''True'' else ''False'')"

definition social_verify_execute ::
  "'w http \<Rightarrow> x_credentials \<Rightarrow> li_credentials \<Rightarrow> verify_input \<Rightarrow> ('w pub, verify_output) op" where
  "social_verify_execute h xc lc inp =
     bindE (pub_session (find_post (vin_post_id inp))) (\<lambda>(pid, p).
     bindE (tryE (case vin_platform inp of
          X \<Rightarrow> verify_x h xc (sp_external_id p)
        | LinkedIn \<Rightarrow> verify_linkedin h lc (sp_external_id p))) (\<lambda>r.
     let (ok, details) = (case r of
            Inr a \<Rightarrow> a
          | Inl e \<Rightarrow> (False, [(''error'', Msg ''Verification request failed: {}'' [AMsg (exn_msg e)])]));
         same = (sp_content_hash p = vin_expected_hash inp);
         details' = (if ok then details @ [(''content_hash_match'', said (show_bool same)),
             (''expected_hash'', said (vin_expected_hash inp)), (''actual_hash'', said (sp_content_hash p))]
           else details);
         st = (if ok \<and> same then Verified else VerifFailed)
     in thenE (pub_session (put_post pid (p\<lparr>sp_verification_status := st\<rparr>)))
        (bindE (pub_session uuid4) (\<lambda>vid.
         thenE (pub_session (put_verification vid \<lparr>vr_social_post_id = pid, vr_status = st\<rparr>))
         (thenE (pub_session commit)
         (retE \<lparr>vout_status = st, vout_details = details'\<rparr>))))))"

section \<open>Routes\<close>

record publish_request =
  pr_draft_id :: uuid
  pr_approval_id :: uuid
  pr_key :: string

record publish_result =
  pres_platform :: platform
  pres_external_id :: "string option"
  pres_key :: string
  pres_content_hash :: string
  pres_status :: exec_status

definition load_approved_draft :: "publish_request \<Rightarrow> (session, draft) op" where
  "load_approved_draft rq =
     bindE (getE (\<lambda>s. tget (drafts (work s)) (pr_draft_id rq))) (\<lambda>dr. case dr of
       None \<Rightarrow> raiseE (app_error ValidationError ''Draft {} not found'' [AId (pr_draft_id rq)])
     | Some d \<Rightarrow>
         bindE (get_approval (pr_approval_id rq)) (\<lambda>a.
         if a_status a \<noteq> Approved
         then raiseE (app_error ApprovalRequiredError ''Publishing requires an approved approval record'' [])
         else retE d))"

type_synonym 'w publish_engine = "(publish_input, publish_output, 'w pub) engine"

definition publish_route ::
  "platform \<Rightarrow> ('w pub, publish_output) retrier \<Rightarrow> (nat \<Rightarrow> rat)
   \<Rightarrow> (publish_input, publish_output, 'w pub) registry \<Rightarrow> publish_request \<Rightarrow> ('w publish_engine, publish_result) op" where
  "publish_route plat rt clk reg rq =
     (let name = (case plat of X \<Rightarrow> ''social_publish_x'' | LinkedIn \<Rightarrow> ''social_publish_linkedin'') in
      thenE (bindE (in_world (pub_session (load_approved_draft rq))) (\<lambda>_. retE ()))
      (bindE (execute rt clk reg name \<lparr>pin_draft_id = pr_draft_id rq, pin_key = pr_key rq\<rparr>
          (Some (default_context\<lparr>ctx_approved_actions := {name}\<rparr>))) (\<lambda>r.
       retE \<lparr>pres_platform = plat, pres_external_id = Some (pout_post_id (er_output r)),
             pres_key = pr_key rq, pres_content_hash = [], pres_status = ExecSucceeded\<rparr>)))"

definition publish_x_route ::
  "('w pub, publish_output) retrier \<Rightarrow> (nat \<Rightarrow> rat) \<Rightarrow> (publish_input, publish_output, 'w pub) registry
   \<Rightarrow> publish_request \<Rightarrow> ('w publish_engine, publish_result) op" where
  "publish_x_route = publish_route X"

definition publish_linkedin_route ::
  "('w pub, publish_output) retrier \<Rightarrow> (nat \<Rightarrow> rat) \<Rightarrow> (publish_input, publish_output, 'w pub) registry
   \<Rightarrow> publish_request \<Rightarrow> ('w publish_engine, publish_result) op" where
  "publish_linkedin_route = publish_route LinkedIn"

end
