(* ===== verification/Tool_Catalogue.thy ===== *)
theory Tool_Catalogue
  imports Social_Publish Agents
begin

text \<open>
  The tools that \<open>build_registry\<close> of \<open>app/tools/factory.py\<close> registers, with the names and
  permissions their classes declare, and the tool names each agent graph asks for
  (\<open>app/agents/graphs\<close>). What a tool does is an argument here; the tools themselves are
  modelled in the theories of their modules.
\<close>

section \<open>Declarations\<close>

text \<open>
  What a tool's class declares: its name, its permissions and its time limit, which no code of the
  engine reads. The description is text for the model and is left out.
\<close>

record tool_declaration =
  td_name :: string
  td_permissions :: tool_permissions
  td_timeout_seconds :: nat

definition declare_tool :: "string \<Rightarrow> tool_permissions \<Rightarrow> nat \<Rightarrow> tool_declaration" where
  "declare_tool n p t = \<lparr>td_name = n, td_permissions = p, td_timeout_seconds = t\<rparr>"

definition file_read_tool :: tool_declaration where
  "file_read_tool = declare_tool ''file_read'' (perms LOW False) 30"

definition file_write_tool :: tool_declaration where
  "file_write_tool = declare_tool ''file_write'' (perms MEDIUM False) 30"

definition file_edit_tool :: tool_declaration where
  "file_edit_tool = declare_tool ''file_edit'' (perms MEDIUM False) 30"

definition file_delete_tool :: tool_declaration where
  "file_delete_tool = declare_tool ''file_delete'' (perms HIGH True) 30"

definition folder_create_tool :: tool_declaration where
  "folder_create_tool = declare_tool ''folder_create'' (perms LOW False) 30"

definition folder_list_tool :: tool_declaration where
  "folder_list_tool = declare_tool ''folder_list'' (perms LOW False) 30"

definition folder_delete_tool :: tool_declaration where
  "folder_delete_tool = declare_tool ''folder_delete'' (perms HIGH True) 30"

definition shell_run_tool :: tool_declaration where
  "shell_run_tool = declare_tool ''shell_run'' (perms MEDIUM False) 30"

definition web_search_tool :: tool_declaration where
  "web_search_tool = declare_tool ''web_search'' (perms LOW False) 20"

definition lang_search_tool :: tool_declaration where
  "lang_search_tool = declare_tool ''lang_search'' (perms LOW False) 20"

definition web_fetch_tool :: tool_declaration where
  "web_fetch_tool = declare_tool ''web_fetch'' (perms LOW False) 30"

definition content_draft_tool :: tool_declaration where
  "content_draft_tool = declare_tool ''content_draft'' (perms MEDIUM False) 30"

definition content_validate_tool :: tool_declaration where
  "content_validate_tool = declare_tool ''content_validate'' (perms LOW False) 5"

definition fact_check_tool :: tool_declaration where
  "fact_check_tool = declare_tool ''fact_check'' (perms LOW False) 60"

definition social_publish_x_tool :: tool_declaration where
  "social_publish_x_tool = declare_tool ''social_publish_x'' (publish_permissions) 30"

definition social_publish_linkedin_tool :: tool_declaration where
  "social_publish_linkedin_tool = declare_tool ''social_publish_linkedin'' (publish_permissions) 30"

definition social_verify_tool :: tool_declaration where
  "social_verify_tool = declare_tool ''social_verify'' (perms LOW False) 30"

definition browser_navigate_tool :: tool_declaration where
  "browser_navigate_tool = declare_tool ''browser_navigate'' (perms LOW False) 30"

definition browser_inspect_tool :: tool_declaration where
  "browser_inspect_tool = declare_tool ''browser_inspect'' (perms LOW False) 30"

definition browser_click_tool :: tool_declaration where
  "browser_click_tool = declare_tool ''browser_click'' (perms MEDIUM False) 30"

definition browser_type_tool :: tool_declaration where
  "browser_type_tool = declare_tool ''browser_type'' (perms MEDIUM False) 30"

definition browser_select_tool :: tool_declaration where
  "browser_select_tool = declare_tool ''browser_select'' (perms MEDIUM False) 30"

definition browser_extract_tool :: tool_declaration where
  "browser_extract_tool = declare_tool ''browser_extract'' (perms LOW False) 30"

definition browser_scroll_tool :: tool_declaration where
  "browser_scroll_tool = declare_tool ''browser_scroll'' (perms MEDIUM False) 30"

definition browser_screenshot_tool :: tool_declaration where
  "browser_screenshot_tool = declare_tool ''browser_screenshot'' (perms LOW False) 30"

definition browser_wait_tool :: tool_declaration where
  "browser_wait_tool = declare_tool ''browser_wait'' (perms MEDIUM False) 30"

definition browser_download_tool :: tool_declaration where
  "browser_download_tool = declare_tool ''browser_download'' (perms MEDIUM True) 30"

definition browser_new_tab_tool :: tool_declaration where
  "browser_new_tab_tool = declare_tool ''browser_new_tab'' (perms MEDIUM False) 30"

definition browser_switch_tab_tool :: tool_declaration where
  "browser_switch_tab_tool = declare_tool ''browser_switch_tab'' (perms MEDIUM False) 30"

definition browser_list_tabs_tool :: tool_declaration where
  "browser_list_tabs_tool = declare_tool ''browser_list_tabs'' (perms LOW False) 30"

lemmas declaration_defs = declare_tool_def
  file_read_tool_def file_write_tool_def file_edit_tool_def file_delete_tool_def
  folder_create_tool_def folder_list_tool_def folder_delete_tool_def shell_run_tool_def
  web_search_tool_def lang_search_tool_def web_fetch_tool_def content_draft_tool_def
  content_validate_tool_def fact_check_tool_def social_publish_x_tool_def
  social_publish_linkedin_tool_def social_verify_tool_def browser_navigate_tool_def
  browser_inspect_tool_def browser_click_tool_def browser_type_tool_def browser_select_tool_def
  browser_extract_tool_def browser_scroll_tool_def browser_screenshot_tool_def browser_wait_tool_def
  browser_download_tool_def browser_new_tab_tool_def browser_switch_tab_tool_def
  browser_list_tabs_tool_def

section \<open>The registered tools\<close>

definition filesystem_tools :: "tool_declaration list" where
  "filesystem_tools = [file_read_tool, file_write_tool, file_edit_tool, file_delete_tool, folder_create_tool,
     folder_list_tool, folder_delete_tool]"

definition shell_tools :: "tool_declaration list" where
  "shell_tools = [shell_run_tool]"

definition web_tools :: "tool_declaration list" where
  "web_tools = [web_search_tool, lang_search_tool, web_fetch_tool]"

definition content_tools :: "tool_declaration list" where
  "content_tools = [content_draft_tool, content_validate_tool]"

definition fact_check_tools :: "tool_declaration list" where
  "fact_check_tools = [fact_check_tool]"

definition social_tools :: "tool_declaration list" where
  "social_tools = [social_publish_x_tool, social_publish_linkedin_tool, social_verify_tool]"

definition browser_tools :: "tool_declaration list" where
  "browser_tools = [browser_navigate_tool, browser_inspect_tool, browser_click_tool, browser_type_tool,
     browser_select_tool, browser_extract_tool, browser_scroll_tool, browser_screenshot_tool,
     browser_wait_tool, browser_download_tool, browser_new_tab_tool, browser_switch_tab_tool,
     browser_list_tabs_tool]"

definition declarations :: "bool \<Rightarrow> tool_declaration list" where
  "declarations has_browser = filesystem_tools @ shell_tools @ web_tools @ content_tools @ fact_check_tools @
     social_tools @ (if has_browser then browser_tools else [])"

definition catalogue :: "bool \<Rightarrow> (string \<times> tool_permissions) list" where
  "catalogue has_browser = map (\<lambda>d. (td_name d, td_permissions d)) (declarations has_browser)"

lemmas catalogue_defs = catalogue_def declarations_def filesystem_tools_def shell_tools_def web_tools_def
  content_tools_def fact_check_tools_def social_tools_def browser_tools_def declaration_defs

definition make_tool ::
  "(string \<Rightarrow> 'i \<Rightarrow> ('w, 'o) op) \<Rightarrow> string \<times> tool_permissions \<Rightarrow> ('i, 'o, 'w) tool" where
  "make_tool body np = \<lparr>tool_name = fst np, tool_permissions = snd np, tool_execute = body (fst np)\<rparr>"

definition build_registry :: "(string \<Rightarrow> 'i \<Rightarrow> ('w, 'o) op) \<Rightarrow> bool \<Rightarrow> ('i, 'o, 'w) registry" where
  "build_registry body has_browser = fold (\<lambda>np reg. register (make_tool body np) reg) (catalogue has_browser) []"

section \<open>Tools of the agents\<close>

definition RESEARCH_TOOL_NAMES :: "string list" where
  "RESEARCH_TOOL_NAMES = [''web_search'', ''lang_search'', ''web_fetch'']"

definition BROWSER_TOOL_NAMES :: "string list" where
  "BROWSER_TOOL_NAMES = [''browser_navigate'', ''browser_inspect'', ''browser_extract'', ''browser_click'',
     ''browser_type'', ''browser_select'', ''browser_scroll'', ''browser_wait'',
     ''browser_screenshot'', ''browser_download'', ''browser_new_tab'',
     ''browser_switch_tab'', ''browser_list_tabs'']"

definition CONTENT_TOOL_NAMES :: "string list" where
  "CONTENT_TOOL_NAMES = [''content_draft'', ''content_validate'']"

definition FACT_CHECK_TOOL_NAMES :: "string list" where
  "FACT_CHECK_TOOL_NAMES = [''web_search'', ''web_fetch'', ''fact_check'']"

definition SOCIAL_TOOL_NAMES :: "string list" where
  "SOCIAL_TOOL_NAMES = [''social_publish_x'', ''social_publish_linkedin'', ''social_verify'']"

definition VERIFICATION_TOOL_NAMES :: "string list" where
  "VERIFICATION_TOOL_NAMES = [''verify_action'', ''web_fetch'']"

definition LOCAL_SYSTEM_TOOL_NAMES :: "string list" where
  "LOCAL_SYSTEM_TOOL_NAMES = [''shell_run'', ''file_read'', ''file_write'', ''file_edit'', ''file_delete'',
     ''folder_create'', ''folder_list'', ''folder_delete'']"

lemmas tool_names_defs = RESEARCH_TOOL_NAMES_def BROWSER_TOOL_NAMES_def CONTENT_TOOL_NAMES_def FACT_CHECK_TOOL_NAMES_def SOCIAL_TOOL_NAMES_def VERIFICATION_TOOL_NAMES_def LOCAL_SYSTEM_TOOL_NAMES_def

text \<open>
  \<open>build_graph\<close>: the chat model of the agent's criteria and the wrappers of its registered tools
  are handed to \<open>create_react_agent\<close> of LangGraph, the argument \<open>react\<close>. The model is resolved
  first, so an unknown provider is an error before any tool is collected.
\<close>

definition react_graph ::
  "('m \<Rightarrow> ('i, 'o, 'w) tool list \<Rightarrow> 'g) \<Rightarrow> routing_criteria \<Rightarrow> string list \<Rightarrow> 'm provider_registry
   \<Rightarrow> routing_settings \<Rightarrow> ('i, 'o, 'w) registry \<Rightarrow> 'g result" where
  "react_graph react criteria names providers settings reg =
     bindR (resolve_model providers settings criteria) (\<lambda>m. Inr (react m (collect_tools names reg)))"

definition research_graph where
  "research_graph react = react_graph react RESEARCH_CRITERIA RESEARCH_TOOL_NAMES"

definition browser_graph where
  "browser_graph react = react_graph react BROWSER_CRITERIA BROWSER_TOOL_NAMES"

definition content_graph where
  "content_graph react = react_graph react CONTENT_CRITERIA CONTENT_TOOL_NAMES"

definition fact_check_graph where
  "fact_check_graph react = react_graph react FACT_CHECK_CRITERIA FACT_CHECK_TOOL_NAMES"

definition social_graph where
  "social_graph react = react_graph react SOCIAL_CRITERIA SOCIAL_TOOL_NAMES"

definition verification_graph where
  "verification_graph react = react_graph react VERIFICATION_CRITERIA VERIFICATION_TOOL_NAMES"

definition local_system_graph where
  "local_system_graph react = react_graph react LOCAL_SYSTEM_CRITERIA LOCAL_SYSTEM_TOOL_NAMES"

lemmas graph_defs = research_graph_def browser_graph_def content_graph_def fact_check_graph_def social_graph_def verification_graph_def local_system_graph_def

text \<open>The graph of each agent under the step kind that the orchestrator uses for it.\<close>

definition agent_graphs where
  "agent_graphs react = [(''research'', research_graph react),
     (''browser'', browser_graph react),
     (''content'', content_graph react),
     (''fact_check'', fact_check_graph react),
     (''social'', social_graph react),
     (''verify'', verification_graph react),
     (''local_system'', local_system_graph react)]"

definition agent_specs :: "(string \<times> routing_criteria \<times> string list) list" where
  "agent_specs = [(''research'', RESEARCH_CRITERIA, RESEARCH_TOOL_NAMES),
     (''browser'', BROWSER_CRITERIA, BROWSER_TOOL_NAMES),
     (''content'', CONTENT_CRITERIA, CONTENT_TOOL_NAMES),
     (''fact_check'', FACT_CHECK_CRITERIA, FACT_CHECK_TOOL_NAMES),
     (''social'', SOCIAL_CRITERIA, SOCIAL_TOOL_NAMES),
     (''verify'', VERIFICATION_CRITERIA, VERIFICATION_TOOL_NAMES),
     (''local_system'', LOCAL_SYSTEM_CRITERIA, LOCAL_SYSTEM_TOOL_NAMES)]"

lemma agent_graphs_specs:
  "agent_graphs react = map (\<lambda>(a, c, names). (a, react_graph react c names)) agent_specs"
  by (simp add: agent_graphs_def agent_specs_def graph_defs)

section \<open>The registry\<close>

lemma fold_register_get:
  "distinct (map fst nps) \<Longrightarrow>
   registry_get (fold (\<lambda>np reg. register (make_tool body np) reg) nps reg) n =
     (case map_of nps n of Some p \<Rightarrow> Inr (make_tool body (n, p)) | None \<Rightarrow> registry_get reg n)"
proof (induction nps arbitrary: reg)
  case (Cons np nps)
  then show ?case
    by (cases np) (auto simp: make_tool_def split: option.splits dest: map_of_SomeD intro: rev_image_eqI)
qed simp

lemma catalogue_distinct: "distinct (map fst (catalogue b))"
  by (cases b) (simp_all add: catalogue_defs)

lemma build_registry_get:
  "registry_get (build_registry body b) n =
     (case map_of (catalogue b) n of
        Some p \<Rightarrow> Inr (make_tool body (n, p))
      | None \<Rightarrow> Inl (app_error ValidationError ''No tool registered under {}'' [AStr n]))"
  unfolding build_registry_def fold_register_get [OF catalogue_distinct]
  by (cases "map_of (catalogue b) n") (simp_all add: registry_get_def)

lemma build_registry_ok: "registry_ok (build_registry body b)"
proof -
  have "registry_ok reg \<Longrightarrow> registry_ok (fold (\<lambda>np reg. register (make_tool body np) reg) nps reg)" for nps reg
    by (induction nps arbitrary: reg) (auto intro: register_ok)
  from this [of "[]" "catalogue b"] show ?thesis by (simp add: build_registry_def registry_ok_def)
qed

definition gated_names :: "bool \<Rightarrow> string list" where
  "gated_names b = map fst (filter (\<lambda>(n, p). needs_approval p) (catalogue b))"

lemma gated_names_eq:
  "gated_names b = [''file_delete'', ''folder_delete'', ''social_publish_x'', ''social_publish_linkedin''] @
     (if b then [''browser_download''] else [])"
  by (cases b) (simp_all add: gated_names_def catalogue_defs needs_approval_def perms_def publish_permissions_def)

text \<open>
  C8. The approval boundary: in the registry that the factory builds, the tools that the
  engine refuses without an approval are exactly the deletions of files and folders, the
  two publish tools and, with a browser, the download tool; each refuses unless its own
  name is approved, and every other registered tool runs without approval.
\<close>

theorem approval_boundary:
  assumes "registry_get (build_registry body b) n = Inr t"
  shows "(enforce_permissions t ctx = Inr ()) \<longleftrightarrow>
    (n \<in> {''file_delete'', ''folder_delete'', ''social_publish_x'', ''social_publish_linkedin'', ''browser_download''}
      \<longrightarrow> n \<in> ctx_approved_actions ctx)"
proof -
  from assms obtain p where p: "map_of (catalogue b) n = Some p" "t = make_tool body (n, p)"
    by (auto simp: build_registry_get split: option.splits)
  have m: "(n, p) \<in> set (catalogue b)" using p(1) by (rule map_of_SomeD)
  have "list_all (\<lambda>(n, p). \<not> tp_requires_authentication p \<and> (needs_approval p \<longleftrightarrow>
      n \<in> {''file_delete'', ''folder_delete'', ''social_publish_x'', ''social_publish_linkedin'', ''browser_download''}))
    (catalogue b)"
    by (cases b) (simp_all add: catalogue_defs needs_approval_def perms_def publish_permissions_def)
  with m p(2) show ?thesis
    unfolding list_all_iff by (fastforce simp: enforce_permissions_Inr_iff make_tool_def)
qed

theorem approval_boundary_witness:
  "enforce_permissions (make_tool (\<lambda>n (i :: nat). retE i :: (nat, nat) op) (''file_delete'', perms HIGH True)) default_context
    \<noteq> Inr ()"
proof -
  have "registry_get (build_registry (\<lambda>n (i :: nat). retE i :: (nat, nat) op) False) ''file_delete'' =
    Inr (make_tool (\<lambda>n i. retE i) (''file_delete'', perms HIGH True))"
    by (simp add: build_registry_get catalogue_defs)
  from approval_boundary [OF this, of default_context] show ?thesis by (simp add: default_context_def)
qed

lemma registered_iff:
  "(\<exists>t. registry_get (build_registry body b) n = Inr t \<and> tool_name t = n) \<longleftrightarrow> n \<in> set (map fst (catalogue b))"
proof (cases "map_of (catalogue b) n")
  case None
  then have "n \<notin> set (map fst (catalogue b))" by (simp add: map_of_eq_None_iff)
  with None show ?thesis by (simp add: build_registry_get)
next
  case (Some p)
  then have "n \<in> set (map fst (catalogue b))" by (auto dest: map_of_SomeD intro: rev_image_eqI)
  with Some show ?thesis by (simp add: build_registry_get make_tool_def)
qed

lemma collect_built:
  "map tool_name (collect_tools names (build_registry body b)) =
     filter (\<lambda>n. n \<in> set (map fst (catalogue b))) names"
proof (induction names)
  case (Cons n names)
  have look: "map_of (build_registry body b) n =
      (case map_of (catalogue b) n of None \<Rightarrow> None | Some p \<Rightarrow> Some (make_tool body (n, p)))"
    using build_registry_get [of body b n] by (auto simp: registry_get_def split: option.splits)
  show ?case
  proof (cases "map_of (catalogue b) n")
    case None
    then have "n \<notin> fst ` set (catalogue b)" by (simp add: map_of_eq_None_iff)
    with None look Cons show ?thesis
      by (simp add: collect_tools_def registry_contains_def)
  next
    case (Some p)
    then have "n \<in> fst ` set (catalogue b)" by (metis map_of_SomeD fst_conv image_eqI)
    with Some look Cons show ?thesis
      by (simp add: collect_tools_def registry_contains_def make_tool_def)
  qed
qed (simp add: collect_tools_def)

lemma names_in_catalogue:
  "list_all (\<lambda>n. (n \<in> set (map fst (catalogue True))) = (n \<noteq> ''verify_action''))
    (RESEARCH_TOOL_NAMES @ BROWSER_TOOL_NAMES @ CONTENT_TOOL_NAMES @ FACT_CHECK_TOOL_NAMES @
     SOCIAL_TOOL_NAMES @ VERIFICATION_TOOL_NAMES @ LOCAL_SYSTEM_TOOL_NAMES)"
  by (simp add: tool_names_defs catalogue_defs)

lemma agent_names_in_catalogue:
  assumes "(a, c, names) \<in> set agent_specs"
  shows "filter (\<lambda>n. n \<in> set (map fst (catalogue True))) names = filter (\<lambda>n. n \<noteq> ''verify_action'') names"
proof (rule filter_cong [OF refl])
  fix n assume "n \<in> set names"
  moreover have "names \<in> (snd \<circ> snd) ` set agent_specs" using assms by (force simp: image_iff)
  ultimately have "n \<in> set (concat (map (snd \<circ> snd) agent_specs))" unfolding set_concat set_map by blast
  then have "n \<in> set (RESEARCH_TOOL_NAMES @ BROWSER_TOOL_NAMES @ CONTENT_TOOL_NAMES @ FACT_CHECK_TOOL_NAMES @
     SOCIAL_TOOL_NAMES @ VERIFICATION_TOOL_NAMES @ LOCAL_SYSTEM_TOOL_NAMES)"
    by (simp only: agent_specs_def list.map comp_apply snd_conv concat.simps append_Nil2)
  then show "(n \<in> set (map fst (catalogue True))) = (n \<noteq> ''verify_action'')"
    using names_in_catalogue unfolding list_all_iff by blast
qed

lemma react_graph_Inr:
  "(react_graph react c names providers settings reg = Inr g) \<longleftrightarrow>
   (\<exists>m. resolve_model providers settings c = Inr m \<and> g = react m (collect_tools names reg))"
  by (auto simp: react_graph_def bindR_def split: sum.splits)

lemma agent_graph_tools:
  assumes "(a, build) \<in> set (agent_graphs (\<lambda>m ts. map tool_name ts))"
    and "build providers settings reg = Inr g"
  obtains c names where "(a, c, names) \<in> set agent_specs" "g = map tool_name (collect_tools names reg)"
  using assms unfolding agent_graphs_specs by (auto simp: react_graph_Inr)

text \<open>
  What the agents can reach: every step kind of the planner has a graph, and a graph that
  compiles over the built registry with a browser holds exactly the tools its module asks for,
  in order, except \<open>verify_action\<close>, which no tool has; so the verification agent is left with
  fetching alone.
\<close>

theorem agents_tools_registered:
  "fst ` set (agent_graphs (\<lambda>m ts. map tool_name ts)) = STEP_KINDS \<and>
   (\<forall>(a, build) \<in> set (agent_graphs (\<lambda>m ts. map tool_name ts)). \<forall>g.
      build providers settings (build_registry body True) = Inr g \<longrightarrow>
      (\<exists>c names. (a, c, names) \<in> set agent_specs \<and> g = filter (\<lambda>n. n \<noteq> ''verify_action'') names))"
proof (intro conjI)
  show "fst ` set (agent_graphs (\<lambda>m ts. map tool_name ts)) = STEP_KINDS"
    by (auto simp: agent_graphs_def STEP_KINDS_def)
  have "\<exists>c names. (a, c, names) \<in> set agent_specs \<and> g = filter (\<lambda>n. n \<noteq> ''verify_action'') names"
    if graph: "(a, build) \<in> set (agent_graphs (\<lambda>m ts. map tool_name ts))"
      "build providers settings (build_registry body True) = Inr g" for a build g
  proof -
    from graph obtain c names where n: "(a, c, names) \<in> set agent_specs"
      "g = map tool_name (collect_tools names (build_registry body True))" by (rule agent_graph_tools)
    from n(1) have "filter (\<lambda>n. n \<in> set (map fst (catalogue True))) names = filter (\<lambda>n. n \<noteq> ''verify_action'') names"
      by (rule agent_names_in_catalogue)
    with n show ?thesis unfolding collect_built by auto
  qed
  then show "\<forall>(a, build) \<in> set (agent_graphs (\<lambda>m ts. map tool_name ts)). \<forall>g.
      build providers settings (build_registry body True) = Inr g \<longrightarrow>
      (\<exists>c names. (a, c, names) \<in> set agent_specs \<and> g = filter (\<lambda>n. n \<noteq> ''verify_action'') names)"
    by blast
qed

theorem agents_tools_registered_witness:
  "verification_graph (\<lambda>m ts. map tool_name ts) [(''litellm'', \<lambda>n. n)]
     (default_routing_settings\<lparr>rs_default_provider := ''litellm''\<rparr>)
     (build_registry (\<lambda>n (i :: nat). retE i :: (nat, nat) op) True) = Inr [''web_fetch'']"
proof -
  define body where "body = (\<lambda>(n :: string) (i :: nat). retE i :: (nat, nat) op)"
  define st where "st = default_routing_settings\<lparr>rs_default_provider := ''litellm''\<rparr>"
  have ok: "verification_graph (\<lambda>m ts. map tool_name ts) [(''litellm'', \<lambda>n. n)] st (build_registry body True) =
      Inr (map tool_name (collect_tools VERIFICATION_TOOL_NAMES (build_registry body True)))"
    by (simp add: verification_graph_def react_graph_def bindR_def resolve_model_def create_chat_model_def
      get_provider_def st_def)
  have "(''verify'', verification_graph (\<lambda>m ts. map tool_name ts)) \<in> set (agent_graphs (\<lambda>m ts. map tool_name ts))"
    by (simp add: agent_graphs_def)
  with agents_tools_registered [of "[(''litellm'', \<lambda>n. n)]" st body] ok
  obtain c names where "(''verify'', c, names) \<in> set agent_specs"
    "map tool_name (collect_tools VERIFICATION_TOOL_NAMES (build_registry body True)) =
      filter (\<lambda>n. n \<noteq> ''verify_action'') names" by blast
  then have "map tool_name (collect_tools VERIFICATION_TOOL_NAMES (build_registry body True)) = [''web_fetch'']"
    by (auto simp: agent_specs_def tool_names_defs)
  with ok show ?thesis unfolding body_def st_def by simp
qed

end
