(* ===== verification/Local_System.thy ===== *)
theory Local_System
  imports Tool_Engine
begin

text \<open>
  The file and shell tools of the local system agent (\<open>app/tools/builtin/filesystem.py\<close>,
  \<open>shell.py\<close>) over a model of what \<open>pathlib\<close>, \<open>shutil\<close> and the operating system do.

  A path is the list of its component names. The file system is a table from paths to
  nodes; its root is always a directory. A file holds bytes (characters below 256). Opening a
  file listed in \<open>os_denied\<close> raises \<open>PermissionError\<close>; directories are writable. \<open>Path.resolve\<close>
  follows at most \<open>SYMLINK_LIMIT\<close> symbolic links. Text goes through a codec, an argument, and
  through the newline translation of Python's text files; time stamps are not modelled, and a leading double
  slash is read as a single one.
\<close>

section \<open>Files\<close>

type_synonym path = "string list"

datatype node = DirNode | FileNode string | LinkNode string

record os =
  os_nodes :: "(path \<times> node) list"
  os_cwd :: path
  os_denied :: "path list"

definition node_at :: "os \<Rightarrow> path \<Rightarrow> node option" where
  "node_at s p = (if p = [] then Some DirNode else map_of (os_nodes s) p)"

definition set_node :: "path \<Rightarrow> node \<Rightarrow> os \<Rightarrow> os" where
  "set_node p n s = s\<lparr>os_nodes := AList.update p n (os_nodes s)\<rparr>"

definition drop_node :: "path \<Rightarrow> os \<Rightarrow> os" where
  "drop_node p s = s\<lparr>os_nodes := AList.delete p (os_nodes s)\<rparr>"

definition drop_below :: "path \<Rightarrow> os \<Rightarrow> os" where
  "drop_below p s = s\<lparr>os_nodes := filter (\<lambda>(q, n). \<not> prefix p q) (os_nodes s)\<rparr>"

section \<open>Paths\<close>

text \<open>The components of a path text; an absolute one starts at the root.\<close>

fun path_parts :: "string \<Rightarrow> string \<Rightarrow> path" where
  "path_parts acc [] = (if acc = [] then [] else [rev acc])"
| "path_parts acc (c # cs) = (if c = CHR ''/''
     then (if acc = [] then path_parts [] cs else rev acc # path_parts [] cs)
     else path_parts (c # acc) cs)"

definition is_absolute :: "string \<Rightarrow> bool" where
  "is_absolute t = (t \<noteq> [] \<and> hd t = CHR ''/'')"

definition show_path :: "path \<Rightarrow> string" where
  "show_path p = ''/'' @ py_join ''/'' p"

definition path_name :: "path \<Rightarrow> string" where
  "path_name p = (if p = [] then [] else last p)"

definition SYMLINK_LIMIT :: nat where
  "SYMLINK_LIMIT = 40"

function resolve_from :: "nat \<Rightarrow> os \<Rightarrow> path \<Rightarrow> path \<Rightarrow> path result" where
  "resolve_from fuel s base [] = Inr base"
| "resolve_from fuel s base (c # cs) =
     (if c = ''.'' then resolve_from fuel s base cs
      else if c = ''..'' then resolve_from fuel s (butlast base) cs
      else (case node_at s (base @ [c]) of
          Some (LinkNode t) \<Rightarrow>
            if fuel = 0 then Inl (py_error PyRuntimeError ''Symlink loop from {}'' [AStr (show_path (base @ [c]))])
            else resolve_from (fuel - 1) s (if is_absolute t then [] else base) (path_parts [] t @ cs)
        | _ \<Rightarrow> resolve_from fuel s (base @ [c]) cs))"
  by pat_completeness auto
termination
  by (relation "measures [\<lambda>(f, s, b, cs). f, \<lambda>(f, s, b, cs). length cs]") auto

text \<open>\<open>Path(text).resolve()\<close>\<close>

definition resolve_path :: "string \<Rightarrow> (os, path) op" where
  "resolve_path t = (\<lambda>s. (resolve_from SYMLINK_LIMIT s (if is_absolute t then [] else os_cwd s) (path_parts [] t), s))"

section \<open>What the operating system does\<close>

definition os_error :: "exn_class \<Rightarrow> path \<Rightarrow> exn" where
  "os_error k p = py_error k ''{}'' [AStr (show_path p)]"

text \<open>\<open>os.mkdir\<close>, then \<open>Path.mkdir\<close> without and with \<open>parents\<close>.\<close>

definition os_mkdir :: "path \<Rightarrow> (os, unit) op" where
  "os_mkdir p = (\<lambda>s.
     if node_at s p \<noteq> None then (Inl (os_error PyFileExistsError p), s)
     else (case node_at s (butlast p) of
         None \<Rightarrow> (Inl (os_error PyFileNotFoundError p), s)
       | Some DirNode \<Rightarrow> (Inr (), set_node p DirNode s)
       | Some _ \<Rightarrow> (Inl (os_error PyOSError p), s)))"

definition mkdir_here :: "path \<Rightarrow> bool \<Rightarrow> (os, unit) op" where
  "mkdir_here p exist_ok = catchE (os_mkdir p) (\<lambda>e.
     bindE (getE (\<lambda>s. node_at s p = Some DirNode)) (\<lambda>is_dir.
     if exn_class e = PyFileNotFoundError \<or> \<not> exist_ok \<or> \<not> is_dir then raiseE e else retE ()))"

fun mkdir_parents :: "path \<Rightarrow> bool \<Rightarrow> (os, unit) op" where
  "mkdir_parents p exist_ok = catchE (os_mkdir p) (\<lambda>e.
     if exn_class e = PyFileNotFoundError
     then (if p = [] then raiseE e
           else thenE (mkdir_parents (butlast p) True) (mkdir_here p exist_ok))
     else bindE (getE (\<lambda>s. node_at s p = Some DirNode)) (\<lambda>is_dir.
       if \<not> exist_ok \<or> \<not> is_dir then raiseE e else retE ()))"

declare mkdir_parents.simps [simp del]

definition read_bytes :: "path \<Rightarrow> (os, string) op" where
  "read_bytes p = (\<lambda>s. (case node_at s p of
      None \<Rightarrow> Inl (os_error PyFileNotFoundError p)
    | Some (FileNode b) \<Rightarrow> if p \<in> set (os_denied s) then Inl (os_error PyPermissionError p) else Inr b
    | Some _ \<Rightarrow> Inl (os_error PyOSError p), s))"

definition write_bytes :: "path \<Rightarrow> string \<Rightarrow> (os, unit) op" where
  "write_bytes p b = (\<lambda>s. if p \<in> set (os_denied s) then (Inl (os_error PyPermissionError p), s)
    else case node_at s p of
      Some (FileNode _) \<Rightarrow> (Inr (), set_node p (FileNode b) s)
    | Some _ \<Rightarrow> (Inl (os_error PyOSError p), s)
    | None \<Rightarrow> (case node_at s (butlast p) of
          Some DirNode \<Rightarrow> (Inr (), set_node p (FileNode b) s)
        | None \<Rightarrow> (Inl (os_error PyFileNotFoundError p), s)
        | Some _ \<Rightarrow> (Inl (os_error PyOSError p), s)))"

definition os_unlink :: "path \<Rightarrow> (os, unit) op" where
  "os_unlink p = (\<lambda>s. case node_at s p of
      None \<Rightarrow> (Inl (os_error PyFileNotFoundError p), s)
    | Some DirNode \<Rightarrow> (Inl (os_error PyOSError p), s)
    | Some _ \<Rightarrow> (Inr (), drop_node p s))"

text \<open>The names of the entries of a directory.\<close>

definition entries_of :: "os \<Rightarrow> path \<Rightarrow> string list" where
  "entries_of s p = map last (filter (\<lambda>q. q \<noteq> [] \<and> butlast q = p) (map fst (os_nodes s)))"

definition os_rmdir :: "path \<Rightarrow> (os, unit) op" where
  "os_rmdir p = (\<lambda>s. case node_at s p of
      None \<Rightarrow> (Inl (os_error PyFileNotFoundError p), s)
    | Some DirNode \<Rightarrow>
        if p = [] \<or> entries_of s p \<noteq> [] then (Inl (os_error PyOSError p), s) else (Inr (), drop_node p s)
    | Some _ \<Rightarrow> (Inl (os_error PyOSError p), s))"

text \<open>\<open>shutil.rmtree\<close>: the root's content goes, the root itself cannot.\<close>

definition os_rmtree :: "path \<Rightarrow> (os, unit) op" where
  "os_rmtree p = (\<lambda>s. case node_at s p of
      None \<Rightarrow> (Inl (os_error PyFileNotFoundError p), s)
    | Some DirNode \<Rightarrow> (if p = [] then Inl (os_error PyOSError p) else Inr (), drop_below p s)
    | Some _ \<Rightarrow> (Inl (os_error PyOSError p), s))"

section \<open>Text files\<close>

text \<open>A codec: encoding and decoding; and the newline translation of text mode.\<close>

record codec =
  cd_encode :: "string \<Rightarrow> string result"
  cd_decode :: "string \<Rightarrow> string result"

definition CR :: char where "CR = CHR 0x0D"
definition LF :: char where "LF = CHR 0x0A"

fun universal_newlines :: "string \<Rightarrow> string" where
  "universal_newlines [] = []"
| "universal_newlines [c] = [if c = CR then LF else c]"
| "universal_newlines (c # d # cs) =
     (if c = CR \<and> d = LF then LF # universal_newlines cs
      else (if c = CR then LF else c) # universal_newlines (d # cs))"

definition read_text :: "codec \<Rightarrow> path \<Rightarrow> (os, string) op" where
  "read_text c p = bindE (read_bytes p) (\<lambda>b. bindE (liftE (cd_decode c b)) (\<lambda>t. retE (universal_newlines t)))"

text \<open>
  The file is opened, and so created or emptied, before its text is encoded.
\<close>

definition write_text :: "codec \<Rightarrow> path \<Rightarrow> string \<Rightarrow> (os, unit) op" where
  "write_text c p t = thenE (write_bytes p []) (bindE (liftE (cd_encode c t)) (\<lambda>b. write_bytes p b))"

text \<open>\<open>s.replace(old, new, 1)\<close>\<close>

fun replace_first :: "string \<Rightarrow> string \<Rightarrow> string \<Rightarrow> string" where
  "replace_first old new [] = (if old = [] then new else [])"
| "replace_first old new (c # cs) =
     (if prefix old (c # cs) then new @ drop (length old) (c # cs) else c # replace_first old new cs)"

section \<open>The guard\<close>

definition BLOCKED_PATH_FRAGMENTS :: "string list" where
  "BLOCKED_PATH_FRAGMENTS =
     [''.git/config'', ''.git'' @ CHR 0x5C # ''config'', ''/etc/passwd'', ''/etc/shadow'', ''/etc/sudoers'',
      ''C:'' @ CHR 0x5C # ''Windows'' @ CHR 0x5C # ''System32'', ''/proc/'', ''/sys/'']"

definition guard_path :: "path \<Rightarrow> unit result" where
  "guard_path p =
     (if path_name p = ''.env'' \<or> py_startswith (path_name p) ''.env.''
      then Inl (app_error ToolError ''Access to credential files is not allowed: {}'' [AStr (path_name p)])
      else (case filter (\<lambda>f. py_in f (show_path p)) BLOCKED_PATH_FRAGMENTS of
          [] \<Rightarrow> Inr ()
        | f # _ \<Rightarrow> Inl (app_error ToolError ''Access to {} is not permitted'' [AStr f])))"

text \<open>How every tool begins.\<close>

definition guarded :: "string \<Rightarrow> (path \<Rightarrow> (os, 'a) op) \<Rightarrow> (os, 'a) op" where
  "guarded t body = bindE (resolve_path t) (\<lambda>p. thenE (liftE (guard_path p)) (body p))"

section \<open>The tools\<close>

record read_output =
  ro_content :: string
  ro_size :: nat
  ro_path :: string

definition file_read_execute :: "codec \<Rightarrow> string \<Rightarrow> (os, read_output) op" where
  "file_read_execute c t = guarded t (\<lambda>p.
     bindE (getE (\<lambda>s. node_at s p)) (\<lambda>n.
     if n = None then raiseE (app_error ToolError ''File not found: {}'' [AStr (show_path p)])
     else
       bindE (catchE (read_text c p) (\<lambda>e.
           if exn_class e = PyPermissionError
           then raiseE (app_error ToolError ''Permission denied: {}'' [AStr (show_path p)]) else raiseE e))
         (\<lambda>content. bindE (getE (\<lambda>s. case node_at s p of Some (FileNode b) \<Rightarrow> length b | _ \<Rightarrow> 0)) (\<lambda>size.
           retE \<lparr>ro_content = content, ro_size = size, ro_path = show_path p\<rparr>))))"

record write_output =
  wo_path :: string
  wo_bytes :: nat
  wo_created :: bool

definition file_write_execute :: "codec \<Rightarrow> string \<Rightarrow> string \<Rightarrow> bool \<Rightarrow> (os, write_output) op" where
  "file_write_execute c t content create_parents = guarded t (\<lambda>p.
     bindE (getE (\<lambda>s. node_at s p = None)) (\<lambda>created.
     thenE (whenE create_parents (mkdir_parents (butlast p) True))
     (thenE (write_text c p content)
     (bindE (liftE (cd_encode c content)) (\<lambda>b.
      retE \<lparr>wo_path = show_path p, wo_bytes = length b, wo_created = created\<rparr>)))))"

definition file_edit_execute :: "codec \<Rightarrow> string \<Rightarrow> string \<Rightarrow> string \<Rightarrow> (os, string \<times> nat) op" where
  "file_edit_execute c t old new = guarded t (\<lambda>p.
     bindE (getE (\<lambda>s. node_at s p)) (\<lambda>n.
     if n = None then raiseE (app_error ToolError ''File not found: {}'' [AStr (show_path p)])
     else
       bindE (read_text c p) (\<lambda>content.
       if \<not> py_in old content then raiseE (app_error ToolError ''old_string not found in file'' [])
       else thenE (write_text c p (replace_first old new content)) (retE (show_path p, 1)))))"

definition file_delete_execute :: "string \<Rightarrow> (os, string \<times> bool) op" where
  "file_delete_execute t = guarded t (\<lambda>p.
     bindE (getE (\<lambda>s. node_at s p)) (\<lambda>n.
     if n = None then raiseE (app_error ToolError ''File not found: {}'' [AStr (show_path p)])
     else thenE (os_unlink p) (retE (show_path p, True))))"

definition folder_create_execute :: "string \<Rightarrow> bool \<Rightarrow> (os, string \<times> bool) op" where
  "folder_create_execute t exist_ok = guarded t (\<lambda>p.
     bindE (getE (\<lambda>s. node_at s p = None)) (\<lambda>created.
     thenE (mkdir_parents p exist_ok) (retE (show_path p, created))))"

record folder_entry =
  fe_name :: string
  fe_is_dir :: bool
  fe_size :: nat

text \<open>\<open>entry.stat()\<close> follows links: a dangling one raises.\<close>

definition stat_entry :: "os \<Rightarrow> path \<Rightarrow> string \<Rightarrow> folder_entry result" where
  "stat_entry s p name =
     (case resolve_from SYMLINK_LIMIT s p [name] of Inl e \<Rightarrow> Inl (os_error PyOSError (p @ [name])) | Inr q \<Rightarrow> (case node_at s q of
       Some DirNode \<Rightarrow> Inr \<lparr>fe_name = name, fe_is_dir = True, fe_size = 0\<rparr>
     | Some (FileNode b) \<Rightarrow> Inr \<lparr>fe_name = name, fe_is_dir = False, fe_size = length b\<rparr>
     | _ \<Rightarrow> Inl (os_error PyFileNotFoundError q)))"

definition shown_names :: "os \<Rightarrow> path \<Rightarrow> bool \<Rightarrow> string list" where
  "shown_names s p include_hidden =
     filter (\<lambda>n. include_hidden \<or> \<not> py_startswith n ''.'') (sort (entries_of s p))"

definition folder_list_execute :: "string \<Rightarrow> bool \<Rightarrow> (os, string \<times> folder_entry list) op" where
  "folder_list_execute t include_hidden = guarded t (\<lambda>p.
     bindE (getE (\<lambda>s. node_at s p)) (\<lambda>n.
     if n \<noteq> Some DirNode then raiseE (app_error ToolError ''Not a directory: {}'' [AStr (show_path p)])
     else
       bindE (getE (\<lambda>s. mapR (stat_entry s p) (shown_names s p include_hidden))) (\<lambda>r.
       bindE (liftE r) (\<lambda>es. retE (show_path p, es)))))"

definition folder_delete_execute :: "string \<Rightarrow> bool \<Rightarrow> (os, string \<times> bool) op" where
  "folder_delete_execute t recursive = guarded t (\<lambda>p.
     bindE (getE (\<lambda>s. node_at s p)) (\<lambda>n.
     if n = None then raiseE (app_error ToolError ''Directory not found: {}'' [AStr (show_path p)])
     else thenE (if recursive then os_rmtree p else os_rmdir p) (retE (show_path p, True))))"

section \<open>The shell\<close>

definition BLOCKED_PATTERNS :: "string list" where
  "BLOCKED_PATTERNS = [''rm -rf /'', ''sudo'', '':(){ :|:& };:'', ''dd if='', ''mkfs'', ''> /dev/'', ''chmod 777 /'',
     ''chown root'']"

record shell_input =
  si_command :: string
  si_working_dir :: "string option"
  si_timeout :: rat

record shell_output =
  so_stdout :: string
  so_stderr :: string
  so_exit_code :: int
  so_success :: bool

datatype process_end = TimedOut | Exited string string int

record 'w shell =
  sh_world :: 'w
  sh_commands :: "string list"

text \<open>
  A process is started by \<open>spawn\<close>, an operation on the world that tells how it ended; a
  process that exceeds its time is killed. Output bytes are decoded by \<open>decode\<close>.
\<close>

definition shell_run_execute ::
  "(string \<Rightarrow> string option \<Rightarrow> rat \<Rightarrow> ('w, process_end) op) \<Rightarrow> (string \<Rightarrow> string) \<Rightarrow> shell_input
   \<Rightarrow> ('w shell, shell_output) op" where
  "shell_run_execute spawn decode inp = (case filter (\<lambda>p. py_in p (si_command inp)) BLOCKED_PATTERNS of
      p # _ \<Rightarrow> raiseE (app_error ToolError ''Command contains blocked pattern: {}'' [AStr p])
    | [] \<Rightarrow>
        thenE (modE (\<lambda>s. s\<lparr>sh_commands := sh_commands s @ [si_command inp]\<rparr>))
        (bindE (\<lambda>s. case spawn (si_command inp) (si_working_dir inp) (si_timeout inp) (sh_world s) of
             (r, w) \<Rightarrow> (r, s\<lparr>sh_world := w\<rparr>)) (\<lambda>x. case x of
           TimedOut \<Rightarrow> raiseE (app_error ToolError ''Command timed out'' [])
         | Exited out err rc \<Rightarrow>
             retE \<lparr>so_stdout = decode out, so_stderr = decode err, so_exit_code = rc, so_success = (rc = 0)\<rparr>)))"

end
