(* ===== verification/Py_Net.thy ===== *)
theory Py_Net
  imports Operator_Prelude "HOL-Library.Word"
begin

text \<open>
  The parts of \<open>urllib.parse\<close> and \<open>ipaddress\<close> that \<open>app/tools/builtin/fetch.py\<close> relies on:
  splitting a URL into scheme and host name, reading an address, and membership of an
  address in a network. Addresses are 32-bit and 128-bit words, networks masked words.
\<close>

unbundle bit_operations_syntax

section \<open>Splitting\<close>

text \<open>\<open>s.split(c)\<close>, \<open>s.partition(c)\<close> and \<open>s.rpartition(c)[2]\<close> for a one-character separator.\<close>

fun split_on :: "char \<Rightarrow> string \<Rightarrow> string list" where
  "split_on c [] = [[]]"
| "split_on c (d # s) =
     (if d = c then [] # split_on c s
      else (case split_on c s of [] \<Rightarrow> [[d]] | w # ws \<Rightarrow> (d # w) # ws))"

definition partition_on :: "char \<Rightarrow> string \<Rightarrow> string \<times> bool \<times> string" where
  "partition_on c s = (let w = takeWhile (\<lambda>d. d \<noteq> c) s in (w, c \<in> set s, drop (Suc (length w)) s))"

definition after_last :: "char \<Rightarrow> string \<Rightarrow> string" where
  "after_last c s = last (split_on c s)"

lemma split_on_nonempty [simp]: "split_on c s \<noteq> []"
  by (induction s) (auto split: list.splits)

lemma split_on_none: "c \<notin> set s \<Longrightarrow> split_on c s = [s]"
  by (induction s) auto

lemma split_on_append: "c \<notin> set w \<Longrightarrow> split_on c (w @ c # s) = w # split_on c s"
  by (induction w) auto

lemma py_join_split_on: "py_join [c] (split_on c s) = s"
proof (induction s)
  case (Cons d s)
  obtain w ws where w: "split_on c s = w # ws" by (cases "split_on c s") auto
  then show ?case using Cons by (cases ws) auto
qed simp

section \<open>Addresses\<close>

datatype ip_address = IPv4 "32 word" | IPv6 "128 word"
datatype ip_network = Net4 "32 word" nat | Net6 "128 word" nat

text \<open>\<open>ip in net\<close>: the versions agree and the masked address is the network's address.\<close>

fun in_network :: "ip_address \<Rightarrow> ip_network \<Rightarrow> bool" where
  "in_network (IPv4 a) (Net4 n l) = (a AND NOT (mask (32 - l)) = n)"
| "in_network (IPv6 a) (Net6 n l) = (a AND NOT (mask (128 - l)) = n)"
| "in_network _ _ = False"

text \<open>The value of a digit in base sixteen.\<close>

definition hex_value :: "char \<Rightarrow> int" where
  "hex_value c = int (if is_digit c then char_code c - 48
     else if is_lower c then char_code c - 87 else char_code c - 55)"

definition is_hex :: "char \<Rightarrow> bool" where
  "is_hex c = (is_digit c \<or> (97 \<le> char_code c \<and> char_code c \<le> 102) \<or> (65 \<le> char_code c \<and> char_code c \<le> 70))"

definition numeral_value :: "int \<Rightarrow> string \<Rightarrow> int" where
  "numeral_value base s = foldl (\<lambda>n c. n * base + hex_value c) 0 s"

text \<open>\<open>IPv4Address\<close>: four decimal octets without leading zeros.\<close>

definition parse_octet :: "string \<Rightarrow> int option" where
  "parse_octet s =
     (if s = [] \<or> \<not> list_all is_digit s \<or> 3 < length s \<or> (s \<noteq> ''0'' \<and> hd s = CHR ''0'') \<or> 255 < numeral_value 10 s
      then None else Some (numeral_value 10 s))"

definition parse_ipv4 :: "string \<Rightarrow> int option" where
  "parse_ipv4 s = (case map parse_octet (split_on (CHR ''.'') s) of
      [Some a, Some b, Some c, Some d] \<Rightarrow> Some (((a * 256 + b) * 256 + c) * 256 + d)
    | _ \<Rightarrow> None)"

text \<open>
  \<open>IPv6Address\<close>: hextets, at most one \<open>::\<close> and an IPv4 tail. \<open>hextets\<close> reads one side of it.
\<close>

definition parse_hextet :: "string \<Rightarrow> int option" where
  "parse_hextet s = (if s = [] \<or> \<not> list_all is_hex s \<or> 4 < length s then None else Some (numeral_value 16 s))"

fun hextets :: "int \<Rightarrow> string list \<Rightarrow> int option" where
  "hextets n [] = Some n"
| "hextets n (p # ps) = (case parse_hextet p of None \<Rightarrow> None | Some h \<Rightarrow> hextets (n * 65536 + h) ps)"

text \<open>The last part, when it is dotted, stands for two hextets: their values are kept.\<close>

definition ipv6_tail :: "string list \<Rightarrow> (string list \<times> nat \<times> int) option" where
  "ipv6_tail parts =
     (if CHR ''.'' \<in> set (last parts)
      then (case parse_ipv4 (last parts) of None \<Rightarrow> None | Some v \<Rightarrow> Some (butlast parts, 2, v))
      else Some (parts, 0, 0))"

fun empty_positions :: "nat \<Rightarrow> string list \<Rightarrow> nat list" where
  "empty_positions i [] = []"
| "empty_positions i (p # ps) = (if p = [] then i # empty_positions (Suc i) ps else empty_positions (Suc i) ps)"

text \<open>
  The positions of the empty parts between the first and the last one tell where \<open>::\<close> is.
  A tail of \<open>k\<close> hextets with value \<open>v\<close> follows the textual parts.
\<close>

definition parse_ipv6_parts :: "string list \<Rightarrow> nat \<Rightarrow> int \<Rightarrow> int option" where
  "parse_ipv6_parts parts k v =
     (let n = length parts + k;
          last_empty = (k = 0 \<and> parts \<noteq> [] \<and> last parts = []);
          inner = filter (\<lambda>i. 0 < i \<and> i + 1 < n) (empty_positions 0 parts) in
      if 9 < n then None
      else (case inner of
        [] \<Rightarrow>
          if n \<noteq> 8 \<or> hd parts = [] \<or> last_empty then None
          else map_option (\<lambda>h. h * 65536 ^ k + v) (hextets 0 parts)
      | [j] \<Rightarrow>
          let first_empty = (hd parts = []);
              hi = (if first_empty then j - 1 else j);
              lo = (if last_empty then n - j - 2 else n - j - 1) in
          if (first_empty \<and> hi \<noteq> 0) \<or> (last_empty \<and> lo \<noteq> 0) \<or> 8 < hi + lo + 1 then None
          else (case (hextets 0 (take hi parts), hextets 0 (drop (length parts - (lo - k)) parts)) of
            (Some h, Some l) \<Rightarrow> Some (h * 65536 ^ (8 - hi) + l * 65536 ^ k + v)
          | _ \<Rightarrow> None)
      | _ \<Rightarrow> None))"

definition parse_ipv6 :: "string \<Rightarrow> int option" where
  "parse_ipv6 s =
     (case partition_on (CHR ''%'') s of (addr, scoped, zone) \<Rightarrow>
        if CHR ''/'' \<in> set s \<or> (scoped \<and> (zone = [] \<or> CHR ''%'' \<in> set zone)) then None
        else
          let parts = split_on (CHR '':'') addr in
          if length parts < 3 then None
          else (case ipv6_tail parts of None \<Rightarrow> None | Some (ps, k, v) \<Rightarrow> parse_ipv6_parts ps k v))"

text \<open>\<open>ipaddress.ip_address\<close>: the value, or \<open>None\<close> for \<open>ValueError\<close>.\<close>

definition ip_address_of :: "string \<Rightarrow> ip_address option" where
  "ip_address_of s = (case parse_ipv4 s of
      Some n \<Rightarrow> Some (IPv4 (of_int n))
    | None \<Rightarrow> map_option (\<lambda>n. IPv6 (of_int n)) (parse_ipv6 s))"

text \<open>The text of an IPv4 address.\<close>

definition show_ipv4 :: "32 word \<Rightarrow> string" where
  "show_ipv4 a = py_join ''.'' (map (\<lambda>k. show_nat (unat a div 256 ^ k mod 256)) [3, 2, 1, 0])"

section \<open>URLs\<close>

text \<open>\<open>urlparse\<close>: leading blanks and control characters go, as do tabs and line ends anywhere.\<close>

definition clean_url :: "string \<Rightarrow> string" where
  "clean_url u = filter (\<lambda>c. char_code c \<noteq> 9 \<and> char_code c \<noteq> 10 \<and> char_code c \<noteq> 13)
     (dropWhile (\<lambda>c. char_code c \<le> 32) u)"

definition scheme_char :: "char \<Rightarrow> bool" where
  "scheme_char c = (is_alnum c \<or> c = CHR ''+'' \<or> c = CHR ''-'' \<or> c = CHR ''.'')"

definition split_scheme :: "string \<Rightarrow> string \<times> string" where
  "split_scheme u = (case partition_on (CHR '':'') u of (s, found, rest) \<Rightarrow>
      if found \<and> s \<noteq> [] \<and> is_alpha (hd s) \<and> list_all scheme_char s then (py_lower s, rest) else ([], u))"

definition netloc_of :: "string \<Rightarrow> string" where
  "netloc_of rest = (if prefix ''//'' rest
     then takeWhile (\<lambda>c. c \<noteq> CHR ''/'' \<and> c \<noteq> CHR ''?'' \<and> c \<noteq> CHR ''#'') (drop 2 rest) else [])"

definition lower_host :: "string \<Rightarrow> string" where
  "lower_host h = (case partition_on (CHR ''%'') h of (a, pct, zone) \<Rightarrow>
     py_lower a @ (if pct then CHR ''%'' # zone else []))"

definition hostname_of :: "string \<Rightarrow> string" where
  "hostname_of netloc =
     (let info = after_last (CHR ''@'') netloc in
      case partition_on (CHR ''['') info of (_, br, inside) \<Rightarrow>
        lower_host (fst (partition_on (if br then CHR '']'' else CHR '':'') (if br then inside else info))))"

text \<open>
  A bracketed host must be an IPv6 address or begin with a version \<open>v\<close> and hex digits; brackets must pair up
  (otherwise \<open>urlparse\<close> raises \<open>ValueError\<close>: the value \<open>None\<close>).
\<close>

definition bracket_ok :: "string \<Rightarrow> bool" where
  "bracket_ok netloc =
     (let op = (CHR ''['' \<in> set netloc); cl = (CHR '']'' \<in> set netloc) in
      op = cl \<and> (op \<longrightarrow>
        (let inside = fst (partition_on (CHR '']'') (snd (snd (partition_on (CHR ''['') netloc)))) in
         if prefix ''v'' inside
         then (case partition_on (CHR ''.'') (tl inside) of (hex, dot, rest) \<Rightarrow>
                 dot \<and> hex \<noteq> [] \<and> list_all is_hex hex \<and> rest \<noteq> [])
         else parse_ipv6 inside \<noteq> None)))"

definition url_parts :: "string \<Rightarrow> (string \<times> string) option" where
  "url_parts url = (case split_scheme (clean_url url) of (scheme, rest) \<Rightarrow>
     let netloc = netloc_of rest in
     if bracket_ok netloc then Some (scheme, hostname_of netloc) else None)"

end
