(* ===== verification/Py_Regex.thy ===== *)
theory Py_Regex
  imports Operator_Prelude
begin

text \<open>
  The part of Python's \<open>re\<close> that the source uses, as a backtracking matcher.

  \<open>mt r b s\<close> lists the lengths of the prefixes of \<open>s\<close> that \<open>r\<close> matches, in the order
  in which the backtracking engine tries them, where \<open>b\<close> is the text before the current
  position, reversed (it is read by the look-behind, the word boundary and the anchors).
  The engine takes the head of the list. A repetition never iterates on an empty match.
  Flags are compiled away: \<open>re.IGNORECASE\<close> into the character predicates, \<open>re.DOTALL\<close>
  into the predicate of the dot. The second half of the theory gives regular expressions
  without assertions their language and proves the matcher and the search correct.
\<close>

section \<open>Patterns\<close>

datatype re =
    Ch "char \<Rightarrow> bool"
  | Eps
  | Seq re re
  | Alt re re
  | Star re
  | LazyStar re
  | Behind "char \<Rightarrow> bool"
  | Boundary
  | AtStart
  | AtEnd
  | AtTextEnd
  | Ahead re

definition char_is :: "char \<Rightarrow> char \<Rightarrow> bool" where
  "char_is c d = (d = c)"

definition char_ic :: "char \<Rightarrow> char \<Rightarrow> bool" where
  "char_ic c d = (lower_char d = lower_char c)"

fun lit :: "string \<Rightarrow> re" where
  "lit [] = Eps"
| "lit [c] = Ch (char_is c)"
| "lit (c # d # cs) = Seq (Ch (char_is c)) (lit (d # cs))"

fun lit_ic :: "string \<Rightarrow> re" where
  "lit_ic [] = Eps"
| "lit_ic [c] = Ch (char_ic c)"
| "lit_ic (c # d # cs) = Seq (Ch (char_ic c)) (lit_ic (d # cs))"

definition Plus :: "re \<Rightarrow> re" where
  "Plus r = Seq r (Star r)"

definition Opt :: "re \<Rightarrow> re" where
  "Opt r = Alt r Eps"

fun AtLeast :: "nat \<Rightarrow> re \<Rightarrow> re" where
  "AtLeast 0 r = Star r"
| "AtLeast (Suc n) r = Seq r (AtLeast n r)"

fun Alts :: "re list \<Rightarrow> re" where
  "Alts [] = Ch (\<lambda>_. False)"
| "Alts [r] = r"
| "Alts (r # q # rs) = Alt r (Alts (q # rs))"

section \<open>Matching\<close>

fun word_here :: "char list \<Rightarrow> bool" where
  "word_here [] = False"
| "word_here (c # _) = is_word c"

function mt :: "re \<Rightarrow> char list \<Rightarrow> char list \<Rightarrow> nat list" where
  "mt (Ch p) b s = (case s of [] \<Rightarrow> [] | c # _ \<Rightarrow> if p c then [1] else [])"
| "mt Eps b s = [0]"
| "mt (Seq r q) b s =
     concat (map (\<lambda>i. map ((+) i) (mt q (rev (take i s) @ b) (drop i s))) (mt r b s))"
| "mt (Alt r q) b s = mt r b s @ mt q b s"
| "mt (Star r) b s =
     concat (map (\<lambda>i. if 0 < i \<and> i \<le> length s
        then map ((+) i) (mt (Star r) (rev (take i s) @ b) (drop i s)) else []) (mt r b s)) @ [0]"
| "mt (LazyStar r) b s = 0 #
     concat (map (\<lambda>i. if 0 < i \<and> i \<le> length s
        then map ((+) i) (mt (LazyStar r) (rev (take i s) @ b) (drop i s)) else []) (mt r b s))"
| "mt (Behind p) b s = (case b of [] \<Rightarrow> [] | c # _ \<Rightarrow> if p c then [0] else [])"
| "mt Boundary b s = (if word_here b \<noteq> word_here s then [0] else [])"
| "mt AtStart b s = (if b = [] then [0] else [])"
| "mt AtEnd b s = (if s = [] \<or> s = [char_of (10::nat)] then [0] else [])"
| "mt AtTextEnd b s = (if s = [] then [0] else [])"
| "mt (Ahead r) b s = (if mt r b s = [] then [] else [0])"
  by pat_completeness auto
termination
  by (relation "measures [\<lambda>(r, b, s). length s, \<lambda>(r, b, s). size r]") auto

text \<open>\<open>re.match\<close>, \<open>re.search\<close>, \<open>re.findall\<close>, \<open>re.split\<close> and \<open>re.sub\<close>.\<close>

definition re_match :: "re \<Rightarrow> string \<Rightarrow> string option" where
  "re_match r s = (case mt r [] s of [] \<Rightarrow> None | i # _ \<Rightarrow> Some (take i s))"

fun re_search_at :: "re \<Rightarrow> char list \<Rightarrow> string \<Rightarrow> string option" where
  "re_search_at r b [] = (case mt r b [] of [] \<Rightarrow> None | i # _ \<Rightarrow> Some [])"
| "re_search_at r b (c # s) = (case mt r b (c # s) of
      i # _ \<Rightarrow> Some (take i (c # s))
    | [] \<Rightarrow> re_search_at r (c # b) s)"

definition re_search :: "re \<Rightarrow> string \<Rightarrow> string option" where
  "re_search r s = re_search_at r [] s"

definition first_len :: "re \<Rightarrow> char list \<Rightarrow> string \<Rightarrow> nat" where
  "first_len r b s = (case mt r b s of [] \<Rightarrow> 0 | i # _ \<Rightarrow> if i \<le> length s then i else 0)"

text \<open>
  The iterating functions are used with patterns that never match the empty string;
  a position without a non-empty match is skipped.
\<close>

function findall_at :: "re \<Rightarrow> char list \<Rightarrow> string \<Rightarrow> string list" where
  "findall_at r b [] = []"
| "findall_at r b (c # s) =
     (let i = first_len r b (c # s) in
      if i = 0 then findall_at r (c # b) s
      else take i (c # s) # findall_at r (rev (take i (c # s)) @ b) (drop i (c # s)))"
  by pat_completeness auto
termination
  by (relation "measure (\<lambda>(r, b, s). length s)") auto

definition re_findall :: "re \<Rightarrow> string \<Rightarrow> string list" where
  "re_findall r s = findall_at r [] s"

function split_at :: "re \<Rightarrow> char list \<Rightarrow> char list \<Rightarrow> string \<Rightarrow> string list" where
  "split_at r b acc [] = [rev acc]"
| "split_at r b acc (c # s) =
     (let i = first_len r b (c # s) in
      if i = 0 then split_at r (c # b) (c # acc) s
      else rev acc # split_at r (rev (take i (c # s)) @ b) [] (drop i (c # s)))"
  by pat_completeness auto
termination
  by (relation "measure (\<lambda>(r, b, acc, s). length s)") auto

definition re_split :: "re \<Rightarrow> string \<Rightarrow> string list" where
  "re_split r s = split_at r [] [] s"

function sub_at :: "re \<Rightarrow> string \<Rightarrow> char list \<Rightarrow> string \<Rightarrow> string" where
  "sub_at r w b [] = []"
| "sub_at r w b (c # s) =
     (let i = first_len r b (c # s) in
      if i = 0 then c # sub_at r w (c # b) s
      else w @ sub_at r w (rev (take i (c # s)) @ b) (drop i (c # s)))"
  by pat_completeness auto
termination
  by (relation "measure (\<lambda>(r, w, b, s). length s)") auto

definition re_sub :: "re \<Rightarrow> string \<Rightarrow> string \<Rightarrow> string" where
  "re_sub r w s = sub_at r w [] s"

text \<open>
  \<open>re.search(...).group(1)\<close> of a pattern that is \<open>p\<close>, the group \<open>g\<close> and \<open>q\<close> in sequence: the pairs of
  the lengths that \<open>p\<close> and the group take, in the engine's order, and the group's text at the first
  position that has one.
\<close>

definition group_matches :: "re \<Rightarrow> re \<Rightarrow> re \<Rightarrow> char list \<Rightarrow> string \<Rightarrow> (nat \<times> nat) list" where
  "group_matches p g q b s = concat (map (\<lambda>i. concat (map (\<lambda>j. map (\<lambda>_. (i, j))
       (mt q (rev (take (i + j) s) @ b) (drop (i + j) s)))
     (mt g (rev (take i s) @ b) (drop i s)))) (mt p b s))"

fun search_group_at :: "re \<Rightarrow> re \<Rightarrow> re \<Rightarrow> char list \<Rightarrow> string \<Rightarrow> string option" where
  "search_group_at p g q b [] = (case group_matches p g q b [] of [] \<Rightarrow> None | _ # _ \<Rightarrow> Some [])"
| "search_group_at p g q b (c # s) = (case group_matches p g q b (c # s) of
      (i, j) # _ \<Rightarrow> Some (take j (drop i (c # s)))
    | [] \<Rightarrow> search_group_at p g q (c # b) s)"

definition re_group :: "re \<Rightarrow> re \<Rightarrow> re \<Rightarrow> string \<Rightarrow> string option" where
  "re_group p g q s = search_group_at p g q [] s"

lemmas re_defs = Plus_def Opt_def re_match_def re_search_def re_findall_def re_split_def re_sub_def
  first_len_def char_is_def char_ic_def

section \<open>General facts\<close>

text \<open>The equations of the repetitions loop as rewrite rules; membership is used instead.\<close>

declare mt.simps(5,6) [simp del]

lemma mem_mt_Seq:
  "i \<in> set (mt (Seq r q) b s) \<longleftrightarrow>
   (\<exists>j \<in> set (mt r b s). \<exists>k \<in> set (mt q (rev (take j s) @ b) (drop j s)). i = j + k)"
  by auto

lemma mem_mt_Star:
  "i \<in> set (mt (Star r) b s) \<longleftrightarrow> i = 0 \<or>
   (\<exists>j \<in> set (mt r b s). 0 < j \<and> j \<le> length s \<and>
     (\<exists>k \<in> set (mt (Star r) (rev (take j s) @ b) (drop j s)). i = j + k))"
  by (subst mt.simps(5)) (auto split: if_splits)

lemma mem_mt_LazyStar:
  "i \<in> set (mt (LazyStar r) b s) \<longleftrightarrow> i = 0 \<or>
   (\<exists>j \<in> set (mt r b s). 0 < j \<and> j \<le> length s \<and>
     (\<exists>k \<in> set (mt (LazyStar r) (rev (take j s) @ b) (drop j s)). i = j + k))"
  by (subst mt.simps(6)) (auto split: if_splits)

lemma mt_le: "i \<in> set (mt r b s) \<Longrightarrow> i \<le> length s"
proof (induction r b s arbitrary: i rule: mt.induct)
  case (3 r q b s)
  then obtain j k where jk: "j \<in> set (mt r b s)" "k \<in> set (mt q (rev (take j s) @ b) (drop j s))" "i = j + k"
    unfolding mem_mt_Seq by blast
  then have "j \<le> length s" "k \<le> length (drop j s)" using "3.IH" by blast+
  with jk show ?case by simp
next
  case (5 r b s)
  then show ?case unfolding mem_mt_Star [of i] using "5.IH"(2) by fastforce
next
  case (6 r b s)
  then show ?case unfolding mem_mt_LazyStar [of i] using "6.IH"(2) by fastforce
qed (auto split: list.splits if_splits)

lemma first_len_le: "first_len r b s \<le> length s"
  by (auto simp: first_len_def split: list.splits)

lemma first_len_mem: "0 < first_len r b s \<Longrightarrow> first_len r b s \<in> set (mt r b s)"
  by (auto simp: first_len_def split: list.splits if_splits)

lemma findall_at_mem:
  "x \<in> set (findall_at r b s) \<Longrightarrow>
   \<exists>u v c. s = u @ x @ v \<and> x \<noteq> [] \<and> length x \<in> set (mt r c (x @ v))"
proof (induction r b s rule: findall_at.induct)
  case (2 r b c s)
  define i where "i = first_len r b (c # s)"
  have step: "findall_at r b (c # s) = (if i = 0 then findall_at r (c # b) s
      else take i (c # s) # findall_at r (rev (take i (c # s)) @ b) (drop i (c # s)))"
    unfolding i_def by (subst findall_at.simps(2)) (simp add: Let_def)
  show ?case
  proof (cases "i = 0")
    case True
    with "2.prems" have "x \<in> set (findall_at r (c # b) s)" unfolding step by simp
    with "2.IH"(1) True i_def obtain u v d
      where "s = u @ x @ v" "x \<noteq> []" "length x \<in> set (mt r d (x @ v))" by blast
    then show ?thesis by (intro exI [of _ "c # u"] exI [of _ v] exI [of _ d]) simp
  next
    case False
    have le: "i \<le> length (c # s)" unfolding i_def by (rule first_len_le)
    from False "2.prems" consider "x = take i (c # s)"
      | "x \<in> set (findall_at r (rev (take i (c # s)) @ b) (drop i (c # s)))"
      unfolding step by auto
    then show ?thesis
    proof cases
      case 1
      have "i \<in> set (mt r b (c # s))"
        using False first_len_mem [of r b "c # s"] by (simp add: i_def)
      moreover have "length x = i" "x @ drop i (c # s) = c # s" "x \<noteq> []" using 1 False le by auto
      ultimately show ?thesis
        by (intro exI [of _ "[]"] exI [of _ "drop i (c # s)"] exI [of _ b]) simp
    next
      case 2
      with "2.IH"(2) False i_def obtain u v d
        where "drop i (c # s) = u @ x @ v" "x \<noteq> []" "length x \<in> set (mt r d (x @ v))" by blast
      moreover from this(1) have "c # s = (take i (c # s) @ u) @ x @ v"
        by (metis append.assoc append_take_drop_id)
      ultimately show ?thesis by blast
    qed
  qed
qed simp

text \<open>A repeated character class is greedy: the longest run comes first.\<close>

lemma mt_Star_Ch:
  "\<exists>rest. mt (Star (Ch p)) b s = length (takeWhile p s) # rest"
proof (induction s arbitrary: b)
  case Nil
  show ?case by (subst mt.simps(5)) simp
next
  case (Cons c s)
  show ?case
  proof (cases "p c")
    case True
    from Cons [of "c # b"] obtain rest where "mt (Star (Ch p)) (c # b) s = length (takeWhile p s) # rest" by blast
    with True show ?thesis by (subst mt.simps(5)) simp
  next
    case False
    then show ?thesis by (subst mt.simps(5)) simp
  qed
qed

lemma mt_Plus_Ch:
  "p c \<Longrightarrow> \<exists>rest. mt (Plus (Ch p)) b (c # s) = Suc (length (takeWhile p s)) # rest"
  using mt_Star_Ch [of p "c # b" s] by (auto simp: Plus_def)

section \<open>Languages\<close>

primrec pure_re :: "re \<Rightarrow> bool" where
  "pure_re (Ch p) = True"
| "pure_re Eps = True"
| "pure_re (Seq r q) = (pure_re r \<and> pure_re q)"
| "pure_re (Alt r q) = (pure_re r \<and> pure_re q)"
| "pure_re (Star r) = pure_re r"
| "pure_re (LazyStar r) = pure_re r"
| "pure_re (Behind p) = False"
| "pure_re Boundary = False"
| "pure_re AtStart = False"
| "pure_re AtEnd = False"
| "pure_re AtTextEnd = False"
| "pure_re (Ahead r) = False"

primrec lang :: "re \<Rightarrow> string set" where
  "lang (Ch p) = {[c] | c. p c}"
| "lang Eps = {[]}"
| "lang (Seq r q) = {u @ v | u v. u \<in> lang r \<and> v \<in> lang q}"
| "lang (Alt r q) = lang r \<union> lang q"
| "lang (Star r) = {concat ws | ws. set ws \<subseteq> lang r}"
| "lang (LazyStar r) = {concat ws | ws. set ws \<subseteq> lang r}"
| "lang (Behind p) = {}"
| "lang Boundary = {}"
| "lang AtStart = {}"
| "lang AtEnd = {}"
| "lang AtTextEnd = {}"
| "lang (Ahead r) = {}"

lemma in_star_Cons: "u \<in> A \<Longrightarrow> v \<in> {concat ws | ws. set ws \<subseteq> A} \<Longrightarrow> u @ v \<in> {concat ws | ws. set ws \<subseteq> A}"
proof -
  assume u: "u \<in> A" and "v \<in> {concat ws | ws. set ws \<subseteq> A}"
  then obtain ws where "v = concat ws" "set ws \<subseteq> A" by auto
  with u have "u @ v = concat (u # ws)" "set (u # ws) \<subseteq> A" by auto
  then show ?thesis by blast
qed

lemma take_add_split: "take (i + j) s = take i s @ take j (drop i s)"
  by (rule take_add)

lemma mt_sound: "pure_re r \<Longrightarrow> i \<in> set (mt r b s) \<Longrightarrow> take i s \<in> lang r"
proof (induction r b s arbitrary: i rule: mt.induct)
  case (3 r q b s)
  then obtain j k where jk: "j \<in> set (mt r b s)" "k \<in> set (mt q (rev (take j s) @ b) (drop j s))" "i = j + k"
    unfolding mem_mt_Seq by blast
  with "3.IH" "3.prems"(1) have "take j s \<in> lang r" "take k (drop j s) \<in> lang q" by simp_all
  with jk show ?case by (auto simp: take_add)
next
  case (5 r b s)
  show ?case
  proof (cases "i = 0")
    case True
    then show ?thesis by (auto intro: exI [of _ "[]"])
  next
    case False
    with "5.prems"(2) obtain j k where jk: "j \<in> set (mt r b s)" "0 < j" "j \<le> length s"
      "k \<in> set (mt (Star r) (rev (take j s) @ b) (drop j s))" "i = j + k"
      unfolding mem_mt_Star [of i] by blast
    have "take j s \<in> lang r" using "5.IH"(1) "5.prems"(1) jk(1) by simp
    moreover have "take k (drop j s) \<in> lang (Star r)"
      using "5.IH"(2) [OF jk(1)] "5.prems"(1) jk by simp
    ultimately show ?thesis using jk(5) in_star_Cons [of "take j s" "lang r"] by (simp add: take_add)
  qed
next
  case (6 r b s)
  show ?case
  proof (cases "i = 0")
    case True
    then show ?thesis by (auto intro: exI [of _ "[]"])
  next
    case False
    with "6.prems"(2) obtain j k where jk: "j \<in> set (mt r b s)" "0 < j" "j \<le> length s"
      "k \<in> set (mt (LazyStar r) (rev (take j s) @ b) (drop j s))" "i = j + k"
      unfolding mem_mt_LazyStar [of i] by blast
    have "take j s \<in> lang r" using "6.IH"(1) "6.prems"(1) jk(1) by simp
    moreover have "take k (drop j s) \<in> lang (LazyStar r)"
      using "6.IH"(2) [OF jk(1)] "6.prems"(1) jk by simp
    ultimately show ?thesis using jk(5) in_star_Cons [of "take j s" "lang r"] by (simp add: take_add)
  qed
qed (auto split: list.splits if_splits)

text \<open>Completeness: every prefix in the language is among the candidates.\<close>

lemma concat_nonempty: "concat (filter (\<lambda>w. w \<noteq> []) ws) = concat ws"
  by (induction ws) auto

lemma star_shape:
  assumes "w \<in> {concat ws | ws. set ws \<subseteq> A}"
  obtains ws where "w = concat ws" "set ws \<subseteq> A" "\<forall>x \<in> set ws. x \<noteq> []"
proof -
  from assms obtain ws where "w = concat ws" "set ws \<subseteq> A" by auto
  show ?thesis
  proof (rule that [of "filter (\<lambda>w. w \<noteq> []) ws"])
    show "w = concat (filter (\<lambda>w. w \<noteq> []) ws)"
      using \<open>w = concat ws\<close> concat_nonempty [of ws] by (rule trans [OF _ sym])
    show "set (filter (\<lambda>w. w \<noteq> []) ws) \<subseteq> A" using \<open>set ws \<subseteq> A\<close> by auto
    show "\<forall>x \<in> set (filter (\<lambda>w. w \<noteq> []) ws). x \<noteq> []" by simp
  qed
qed

lemma mt_complete: "pure_re r \<Longrightarrow> w \<in> lang r \<Longrightarrow> length w \<in> set (mt r b (w @ v))"
proof (induction r arbitrary: w b v)
  case (Seq r q)
  then obtain x y where xy: "w = x @ y" "x \<in> lang r" "y \<in> lang q" by auto
  with Seq have "length x \<in> set (mt r b (x @ y @ v))"
    "length y \<in> set (mt q (rev x @ b) (y @ v))" by auto
  with xy show ?case unfolding mem_mt_Seq by (intro bexI [of _ "length x"] bexI [of _ "length y"]) auto
next
  case (Star r)
  from Star.prems(2) obtain ws where ws: "w = concat ws" "set ws \<subseteq> lang r" "\<forall>x \<in> set ws. x \<noteq> []"
    unfolding lang.simps by (rule star_shape)
  have "length (concat ws) \<in> set (mt (Star r) b (concat ws @ v))" using ws(2,3)
  proof (induction ws arbitrary: b)
    case Nil
    show ?case unfolding mem_mt_Star [of "length (concat [])"] by simp
  next
    case (Cons x ws)
    then have "length x \<in> set (mt r b (x @ concat ws @ v))" using Star.IH Star.prems by simp
    moreover have "length (concat ws) \<in> set (mt (Star r) (rev x @ b) (concat ws @ v))"
      using Cons by simp
    ultimately show ?case using Cons.prems unfolding mem_mt_Star [of "length (concat (x # ws))"]
      by (intro disjI2 bexI [of _ "length x"]) auto
  qed
  with ws show ?case by simp
next
  case (LazyStar r)
  from LazyStar.prems(2) obtain ws where ws: "w = concat ws" "set ws \<subseteq> lang r" "\<forall>x \<in> set ws. x \<noteq> []"
    unfolding lang.simps by (rule star_shape)
  have "length (concat ws) \<in> set (mt (LazyStar r) b (concat ws @ v))" using ws(2,3)
  proof (induction ws arbitrary: b)
    case Nil
    show ?case unfolding mem_mt_LazyStar [of "length (concat [])"] by simp
  next
    case (Cons x ws)
    then have "length x \<in> set (mt r b (x @ concat ws @ v))" using LazyStar.IH LazyStar.prems by simp
    moreover have "length (concat ws) \<in> set (mt (LazyStar r) (rev x @ b) (concat ws @ v))"
      using Cons by simp
    ultimately show ?case using Cons.prems unfolding mem_mt_LazyStar [of "length (concat (x # ws))"]
      by (intro disjI2 bexI [of _ "length x"]) auto
  qed
  with ws show ?case by simp
qed auto

lemma re_search_at_None:
  "re_search_at r b s = None \<longleftrightarrow> (\<forall>u v. s = u @ v \<longrightarrow> mt r (rev u @ b) v = [])"
proof (induction r b s rule: re_search_at.induct)
  case (1 r b)
  then show ?case by (auto split: list.splits)
next
  case (2 r b c s)
  have split: "(\<forall>u v. c # s = u @ v \<longrightarrow> mt r (rev u @ b) v = []) \<longleftrightarrow>
      mt r b (c # s) = [] \<and> (\<forall>u v. s = u @ v \<longrightarrow> mt r (rev u @ c # b) v = [])" (is "?L \<longleftrightarrow> ?R")
  proof
    assume L: ?L
    have "mt r (rev u @ c # b) v = []" if "s = u @ v" for u v
      using L [rule_format, of "c # u" v] that by simp
    then show ?R using L [rule_format, of "[]" "c # s"] by simp
  qed (auto simp: Cons_eq_append_conv)
  show ?case using 2 by (simp add: split split: list.splits)
qed

theorem re_search_iff:
  assumes "pure_re r"
  shows "re_search r s \<noteq> None \<longleftrightarrow> (\<exists>u w v. s = u @ w @ v \<and> w \<in> lang r)"
proof
  assume "re_search r s \<noteq> None"
  then obtain u v i where "s = u @ v" "i \<in> set (mt r (rev u) v)"
    unfolding re_search_def re_search_at_None by (metis append_Nil2 list.set_sel(1))
  then show "\<exists>u w v. s = u @ w @ v \<and> w \<in> lang r"
    using mt_sound [OF assms] by (metis append_take_drop_id)
next
  assume "\<exists>u w v. s = u @ w @ v \<and> w \<in> lang r"
  then obtain u w v where "s = u @ w @ v" "w \<in> lang r" by blast
  then have "mt r (rev u @ []) (w @ v) \<noteq> []"
    using mt_complete [OF assms, of w "rev u" v] by auto
  with \<open>s = u @ w @ v\<close> show "re_search r s \<noteq> None"
    unfolding re_search_def re_search_at_None by blast
qed

end
