(* ===== verification/Web_Tools.thy ===== *)
theory Web_Tools
  imports Py_Net Py_Regex Json_Values Tool_Engine
begin

text \<open>
  The web tools of the research agent: the guarded page fetcher
  (\<open>app/tools/builtin/fetch.py\<close>) and the two search tools (\<open>search.py\<close>, \<open>langsearch.py\<close>).

  Name resolution, the HTTP client and the Tavily wrapper are parameters: operations on the
  world that answer or raise. \<open>nt_requests\<close> logs the URLs the fetcher hands to the client;
  no definition reads it. The inputs are validated by pydantic: \<open>valid_\<close> predicates.
\<close>

section \<open>The guard\<close>

definition ALLOWED_SCHEMES :: "string set" where
  "ALLOWED_SCHEMES = {''http'', ''https''}"

text \<open>\<open>127/8, 10/8, 172.16/12, 192.168/16, 169.254/16, fc00::/7\<close> and \<open>::1/128\<close>.\<close>

definition PRIVATE_NETWORKS :: "ip_network list" where
  "PRIVATE_NETWORKS =
     [Net4 0x7F000000 8, Net4 0x0A000000 8, Net4 0xAC100000 12, Net4 0xC0A80000 16, Net4 0xA9FE0000 16,
      Net6 0xFC000000000000000000000000000000 7, Net6 1 128]"

definition blocked_address :: "string \<Rightarrow> bool" where
  "blocked_address s = (case ip_address_of s of
      None \<Rightarrow> False
    | Some ip \<Rightarrow> list_ex (in_network ip) PRIVATE_NETWORKS)"

definition dns_error :: exn_class where
  "dns_error = PyOther ''socket.gaierror''"

definition guard_url :: "(string \<Rightarrow> ('w, string list) op) \<Rightarrow> string \<Rightarrow> ('w, unit) op" where
  "guard_url resolve url = (case url_parts url of
      None \<Rightarrow> raiseE (py_error PyValueError ''Invalid IPv6 URL'' [])
    | Some (scheme, hostname) \<Rightarrow>
        if scheme \<notin> ALLOWED_SCHEMES
        then raiseE (app_error ToolError ''URL scheme {} is not allowed; only http and https are permitted'' [AStr scheme])
        else if hostname = [] then raiseE (app_error ToolError ''URL has no hostname'' [])
        else
          bindE (tryE (resolve hostname)) (\<lambda>r. case r of
            Inl e \<Rightarrow>
              if exn_class e = dns_error
              then raiseE (app_error ToolError ''Could not resolve hostname {}: {}'' [AStr hostname, AMsg (exn_msg e)])
              else raiseE e
          | Inr addrs \<Rightarrow> (case filter blocked_address addrs of
                [] \<Rightarrow> retE ()
              | a # _ \<Rightarrow> raiseE (app_error ToolError
                    ''Fetch to private/internal address {} is blocked (SSRF protection)'' [AStr a]))))"

section \<open>Text extraction\<close>

definition MAX_CONTENT_CHARS :: nat where
  "MAX_CONTENT_CHARS = 50000"

definition not_gt :: "char \<Rightarrow> bool" where
  "not_gt c = (c \<noteq> CHR ''>'')"

definition TAG :: re where
  "TAG = Seq (Ch (char_is (CHR ''<''))) (Seq (Plus (Ch not_gt)) (Ch (char_is (CHR ''>''))))"

definition BLANKS :: re where
  "BLANKS = AtLeast 2 (Ch is_space)"

definition extract_text :: "string \<Rightarrow> string \<Rightarrow> string" where
  "extract_text html content_type =
     take MAX_CONTENT_CHARS
       (if py_in ''text/html'' content_type then py_strip (re_sub BLANKS '' '' (re_sub TAG '' '' html)) else html)"

section \<open>Fetching\<close>

record fetch_input =
  fi_url :: string
  fi_timeout :: rat

record fetch_output =
  fo_content :: string
  fo_status :: nat
  fo_content_type :: string
  fo_url :: string

record page =
  pg_text :: string
  pg_status :: nat
  pg_content_type :: "string option"
  pg_url :: string

record 'w net =
  nt_world :: 'w
  nt_requests :: "string list"

definition valid_fetch_input :: "fetch_input \<Rightarrow> bool" where
  "valid_fetch_input i = (1 \<le> length (fi_url i) \<and> length (fi_url i) \<le> 2048 \<and> 1 \<le> fi_timeout i \<and> fi_timeout i \<le> 60)"

definition on_net :: "('w, 'a) op \<Rightarrow> ('w net, 'a) op" where
  "on_net m = (\<lambda>s. case m (nt_world s) of (r, x) \<Rightarrow> (r, s\<lparr>nt_world := x\<rparr>))"

interpretation net_world: component nt_world "\<lambda>x s. s\<lparr>nt_world := x\<rparr>" on_net
  by unfold_locales (simp_all add: on_net_def split: prod.splits)

definition http_timeout :: exn_class where
  "http_timeout = PyOther ''httpx.TimeoutException''"

definition http_request_error :: exn_class where
  "http_request_error = PyOther ''httpx.RequestError''"

definition web_fetch_execute ::
  "(string \<Rightarrow> ('w, string list) op) \<Rightarrow> (string \<Rightarrow> rat \<Rightarrow> ('w, page) op) \<Rightarrow> fetch_input
   \<Rightarrow> ('w net, fetch_output) op" where
  "web_fetch_execute resolve get inp =
     thenE (on_net (guard_url resolve (fi_url inp)))
     (thenE (modE (\<lambda>s. s\<lparr>nt_requests := nt_requests s @ [fi_url inp]\<rparr>))
     (bindE (tryE (on_net (get (fi_url inp) (fi_timeout inp)))) (\<lambda>r. case r of
        Inl e \<Rightarrow>
          if exn_class e = http_timeout
          then raiseE (app_error ToolError ''Request timed out: {}'' [AStr (fi_url inp)])
          else if exn_class e = http_request_error
          then raiseE (app_error ToolError ''HTTP request failed: {}'' [AMsg (exn_msg e)])
          else raiseE e
      | Inr p \<Rightarrow>
          let content_type = (case pg_content_type p of None \<Rightarrow> ''text/plain'' | Some t \<Rightarrow> t) in
          retE \<lparr>fo_content = extract_text (pg_text p) content_type, fo_status = pg_status p,
                fo_content_type = content_type, fo_url = pg_url p\<rparr>)))"

section \<open>Searching\<close>

record search_result =
  sr_title :: string
  sr_url :: string
  sr_snippet :: string
  sr_score :: rat

record search_input =
  si_query :: string
  si_max_results :: nat

definition valid_search_input :: "search_input \<Rightarrow> bool" where
  "valid_search_input i =
     (1 \<le> length (si_query i) \<and> length (si_query i) \<le> 500 \<and> 1 \<le> si_max_results i \<and> si_max_results i \<le> 20)"

text \<open>One item of Tavily's answer; \<open>read\<close> is \<open>float\<close> on a text.\<close>

definition tavily_result :: "(string \<Rightarrow> rat result) \<Rightarrow> jvalue \<Rightarrow> search_result result" where
  "tavily_result read item =
     bindR (jget item ''title'' (JText [])) (\<lambda>t.
     bindR (jget item ''url'' (JText [])) (\<lambda>u.
     bindR (jget item ''content'' (JText [])) (\<lambda>c.
     bindR (jget item ''score'' (JNumber 0)) (\<lambda>q.
     bindR (jfloat read q) (\<lambda>score.
     bindR (jtext t) (\<lambda>title.
     bindR (jtext u) (\<lambda>url.
     bindR (jtext c) (\<lambda>snippet.
     Inr \<lparr>sr_title = title, sr_url = url, sr_snippet = snippet, sr_score = score\<rparr>))))))))"

fun is_dict :: "jvalue \<Rightarrow> bool" where
  "is_dict (JDict kv) = True"
| "is_dict _ = False"

definition tavily_results :: "(string \<Rightarrow> rat result) \<Rightarrow> jvalue \<Rightarrow> search_result list result" where
  "tavily_results read raw =
     bindR (jiter (if jtrue raw then raw else JArray [])) (\<lambda>items.
     mapR (tavily_result read) (filter is_dict items))"

definition web_search_execute ::
  "string option \<Rightarrow> (string \<Rightarrow> rat result) \<Rightarrow> (string \<Rightarrow> nat \<Rightarrow> string \<Rightarrow> ('w, jvalue) op) \<Rightarrow> search_input
   \<Rightarrow> ('w, search_result list) op" where
  "web_search_execute api_key read tavily inp = (case api_key of
      Some (k # ks) \<Rightarrow>
        bindE (tavily (k # ks) (si_max_results inp) (si_query inp)) (\<lambda>raw. liftE (tavily_results read raw))
    | _ \<Rightarrow> raiseE (app_error ToolError ''Tavily API key not configured'' []))"

record lang_input =
  lq_query :: string
  lq_count :: nat
  lq_freshness :: string
  lq_summary :: bool

definition valid_lang_input :: "lang_input \<Rightarrow> bool" where
  "valid_lang_input i = (1 \<le> length (lq_query i) \<and> length (lq_query i) \<le> 500 \<and> 1 \<le> lq_count i \<and> lq_count i \<le> 50)"

text \<open>\<open>item.get("snippet") or item.get("summary", "")\<close>.\<close>

definition lang_result :: "jvalue \<Rightarrow> search_result result" where
  "lang_result item =
     bindR (jget item ''name'' (JText [])) (\<lambda>t.
     bindR (jget item ''url'' (JText [])) (\<lambda>u.
     bindR (jget item ''snippet'' JNull) (\<lambda>s.
     bindR (if jtrue s then Inr s else jget item ''summary'' (JText [])) (\<lambda>c.
     bindR (jtext t) (\<lambda>title.
     bindR (jtext u) (\<lambda>url.
     bindR (jtext c) (\<lambda>snippet.
     Inr \<lparr>sr_title = title, sr_url = url, sr_snippet = snippet, sr_score = 0\<rparr>)))))))"

definition lang_results :: "jvalue \<Rightarrow> search_result list result" where
  "lang_results data =
     bindR (jget data ''data'' data) (\<lambda>d.
     bindR (jget d ''webPages'' (JDict [])) (\<lambda>pages.
     bindR (jget pages ''value'' (JArray [])) (\<lambda>items.
     bindR (jiter items) (mapR lang_result))))"

text \<open>The client posts the query, raises for an error status and decodes the body.\<close>

definition lang_search_execute ::
  "string option \<Rightarrow> (string \<Rightarrow> lang_input \<Rightarrow> ('w, jvalue) op) \<Rightarrow> lang_input \<Rightarrow> ('w, search_result list) op" where
  "lang_search_execute api_key post inp = (case api_key of
      Some (k # ks) \<Rightarrow> bindE (post (k # ks) inp) (\<lambda>data. liftE (lang_results data))
    | _ \<Rightarrow> raiseE (app_error ToolError ''LangSearch API key not configured'' []))"

end
