(* ===== verification/Content.thy ===== *)
theory Content
  imports Social_Publish Agents Py_Regex Json_Values
begin

text \<open>
  Content drafting: the deterministic validators (\<open>app/content/validators.py\<close>), the two
  content tools (\<open>app/tools/builtin/content.py\<close>), the tone and safety check
  (\<open>app/content/tone_safety.py\<close>), the generator's prompt (\<open>app/content/generator.py\<close>) and
  the draft routes (\<open>app/api/routes/content.py\<close>). The chat model and \<open>json.loads\<close> are
  parameters; confidences are rationals.
\<close>

section \<open>Validators\<close>

datatype check_kind = CheckLength | CheckLinks | CheckDuplicates | CheckTone | CheckSafety | CheckFormatting

record issue =
  is_check :: check_kind
  is_message :: emsg

record validation =
  va_valid :: bool
  va_issues :: "issue list"

fun PLATFORM_CHARACTER_LIMITS :: "platform \<Rightarrow> nat" where
  "PLATFORM_CHARACTER_LIMITS X = 280"
| "PLATFORM_CHARACTER_LIMITS LinkedIn = 3000"

fun platform_value :: "platform \<Rightarrow> string" where
  "platform_value X = ''x''"
| "platform_value LinkedIn = ''linkedin''"

text \<open>
  \<open>r"https?://[^\\s]+"\<close>: in the raw string the class excludes the backslash and the letter
  \<open>s\<close>, not white space.
\<close>

definition url_char :: "char \<Rightarrow> bool" where
  "url_char c = (c \<noteq> CHR 0x5C \<and> c \<noteq> CHR ''s'')"

definition URL_PATTERN :: re where
  "URL_PATTERN = Seq (lit ''http'') (Seq (Opt (Ch (char_is (CHR ''s''))))
     (Seq (lit ''://'') (Plus (Ch url_char))))"

definition host_char :: "char \<Rightarrow> bool" where
  "host_char c = (is_word c \<or> c = CHR ''.'' \<or> c = CHR ''-'')"

text \<open>\<open>r"^https?://[\w.-]+\.[a-zA-Z]{2,}"\<close>\<close>

definition LINK_PATTERN :: re where
  "LINK_PATTERN = Seq AtStart (Seq (lit ''http'') (Seq (Opt (Ch (char_is (CHR ''s''))))
     (Seq (lit ''://'') (Seq (Plus (Ch host_char)) (Seq (Ch (char_is (CHR ''.''))) (AtLeast 2 (Ch is_alpha)))))))"

definition validate_length :: "platform \<Rightarrow> string \<Rightarrow> issue option" where
  "validate_length p content =
     (if length content > PLATFORM_CHARACTER_LIMITS p
      then Some \<lparr>is_check = CheckLength, is_message = Msg ''Content is {} characters, exceeds {} limit of {}''
             [AInt (int (length content)), AStr (platform_value p), AInt (int (PLATFORM_CHARACTER_LIMITS p))]\<rparr>
      else None)"

definition malformed_link :: "string \<Rightarrow> bool" where
  "malformed_link url = (CHR '' '' \<in> set url \<or> re_match LINK_PATTERN url = None)"

definition validate_links :: "string \<Rightarrow> issue option" where
  "validate_links content = (case filter malformed_link (re_findall URL_PATTERN content) of
      [] \<Rightarrow> None
    | url # _ \<Rightarrow> Some \<lparr>is_check = CheckLinks, is_message = Msg ''Malformed link: {}'' [AStr url]\<rparr>)"

definition validate_duplicate :: "string \<Rightarrow> string set \<Rightarrow> issue option" where
  "validate_duplicate content existing =
     (if content_hash content \<in> existing
      then Some \<lparr>is_check = CheckDuplicates,
             is_message = said ''Identical content was already drafted/published''\<rparr>
      else None)"

definition validate_content :: "platform \<Rightarrow> string \<Rightarrow> string set \<Rightarrow> validation" where
  "validate_content p content existing =
     (if py_strip content = []
      then \<lparr>va_valid = False, va_issues = [\<lparr>is_check = CheckFormatting, is_message = said ''Content is empty''\<rparr>]\<rparr>
      else
        let issues = concat (map (\<lambda>c. case c of None \<Rightarrow> [] | Some i \<Rightarrow> [i])
              [validate_length p content, validate_links content, validate_duplicate content existing])
        in \<lparr>va_valid = (issues = []), va_issues = issues\<rparr>)"

section \<open>Threads\<close>

definition THREAD_BUDGET :: nat where
  "THREAD_BUDGET = 275"

definition sentence_end :: "char \<Rightarrow> bool" where
  "sentence_end c = (c = CHR ''.'' \<or> c = CHR ''!'' \<or> c = CHR ''?'')"

definition SENTENCE_SPLIT :: re where
  "SENTENCE_SPLIT = Seq (Behind sentence_end) (Plus (Ch is_space))"

definition split_into_sentences :: "string \<Rightarrow> string list" where
  "split_into_sentences t =
     map py_strip (filter (\<lambda>s. py_strip s \<noteq> []) (re_split SENTENCE_SPLIT (py_strip t)))"

text \<open>The loop of \<open>_build_raw_posts\<close>: posts so far, the sentences of the current one, its length.\<close>

definition group_step :: "string list \<times> string list \<times> nat \<Rightarrow> string \<Rightarrow> string list \<times> string list \<times> nat" where
  "group_step st sentence = (case st of (posts, current, len) \<Rightarrow>
     let needed = (if current = [] then length sentence else len + 1 + length sentence) in
     if current \<noteq> [] \<and> needed > THREAD_BUDGET
     then (posts @ [py_join '' '' current], [sentence], length sentence)
     else (posts, current @ [sentence], needed))"

definition group_sentences :: "string list \<Rightarrow> string list" where
  "group_sentences sentences = (case fold (\<lambda>s st. group_step st s) sentences ([], [], 0) of
      (posts, current, len) \<Rightarrow> if current = [] then posts else posts @ [py_join '' '' current])"

definition build_raw_posts :: "string \<Rightarrow> string list" where
  "build_raw_posts content = group_sentences (split_into_sentences content)"

record thread_post =
  tp_index :: nat
  tp_total :: nat
  tp_content :: string

definition number_suffix :: "nat \<Rightarrow> nat \<Rightarrow> string" where
  "number_suffix i n = '' '' @ show_nat i @ ''/'' @ show_nat n"

definition number_posts :: "string list \<Rightarrow> thread_post list" where
  "number_posts raw = map2 (\<lambda>i t. \<lparr>tp_index = i + 1, tp_total = length raw,
     tp_content = t @ number_suffix (i + 1) (length raw)\<rparr>) [0..<length raw] raw"

section \<open>The content tools\<close>

record draft_output =
  do_valid :: bool
  do_thread :: "thread_post list"
  do_issues :: "issue list"
  do_formatted :: string

definition content_draft_execute :: "platform \<Rightarrow> string \<Rightarrow> draft_output" where
  "content_draft_execute p content =
     (if p = X \<and> length content > 280 then
        let posts = number_posts (build_raw_posts content) in
        (case filter (\<lambda>v. \<not> va_valid v) (map (\<lambda>q. validate_content p (tp_content q) {}) posts) of
           v # _ \<Rightarrow> \<lparr>do_valid = False, do_thread = [], do_issues = va_issues v, do_formatted = content\<rparr>
         | [] \<Rightarrow> \<lparr>do_valid = True, do_thread = posts, do_issues = [],
                   do_formatted = py_join (newline @ newline) (map tp_content posts)\<rparr>)
      else
        let v = validate_content p content {} in
        if \<not> va_valid v
        then \<lparr>do_valid = False, do_thread = [], do_issues = va_issues v, do_formatted = content\<rparr>
        else \<lparr>do_valid = True, do_thread = [], do_issues = [], do_formatted = content\<rparr>)"

datatype tone = Professional | Technical | Educational | Casual

definition content_validate_execute ::
  "(string \<Rightarrow> tone \<Rightarrow> ('w, issue list) op) option \<Rightarrow> platform \<Rightarrow> string \<Rightarrow> tone option \<Rightarrow> ('w, bool \<times> issue list) op" where
  "content_validate_execute checker p content tone =
     (let v = validate_content p content {} in
      if \<not> va_valid v then retE (False, va_issues v)
      else bindE (case (tone, checker) of (Some t, Some check) \<Rightarrow> check content t | _ \<Rightarrow> retE [])
        (\<lambda>issues. retE (issues = [], issues)))"


definition validate_content_async ::
  "platform \<Rightarrow> string \<Rightarrow> string set \<Rightarrow> tone option \<Rightarrow> (string \<Rightarrow> tone \<Rightarrow> ('w, issue list) op) option
   \<Rightarrow> ('w, validation) op" where
  "validate_content_async p content existing tone checker =
     (if py_strip content = [] then retE (validate_content p content existing)
      else
        bindE (case (checker, tone) of (Some check, Some t) \<Rightarrow> check content t | _ \<Rightarrow> retE [])
          (\<lambda>extra. let issues = va_issues (validate_content p content existing) @ extra
                   in retE \<lparr>va_valid = (issues = []), va_issues = issues\<rparr>))"

section \<open>Tone and safety\<close>

text \<open>\<open>str.splitlines\<close>: a carriage return and a line feed together end one line.\<close>

definition line_break :: "char \<Rightarrow> bool" where
  "line_break c = ((10 \<le> char_code c \<and> char_code c \<le> 13) \<or> (28 \<le> char_code c \<and> char_code c \<le> 30) \<or> char_code c = 133)"

fun split_lines_at :: "string \<Rightarrow> string \<Rightarrow> string list" where
  "split_lines_at acc [] = (if acc = [] then [] else [rev acc])"
| "split_lines_at acc [c] = (if line_break c then [rev acc] else [rev (c # acc)])"
| "split_lines_at acc (c # d # cs) =
     (if char_code c = 13 \<and> char_code d = 10 then rev acc # split_lines_at [] cs
      else if line_break c then rev acc # split_lines_at [] (d # cs)
      else split_lines_at (c # acc) (d # cs))"

definition py_splitlines :: "string \<Rightarrow> string list" where
  "py_splitlines s = split_lines_at [] s"

definition strip_fences :: "string \<Rightarrow> string" where
  "strip_fences raw = (if py_startswith raw ''```''
     then py_strip (py_join newline (butlast (tl (py_splitlines raw)))) else raw)"

text \<open>The issue of one item of the answer, if the item is one.\<close>

definition tone_issue :: "jvalue \<Rightarrow> issue list" where
  "tone_issue item = (case item of
      JDict kv \<Rightarrow> (case (map_of kv ''check'', map_of kv ''message'') of
          (Some (JText k), Some (JText m)) \<Rightarrow>
            if k = ''tone'' then [\<lparr>is_check = CheckTone, is_message = said m\<rparr>]
            else if k = ''safety'' then [\<lparr>is_check = CheckSafety, is_message = said m\<rparr>]
            else []
        | _ \<Rightarrow> [])
    | _ \<Rightarrow> [])"

text \<open>\<open>for item in data\<close>: the keys of an object and the characters of a string are no objects.\<close>

definition tone_issues :: "jvalue \<Rightarrow> issue list result" where
  "tone_issues data = (case data of
      JArray items \<Rightarrow> Inr (concat (map tone_issue items))
    | JDict kv \<Rightarrow> Inr []
    | JText t \<Rightarrow> Inr []
    | _ \<Rightarrow> Inl (py_error (PyOther ''TypeError'') '''' []))"

text \<open>The messages that a chat model gets, and a model: it answers with the text of its reply.\<close>

datatype chat_message = SystemMessage string | HumanMessage string

type_synonym 'w chat = "chat_message list \<Rightarrow> ('w, string) op"

fun tone_value :: "tone \<Rightarrow> string" where
  "tone_value Professional = ''professional''"
| "tone_value Technical = ''technical''"
| "tone_value Educational = ''educational''"
| "tone_value Casual = ''casual''"

definition TONE_PROMPT :: string where
  "TONE_PROMPT = py_join newline
    [''You are a content quality checker for Agent Operator.'',
     '''',
     ''Given a piece of content and a requested tone, evaluate:'',
     ''1. TONE: Does the content match the requested tone? (professional, technical, educational, casual)'',
     ''2. SAFETY: Does the content contain harassment, hate speech, dangerous instructions, self-harm promotion, or other safety violations?'',
     '''',
     ''Rules:'',
     ''- Return ONLY a JSON array of issues. Each issue has {\"check\": \"tone\"|\"safety\", \"message\": \"...\"}.'',
     ''- If everything is fine, return an empty array [].'',
     ''- Do not include any other text, markdown, or explanation.'',
     ''- Be strict on safety, reasonable on tone.'']"

definition tone_messages :: "string \<Rightarrow> tone \<Rightarrow> chat_message list" where
  "tone_messages content tone = [SystemMessage TONE_PROMPT,
     HumanMessage (''Tone: '' @ tone_value tone @ newline @ newline @ ''Content:'' @ newline @ content)]"

definition tone_check ::
  "(string \<Rightarrow> jvalue option) \<Rightarrow> 'w chat \<Rightarrow> string \<Rightarrow> tone \<Rightarrow> ('w, issue list) op" where
  "tone_check loads ainvoke content tone =
     bindE (tryE (ainvoke (tone_messages content tone))) (\<lambda>r. case r of
       Inl e \<Rightarrow> retE []
     | Inr reply \<Rightarrow> (case loads (strip_fences (py_strip reply)) of
           None \<Rightarrow> retE []
         | Some data \<Rightarrow> liftE (tone_issues data)))"

text \<open>\<open>ToneSafetyChecker\<close>: the model is resolved when the checker is built.\<close>

definition new_tone_checker ::
  "'w chat provider_registry \<Rightarrow> routing_settings \<Rightarrow> (string \<Rightarrow> jvalue option)
   \<Rightarrow> (string \<Rightarrow> tone \<Rightarrow> ('w, issue list) op) result" where
  "new_tone_checker providers rs loads =
     bindR (resolve_model providers rs TONE_CRITERIA) (\<lambda>m. Inr (tone_check loads m))"

section \<open>Generation\<close>

record claim_line =
  cl_claim :: string
  cl_confidence :: rat
  cl_disputed :: "string option"

text \<open>\<open>f"{x:.0%}"\<close>: the percentage, a half rounded to the even neighbour.\<close>

definition round_half_even :: "rat \<Rightarrow> int" where
  "round_half_even x = (let f = \<lfloor>x\<rfloor>; d = x - of_int f in
     if d < 1 / 2 then f else if d > 1 / 2 then f + 1 else if even f then f else f + 1)"

definition show_percent :: "rat \<Rightarrow> string" where
  "show_percent x = show_nat (nat (round_half_even (x * 100))) @ ''%''"

definition claim_text :: "claim_line \<Rightarrow> string" where
  "claim_text c = ''- '' @ cl_claim c @ '' (confidence: '' @ show_percent (cl_confidence c) @ '')'' @
     (case cl_disputed c of None \<Rightarrow> [] | Some d \<Rightarrow> if d = [] then [] else '' [DISPUTED: '' @ d @ '']'')"

definition build_human_message :: "platform \<Rightarrow> string \<Rightarrow> claim_line list \<Rightarrow> string" where
  "build_human_message p topic research =
     ''Platform: '' @ platform_value p @ newline @ ''Topic: '' @ topic @ newline @ newline @
     ''Research evidence:'' @ newline @
     (if research = [] then ''(no research provided)'' else py_join newline (map claim_text research))"

text \<open>The system prompt holds a dash that is no character of the model: it is an argument.\<close>

definition generate_draft ::
  "string \<Rightarrow> 'w chat \<Rightarrow> platform \<Rightarrow> string \<Rightarrow> claim_line list \<Rightarrow> ('w, string) op" where
  "generate_draft prompt ainvoke p topic research =
     ainvoke [SystemMessage prompt, HumanMessage (build_human_message p topic research)]"

section \<open>Draft routes\<close>

text \<open>The session of a request, with the world that the chat model belongs to.\<close>

record 'w draft_state =
  ds_session :: session
  ds_world :: 'w

definition ds_on_session :: "(session, 'a) op \<Rightarrow> ('w draft_state, 'a) op" where
  "ds_on_session m = (\<lambda>s. case m (ds_session s) of (r, x) \<Rightarrow> (r, s\<lparr>ds_session := x\<rparr>))"

definition ds_on_world :: "('w, 'a) op \<Rightarrow> ('w draft_state, 'a) op" where
  "ds_on_world m = (\<lambda>s. case m (ds_world s) of (r, x) \<Rightarrow> (r, s\<lparr>ds_world := x\<rparr>))"

record draft_create =
  dc_platform :: platform
  dc_content :: string
  dc_task_id :: "uuid option"
  dc_research :: "(string \<times> rat) list option"

record draft_update =
  du_content :: "string option"
  du_status :: "draft_status option"

text \<open>What a generated draft needs: the providers, the routing settings and the prompt.\<close>

record 'w generator =
  gn_providers :: "'w chat provider_registry"
  gn_settings :: routing_settings
  gn_prompt :: string

definition draft_content ::
  "'w generator \<Rightarrow> draft_create \<Rightarrow> ('w, string) op" where
  "draft_content g p = (case dc_research p of
      Some (c # cs) \<Rightarrow> bindE (liftE (resolve_model (gn_providers g) (gn_settings g) CONTENT_CRITERIA)) (\<lambda>m.
        generate_draft (gn_prompt g) m (dc_platform p) (dc_content p)
          (map (\<lambda>(t, q). \<lparr>cl_claim = t, cl_confidence = q, cl_disputed = None\<rparr>) (c # cs)))
    | _ \<Rightarrow> retE (dc_content p))"

definition create_draft_route ::
  "'w generator \<Rightarrow> draft_create \<Rightarrow> ('w draft_state, uuid) op" where
  "create_draft_route g p =
     bindE (ds_on_world (draft_content g p)) (\<lambda>content.
     if \<not> va_valid (validate_content (dc_platform p) content {})
     then raiseE (app_error ValidationError ''Draft content failed validation'' [])
     else
       bindE (ds_on_session uuid4) (\<lambda>did.
       thenE (ds_on_session (put_draft did \<lparr>d_task_id = dc_task_id p, d_platform = dc_platform p,
         d_content = content, d_status = DraftNew\<rparr>))
       (thenE (ds_on_session commit)
       (retE did))))"

definition get_draft_route :: "uuid \<Rightarrow> (session, draft) op" where
  "get_draft_route did = bindE (getE (\<lambda>s. tget (drafts (work s)) did)) (\<lambda>r. case r of
     None \<Rightarrow> raiseE (app_error ValidationError ''Draft {} not found'' [AId did])
   | Some d \<Rightarrow> retE d)"

definition update_draft_route :: "uuid \<Rightarrow> draft_update \<Rightarrow> (session, draft) op" where
  "update_draft_route did p = bindE (get_draft_route did) (\<lambda>d.
     case du_content p of
       Some c \<Rightarrow>
         if \<not> va_valid (validate_content (d_platform d) c {})
         then raiseE (app_error ValidationError ''Updated content failed validation'' [])
         else let d' = d\<lparr>d_content := c, d_status := (case du_status p of None \<Rightarrow> d_status d | Some st \<Rightarrow> st)\<rparr>
              in thenE (put_draft did d') (thenE commit (retE d'))
     | None \<Rightarrow>
         let d' = d\<lparr>d_status := (case du_status p of None \<Rightarrow> d_status d | Some st \<Rightarrow> st)\<rparr>
         in thenE (put_draft did d') (thenE commit (retE d')))"

end
