(* ===== verification/Research.thy ===== *)
theory Research
  imports Web_Tools Content "HOL-Library.Product_Lexorder"
begin

text \<open>
  Research: the classification and ranking of sources (\<open>app/research/classification.py\<close>), the
  evidence helpers (\<open>evidence.py\<close>) and the pipeline (\<open>pipeline.py\<close>), which calls the web tools
  through the engine. The text splitter of LangChain and the chat model are parameters; a
  time is a rational number of seconds, a float a rational or real number.
\<close>

section \<open>Sources and claims\<close>

datatype source_type = Primary | Official | Secondary | Community | Unverified

record source =
  src_url :: string
  src_type :: source_type
  src_title :: "string option"
  src_published :: "rat option"

record claim =
  cm_claim :: string
  cm_source :: source
  cm_evidence :: string
  cm_confidence :: rat
  cm_against :: "string option"

record research_result =
  rr_question :: string
  rr_summary :: string
  rr_claims :: "claim list"
  rr_sources :: "string list"
  rr_conflicts :: "string list"

section \<open>Classification\<close>

definition OFFICIAL_EXACT_HOSTS :: "string set" where
  "OFFICIAL_EXACT_HOSTS = {''w3.org'', ''ietf.org'', ''iso.org'', ''ieee.org'', ''ncbi.nlm.nih.gov'', ''arxiv.org'',
     ''docs.python.org'', ''docs.microsoft.com'', ''developer.mozilla.org''}"

definition SECONDARY_HOST_KEYWORDS :: "string list" where
  "SECONDARY_HOST_KEYWORDS = [''reuters'', ''ap.org'', ''bloomberg'', ''wsj.com'', ''ft.com'', ''techcrunch'',
     ''arstechnica'', ''theverge'', ''wired'', ''zdnet'', ''theregister'', ''infosecurity-magazine'', ''engadget'',
     ''techradar'', ''theeconomist'']"

definition COMMUNITY_HOST_KEYWORDS :: "string list" where
  "COMMUNITY_HOST_KEYWORDS = [''reddit'', ''twitter'', ''x.com'', ''hacker-news'', ''news.ycombinator'', ''dev.to'',
     ''medium.com'', ''substack'', ''linkedin.com'', ''quora'']"

definition COMMUNITY_TLDS :: "string set" where
  "COMMUNITY_TLDS = {''.tk'', ''.ml'', ''.ga'', ''.cf''}"

definition suffix_char :: "char \<Rightarrow> bool" where
  "suffix_char c = (is_alnum c \<or> c = CHR ''-'')"

definition SUFFIX_RE :: re where
  "SUFFIX_RE = Seq (Plus (Ch suffix_char)) (Seq (lit ''.'') (Seq (AtLeast 2 (Ch is_alpha)) AtEnd))"

definition TLD_RE :: re where
  "TLD_RE = Seq (lit ''.'') (Seq (AtLeast 2 (Ch is_alpha)) AtEnd)"

definition SCHEME_RE :: re where
  "SCHEME_RE = Seq AtStart (Seq (Ch is_alpha) (Seq (Star (Ch scheme_char)) (lit ''://'')))"

definition extract_host :: "string \<Rightarrow> string option" where
  "extract_host url =
     (let s = re_sub SCHEME_RE [] (py_strip url);
          s = takeWhile (\<lambda>c. c \<noteq> CHR ''/'') s;
          s = takeWhile (\<lambda>c. c \<noteq> CHR ''?'') s;
          s = (if CHR ''@'' \<in> set s then after_last (CHR ''@'') s else s)
      in if s = [] then None else Some s)"

definition last_suffix :: "string \<Rightarrow> string" where
  "last_suffix host = (case re_search SUFFIX_RE host of None \<Rightarrow> [] | Some m \<Rightarrow> m)"

definition top_level :: "string \<Rightarrow> string" where
  "top_level host = (case re_search TLD_RE host of None \<Rightarrow> [] | Some m \<Rightarrow> tl m)"

definition classify_host :: "string \<Rightarrow> source_type" where
  "classify_host host =
     (if top_level host \<in> {''gov'', ''gouv''} \<or> last_suffix host \<in> {''gov.uk'', ''gov.au'', ''gc.ca''} \<or>
         py_endswith host ''.gc.ca'' then Primary
      else if host \<in> OFFICIAL_EXACT_HOSTS \<or> py_endswith host ''.edu'' then Official
      else if list_ex (\<lambda>k. py_in k host) SECONDARY_HOST_KEYWORDS then Secondary
      else if list_ex (\<lambda>k. py_in k host) COMMUNITY_HOST_KEYWORDS \<or> last_suffix host \<in> COMMUNITY_TLDS then Community
      else Unverified)"

definition classify_source :: "string \<Rightarrow> source_type" where
  "classify_source url =
     (if url = [] then Unverified
      else case extract_host url of None \<Rightarrow> Unverified | Some host \<Rightarrow> classify_host (py_lower host))"

definition classify_source_obj :: "source \<Rightarrow> source" where
  "classify_source_obj s = s\<lparr>src_type := classify_source (src_url s)\<rparr>"

section \<open>Freshness and ranking\<close>

definition HALFLIFE_DAYS :: real where
  "HALFLIFE_DAYS = 7"

definition freshness_score :: "rat \<Rightarrow> rat option \<Rightarrow> real" where
  "freshness_score now published = (case published of
      None \<Rightarrow> 0
    | Some t \<Rightarrow> 2 powr (- (max 0 (of_rat ((now - t) / 86400))) / HALFLIFE_DAYS))"

fun source_rank :: "source_type \<Rightarrow> nat" where
  "source_rank Primary = 0"
| "source_rank Official = 1"
| "source_rank Secondary = 2"
| "source_rank Community = 3"
| "source_rank Unverified = 4"

definition sort_by_confidence_and_freshness :: "rat \<Rightarrow> source list \<Rightarrow> source list" where
  "sort_by_confidence_and_freshness now sources =
     sort_key (\<lambda>s. (source_rank (src_type s), freshness_score now (src_published s))) sources"

section \<open>Evidence\<close>

definition has_conflicting_evidence :: "claim \<Rightarrow> bool" where
  "has_conflicting_evidence c = truthy (cm_against c)"

definition is_high_confidence :: "rat \<Rightarrow> claim \<Rightarrow> bool" where
  "is_high_confidence threshold c = (cm_confidence c \<ge> threshold \<and> \<not> has_conflicting_evidence c)"

record confidence_summary =
  cs_high :: nat
  cs_disputed :: nat
  cs_low :: nat

definition count_claim :: "claim \<Rightarrow> confidence_summary \<Rightarrow> confidence_summary" where
  "count_claim c s =
     (if has_conflicting_evidence c then s\<lparr>cs_disputed := cs_disputed s + 1\<rparr>
      else if is_high_confidence (3 / 4) c then s\<lparr>cs_high := cs_high s + 1\<rparr>
      else s\<lparr>cs_low := cs_low s + 1\<rparr>)"

definition summarize_confidence :: "claim list \<Rightarrow> confidence_summary" where
  "summarize_confidence claims = fold count_claim claims \<lparr>cs_high = 0, cs_disputed = 0, cs_low = 0\<rparr>"

section \<open>Extracting claims from text\<close>

definition any_char :: "char \<Rightarrow> bool" where
  "any_char c = True"

definition not_space_char :: "char \<Rightarrow> bool" where
  "not_space_char c = (\<not> is_space c)"

definition SPACES :: re where
  "SPACES = Plus (Ch is_space)"

text \<open>The patterns in their order; the first one ends at a word boundary.\<close>

definition MARKUP_PATTERN :: re where
  "MARKUP_PATTERN = Seq (lit ''<'') (Seq (Star (Ch is_space))
     (Seq (Alts [lit_ic ''INSTRUCTIONS'', lit_ic ''SCRIPT'', lit_ic ''SCRIPT_TAG'']) Boundary))"

definition PURE_PATTERNS :: "re list" where
  "PURE_PATTERNS =
     [Seq (lit_ic ''<script'') (Seq (Star (Ch not_gt)) (Seq (lit ''>'') (Seq (LazyStar (Ch any_char)) (lit_ic ''</script>'')))),
      Seq (lit_ic ''ignore '') (Seq (Opt (lit_ic ''all '')) (Seq (lit_ic ''previous '')
        (Alts [lit_ic ''instructions'', lit_ic ''prompts'', lit_ic ''rules'']))),
      Seq (lit_ic ''you are now'') (Seq SPACES (Plus (Ch not_space_char))),
      Seq (lit_ic ''forget '') (Seq (Opt (Alts [lit_ic ''your '', lit_ic ''prior '', lit_ic ''previous '']))
        (Alts [lit_ic ''instructions'', lit_ic ''prompts'', lit_ic ''rules'', lit_ic ''identity'', lit_ic ''self''])),
      Seq (Alts [lit_ic ''reveal'', lit_ic ''output'', lit_ic ''show'', lit_ic ''expose'', lit_ic ''print''])
        (Seq SPACES (Seq (Opt (lit_ic ''all '')) (Seq (Opt (Seq (lit_ic ''system'') (Star (Ch is_space))))
          (Seq (lit_ic ''secret'') (Opt (lit_ic ''s'')))))),
      Alts [lit_ic ''system prompt'', lit_ic ''system instructions'', lit_ic ''developer instructions''],
      Seq (lit_ic ''drop table'') (Seq SPACES (Plus (Ch is_word))),
      TAG]"

definition looks_injected :: "string \<Rightarrow> bool" where
  "looks_injected t = list_ex (\<lambda>r. re_search r t \<noteq> None) (MARKUP_PATTERN # PURE_PATTERNS)"

record extracted =
  ex_claim :: string
  ex_evidence :: string
  ex_confidence :: rat

definition extract_claims_from_text :: "string \<Rightarrow> extracted list" where
  "extract_claims_from_text chunk =
     take 10 (map (\<lambda>s. \<lparr>ex_claim = take 200 s, ex_evidence = take 500 s, ex_confidence = 2 / 5\<rparr>)
       (filter (\<lambda>s. \<not> length s < 30 \<and> \<not> looks_injected s)
         (map py_strip (re_split SENTENCE_SPLIT (py_strip chunk)))))"

text \<open>\<open>split\<close> is \<open>RecursiveCharacterTextSplitter.split_text\<close> with the configured sizes.\<close>

definition chunk_text :: "(string \<Rightarrow> string list) \<Rightarrow> string \<Rightarrow> string list" where
  "chunk_text split t = (if length t \<le> 4000 then [t] else split t)"

definition claims_of_page :: "(string \<Rightarrow> string list) \<Rightarrow> source \<Rightarrow> string \<Rightarrow> claim list" where
  "claims_of_page split src content =
     (if py_strip content = [] then []
      else map (\<lambda>e. \<lparr>cm_claim = ex_claim e, cm_source = src, cm_evidence = ex_evidence e,
             cm_confidence = ex_confidence e, cm_against = None\<rparr>)
        (concat (map extract_claims_from_text (chunk_text split content))))"

section \<open>Cross-checking\<close>

definition WORD_RE :: re where
  "WORD_RE = Plus (Ch is_word)"

definition tokens_of :: "string \<Rightarrow> string set" where
  "tokens_of t = set (re_findall WORD_RE (py_lower t))"

definition jaccard :: "string set \<Rightarrow> string set \<Rightarrow> rat" where
  "jaccard a b = of_nat (card (a \<inter> b)) / of_nat (card (a \<union> b))"

definition overlaps :: "string \<Rightarrow> string \<Rightarrow> bool" where
  "overlaps a b = (let ta = tokens_of a; tb = tokens_of b in
     ta \<noteq> {} \<and> tb \<noteq> {} \<and> jaccard ta tb \<ge> 2 / 5)"

definition consistent :: "string \<Rightarrow> string \<Rightarrow> bool" where
  "consistent a b = (let ta = tokens_of a; tb = tokens_of b in
     ta = {} \<or> tb = {} \<or> jaccard ta tb \<ge> 4 / 5)"

definition contradicts :: "claim \<Rightarrow> claim \<Rightarrow> bool" where
  "contradicts a b = (overlaps (cm_claim a) (cm_claim b) \<and> \<not> consistent (cm_evidence a) (cm_evidence b))"

text \<open>
  The body of the two loops for the claims at positions \<open>i\<close> and \<open>j\<close>: the objects are mutated in place,
  so the list is updated; two positions hold two objects.
\<close>

definition dispute :: "nat \<Rightarrow> string \<Rightarrow> claim list \<Rightarrow> claim list" where
  "dispute i ev cs = (if has_conflicting_evidence (cs ! i) then cs else cs[i := (cs ! i)\<lparr>cm_against := Some ev\<rparr>])"

definition check_pair :: "nat \<Rightarrow> nat \<Rightarrow> claim list \<Rightarrow> claim list" where
  "check_pair i j cs =
     (if i = j \<or> src_url (cm_source (cs ! i)) = src_url (cm_source (cs ! j)) then cs
      else if contradicts (cs ! i) (cs ! j)
      then dispute j (cm_evidence (cs ! i)) (dispute i (cm_evidence (cs ! j)) cs)
      else cs)"

definition cross_check :: "claim list \<Rightarrow> claim list" where
  "cross_check cs =
     fold (\<lambda>i. fold (\<lambda>j. check_pair i j) [0..<length cs]) [0..<length cs] cs"

section \<open>Synthesis\<close>

definition format_research :: "claim list \<Rightarrow> claim list \<Rightarrow> string" where
  "format_research verified disputed =
     (let lines =
        (if verified = [] then []
         else ''## Verified evidence'' # concat (map (\<lambda>c.
           [''- ['' @ show_percent (cm_confidence c) @ ''] '' @ cm_claim c @ '' - '' @ src_url (cm_source c),
            ''  evidence: '' @ take 200 (cm_evidence c)]) verified)) @
        (if disputed = [] then []
         else (newline @ ''## Disputed evidence'') # map (\<lambda>c.
           ''- DISPUTED '' @ cm_claim c @ '' - against: '' @
             take 200 (case cm_against c of None \<Rightarrow> [] | Some t \<Rightarrow> t)) disputed)
      in if lines = [] then ''(no evidence)'' else py_join newline lines)"

definition synthesis_criteria :: routing_criteria where
  "synthesis_criteria = default_criteria\<lparr>rc_task_complexity := COMPLEX, rc_requires_tools := False,
     rc_requires_reasoning := True, rc_conflicting_evidence := True, rc_risk_level := LOW\<rparr>"

definition synthesis_request :: "claim list \<Rightarrow> string" where
  "synthesis_request claims =
     ''Question context and evidence:'' @ newline @
     format_research (filter (\<lambda>c. \<not> has_conflicting_evidence c) claims) (filter has_conflicting_evidence claims) @
     newline @ newline @ ''Synthesise a clear, cited answer.''"

section \<open>The pipeline\<close>

datatype research_input = SearchIn search_input | LangIn lang_input | FetchIn fetch_input
datatype research_output = ResultsOut "search_result list" | PageOut fetch_output

type_synonym 'w research_engine = "(research_input, research_output, 'w) engine"
type_synonym 'w chat_model = "string \<Rightarrow> ('w, string) op"

record 'w research_env =
  rv_retrier :: "('w, research_output) retrier"
  rv_clock :: "nat \<Rightarrow> rat"
  rv_registry :: "(research_input, research_output, 'w) registry"
  rv_context :: "execution_context option"
  rv_providers :: "'w chat_model provider_registry"
  rv_settings :: routing_settings
  rv_split :: "string \<Rightarrow> string list"
  rv_max_sources :: nat
  rv_max_results :: nat

definition run_sub_tool :: "'w research_env \<Rightarrow> string \<Rightarrow> research_input \<Rightarrow> ('w research_engine, research_output) op" where
  "run_sub_tool env name inp =
     (if \<not> registry_contains (rv_registry env) name
      then raiseE (app_error ResearchError ''Required research tool {} is not registered'' [AStr name])
      else bindE (execute (rv_retrier env) (rv_clock env) (rv_registry env) name inp (rv_context env))
        (\<lambda>r. retE (er_output r)))"

text \<open>\<open>raw.results\<close> and the sources made of them.\<close>

definition results_of :: "research_output \<Rightarrow> search_result list result" where
  "results_of out = (case out of ResultsOut hits \<Rightarrow> Inr hits | PageOut p \<Rightarrow> Inl (attribute_error ''results''))"

definition source_of_hit :: "search_result \<Rightarrow> source" where
  "source_of_hit hit = classify_source_obj \<lparr>src_url = sr_url hit, src_type = Unverified,
     src_title = (if sr_title hit = [] then None else Some (sr_title hit)), src_published = None\<rparr>"

definition search_with :: "'w research_env \<Rightarrow> string \<Rightarrow> bool \<Rightarrow> research_input \<Rightarrow> ('w research_engine, source list) op" where
  "search_with env name valid inp =
     (if \<not> valid then raiseE schema_error
      else bindE (run_sub_tool env name inp) (\<lambda>out.
        bindE (liftE (results_of out)) (\<lambda>hits. retE (map source_of_hit hits))))"

definition pipeline_search :: "'w research_env \<Rightarrow> rat \<Rightarrow> string \<Rightarrow> ('w research_engine, source list) op" where
  "pipeline_search env now question =
     (let web = \<lparr>si_query = question, si_max_results = rv_max_results env\<rparr>;
          lang = \<lparr>lq_query = question, lq_count = rv_max_results env, lq_freshness = ''noLimit'', lq_summary = False\<rparr> in
      bindE (search_with env ''web_search'' (valid_search_input web) (SearchIn web)) (\<lambda>sources.
      bindE (if sources = [] \<and> registry_contains (rv_registry env) ''lang_search''
             then catchE (search_with env ''lang_search'' (valid_lang_input lang) (LangIn lang)) (\<lambda>e. retE [])
             else retE sources) (\<lambda>found.
      retE (take (rv_max_sources env) (sort_by_confidence_and_freshness now found)))))"

definition extract_evidence :: "'w research_env \<Rightarrow> source \<Rightarrow> ('w research_engine, claim list) op" where
  "extract_evidence env src =
     (let inp = \<lparr>fi_url = src_url src, fi_timeout = 20\<rparr> in
      if \<not> valid_fetch_input inp then raiseE schema_error
      else bindE (run_sub_tool env ''web_fetch'' (FetchIn inp)) (\<lambda>out. case out of
        ResultsOut hits \<Rightarrow> raiseE (attribute_error ''content'')
      | PageOut p \<Rightarrow> retE (claims_of_page (rv_split env) src (fo_content p))))"

text \<open>The loop over the sources: a source that raises is skipped.\<close>

fun collect_evidence :: "'w research_env \<Rightarrow> source list \<Rightarrow> ('w research_engine, claim list) op" where
  "collect_evidence env [] = retE []"
| "collect_evidence env (s # ss) =
     bindE (catchE (extract_evidence env s) (\<lambda>e. retE [])) (\<lambda>cs.
     bindE (collect_evidence env ss) (\<lambda>rest. retE (cs @ rest)))"

definition synthesize :: "'w research_env \<Rightarrow> claim list \<Rightarrow> ('w research_engine, string) op" where
  "synthesize env claims =
     (let selection = route (rv_settings env) synthesis_criteria in
      bindE (liftE (create_chat_model (rv_providers env) (ms_provider selection) (ms_model_name selection)))
        (\<lambda>model. in_world (model (synthesis_request claims))))"

definition pipeline_run :: "'w research_env \<Rightarrow> rat \<Rightarrow> string \<Rightarrow> ('w research_engine, research_result) op" where
  "pipeline_run env now question =
     bindE (pipeline_search env now question) (\<lambda>sources.
     if sources = [] then
       retE \<lparr>rr_question = question, rr_summary = ''No sources were found for this research question.'',
             rr_claims = [], rr_sources = [], rr_conflicts = []\<rparr>
     else
       bindE (collect_evidence env sources) (\<lambda>found.
       let claims = cross_check found in
       bindE (synthesize env claims) (\<lambda>summary.
       retE \<lparr>rr_question = question, rr_summary = summary, rr_claims = claims,
             rr_sources = map src_url sources,
             rr_conflicts = map cm_claim (filter has_conflicting_evidence claims)\<rparr>)))"

end
