(* ===== verification/Fact_Check.thy ===== *)
theory Fact_Check
  imports Research
begin

text \<open>
  The fact checker: \<open>app/tools/builtin/fact_check.py\<close>. It searches the web for each claim,
  fetches the hits through the engine, without an execution context, and reads from every page
  whether it mentions the claim and whether a word of doubt occurs on it. A confidence is a
  rational number. The engine that the tool calls is an argument with its own state.
\<close>

section \<open>Inputs and results\<close>

datatype fact_verdict = SUPPORTED | UNSUPPORTED | CONTRADICTED | UNVERIFIABLE

record fact_claim =
  fc_claim :: string
  fc_source_url :: "string option"

record fact_result =
  fr_claim :: string
  fr_verdict :: fact_verdict
  fr_confidence :: rat
  fr_evidence :: "string list"
  fr_contradicting :: "string list"

record fact_input =
  fx_claims :: "fact_claim list"
  fx_max_search_results :: nat

definition valid_fact_claim :: "fact_claim \<Rightarrow> bool" where
  "valid_fact_claim c = (1 \<le> length (fc_claim c) \<and> length (fc_claim c) \<le> 2000)"

definition valid_fact_input :: "fact_input \<Rightarrow> bool" where
  "valid_fact_input i =
     (1 \<le> length (fx_claims i) \<and> length (fx_claims i) \<le> 50 \<and> list_all valid_fact_claim (fx_claims i) \<and>
      1 \<le> fx_max_search_results i \<and> fx_max_search_results i \<le> 15)"

section \<open>What a page says of a claim\<close>

definition CONTRADICTION_CUES :: "string list" where
  "CONTRADICTION_CUES = [''not true'', ''false'', ''incorrect'', ''debunk'', ''contradict'',
     ''misinformation'', ''fake'', ''no evidence'', ''scam'', ''fraudulent'']"

definition MIN_OVERLAP_RATIO :: rat where
  "MIN_OVERLAP_RATIO = 3 / 10"

definition CITATION_RE :: re where
  "CITATION_RE = Seq (lit ''['') (Seq (Plus (Ch is_digit)) (lit '']''))"

definition token_char :: "char \<Rightarrow> bool" where
  "token_char c = (is_alpha c \<or> c = CHR ''_'')"

definition TOKEN_RE :: re where
  "TOKEN_RE = Seq (Ch is_alpha) (Plus (Ch token_char))"

text \<open>\<open>s.strip(c)\<close> for one character.\<close>

definition strip_char :: "char \<Rightarrow> string \<Rightarrow> string" where
  "strip_char c s = rev (dropWhile (\<lambda>d. d = c) (rev (dropWhile (\<lambda>d. d = c) s)))"

definition narrow_query :: "string \<Rightarrow> string" where
  "narrow_query claim =
     (let cleaned = py_strip (strip_char (CHR 0x22) (py_strip (re_sub CITATION_RE [] claim)))
      in if cleaned \<noteq> [] then take 200 cleaned else take 200 claim)"

definition claim_tokens :: "string \<Rightarrow> string list" where
  "claim_tokens claim = filter (\<lambda>t. length t > 3) (re_findall TOKEN_RE (py_lower claim))"

definition signal_for_claim :: "string \<Rightarrow> string \<Rightarrow> int" where
  "signal_for_claim claim page_text =
     (let tokens = claim_tokens claim in
      if tokens = [] then 0
      else
        let page = py_lower page_text;
            present = rat_of_nat (length (filter (\<lambda>t. py_in t page) tokens)) / rat_of_nat (length tokens) in
        if present < MIN_OVERLAP_RATIO then 0
        else if list_ex (\<lambda>cue. py_in cue page) CONTRADICTION_CUES then - 1 else 1)"

definition verdict :: "string list \<Rightarrow> string list \<Rightarrow> fact_verdict \<times> rat" where
  "verdict supporting contradicting =
     (if contradicting \<noteq> [] then
        let ratio = (if supporting \<noteq> []
              then rat_of_nat (length contradicting) / rat_of_nat (length contradicting + length supporting) else 1)
        in (CONTRADICTED, 3 / 10 + 6 / 10 * ratio)
      else if supporting \<noteq> [] then (SUPPORTED, 55 / 100 + 35 / 100 * min (rat_of_nat (length supporting) / 3) 1)
      else (UNVERIFIABLE, 0))"

section \<open>Checking a claim\<close>

text \<open>
  What the tool is wired with (\<open>wire_engine\<close>): the engine's \<open>execute\<close> on a state \<open>'s\<close>, and whether
  its registry has a tool. The system's own engine is plugged in here in theory \<open>Agent_System\<close>.
\<close>

record 's sub_engine =
  se_contains :: "string \<Rightarrow> bool"
  se_execute :: "string \<Rightarrow> research_input \<Rightarrow> execution_context option \<Rightarrow> ('s, research_output execution_result) op"

definition call_sub_tool :: "'s sub_engine \<Rightarrow> string \<Rightarrow> research_input \<Rightarrow> ('s, research_output) op" where
  "call_sub_tool eng name inp = bindE (se_execute eng name inp None) (\<lambda>r. retE (er_output r))"

text \<open>One page: its URL joins the supporting or the contradicting ones, or neither.\<close>

type_synonym evidence_urls = "string list \<times> string list"

definition add_signal :: "string \<Rightarrow> string \<Rightarrow> int \<Rightarrow> evidence_urls \<Rightarrow> evidence_urls" where
  "add_signal claim url sig ev = (case ev of (pro, contra) \<Rightarrow>
     if sig > 0 then (pro @ [url], contra) else if sig < 0 then (pro, contra @ [url]) else (pro, contra))"

definition check_page :: "'s sub_engine \<Rightarrow> string \<Rightarrow> string \<Rightarrow> evidence_urls \<Rightarrow> ('s, evidence_urls) op" where
  "check_page eng claim url ev =
     (let inp = \<lparr>fi_url = url, fi_timeout = 15\<rparr> in
      if \<not> valid_fetch_input inp then raiseE schema_error
      else bindE (call_sub_tool eng ''web_fetch'' (FetchIn inp)) (\<lambda>out. case out of
        ResultsOut hits \<Rightarrow> raiseE (attribute_error ''content'')
      | PageOut p \<Rightarrow> retE (add_signal claim url (signal_for_claim claim (fo_content p)) ev)))"

fun check_pages :: "'s sub_engine \<Rightarrow> string \<Rightarrow> string list \<Rightarrow> evidence_urls \<Rightarrow> ('s, evidence_urls) op" where
  "check_pages eng claim [] ev = retE ev"
| "check_pages eng claim (u # us) ev = bindE (check_page eng claim u ev) (check_pages eng claim us)"

definition check_claim ::
  "'s sub_engine \<Rightarrow> nat \<Rightarrow> string \<Rightarrow> string option \<Rightarrow> ('s, fact_result) op" where
  "check_claim eng max_results claim source_url =
     (let inp = \<lparr>si_query = narrow_query claim, si_max_results = 5\<rparr> in
      if \<not> valid_search_input inp then raiseE schema_error
      else
      bindE (call_sub_tool eng ''web_search'' (SearchIn inp)) (\<lambda>out.
      bindE (liftE (results_of out)) (\<lambda>hits.
      bindE (check_pages eng claim (map sr_url (take max_results hits)) ([], [])) (\<lambda>ev.
      bindE (if truthy source_url then check_page eng claim (the source_url) ev else retE ev) (\<lambda>(pro, contra).
      let (v, confidence) = verdict pro contra in
      retE \<lparr>fr_claim = claim, fr_verdict = v, fr_confidence = confidence, fr_evidence = pro,
            fr_contradicting = contra\<rparr>)))))"

fun check_claims :: "'s sub_engine \<Rightarrow> nat \<Rightarrow> fact_claim list \<Rightarrow> ('s, fact_result list) op" where
  "check_claims eng n [] = retE []"
| "check_claims eng n (c # cs) =
     bindE (check_claim eng n (fc_claim c) (fc_source_url c)) (\<lambda>r.
     bindE (check_claims eng n cs) (\<lambda>rs. retE (r # rs)))"

text \<open>\<open>wired\<close> is what \<open>wire_engine\<close> stored; the bound is the tool's own, not the input's.\<close>

definition fact_check_execute ::
  "'s sub_engine option \<Rightarrow> nat \<Rightarrow> fact_input \<Rightarrow> ('s, fact_result list) op" where
  "fact_check_execute wired max_results inp = (case wired of
      None \<Rightarrow> raiseE (app_error ResearchError
        ''fact_check tool was not wired with an engine - build_tool_engine() must be called before use'' [])
    | Some eng \<Rightarrow>
        if \<not> se_contains eng ''web_search'' \<or> \<not> se_contains eng ''web_fetch''
        then raiseE (app_error ResearchError ''fact_check requires web_search + web_fetch tools registered'' [])
        else check_claims eng max_results (fx_claims inp))"

end
