(* ===== verification/Agent_System.thy ===== *)
theory Agent_System
  imports Local_System Web_Tools Content Fact_Check Browser_Manager Tool_Catalogue
begin

text \<open>
  The tools put together: the registry of \<open>app/tools/factory.py\<close> with the modelled tools in it,
  over one machine, and the wiring of \<open>build_tool_engine\<close>.

  A machine holds what the tools act on: the file system, the database session, the browser
  manager, the logs of commands, page requests and publish requests, and an outside world \<open>'w\<close>
  (network, chat models, processes, pages). Each tool runs on its part of the machine; the
  clients the tools call are fields of \<open>system\<close>. The fact checker calls the engine it runs in, so
  the tools of the registry act on the engine itself: the others on its world, the fact checker
  through calls that take tokens and are retried like any other. A process that the shell
  starts may change the files.
\<close>

section \<open>The machine\<close>

record 'w machine =
  mc_os :: os
  mc_session :: session
  mc_manager :: "unit manager"
  mc_commands :: "string list"
  mc_requests :: "string list"
  mc_sent :: "(platform \<times> string \<times> string) list"
  mc_world :: 'w

definition on_files :: "(os, 'a) op \<Rightarrow> ('w machine, 'a) op" where
  "on_files m = (\<lambda>s. case m (mc_os s) of (r, x) \<Rightarrow> (r, s\<lparr>mc_os := x\<rparr>))"

definition on_outside :: "('w, 'a) op \<Rightarrow> ('w machine, 'a) op" where
  "on_outside m = (\<lambda>s. case m (mc_world s) of (r, w) \<Rightarrow> (r, s\<lparr>mc_world := w\<rparr>))"

definition on_shell :: "((os \<times> 'w) shell, 'a) op \<Rightarrow> ('w machine, 'a) op" where
  "on_shell m = (\<lambda>s. case m \<lparr>sh_world = (mc_os s, mc_world s), sh_commands = mc_commands s\<rparr> of
     (r, x) \<Rightarrow> (r, s\<lparr>mc_os := fst (sh_world x), mc_world := snd (sh_world x), mc_commands := sh_commands x\<rparr>))"

definition on_web :: "('w net, 'a) op \<Rightarrow> ('w machine, 'a) op" where
  "on_web m = (\<lambda>s. case m \<lparr>nt_world = mc_world s, nt_requests = mc_requests s\<rparr> of
     (r, x) \<Rightarrow> (r, s\<lparr>mc_world := nt_world x, mc_requests := nt_requests x\<rparr>))"

definition on_publisher :: "('w pub, 'a) op \<Rightarrow> ('w machine, 'a) op" where
  "on_publisher m = (\<lambda>s. case m \<lparr>pb_session = mc_session s, pb_world = mc_world s, pb_sent = mc_sent s\<rparr> of
     (r, x) \<Rightarrow> (r, s\<lparr>mc_session := pb_session x, mc_world := pb_world x, mc_sent := pb_sent x\<rparr>))"

definition give_world :: "'v \<Rightarrow> 'w manager \<Rightarrow> 'v manager" where
  "give_world v m = \<lparr>mg_playwright = mg_playwright m, mg_browser = mg_browser m, mg_sessions = mg_sessions m,
     mg_uuids = mg_uuids m, mg_world = v\<rparr>"

definition on_manager :: "('w, 'a) manager_op \<Rightarrow> ('w machine, 'a) op" where
  "on_manager m = (\<lambda>s. case m (give_world (mc_world s) (mc_manager s)) of
     (r, x) \<Rightarrow> (r, s\<lparr>mc_manager := give_world () x, mc_world := mg_world x\<rparr>))"

text \<open>Each is a component of the machine.\<close>

interpretation files: component mc_os "\<lambda>x s. s\<lparr>mc_os := x\<rparr>" on_files
  by unfold_locales (simp_all add: on_files_def split: prod.splits)

interpretation outside: component mc_world "\<lambda>x s. s\<lparr>mc_world := x\<rparr>" on_outside
  by unfold_locales (simp_all add: on_outside_def split: prod.splits)

interpretation shell: component "\<lambda>s. \<lparr>sh_world = (mc_os s, mc_world s), sh_commands = mc_commands s\<rparr>"
    "\<lambda>x s. s\<lparr>mc_os := fst (sh_world x), mc_world := snd (sh_world x), mc_commands := sh_commands x\<rparr>" on_shell
  by unfold_locales (simp_all add: on_shell_def split: prod.splits)

interpretation web: component "\<lambda>s. \<lparr>nt_world = mc_world s, nt_requests = mc_requests s\<rparr>"
    "\<lambda>x s. s\<lparr>mc_world := nt_world x, mc_requests := nt_requests x\<rparr>" on_web
  by unfold_locales (simp_all add: on_web_def split: prod.splits)

interpretation publisher: component "\<lambda>s. \<lparr>pb_session = mc_session s, pb_world = mc_world s, pb_sent = mc_sent s\<rparr>"
    "\<lambda>x s. s\<lparr>mc_session := pb_session x, mc_world := pb_world x, mc_sent := pb_sent x\<rparr>" on_publisher
  by unfold_locales (simp_all add: on_publisher_def split: prod.splits)

interpretation pages: component "\<lambda>s. give_world (mc_world s) (mc_manager s)"
    "\<lambda>x s. s\<lparr>mc_manager := give_world () x, mc_world := mg_world x\<rparr>" on_manager
  by unfold_locales (simp_all add: on_manager_def give_world_def split: prod.splits)

section \<open>Inputs and outputs\<close>

record file_read_input =
  fri_path :: string
  fri_encoding :: string

record file_write_input =
  fwi_path :: string
  fwi_content :: string
  fwi_encoding :: string
  fwi_create_parents :: bool

record file_edit_input =
  fei_path :: string
  fei_old_string :: string
  fei_new_string :: string
  fei_encoding :: string

record file_delete_input =
  fdi_path :: string

record folder_create_input =
  oci_path :: string
  oci_exist_ok :: bool

record folder_list_input =
  oli_path :: string
  oli_include_hidden :: bool

record folder_delete_input =
  odi_path :: string
  odi_recursive :: bool

record browser_navigate_input =
  bni_session_id :: string
  bni_url :: string
  bni_timeout_ms :: int

record browser_inspect_input =
  bii_session_id :: string

record browser_click_input =
  bci_session_id :: string
  bci_strategy :: selector_strategy
  bci_value :: string
  bci_role :: "string option"

record browser_type_input =
  bti_session_id :: string
  bti_strategy :: selector_strategy
  bti_value :: string
  bti_text :: string
  bti_role :: "string option"
  bti_clear :: bool

record browser_select_input =
  bsi_session_id :: string
  bsi_strategy :: selector_strategy
  bsi_value :: string
  bsi_option :: string
  bsi_role :: "string option"

record browser_extract_input =
  bei_session_id :: string
  bei_selector :: "string option"
  bei_max_chars :: int

record browser_scroll_input =
  boi_session_id :: string
  boi_direction :: scroll_direction
  boi_pixels :: int

record browser_screenshot_input =
  bhi_session_id :: string

record browser_wait_input =
  bwi_session_id :: string
  bwi_strategy :: selector_strategy
  bwi_value :: string
  bwi_role :: "string option"
  bwi_timeout_ms :: int

record browser_download_input =
  bdi_session_id :: string
  bdi_strategy :: selector_strategy
  bdi_value :: string
  bdi_role :: "string option"
  bdi_timeout_ms :: int

record browser_new_tab_input =
  bli_session_id :: string
  bli_url :: "string option"

record browser_switch_tab_input =
  bwt_session_id :: string
  bwt_index :: int

record browser_list_tabs_input =
  blt_session_id :: string

datatype tool_input =
    FileRead file_read_input
  | FileWrite file_write_input
  | FileEdit file_edit_input
  | FileDelete file_delete_input
  | FolderCreate folder_create_input
  | FolderList folder_list_input
  | FolderDelete folder_delete_input
  | RunShell shell_input | SearchWeb search_input | SearchLang lang_input | FetchPage fetch_input
  | DraftContent platform string | ValidateContent platform string "tone option" | CheckFacts fact_input
  | PublishX publish_input | PublishLinkedIn publish_input | VerifyPost verify_input
  | BrowserNavigate browser_navigate_input
  | BrowserInspect browser_inspect_input
  | BrowserClick browser_click_input
  | BrowserType browser_type_input
  | BrowserSelect browser_select_input
  | BrowserExtract browser_extract_input
  | BrowserScroll browser_scroll_input
  | BrowserScreenshot browser_screenshot_input
  | BrowserWait browser_wait_input
  | BrowserDownload browser_download_input
  | BrowserNewTab browser_new_tab_input
  | BrowserSwitchTab browser_switch_tab_input
  | BrowserListTabs browser_list_tabs_input

datatype tool_output =
    FileContent read_output | FileWritten write_output | FileEdited "string \<times> nat" | PathDone "string \<times> bool"
  | FolderEntries "string \<times> folder_entry list" | ShellDone shell_output | SearchResults "search_result list"
  | PageFetched fetch_output | DraftDone draft_output | Validated "bool \<times> issue list" | FactsChecked "fact_result list"
  | Published publish_output | PostVerified verify_output | BrowserDone action_result

text \<open>The tool whose input model a value belongs to.\<close>

fun tool_of :: "tool_input \<Rightarrow> string" where
  "tool_of (FileRead i) = ''file_read''"
| "tool_of (FileWrite i) = ''file_write''"
| "tool_of (FileEdit i) = ''file_edit''"
| "tool_of (FileDelete i) = ''file_delete''"
| "tool_of (FolderCreate i) = ''folder_create''"
| "tool_of (FolderList i) = ''folder_list''"
| "tool_of (FolderDelete i) = ''folder_delete''"
| "tool_of (RunShell i) = ''shell_run''"
| "tool_of (SearchWeb i) = ''web_search''"
| "tool_of (SearchLang i) = ''lang_search''"
| "tool_of (FetchPage i) = ''web_fetch''"
| "tool_of (DraftContent p t) = ''content_draft''"
| "tool_of (ValidateContent p t tone) = ''content_validate''"
| "tool_of (CheckFacts i) = ''fact_check''"
| "tool_of (PublishX i) = ''social_publish_x''"
| "tool_of (PublishLinkedIn i) = ''social_publish_linkedin''"
| "tool_of (VerifyPost i) = ''social_verify''"
| "tool_of (BrowserNavigate i) = ''browser_navigate''"
| "tool_of (BrowserInspect i) = ''browser_inspect''"
| "tool_of (BrowserClick i) = ''browser_click''"
| "tool_of (BrowserType i) = ''browser_type''"
| "tool_of (BrowserSelect i) = ''browser_select''"
| "tool_of (BrowserExtract i) = ''browser_extract''"
| "tool_of (BrowserScroll i) = ''browser_scroll''"
| "tool_of (BrowserScreenshot i) = ''browser_screenshot''"
| "tool_of (BrowserWait i) = ''browser_wait''"
| "tool_of (BrowserDownload i) = ''browser_download''"
| "tool_of (BrowserNewTab i) = ''browser_new_tab''"
| "tool_of (BrowserSwitchTab i) = ''browser_switch_tab''"
| "tool_of (BrowserListTabs i) = ''browser_list_tabs''"

section \<open>Wiring\<close>

type_synonym 'w system_engine = "(tool_input, tool_output, 'w machine) engine"

record 'w system =
  sys_codec :: "string \<Rightarrow> codec"
  sys_spawn :: "string \<Rightarrow> string option \<Rightarrow> rat \<Rightarrow> (os \<times> 'w, process_end) op"
  sys_decode :: "string \<Rightarrow> string"
  sys_tavily_key :: "string option"
  sys_read_float :: "string \<Rightarrow> rat result"
  sys_tavily :: "string \<Rightarrow> nat \<Rightarrow> string \<Rightarrow> ('w, jvalue) op"
  sys_lang_key :: "string option"
  sys_lang_post :: "string \<Rightarrow> lang_input \<Rightarrow> ('w, jvalue) op"
  sys_resolve :: "string \<Rightarrow> ('w, string list) op"
  sys_get :: "string \<Rightarrow> rat \<Rightarrow> ('w, page) op"
  sys_loads :: "string \<Rightarrow> jvalue option"
  sys_tone_model :: "'w chat"
  sys_http :: "'w http"
  sys_driver :: "'w driver"
  sys_retrier :: "('w system_engine, tool_output) retrier"
  sys_clock :: "nat \<Rightarrow> rat"

text \<open>
  What the attributes of the registered tools hold: the two social credentials, whether the
  publish and verify tools have a session and whether the fact checker has an engine.
\<close>

record social_settings =
  ss_x_client_id :: "string option"
  ss_x_client_secret :: "string option"
  ss_x_access_token :: "string option"
  ss_x_bearer_token :: "string option"
  ss_linkedin_client_id :: "string option"
  ss_linkedin_client_secret :: "string option"
  ss_linkedin_access_token :: "string option"
  ss_linkedin_author_urn :: "string option"

definition x_tokens :: "social_settings \<Rightarrow> x_credentials" where
  "x_tokens social = \<lparr>x_access_token = ss_x_access_token social, x_bearer_token = ss_x_bearer_token social\<rparr>"

definition li_tokens :: "social_settings \<Rightarrow> li_credentials" where
  "li_tokens social = \<lparr>li_access_token = ss_linkedin_access_token social, li_author_urn = ss_linkedin_author_urn social\<rparr>"

definition resolve_social_tokens :: "social_settings \<Rightarrow> (string \<times> string option) list" where
  "resolve_social_tokens social =
     [(''x_access_token'', ss_x_access_token social), (''x_bearer_token'', ss_x_bearer_token social),
      (''linkedin_access_token'', ss_linkedin_access_token social), (''linkedin_author_urn'', ss_linkedin_author_urn social)]"

record tool_config =
  tf_session :: bool
  tf_engine :: bool
  tf_x :: x_credentials
  tf_li :: li_credentials

definition registered_config :: "social_settings \<Rightarrow> tool_config" where
  "registered_config social = \<lparr>tf_session = False, tf_engine = False, tf_x = x_tokens social, tf_li = li_tokens social\<rparr>"

text \<open>\<open>for tool in registry.list_tools(): ...\<close> of \<open>build_tool_engine\<close>.\<close>

definition wire_tool :: "social_settings \<Rightarrow> string \<Rightarrow> tool_config \<Rightarrow> tool_config" where
  "wire_tool social name cfg =
     (if name = ''fact_check'' then cfg\<lparr>tf_engine := True\<rparr>
      else if name = ''social_publish_x'' then cfg\<lparr>tf_session := True, tf_x := x_tokens social\<rparr>
      else if name = ''social_publish_linkedin'' then cfg\<lparr>tf_session := True, tf_li := li_tokens social\<rparr>
      else if name = ''social_verify'' then cfg\<lparr>tf_session := True, tf_x := x_tokens social, tf_li := li_tokens social\<rparr>
      else cfg)"

definition wire_tools :: "social_settings \<Rightarrow> string list \<Rightarrow> tool_config \<Rightarrow> tool_config" where
  "wire_tools social names cfg = fold (wire_tool social) names cfg"

text \<open>\<open>self._session\<close> is \<open>None\<close> until the tool is wired.\<close>

definition with_session :: "tool_config \<Rightarrow> ('w pub, 'a) op \<Rightarrow> ('w machine, 'a) op" where
  "with_session cfg m = (if tf_session cfg then on_publisher m else raiseE (attribute_error ''execute''))"

text \<open>\<open>FactCheckTool()\<close> of \<open>build_registry\<close> has the constructor's bound.\<close>

definition MAX_SEARCH_RESULTS :: nat where
  "MAX_SEARCH_RESULTS = 5"

definition mapE :: "('a \<Rightarrow> 'b) \<Rightarrow> ('s, 'a) op \<Rightarrow> ('s, 'b) op" where
  "mapE f m = bindE m (\<lambda>x. retE (f x))"

text \<open>
  What a call of a tool does to the engine: \<open>eng\<close> is the engine the fact checker was wired with.
\<close>

fun run_tool ::
  "'w system \<Rightarrow> tool_config \<Rightarrow> 'w system_engine sub_engine \<Rightarrow> tool_input \<Rightarrow> ('w system_engine, tool_output) op" where
  "run_tool sys cfg eng (FileRead i) =
     in_world (mapE FileContent (on_files (file_read_execute (sys_codec sys (fri_encoding i)) (fri_path i))))"
| "run_tool sys cfg eng (FileWrite i) =
     in_world (mapE FileWritten (on_files (file_write_execute (sys_codec sys (fwi_encoding i)) (fwi_path i) (fwi_content i) (fwi_create_parents i))))"
| "run_tool sys cfg eng (FileEdit i) =
     in_world (mapE FileEdited (on_files (file_edit_execute (sys_codec sys (fei_encoding i)) (fei_path i) (fei_old_string i) (fei_new_string i))))"
| "run_tool sys cfg eng (FileDelete i) =
     in_world (mapE PathDone (on_files (file_delete_execute (fdi_path i))))"
| "run_tool sys cfg eng (FolderCreate i) =
     in_world (mapE PathDone (on_files (folder_create_execute (oci_path i) (oci_exist_ok i))))"
| "run_tool sys cfg eng (FolderList i) =
     in_world (mapE FolderEntries (on_files (folder_list_execute (oli_path i) (oli_include_hidden i))))"
| "run_tool sys cfg eng (FolderDelete i) =
     in_world (mapE PathDone (on_files (folder_delete_execute (odi_path i) (odi_recursive i))))"
| "run_tool sys cfg eng (RunShell i) =
     in_world (mapE ShellDone (on_shell (shell_run_execute (sys_spawn sys) (sys_decode sys) i)))"
| "run_tool sys cfg eng (SearchWeb i) =
     in_world (mapE SearchResults (on_outside (web_search_execute (sys_tavily_key sys) (sys_read_float sys) (sys_tavily sys) i)))"
| "run_tool sys cfg eng (SearchLang i) =
     in_world (mapE SearchResults (on_outside (lang_search_execute (sys_lang_key sys) (sys_lang_post sys) i)))"
| "run_tool sys cfg eng (FetchPage i) =
     in_world (mapE PageFetched (on_web (web_fetch_execute (sys_resolve sys) (sys_get sys) i)))"
| "run_tool sys cfg eng (DraftContent p t) =
     in_world (mapE DraftDone (retE (content_draft_execute p t)))"
| "run_tool sys cfg eng (ValidateContent p t tone) =
     in_world (mapE Validated (on_outside (content_validate_execute
       (Some (tone_check (sys_loads sys) (sys_tone_model sys))) p t tone)))"
| "run_tool sys cfg eng (CheckFacts i) =
     mapE FactsChecked (fact_check_execute (if tf_engine cfg then Some eng else None) MAX_SEARCH_RESULTS i)"
| "run_tool sys cfg eng (PublishX i) =
     in_world (mapE Published
     (if tf_session cfg \<or> x_require_credentials (tf_x cfg) \<noteq> Inr ()
      then on_publisher (x_publish_tool_execute (sys_http sys) (tf_x cfg) i)
      else raiseE (attribute_error ''execute'')))"
| "run_tool sys cfg eng (PublishLinkedIn i) =
     in_world (mapE Published
     (if tf_session cfg \<or> \<not> truthy (li_access_token (tf_li cfg))
      then on_publisher (li_publish_tool_execute (sys_http sys) (tf_li cfg) i)
      else raiseE (attribute_error ''execute'')))"
| "run_tool sys cfg eng (VerifyPost i) =
     in_world (mapE PostVerified
     (with_session cfg (social_verify_execute (sys_http sys) (tf_x cfg) (tf_li cfg) i)))"
| "run_tool sys cfg eng (BrowserNavigate i) =
     in_world (mapE BrowserDone (on_manager
     (browser_navigate_execute (sys_driver sys) (bni_session_id i) (bni_url i) (bni_timeout_ms i))))"
| "run_tool sys cfg eng (BrowserInspect i) =
     in_world (mapE BrowserDone (on_manager
     (browser_inspect_execute (sys_driver sys) (bii_session_id i))))"
| "run_tool sys cfg eng (BrowserClick i) =
     in_world (mapE BrowserDone (on_manager
     (browser_click_execute (sys_driver sys) (bci_session_id i) (bci_strategy i) (bci_value i) (bci_role i))))"
| "run_tool sys cfg eng (BrowserType i) =
     in_world (mapE BrowserDone (on_manager
     (browser_type_execute (sys_driver sys) (bti_session_id i) (bti_strategy i) (bti_value i) (bti_text i) (bti_role i) (bti_clear i))))"
| "run_tool sys cfg eng (BrowserSelect i) =
     in_world (mapE BrowserDone (on_manager
     (browser_select_execute (sys_driver sys) (bsi_session_id i) (bsi_strategy i) (bsi_value i) (bsi_option i) (bsi_role i))))"
| "run_tool sys cfg eng (BrowserExtract i) =
     in_world (mapE BrowserDone (on_manager
     (browser_extract_execute (sys_driver sys) (bei_session_id i) (bei_selector i) (bei_max_chars i))))"
| "run_tool sys cfg eng (BrowserScroll i) =
     in_world (mapE BrowserDone (on_manager
     (browser_scroll_execute (sys_driver sys) (boi_session_id i) (boi_direction i) (boi_pixels i))))"
| "run_tool sys cfg eng (BrowserScreenshot i) =
     in_world (mapE BrowserDone (on_manager
     (browser_screenshot_execute (sys_driver sys) (bhi_session_id i))))"
| "run_tool sys cfg eng (BrowserWait i) =
     in_world (mapE BrowserDone (on_manager
     (browser_wait_execute (sys_driver sys) (bwi_session_id i) (bwi_strategy i) (bwi_value i) (bwi_role i) (bwi_timeout_ms i))))"
| "run_tool sys cfg eng (BrowserDownload i) =
     in_world (mapE BrowserDone (on_manager
     (browser_download_execute (sys_driver sys) (bdi_session_id i) (bdi_strategy i) (bdi_value i) (bdi_role i) (bdi_timeout_ms i))))"
| "run_tool sys cfg eng (BrowserNewTab i) =
     in_world (mapE BrowserDone (on_manager
     (browser_new_tab_execute (sys_driver sys) (bli_session_id i) (bli_url i))))"
| "run_tool sys cfg eng (BrowserSwitchTab i) =
     in_world (mapE BrowserDone (on_manager
     (browser_switch_tab_execute (sys_driver sys) (bwt_session_id i) (bwt_index i))))"
| "run_tool sys cfg eng (BrowserListTabs i) =
     in_world (mapE BrowserDone (on_manager
     (browser_list_tabs_execute (sys_driver sys) (blt_session_id i))))"

text \<open>A tool given the input of another one reads an attribute that is not there.\<close>

definition tool_body ::
  "'w system \<Rightarrow> tool_config \<Rightarrow> 'w system_engine sub_engine \<Rightarrow> string \<Rightarrow> tool_input \<Rightarrow> ('w system_engine, tool_output) op" where
  "tool_body sys cfg eng name inp =
     (if tool_of inp = name then run_tool sys cfg eng inp else raiseE (attribute_error name))"

section \<open>The engine that its own tools call\<close>

type_synonym 'w system_registry = "(tool_input, tool_output, 'w system_engine) registry"

definition system_execute ::
  "'w system \<Rightarrow> 'w system_registry \<Rightarrow> string \<Rightarrow> tool_input \<Rightarrow> execution_context option
   \<Rightarrow> ('w system_engine, tool_output execution_result) op" where
  "system_execute sys = execute_through (\<lambda>m. m) (sys_retrier sys) (sys_clock sys)"

fun sub_input :: "research_input \<Rightarrow> tool_input" where
  "sub_input (SearchIn i) = SearchWeb i"
| "sub_input (LangIn i) = SearchLang i"
| "sub_input (FetchIn i) = FetchPage i"

fun sub_output :: "tool_output \<Rightarrow> research_output option" where
  "sub_output (SearchResults hits) = Some (ResultsOut hits)"
| "sub_output (PageFetched page) = Some (PageOut page)"
| "sub_output out = None"

definition sub_engine_of :: "'w system \<Rightarrow> 'w system_registry \<Rightarrow> 'w system_engine sub_engine" where
  "sub_engine_of sys reg = \<lparr>se_contains = registry_contains reg,
     se_execute = (\<lambda>name inp ctx. bindE (system_execute sys reg name (sub_input inp) ctx) (\<lambda>r.
       case sub_output (er_output r) of
         None \<Rightarrow> raiseE (attribute_error name)
       | Some out \<Rightarrow> retE \<lparr>er_tool_call_id = er_tool_call_id r, er_output = out,
           er_duration_seconds = er_duration_seconds r\<rparr>))\<rparr>"

text \<open>
  The registry whose fact checker calls the engine over the same registry, unfolded \<open>d\<close> times; below
  that stands Python's own limit of nesting. The fact checker calls \<open>web_search\<close> and \<open>web_fetch\<close> only,
  so one level is the whole of it (\<open>execute_levels\<close> in \<open>System_Properties\<close>).
\<close>

fun registry_at :: "nat \<Rightarrow> 'w system \<Rightarrow> tool_config \<Rightarrow> bool \<Rightarrow> 'w system_registry" where
  "registry_at 0 sys cfg has_browser = build_registry (tool_body sys cfg
     \<lparr>se_contains = (\<lambda>name. name \<in> fst ` set (catalogue has_browser)),
      se_execute = (\<lambda>name inp ctx. raiseE (py_error (PyOther ''RecursionError'') ''maximum recursion depth exceeded'' []))\<rparr>)
     has_browser"
| "registry_at (Suc d) sys cfg has_browser =
     build_registry (tool_body sys cfg (sub_engine_of sys (registry_at d sys cfg has_browser))) has_browser"

definition system_registry :: "'w system \<Rightarrow> tool_config \<Rightarrow> bool \<Rightarrow> 'w system_registry" where
  "system_registry = registry_at 1"

text \<open>
  \<open>build_tool_engine(registry, session)\<close>: the engine and the attributes of the tools afterwards.
  \<open>rpm\<close> is \<open>rate_limit_requests_per_minute\<close>; \<open>calls\<close> and \<open>n\<close> are the rows of the session's
  database and the next row number.
\<close>

definition build_tool_engine ::
  "social_settings \<Rightarrow> int \<Rightarrow> 'w system \<Rightarrow> tool_config \<Rightarrow> bool \<Rightarrow> (tool_input, tool_output) tool_call_row table \<Rightarrow> nat
   \<Rightarrow> 'w machine \<Rightarrow> ('w system_engine \<times> 'w system_registry) result" where
  "build_tool_engine social rpm sys cfg has_browser calls n w =
     bindR (new_limiter rpm) (\<lambda>rl.
     let reg = system_registry sys cfg has_browser; cfg' = wire_tools social (list_tools reg) cfg in
     Inr (\<lparr>eng_has_session = True, eng_limiter = rl, eng_calls = calls, eng_fresh = n, eng_clock = 0, eng_world = w\<rparr>,
          system_registry sys cfg' has_browser))"

text \<open>\<open>get_tool_registry\<close> and \<open>get_tool_engine\<close> of \<open>app/api/deps.py\<close>: the API's registry has no browser tools.\<close>

definition get_tool_engine ::
  "social_settings \<Rightarrow> int \<Rightarrow> 'w system \<Rightarrow> (tool_input, tool_output) tool_call_row table \<Rightarrow> nat
   \<Rightarrow> 'w machine \<Rightarrow> ('w system_engine \<times> 'w system_registry) result" where
  "get_tool_engine social rpm sys calls n w =
     build_tool_engine social rpm sys (registered_config social) False calls n w"

text \<open>\<open>build_browser_tools\<close>: the wrapped browser tools over a session manager.\<close>

definition build_browser_tools ::
  "'w system \<Rightarrow> tool_config \<Rightarrow> 'w system_engine sub_engine \<Rightarrow> (tool_input, tool_output, 'w system_engine) tool list" where
  "build_browser_tools sys cfg eng =
     map (\<lambda>d. make_tool (tool_body sys cfg eng) (td_name d, td_permissions d)) browser_tools"

text \<open>A sequence of calls, as the agents of a run make them; a call that raises is answered and the next follows.\<close>

fun serve_calls ::
  "'w system \<Rightarrow> 'w system_registry \<Rightarrow> (string \<times> tool_input \<times> execution_context option) list
   \<Rightarrow> 'w system_engine \<Rightarrow> 'w system_engine" where
  "serve_calls sys reg [] s = s"
| "serve_calls sys reg ((name, inp, ctx) # cs) s = serve_calls sys reg cs (snd (system_execute sys reg name inp ctx s))"

end
