(* ===== verification/Local_Properties.thy ===== *)
theory Local_Properties
  imports Local_System
begin

text \<open>
  What the file tools keep and change: the directory tree stays a tree, a request changes
  nothing but its resolved and unguarded path, reading returns what was written, an edit
  rewrites the line ends, and deleting a folder does not look at what it holds.
\<close>

section \<open>Nodes\<close>

lemma node_at_set [simp]:
  "p \<noteq> [] \<Longrightarrow> node_at (set_node p n s) q = (if q = p then Some n else node_at s q)"
  by (simp add: node_at_def set_node_def update_conv)

lemma node_at_drop [simp]:
  "p \<noteq> [] \<Longrightarrow> node_at (drop_node p s) q = (if q = p then None else node_at s q)"
  by (simp add: node_at_def drop_node_def delete_conv)

lemma map_of_filter_key: "map_of (filter (\<lambda>(q, n). P q) xs) q = (if P q then map_of xs q else None)"
  by (induction xs) auto

lemma node_at_drop_below:
  "node_at (drop_below p s) q = (if q \<noteq> [] \<and> prefix p q then None else node_at s q)"
  by (simp add: node_at_def drop_below_def map_of_filter_key)

lemma node_at_Nil [simp]: "node_at s [] = Some DirNode"
  by (simp add: node_at_def)

text \<open>Every node lies in a directory, and no path is listed twice.\<close>

definition os_ok :: "os \<Rightarrow> bool" where
  "os_ok s = (distinct (map fst (os_nodes s)) \<and> [] \<notin> set (map fst (os_nodes s)) \<and>
     (\<forall>p n. node_at s p = Some n \<longrightarrow> node_at s (butlast p) = Some DirNode))"

lemma set_node_ok:
  assumes "os_ok s" "p \<noteq> []" "node_at s (butlast p) = Some DirNode" "node_at s p \<noteq> Some DirNode \<or> n = DirNode"
  shows "os_ok (set_node p n s)"
proof -
  have "distinct (map fst (os_nodes (set_node p n s)))" using assms(1) by (simp add: os_ok_def set_node_def distinct_update)
  moreover have "[] \<notin> set (map fst (os_nodes (set_node p n s)))"
    using assms(1,2) by (auto simp: os_ok_def set_node_def dom_update)
  moreover have "node_at (set_node p n s) (butlast q) = Some DirNode" if "node_at (set_node p n s) q = Some m" for q m
  proof (cases "q = p")
    case True
    have "butlast p \<noteq> p" using assms(2) by (metis append_butlast_last_id append_self_conv not_Cons_self2)
    with True assms show ?thesis by simp
  next
    case False
    with that assms(1,2) have "node_at s (butlast q) = Some DirNode" by (auto simp: os_ok_def)
    with assms(2,4) show ?thesis by auto
  qed
  ultimately show ?thesis by (auto simp: os_ok_def)
qed

lemma drop_node_ok:
  assumes "os_ok s" "p \<noteq> []" "\<And>q. q \<noteq> [] \<Longrightarrow> butlast q = p \<Longrightarrow> node_at s q = None"
  shows "os_ok (drop_node p s)"
proof -
  have "distinct (map fst (os_nodes (drop_node p s)))" using assms(1) by (simp add: os_ok_def drop_node_def distinct_delete)
  moreover have "[] \<notin> set (map fst (os_nodes (drop_node p s)))"
    using assms(1) by (auto simp: os_ok_def drop_node_def delete_keys)
  moreover have "node_at (drop_node p s) (butlast q) = Some DirNode" if "node_at (drop_node p s) q = Some m" for q m
    using that assms by (cases "q = []") (auto simp: os_ok_def split: if_splits)
  ultimately show ?thesis by (auto simp: os_ok_def)
qed

lemma drop_below_ok:
  assumes "os_ok s"
  shows "os_ok (drop_below p s)"
proof -
  have "distinct (map fst (os_nodes (drop_below p s)))"
    using assms by (auto simp: os_ok_def drop_below_def distinct_map inj_on_def)
  moreover have "[] \<notin> set (map fst (os_nodes (drop_below p s)))"
    using assms by (auto simp: os_ok_def drop_below_def)
  moreover have "node_at (drop_below p s) (butlast q) = Some DirNode" if q: "node_at (drop_below p s) q = Some m" for q m
  proof (cases "butlast q = []")
    case False
    then have "prefix (butlast q) q" "q \<noteq> []" by (auto simp: prefixeq_butlast)
    with q have "\<not> prefix p q" "node_at s q = Some m" by (auto simp: node_at_drop_below split: if_splits)
    with \<open>prefix (butlast q) q\<close> have "\<not> prefix p (butlast q)" using prefix_order.trans by blast
    with assms \<open>node_at s q = Some m\<close> show ?thesis by (auto simp: os_ok_def node_at_drop_below)
  qed simp
  ultimately show ?thesis by (auto simp: os_ok_def)
qed

lemma entries_Nil:
  assumes "entries_of s p = []" "q \<noteq> []" "butlast q = p"
  shows "node_at s q = None"
proof -
  have "q \<notin> set (map fst (os_nodes s))" using assms by (auto simp: entries_of_def filter_empty_conv)
  then show ?thesis using assms(2) by (simp add: node_at_def map_of_eq_None_iff)
qed

section \<open>One request\<close>

datatype file_request =
    ReadFile string
  | WriteFile string string bool
  | EditFile string string string
  | DeleteFile string
  | CreateFolder string bool
  | ListFolder string bool
  | DeleteFolder string bool

primrec request_path :: "file_request \<Rightarrow> string" where
  "request_path (ReadFile t) = t"
| "request_path (WriteFile t c b) = t"
| "request_path (EditFile t old new) = t"
| "request_path (DeleteFile t) = t"
| "request_path (CreateFolder t b) = t"
| "request_path (ListFolder t b) = t"
| "request_path (DeleteFolder t b) = t"

definition finish :: "('s, 'a) op \<Rightarrow> ('s, unit) op" where
  "finish m = bindE m (\<lambda>_. retE ())"

primrec file_tool :: "codec \<Rightarrow> file_request \<Rightarrow> (os, unit) op" where
  "file_tool c (ReadFile t) = finish (file_read_execute c t)"
| "file_tool c (WriteFile t x b) = finish (file_write_execute c t x b)"
| "file_tool c (EditFile t old new) = finish (file_edit_execute c t old new)"
| "file_tool c (DeleteFile t) = finish (file_delete_execute t)"
| "file_tool c (CreateFolder t b) = finish (folder_create_execute t b)"
| "file_tool c (ListFolder t b) = finish (folder_list_execute t b)"
| "file_tool c (DeleteFolder t b) = finish (folder_delete_execute t b)"

lemma steps_finish [steps_intro]: "reflp R \<Longrightarrow> transp R \<Longrightarrow> stays R m \<Longrightarrow> stays R (finish m)"
  unfolding finish_def by (intro steps_intro)

text \<open>
  The effect of a request on the path \<open>p\<close>: the tree stays a tree; only \<open>p\<close> changes, missing
  directories above it appear, or, in a recursive deletion, everything below it goes.
\<close>

definition effect :: "bool \<Rightarrow> path \<Rightarrow> os \<Rightarrow> os \<Rightarrow> bool" where
  "effect rec p s u = ((os_ok s \<longrightarrow> os_ok u) \<and>
     (\<forall>q. node_at u q \<noteq> node_at s q \<longrightarrow>
        q = p \<or> (strict_prefix q p \<and> node_at s q = None \<and> node_at u q = Some DirNode) \<or>
        (rec \<and> prefix p q \<and> node_at u q = None)))"

lemma effect_refl: "reflp (effect rec p)"
  by (simp add: reflp_def effect_def)

lemma effect_trans: "transp (effect rec p)"
proof (rule transpI)
  fix x y z assume xy: "effect rec p x y" and yz: "effect rec p y z"
  show "effect rec p x z" unfolding effect_def
  proof (intro conjI allI impI)
    show "os_ok z" if "os_ok x" using that xy yz by (simp add: effect_def)
    fix q assume ne: "node_at z q \<noteq> node_at x q"
    show "q = p \<or> strict_prefix q p \<and> node_at x q = None \<and> node_at z q = Some DirNode \<or> rec \<and> prefix p q \<and> node_at z q = None"
      using xy yz ne unfolding effect_def by (metis option.distinct(1) prefix_order.less_le_not_le)
  qed
qed

lemmas effect_steps = steps_intro effect_refl effect_trans

lemma butlast_strict_prefix: "p \<noteq> [] \<Longrightarrow> strict_prefix (butlast p) p"
  by (metis append_butlast_last_id prefix_order.less_le prefixI butlast_snoc length_butlast length_greater_0_conv
      diff_less zero_less_one less_irrefl)

lemma os_mkdir_steps:
  assumes "prefix q p"
  shows "stays (effect rec p) (os_mkdir q)"
  unfolding stays_def
proof
  fix s
  show "effect rec p s (snd (os_mkdir q s))"
  proof (cases "node_at s q = None \<and> node_at s (butlast q) = Some DirNode")
    case True
    then have q: "q \<noteq> []" by auto
    with True have "os_ok s \<longrightarrow> os_ok (set_node q DirNode s)" by (auto intro: set_node_ok)
    with True q assms show ?thesis by (auto simp: os_mkdir_def effect_def strict_prefix_def)
  next
    case False
    then have "snd (os_mkdir q s) = s" by (auto simp: os_mkdir_def split: option.splits node.splits)
    then show ?thesis using effect_refl by (simp add: reflp_def)
  qed
qed

lemma mkdir_here_steps: "prefix q p \<Longrightarrow> stays (effect rec p) (mkdir_here q b)"
  unfolding mkdir_here_def by (intro effect_steps os_mkdir_steps)

lemma mkdir_parents_steps: "prefix q p \<Longrightarrow> stays (effect rec p) (mkdir_parents q b)"
proof (induction q b rule: mkdir_parents.induct)
  case (1 q b)
  have "prefix (butlast q) p" using 1(2) prefixeq_butlast prefix_order.trans by blast
  with 1 show ?case
    by (subst mkdir_parents.simps) (intro effect_steps os_mkdir_steps mkdir_here_steps; simp)
qed

lemma read_text_steps: "stays (effect rec p) (read_text c q)"
proof -
  have "stays (effect rec p) (read_bytes q)"
    using effect_refl by (simp add: stays_def read_bytes_def reflp_def)
  then show ?thesis unfolding read_text_def by (intro effect_steps)
qed

lemma write_bytes_steps: "stays (effect rec p) (write_bytes p b)"
  unfolding stays_def
proof
  fix s
  show "effect rec p s (snd (write_bytes p b s))"
  proof (cases "snd (write_bytes p b s) = s")
    case True
    then show ?thesis using effect_refl by (simp add: reflp_def)
  next
    case False
    then have new: "snd (write_bytes p b s) = set_node p (FileNode b) s" and
      p: "(\<exists>x. node_at s p = Some (FileNode x)) \<or> (node_at s p = None \<and> node_at s (butlast p) = Some DirNode)"
      by (auto simp: write_bytes_def split: option.splits node.splits if_splits)
    then have "p \<noteq> []" by auto
    have "node_at s (butlast p) = Some DirNode" if "os_ok s" using that p by (auto simp: os_ok_def)
    with p \<open>p \<noteq> []\<close> have "os_ok s \<longrightarrow> os_ok (set_node p (FileNode b) s)"
      using set_node_ok [of s p "FileNode b"] by auto
    with \<open>p \<noteq> []\<close> show ?thesis by (auto simp: new effect_def)
  qed
qed

lemma write_text_steps: "stays (effect rec p) (write_text c p t)"
  unfolding write_text_def by (intro effect_steps write_bytes_steps)

lemma os_unlink_steps: "stays (effect rec p) (os_unlink p)"
  unfolding stays_def
proof
  fix s
  show "effect rec p s (snd (os_unlink p s))"
  proof (cases "snd (os_unlink p s) = s")
    case True
    then show ?thesis using effect_refl by (simp add: reflp_def)
  next
    case False
    then have new: "snd (os_unlink p s) = drop_node p s" and p: "node_at s p \<noteq> Some DirNode"
      by (auto simp: os_unlink_def split: option.splits node.splits)
    then have "p \<noteq> []" by auto
    have "os_ok (drop_node p s)" if ok: "os_ok s"
    proof (rule drop_node_ok [OF ok \<open>p \<noteq> []\<close>])
      fix q show "butlast q = p \<Longrightarrow> node_at s q = None"
        using ok p by (cases "node_at s q") (auto simp: os_ok_def)
    qed
    with \<open>p \<noteq> []\<close> show ?thesis by (auto simp: new effect_def)
  qed
qed

lemma os_rmdir_steps: "stays (effect rec p) (os_rmdir p)"
  unfolding stays_def
proof
  fix s
  show "effect rec p s (snd (os_rmdir p s))"
  proof (cases "snd (os_rmdir p s) = s")
    case True
    then show ?thesis using effect_refl by (simp add: reflp_def)
  next
    case False
    then have new: "snd (os_rmdir p s) = drop_node p s" and p: "p \<noteq> []" "entries_of s p = []"
      by (auto simp: os_rmdir_def split: option.splits node.splits if_splits)
    then have "os_ok s \<longrightarrow> os_ok (drop_node p s)" by (auto intro: drop_node_ok entries_Nil)
    with p show ?thesis by (auto simp: new effect_def)
  qed
qed

lemma os_rmtree_steps: "stays (effect True p) (os_rmtree p)"
  unfolding stays_def
proof
  fix s
  show "effect True p s (snd (os_rmtree p s))"
  proof (cases "snd (os_rmtree p s) = s")
    case True
    then show ?thesis using effect_refl by (simp add: reflp_def)
  next
    case False
    then have new: "snd (os_rmtree p s) = drop_below p s"
      by (auto simp: os_rmtree_def split: option.splits node.splits)
    show ?thesis unfolding new effect_def node_at_drop_below using drop_below_ok by (auto split: if_splits)
  qed
qed

lemma resolve_path_state: "resolve_path t s = (r, u) \<Longrightarrow> u = s"
  by (simp add: resolve_path_def)

lemma guarded_cases:
  assumes "guarded t body s = (r, u)"
  obtains (refused) e where "r = Inl e" "u = s"
  | (run) p where "resolve_path t s = (Inr p, s)" "guard_path p = Inr ()" "body p s = (r, u)"
  using assms resolve_path_state [of t s]
  by (cases "resolve_path t s"; cases "fst (resolve_path t s)"; cases "guard_path (projr (fst (resolve_path t s)))")
     (auto simp: guarded_def bindE_def thenE_def liftE_def)

lemma guarded_effect:
  assumes "guarded t body s = (r, u)" "\<And>p. stays (effect rec p) (body p)"
  shows "u = s \<or> (\<exists>p. resolve_path t s = (Inr p, s) \<and> guard_path p = Inr () \<and> effect rec p s u)"
  using assms(1)
proof (cases rule: guarded_cases)
  case (run p)
  with assms(2) [of p] show ?thesis by (metis snd_conv stays_def)
qed simp

lemmas tool_steps = effect_steps read_text_steps write_text_steps mkdir_parents_steps os_unlink_steps
  os_rmdir_steps os_rmtree_steps

lemma finish_state: "finish m s = (r, u) \<Longrightarrow> \<exists>x. m s = (x, u)"
  by (cases "m s"; cases "fst (m s)") (auto simp: finish_def bindE_def retE_def)

definition recursive_delete :: "file_request \<Rightarrow> bool" where
  "recursive_delete rq = (case rq of DeleteFolder t b \<Rightarrow> b | _ \<Rightarrow> False)"

lemma file_tool_effect:
  assumes "file_tool c rq s = (r, u)"
  shows "u = s \<or> (\<exists>p. resolve_path (request_path rq) s = (Inr p, s) \<and> guard_path p = Inr () \<and>
    effect (recursive_delete rq) p s u)"
proof (cases rq)
  case (ReadFile t)
  with assms obtain x where "file_read_execute c t s = (x, u)" by (auto dest: finish_state)
  then show ?thesis unfolding file_read_execute_def ReadFile request_path.simps
    by (rule guarded_effect) (intro tool_steps)
next
  case (WriteFile t y b)
  with assms obtain x where "file_write_execute c t y b s = (x, u)" by (auto dest: finish_state)
  then show ?thesis unfolding file_write_execute_def WriteFile request_path.simps
    by (rule guarded_effect) (intro tool_steps prefixeq_butlast)
next
  case (EditFile t old new)
  with assms obtain x where "file_edit_execute c t old new s = (x, u)" by (auto dest: finish_state)
  then show ?thesis unfolding file_edit_execute_def EditFile request_path.simps
    by (rule guarded_effect) (intro tool_steps)
next
  case (DeleteFile t)
  with assms obtain x where "file_delete_execute t s = (x, u)" by (auto dest: finish_state)
  then show ?thesis unfolding file_delete_execute_def DeleteFile request_path.simps
    by (rule guarded_effect) (intro tool_steps)
next
  case (CreateFolder t b)
  with assms obtain x where "folder_create_execute t b s = (x, u)" by (auto dest: finish_state)
  then show ?thesis unfolding folder_create_execute_def CreateFolder request_path.simps
    by (rule guarded_effect) (intro tool_steps prefix_order.order_refl)
next
  case (ListFolder t b)
  with assms obtain x where "folder_list_execute t b s = (x, u)" by (auto dest: finish_state)
  then show ?thesis unfolding folder_list_execute_def ListFolder request_path.simps
    by (rule guarded_effect) (intro tool_steps)
next
  case (DeleteFolder t b)
  with assms obtain x where "folder_delete_execute t b s = (x, u)" by (auto dest: finish_state)
  moreover have "stays (effect b p) (if b then os_rmtree p else os_rmdir p)" for p
    using os_rmtree_steps os_rmdir_steps by (cases b) auto
  ultimately show ?thesis unfolding folder_delete_execute_def DeleteFolder request_path.simps
    by (intro guarded_effect [where rec = "recursive_delete (DeleteFolder t b)"])
       (auto simp: recursive_delete_def intro!: tool_steps)
qed


text \<open>
  The file system stays a tree: after any request every node still lies in a directory
  and no path is listed twice.
\<close>

theorem file_tool_keeps_tree:
  assumes "os_ok s" "file_tool c rq s = (r, u)"
  shows "os_ok u"
  using file_tool_effect [OF assms(2)] assms(1) unfolding effect_def by blast

definition latin1 :: codec where
  "latin1 = \<lparr>cd_encode = Inr, cd_decode = Inr\<rparr>"

definition sample_os :: os where
  "sample_os = \<lparr>os_nodes = [([''w''], DirNode), ([''w'', ''.env''], FileNode ''k=1''), ([''w'', ''l''], LinkNode ''.env'')],
     os_cwd = [''w''], os_denied = []\<rparr>"

definition sample_write :: "unit result \<times> os" where
  "sample_write = file_tool latin1 (WriteFile ''d/f'' ''hi'' True) sample_os"


theorem file_tool_keeps_tree_witness: "os_ok (snd sample_write)"
proof -
  have "\<forall>p n. node_at sample_os p = Some n \<longrightarrow> node_at sample_os (butlast p) = Some DirNode"
    by (auto simp: node_at_def sample_os_def split: if_splits)
  then have ok: "os_ok sample_os" by (simp add: os_ok_def) (simp add: sample_os_def)
  have "file_tool latin1 (WriteFile ''d/f'' ''hi'' True) sample_os = (fst sample_write, snd sample_write)"
    by (simp add: sample_write_def)
  from file_tool_keeps_tree [OF ok this] show ?thesis .
qed

section \<open>Reading back\<close>

lemma resolve_step_link:
  "c \<noteq> ''.'' \<Longrightarrow> c \<noteq> ''..'' \<Longrightarrow> node_at s (base @ [c]) = Some (LinkNode t) \<Longrightarrow>
   resolve_from fuel s base (c # cs) =
     (if fuel = 0 then Inl (py_error PyRuntimeError ''Symlink loop from {}'' [AStr (show_path (base @ [c]))])
      else resolve_from (fuel - 1) s (if is_absolute t then [] else base) (path_parts [] t @ cs))"
  by simp

lemma resolve_step_plain:
  "c \<noteq> ''.'' \<Longrightarrow> c \<noteq> ''..'' \<Longrightarrow> \<nexists>t. node_at s (base @ [c]) = Some (LinkNode t) \<Longrightarrow>
   resolve_from fuel s base (c # cs) = resolve_from fuel s (base @ [c]) cs"
  by (auto split: option.splits node.splits)

lemma resolve_same_links:
  assumes "\<And>q t. node_at u q = Some (LinkNode t) \<longleftrightarrow> node_at s q = Some (LinkNode t)"
  shows "resolve_from fuel u base cs = resolve_from fuel s base cs"
  using assms
proof (induction fuel s base cs rule: resolve_from.induct)
  case (1 fuel s base)
  show ?case by simp
next
  case (2 fuel s base c cs)
  consider "c = ''.''" | "c \<noteq> ''.''" "c = ''..''" | t where "c \<noteq> ''.''" "c \<noteq> ''..''" "node_at s (base @ [c]) = Some (LinkNode t)"
    | "c \<noteq> ''.''" "c \<noteq> ''..''" "\<nexists>t. node_at s (base @ [c]) = Some (LinkNode t)" by blast
  then show ?case
  proof cases
    case 1
    with "2.IH"(1) [OF _ "2.prems"] show ?thesis by simp
  next
    case 2
    with "2.IH"(2) [OF _ _ "2.prems"] show ?thesis by simp
  next
    case (3 t)
    then have u: "node_at u (base @ [c]) = Some (LinkNode t)" using "2.prems" by simp
    have "resolve_from (fuel - 1) u (if is_absolute t then [] else base) (path_parts [] t @ cs) =
        resolve_from (fuel - 1) s (if is_absolute t then [] else base) (path_parts [] t @ cs)" if "fuel \<noteq> 0"
      using "2.IH"(6) [OF 3(1,2) 3(3) refl that "2.prems"] .
    then show ?thesis unfolding resolve_step_link [OF 3] resolve_step_link [OF 3(1,2) u] by presburger
  next
    case 4
    then have u: "\<nexists>t. node_at u (base @ [c]) = Some (LinkNode t)" using "2.prems" by simp
    have "resolve_from fuel u (base @ [c]) cs = resolve_from fuel s (base @ [c]) cs"
      using 4 "2.IH" "2.prems" by (cases "node_at s (base @ [c])"; cases "the (node_at s (base @ [c]))") auto
    then show ?thesis unfolding resolve_step_plain [OF 4] resolve_step_plain [OF 4(1,2) u] .
  qed
qed

lemma write_bytes_Inr:
  "write_bytes p b s = (Inr x, u) \<longleftrightarrow> p \<notin> set (os_denied s) \<and> u = set_node p (FileNode b) s \<and>
     ((\<exists>old. node_at s p = Some (FileNode old)) \<or> (node_at s p = None \<and> node_at s (butlast p) = Some DirNode))"
  by (auto simp: write_bytes_def split: option.splits node.splits)

lemma write_text_Inr:
  assumes "write_text c p t s = (Inr x, u)"
  shows "\<exists>b. cd_encode c t = Inr b \<and> node_at u = (node_at s)(p \<mapsto> FileNode b) \<and> p \<notin> set (os_denied s) \<and>
    os_denied u = os_denied s \<and> os_cwd u = os_cwd s \<and>
    ((\<exists>old. node_at s p = Some (FileNode old)) \<or> (node_at s p = None \<and> node_at s (butlast p) = Some DirNode))"
proof -
  obtain v b where v: "write_bytes p [] s = (Inr (), v)" "cd_encode c t = Inr b" "write_bytes p b v = (Inr x, u)"
    using assms by (auto simp: write_text_def thenE_def bindE_def liftE_def split: prod.splits sum.splits)
  have shape: "(\<exists>old. node_at s p = Some (FileNode old)) \<or> (node_at s p = None \<and> node_at s (butlast p) = Some DirNode)"
    using v(1) by (simp add: write_bytes_Inr)
  then have "p \<noteq> []" by auto
  with v have "node_at u = (node_at s)(p \<mapsto> FileNode b)"
    by (auto simp: write_bytes_Inr fun_eq_iff)
  moreover have "os_denied u = os_denied s" "os_cwd u = os_cwd s" "p \<notin> set (os_denied s)"
    using v by (auto simp: write_bytes_Inr set_node_def)
  ultimately show ?thesis using v(2) shape by auto
qed

text \<open>What making directories leaves alone.\<close>

definition grows :: "os \<Rightarrow> os \<Rightarrow> bool" where
  "grows s u = (os_denied u = os_denied s \<and> os_cwd u = os_cwd s \<and>
    (\<forall>q. node_at u q \<noteq> node_at s q \<longrightarrow> node_at s q = None \<and> node_at u q = Some DirNode))"

lemma grows_refl: "reflp grows"
  by (simp add: reflp_def grows_def)

lemma grows_trans: "transp grows"
  unfolding transp_def grows_def by metis

lemma os_mkdir_grows: "stays grows (os_mkdir p)"
  unfolding stays_def
proof
  fix s
  show "grows s (snd (os_mkdir p s))"
  proof (cases "node_at s p = None \<and> node_at s (butlast p) = Some DirNode")
    case True
    then have "p \<noteq> []" by auto
    with True show ?thesis by (auto simp: os_mkdir_def grows_def) (simp_all add: set_node_def)
  next
    case False
    then have "snd (os_mkdir p s) = s" by (auto simp: os_mkdir_def split: option.splits node.splits)
    then show ?thesis using grows_refl by (simp add: reflp_def)
  qed
qed

lemma mkdir_keeps: "stays grows (mkdir_parents p b)"
proof (induction p b rule: mkdir_parents.induct)
  case (1 q b)
  have "stays grows (mkdir_here x y)" for x y
    unfolding mkdir_here_def by (intro steps_intro grows_refl grows_trans os_mkdir_grows)
  with 1 show ?case
    by (subst mkdir_parents.simps) (intro steps_intro grows_refl grows_trans os_mkdir_grows; simp)
qed

lemma universal_newlines_id: "CR \<notin> set t \<Longrightarrow> universal_newlines t = t"
  by (induction t rule: universal_newlines.induct) auto

lemma universal_newlines_no_CR: "CR \<notin> set (universal_newlines t)"
  by (induction t rule: universal_newlines.induct) (auto simp: CR_def LF_def)

lemma file_write_Inr:
  assumes "file_write_execute c t content b s = (Inr out, u)"
  shows "\<exists>p y v. resolve_path t s = (Inr p, s) \<and> guard_path p = Inr () \<and> cd_encode c content = Inr y \<and>
    out = \<lparr>wo_path = show_path p, wo_bytes = length y, wo_created = (node_at s p = None)\<rparr> \<and>
    whenE b (mkdir_parents (butlast p) True) s = (Inr (), v) \<and> write_text c p content v = (Inr (), u)"
proof -
  from assms obtain p where p: "resolve_path t s = (Inr p, s)" "guard_path p = Inr ()"
    and run: "(bindE (getE (\<lambda>s. node_at s p = None)) (\<lambda>created.
     thenE (whenE b (mkdir_parents (butlast p) True))
     (thenE (write_text c p content)
     (bindE (liftE (cd_encode c content)) (\<lambda>y.
      retE \<lparr>wo_path = show_path p, wo_bytes = length y, wo_created = created\<rparr>))))) s = (Inr out, u)"
    unfolding file_write_execute_def by (cases rule: guarded_cases) auto
  obtain r v where v: "whenE b (mkdir_parents (butlast p) True) s = (r, v)" by (cases "whenE b (mkdir_parents (butlast p) True) s")
  obtain q w where w: "write_text c p content v = (q, w)" by (cases "write_text c p content v")
  show ?thesis using run p v w
    by (cases r; cases q; cases "cd_encode c content") (auto simp: bindE_def thenE_def getE_def liftE_def retE_def)
qed



section \<open>Editing\<close>

lemma replace_first_split:
  "py_in old t \<Longrightarrow> \<exists>pre post. t = pre @ old @ post \<and> replace_first old new t = pre @ new @ post \<and>
     (\<forall>i < length pre. \<not> prefix old (drop i t))"
proof (induction t)
  case Nil
  then show ?case by simp
next
  case (Cons c t)
  show ?case
  proof (cases "prefix old (c # t)")
    case True
    then obtain post where post: "c # t = old @ post" by (auto simp: prefix_def)
    have "replace_first old new (c # t) = new @ drop (length old) (c # t)" using True by simp
    also have "drop (length old) (c # t) = post" unfolding post by simp
    finally show ?thesis using post by (intro exI [of _ "[]"] exI [of _ post]) simp
  next
    case False
    with Cons obtain pre post where "t = pre @ old @ post" "replace_first old new t = pre @ new @ post"
      "\<forall>i < length pre. \<not> prefix old (drop i t)" by auto
    moreover have "\<not> prefix old (drop i (c # t))" if "i < Suc (length pre)" for i
      using that False calculation(3) by (cases i) auto
    ultimately show ?thesis using False
      by (intro exI [of _ "c # pre"] exI [of _ post]) simp
  qed
qed

text \<open>
  An edit replaces the first occurrence of the old text in the file as read, and so
  rewrites every line end of the file: the new bytes encode the decoded text, its line ends
  made line feeds, with the one replacement. No other node changes.
\<close>

theorem file_edit_rewrites:
  assumes "file_edit_execute c t old new s = (Inr out, u)"
  shows "\<exists>p b x y pre post. resolve_path t s = (Inr p, s) \<and> node_at s p = Some (FileNode b) \<and> cd_decode c b = Inr x \<and>
    universal_newlines x = pre @ old @ post \<and> (\<forall>i < length pre. \<not> prefix old (drop i (universal_newlines x))) \<and>
    cd_encode c (pre @ new @ post) = Inr y \<and> node_at u = (node_at s)(p \<mapsto> FileNode y) \<and> snd out = 1"
proof -
  from assms obtain p where p: "resolve_path t s = (Inr p, s)"
    and run: "(bindE (getE (\<lambda>s. node_at s p)) (\<lambda>n.
     if n = None then raiseE (app_error ToolError ''File not found: {}'' [AStr (show_path p)])
     else
       bindE (read_text c p) (\<lambda>content.
       if \<not> py_in old content then raiseE (app_error ToolError ''old_string not found in file'' [])
       else thenE (write_text c p (replace_first old new content)) (retE (show_path p, 1))))) s = (Inr out, u)"
    unfolding file_edit_execute_def by (cases rule: guarded_cases) auto
  have "node_at s p \<noteq> None" using run by (cases "node_at s p") (simp_all add: bindE_def getE_def raiseE_def)
  obtain r v where rt: "read_text c p s = (r, v)" by (cases "read_text c p s")
  with run \<open>node_at s p \<noteq> None\<close> obtain content where r: "r = Inr content"
    by (cases r) (auto simp: bindE_def getE_def)
  with rt obtain b x where b: "node_at s p = Some (FileNode b)" "cd_decode c b = Inr x"
    "content = universal_newlines x" "v = s"
    by (auto simp: read_text_def read_bytes_def bindE_def liftE_def retE_def split: option.splits node.splits if_splits sum.splits)
  obtain w z where w: "write_text c p (replace_first old new content) s = (w, z)"
    by (cases "write_text c p (replace_first old new content) s")
  with run rt r b have found: "py_in old content" and "w = Inr ()" "z = u" and out: "out = (show_path p, 1)"
    by (auto simp: bindE_def thenE_def getE_def raiseE_def retE_def split: if_splits sum.splits)
  obtain pre post where split: "content = pre @ old @ post" "replace_first old new content = pre @ new @ post"
    "\<forall>i < length pre. \<not> prefix old (drop i content)" using replace_first_split [OF found] by blast
  from w \<open>w = Inr ()\<close> \<open>z = u\<close> obtain y where "cd_encode c (pre @ new @ post) = Inr y" "node_at u = (node_at s)(p \<mapsto> FileNode y)"
    unfolding split(2) using write_text_Inr by blast
  with p b split out show ?thesis
    by (intro exI [of _ p] exI [of _ b] exI [of _ x] exI [of _ y] exI [of _ pre] exI [of _ post]) auto
qed

definition crlf_os :: os where
  "crlf_os = \<lparr>os_nodes = [([''f''], FileNode [CHR ''a'', CR, LF, CHR ''b'', CR, LF])], os_cwd = [], os_denied = []\<rparr>"

theorem file_edit_rewrites_witness:
  "node_at (snd (file_edit_execute latin1 ''/f'' ''a'' ''c'' crlf_os)) [''f''] = Some (FileNode [CHR ''c'', LF, CHR ''b'', LF])"
proof -
  have "case file_edit_execute latin1 ''/f'' ''a'' ''c'' crlf_os of (Inl e, u) \<Rightarrow> False | (Inr x, u) \<Rightarrow> True"
    by code_simp
  from returned_outcome [OF this] obtain out u
    where run: "file_edit_execute latin1 ''/f'' ''a'' ''c'' crlf_os = (Inr out, u)" by blast
  have res: "resolve_path ''/f'' crlf_os = (Inr [''f''], crlf_os)" by code_simp
  from file_edit_rewrites [OF run] obtain p b x y pre post where f:
    "resolve_path ''/f'' crlf_os = (Inr p, crlf_os)" "node_at crlf_os p = Some (FileNode b)" "cd_decode latin1 b = Inr x"
    "universal_newlines x = pre @ ''a'' @ post" "\<forall>i < length pre. \<not> prefix ''a'' (drop i (universal_newlines x))"
    "cd_encode latin1 (pre @ ''c'' @ post) = Inr y" "node_at u = (node_at crlf_os)(p \<mapsto> FileNode y)" by blast
  from f(1) res have p: "p = [''f'']" by simp
  with f(2,3) have x: "x = [CHR ''a'', CR, LF, CHR ''b'', CR, LF]"
    by (simp add: crlf_os_def node_at_def latin1_def)
  from f(6) have y: "y = pre @ ''c'' @ post" by (simp add: latin1_def)
  note split = f(4,5) [unfolded x] f(7) [unfolded p y]
  have un: "universal_newlines [CHR ''a'', CR, LF, CHR ''b'', CR, LF] = [CHR ''a'', LF, CHR ''b'', LF]"
    by (simp add: CR_def LF_def)
  have "pre = []" using split(2) unfolding un by (cases pre) auto
  with split(1) have "''c'' @ post = [CHR ''c'', LF, CHR ''b'', LF]" unfolding un by simp
  with \<open>pre = []\<close> split(3) run show ?thesis by simp
qed

section \<open>Deleting and listing folders\<close>

text \<open>
  A recursive deletion looks at its own path only: whenever the folder's path passes the
  guard, everything below it is deleted, whatever the guard says of a path below, so that a
  credential file or a repository's configuration goes with its folder.
\<close>

theorem folder_delete_ignores_content:
  assumes "folder_delete_execute t True s = (Inr out, u)"
  shows "\<exists>p. resolve_path t s = (Inr p, s) \<and> guard_path p = Inr () \<and> p \<noteq> [] \<and>
    (\<forall>q. node_at u q = (if prefix p q then None else node_at s q))"
proof -
  from assms obtain p where p: "resolve_path t s = (Inr p, s)" "guard_path p = Inr ()"
    and run: "(bindE (getE (\<lambda>s. node_at s p)) (\<lambda>n.
     if n = None then raiseE (app_error ToolError ''Directory not found: {}'' [AStr (show_path p)])
     else thenE (if True then os_rmtree p else os_rmdir p) (retE (show_path p, True)))) s = (Inr out, u)"
    unfolding folder_delete_execute_def by (cases rule: guarded_cases) auto
  then have "os_rmtree p s = (Inr (), u)"
    by (auto simp: bindE_def thenE_def getE_def raiseE_def retE_def os_rmtree_def split: if_splits option.splits node.splits)
  then have "p \<noteq> []" "u = drop_below p s" by (auto simp: os_rmtree_def split: option.splits node.splits if_splits)
  with p show ?thesis by (intro exI [of _ p]) (auto simp: node_at_drop_below)
qed

theorem folder_delete_ignores_content_witness:
  "guard_path [''w'', ''.env''] \<noteq> Inr () \<and>
   node_at (snd (folder_delete_execute ''/w'' True sample_os)) [''w'', ''.env''] = None"
proof -
  have "case folder_delete_execute ''/w'' True sample_os of (Inl e, u) \<Rightarrow> False | (Inr x, u) \<Rightarrow> True" by code_simp
  from returned_outcome [OF this] obtain out u
    where run: "folder_delete_execute ''/w'' True sample_os = (Inr out, u)" by blast
  have "resolve_path ''/w'' sample_os = (Inr [''w''], sample_os)" by code_simp
  with folder_delete_ignores_content [OF run] run show ?thesis by (auto simp: guard_path_def path_name_def)
qed

text \<open>A listing shows the names of the directory's entries, hidden ones on request, in order.\<close>

lemma folder_list_names:
  assumes "folder_list_execute t hidden s = (Inr out, u)"
  shows "\<exists>p. resolve_path t s = (Inr p, s) \<and> node_at s p = Some DirNode \<and> sorted (map fe_name (snd out)) \<and>
    set (map fe_name (snd out)) = {n. n \<in> set (entries_of s p) \<and> (hidden \<or> \<not> py_startswith n ''.'')}"
proof -
  from assms obtain p where p: "resolve_path t s = (Inr p, s)"
    and run: "(bindE (getE (\<lambda>s. node_at s p)) (\<lambda>n.
     if n \<noteq> Some DirNode then raiseE (app_error ToolError ''Not a directory: {}'' [AStr (show_path p)])
     else
       bindE (getE (\<lambda>s. mapR (stat_entry s p) (shown_names s p hidden))) (\<lambda>r.
       bindE (liftE r) (\<lambda>es. retE (show_path p, es))))) s = (Inr out, u)"
    unfolding folder_list_execute_def by (cases rule: guarded_cases) auto
  from run have dir: "node_at s p = Some DirNode" by (auto simp: bindE_def getE_def raiseE_def split: if_splits)
  with run have es: "mapR (stat_entry s p) (shown_names s p hidden) = Inr (snd out)"
    by (auto simp: bindE_def getE_def liftE_def retE_def split: sum.splits)
  have "stat_entry s p n = Inr e \<Longrightarrow> fe_name e = n" for n e
    by (auto simp: stat_entry_def split: sum.splits option.splits node.splits)
  with es have "map fe_name (snd out) = shown_names s p hidden"
    unfolding mapR_Inr_iff by (induction rule: list_all2_induct) auto
  with p dir show ?thesis by (auto simp: shown_names_def sorted_wrt_filter)
qed

section \<open>The shell\<close>

text \<open>A process is started exactly for a command without a blocked pattern, and once.\<close>

lemma shell_starts_iff:
  assumes "shell_run_execute spawn decode inp s = (r, u)"
  shows "sh_commands u = sh_commands s @ (if list_ex (\<lambda>p. py_in p (si_command inp)) BLOCKED_PATTERNS then [] else [si_command inp])"
proof (cases "filter (\<lambda>p. py_in p (si_command inp)) BLOCKED_PATTERNS")
  case Nil
  then have "\<not> list_ex (\<lambda>p. py_in p (si_command inp)) BLOCKED_PATTERNS"
    by (auto simp: filter_empty_conv list_ex_iff)
  with Nil assms show ?thesis
    by (auto simp: shell_run_execute_def thenE_def bindE_def modE_def raiseE_def retE_def split: prod.splits sum.splits process_end.splits)
next
  case (Cons p ps)
  then have "p \<in> set (filter (\<lambda>p. py_in p (si_command inp)) BLOCKED_PATTERNS)" by simp
  then have "list_ex (\<lambda>p. py_in p (si_command inp)) BLOCKED_PATTERNS" by (auto simp: list_ex_iff)
  with Cons assms show ?thesis by (simp add: shell_run_execute_def raiseE_def)
qed

end
