(* ===== verification/Publish_Properties.thy ===== *)
theory Publish_Properties
  imports Social_Publish
begin

text \<open>
  Publishing is at most once per idempotency key. The locale states what the publish tools
  rely on from a platform adapter; both adapters of the source are instances. The lemmas
  follow the rows of \<open>social_posts\<close> through an execution, however it ends.
\<close>

section \<open>Tables of posts\<close>

definition post_keys :: "social_post table \<Rightarrow> string list" where
  "post_keys t = map (\<lambda>(k, p). sp_idempotency_key p) t"

lemma keys_unique_post_keys: "keys_unique t \<longleftrightarrow> distinct (post_keys t)"
  by (simp add: keys_unique_def post_keys_def)

lemma tput_new: "k \<notin> tids t \<Longrightarrow> tput k r t = t @ [(k, r)]"
  unfolding tput_def tids_def by (induction t) auto

lemma post_keys_new: "k \<notin> tids t \<Longrightarrow> post_keys (tput k r t) = post_keys t @ [sp_idempotency_key r]"
  by (simp add: tput_new post_keys_def)

lemma post_keys_same:
  "tget t k = Some q \<Longrightarrow> sp_idempotency_key r = sp_idempotency_key q \<Longrightarrow> post_keys (tput k r t) = post_keys t"
  unfolding tget_def tput_def post_keys_def by (induction t) (auto split: if_splits)

section \<open>Adapters\<close>

locale platform_adapter =
  fixes plat :: platform
    and publish :: "string \<Rightarrow> string \<Rightarrow> ('w pub, adapter_result) op"
    and url :: "string \<Rightarrow> string"
  assumes keeps_session: "publish c k s = (r, u) \<Longrightarrow> pb_session u = pb_session s"
    and sends_once: "publish c k s = (r, u) \<Longrightarrow>
      pb_sent u = pb_sent s \<or> pb_sent u = pb_sent s @ [(plat, c, k)]"
    and success_sends: "publish c k s = (Inr x, u) \<Longrightarrow> pb_sent u = pb_sent s @ [(plat, c, k)]"
    and url_of_id: "publish c k s = (Inr x, u) \<Longrightarrow> ap_url x = url (ap_external_id x)"

lemma x_published_url: "x_published r = Inr a \<Longrightarrow> ap_url a = x_url (ap_external_id a)"
  by (auto simp: x_published_def bindR_def split: if_splits sum.splits)

lemma li_published_url: "li_published r = Inr a \<Longrightarrow> ap_url a = li_url (ap_external_id a)"
  by (auto simp: li_published_def bindR_def split: if_splits sum.splits)

lemma pub_world_frame: "pub_world m s = (r, u) \<Longrightarrow> pb_session u = pb_session s \<and> pb_sent u = pb_sent s"
  by (auto elim: pub_net.run_cases)

interpretation x: platform_adapter X "x_publish h c" x_url
  by unfold_locales
    (auto simp: x_publish_def thenE_def bindE_def liftE_def log_sent_def modE_def
      split: sum.splits prod.splits dest!: pub_world_frame dest: x_published_url li_published_url)

interpretation li: platform_adapter LinkedIn "li_publish h c" li_url
  by unfold_locales
    (auto simp: li_publish_def thenE_def bindE_def liftE_def log_sent_def modE_def raiseE_def
      split: sum.splits prod.splits if_splits dest!: pub_world_frame dest: x_published_url li_published_url)


section \<open>One execution\<close>

definition posts_of :: "'w pub \<Rightarrow> social_post table" where
  "posts_of s = social_posts (work (pb_session s))"

definition sent_key :: "platform \<times> string \<times> string \<Rightarrow> string" where
  "sent_key e = snd (snd e)"

text \<open>
  Between executions the session holds nothing uncommitted about posts, the keys of the
  posts are unique, and every request sent so far has a post of its own.
\<close>

definition pub_ok :: "'w pub \<Rightarrow> bool" where
  "pub_ok s = (social_posts (committed (pb_session s)) = posts_of s \<and> distinct (post_keys (posts_of s)) \<and>
     (\<forall>k \<in> tids (posts_of s). k < fresh (pb_session s)) \<and> distinct (map sent_key (pb_sent s)) \<and>
     sent_key ` set (pb_sent s) \<subseteq> set (post_keys (posts_of s)))"

lemmas pub_session_run = pub_rows.run_eq

lemma find_duplicate_state: "snd (find_duplicate key x) = x"
  by (simp add: find_duplicate_def op_defs split: list.splits)

definition duplicates :: "string \<Rightarrow> social_post table \<Rightarrow> (uuid \<times> social_post) list" where
  "duplicates key t = filter (\<lambda>(k, p). sp_idempotency_key p = key \<and> sp_execution_status p = ExecSucceeded) t"

lemma find_duplicate_run:
  "find_duplicate key x = (case duplicates key (social_posts (work x)) of
      [] \<Rightarrow> (Inr None, x) | [r] \<Rightarrow> (Inr (Some r), x) | _ \<Rightarrow> (Inl (py_error DbMultipleResults '''' []), x))"
  by (simp add: find_duplicate_def duplicates_def op_defs split: list.splits)

lemma bind_pub_session:
  "bindE (pub_session m) f s = (case m (pb_session s) of
     (Inl e, x) \<Rightarrow> (Inl e, s\<lparr>pb_session := x\<rparr>) | (Inr a, x) \<Rightarrow> f a (s\<lparr>pb_session := x\<rparr>))"
  by (simp add: bindE_def pub_session_def split: prod.splits sum.splits)

lemma bind_try: "bindE (tryE m) f s = (case m s of (r, t) \<Rightarrow> f r t)"
  by (simp add: bindE_def tryE_def split: prod.splits)

text \<open>The session after the row is added, and after the outcome is recorded.\<close>

definition added :: "uuid \<Rightarrow> social_post \<Rightarrow> session \<Rightarrow> session" where
  "added pid row x = x\<lparr>fresh := Suc (fresh x),
     work := (work x)\<lparr>social_posts := tput pid row (social_posts (work x))\<rparr>\<rparr>"

definition settled ::
  "uuid \<Rightarrow> social_post \<Rightarrow> exec_status \<Rightarrow> (string \<times> string) option \<Rightarrow> (emsg \<times> exn_class) option \<Rightarrow> session \<Rightarrow> session" where
  "settled pid row st resp err x =
     (let w = (work x)\<lparr>social_posts := tput pid row (social_posts (work x)),
        publish_attempts := tput (fresh x) \<lparr>pa_social_post_id = pid, pa_status = st, pa_response = resp,
          pa_error = err\<rparr> (publish_attempts (work x))\<rparr>
      in x\<lparr>fresh := Suc (fresh x), work := w, committed := w\<rparr>)"

lemma settled_run:
  "thenE (pub_session (put_post pid row)) (thenE (pub_session (record_attempt pid st resp err))
     (thenE (pub_session commit) m)) s = m (s\<lparr>pb_session := settled pid row st resp err (pb_session s)\<rparr>)"
  by (simp add: thenE_def bindE_def pub_session_run record_attempt_def session_ops modE_def settled_def Let_def)

context platform_adapter
begin

lemma flow_run:
  assumes "duplicates (pin_key inp) (posts_of s) = []"
    "tget (drafts (work (pb_session s))) (pin_draft_id inp) = Some d"
    "keys_unique (social_posts (work (added pid row (pb_session s))))"
    "pid = fresh (pb_session s)" "row = new_post plat (pin_draft_id inp) d (pin_key inp) pid"
    "publish (d_content d) (pin_key inp) (s\<lparr>pb_session := added pid row (pb_session s)\<rparr>) = (q, v)"
  shows "publish_flow plat url publish inp s = (case q of
      Inl e \<Rightarrow> (Inl e, v\<lparr>pb_session := settled pid (row\<lparr>sp_execution_status := ExecFailed\<rparr>) ExecFailed None
        (Some (exn_msg e, exn_class e)) (pb_session v)\<rparr>)
    | Inr res \<Rightarrow> (Inr \<lparr>pout_post_id = ap_external_id res, pout_url = ap_url res\<rparr>,
        v\<lparr>pb_session := settled pid (row\<lparr>sp_external_id := Some (ap_external_id res),
          sp_execution_status := ExecSucceeded\<rparr>) ExecSucceeded (Some (ap_external_id res, ap_url res)) None
          (pb_session v)\<rparr>))"
proof -
  have a: "thenE (pub_session (put_post pid row)) (thenE (pub_session flush_posts) m)
      (s\<lparr>pb_session := (pb_session s)\<lparr>fresh := Suc (fresh (pb_session s))\<rparr>\<rparr>) =
    m (s\<lparr>pb_session := added pid row (pb_session s)\<rparr>)" for m :: "('w pub, publish_output) op"
    using assms(3)
    by (simp add: thenE_def bindE_def pub_session_run session_ops modE_def flush_posts_def added_def)
  show ?thesis
    using assms(1,2,4,6)
    by (simp add: publish_flow_def bind_pub_session find_duplicate_run posts_of_def bind_get
        uuid4_def Let_def a [unfolded assms(4)] bind_try settled_run retE_def raiseE_def
        assms(5) [symmetric, unfolded assms(4)] split: sum.splits)
qed

lemma flow_skip:
  assumes "duplicates (pin_key inp) (posts_of s) \<noteq> [] \<or> tget (drafts (work (pb_session s))) (pin_draft_id inp) = None"
  shows "snd (publish_flow plat url publish inp s) = s"
  using assms
  by (cases "duplicates (pin_key inp) (posts_of s)"; cases "tl (duplicates (pin_key inp) (posts_of s))")
    (auto simp: publish_flow_def bind_pub_session find_duplicate_run posts_of_def bind_get retE_def raiseE_def)

lemma flow_clash:
  assumes "duplicates (pin_key inp) (posts_of s) = []"
    "tget (drafts (work (pb_session s))) (pin_draft_id inp) = Some d"
    "pid = fresh (pb_session s)" "row = new_post plat (pin_draft_id inp) d (pin_key inp) pid"
    "\<not> keys_unique (social_posts (work (added pid row (pb_session s))))"
  shows "publish_flow plat url publish inp s =
    (Inl (py_error DbIntegrityError ''uq_social_posts_idempotency_key'' []),
     s\<lparr>pb_session := (pb_session s)\<lparr>fresh := Suc (fresh (pb_session s)), work := committed (pb_session s)\<rparr>\<rparr>)"
proof -
  have a: "thenE (pub_session (put_post pid row)) (thenE (pub_session flush_posts) m)
      (s\<lparr>pb_session := (pb_session s)\<lparr>fresh := Suc (fresh (pb_session s))\<rparr>\<rparr>) =
    (Inl (py_error DbIntegrityError ''uq_social_posts_idempotency_key'' []),
     s\<lparr>pb_session := (pb_session s)\<lparr>fresh := Suc (fresh (pb_session s)), work := committed (pb_session s)\<rparr>\<rparr>)"
    for m :: "('w pub, publish_output) op"
    using assms(5)
    by (simp add: thenE_def bindE_def pub_session_run session_ops modE_def flush_posts_def added_def)
  show ?thesis
    using assms(1,2)
    by (simp add: publish_flow_def bind_pub_session find_duplicate_run posts_of_def bind_get
        uuid4_def Let_def a [unfolded assms(3)] assms(4) [symmetric, unfolded assms(3)])
qed

lemma flow_settles:
  assumes "duplicates (pin_key inp) (posts_of s) = []"
    "tget (drafts (work (pb_session s))) (pin_draft_id inp) = Some d"
    "keys_unique (social_posts (work (added pid row (pb_session s))))"
    "pid = fresh (pb_session s)" "row = new_post plat (pin_draft_id inp) d (pin_key inp) pid"
    and r: "publish_flow plat url publish inp s = (r, u)"
  obtains row' where "sp_idempotency_key row' = pin_key inp"
    "posts_of u = tput pid row' (tput pid row (posts_of s))"
    "social_posts (committed (pb_session u)) = posts_of u" "fresh (pb_session u) = Suc (Suc pid)"
    "pb_sent u = pb_sent s \<or> pb_sent u = pb_sent s @ [(plat, d_content d, pin_key inp)]"
proof -
  let ?s1 = "s\<lparr>pb_session := added pid row (pb_session s)\<rparr>"
  obtain q v where q: "publish (d_content d) (pin_key inp) ?s1 = (q, v)" by fastforce
  have v: "pb_session v = added pid row (pb_session s)" using keeps_session [OF q] by simp
  have "sp_idempotency_key row = pin_key inp" by (simp add: assms(5) new_post_def)
  with flow_run [OF assms(1-5) q] r
  obtain row' st resp err where "u = v\<lparr>pb_session := settled pid row' st resp err (pb_session v)\<rparr>"
    "sp_idempotency_key row' = pin_key inp"
    by (cases q) force+
  with v sends_once [OF q] show thesis
    by (intro that) (auto simp: settled_def added_def posts_of_def assms(4) Let_def)
qed

lemma flow_ok:
  assumes ok: "pub_ok s" and r: "publish_flow plat url publish inp s = (r, u)"
  shows "pub_ok u \<and> set (post_keys (posts_of s)) \<subseteq> set (post_keys (posts_of u)) \<and>
    (pb_sent u = pb_sent s \<or>
     (\<exists>c. pb_sent u = pb_sent s @ [(plat, c, pin_key inp)]) \<and> pin_key inp \<notin> set (post_keys (posts_of s)))"
proof (cases "duplicates (pin_key inp) (posts_of s) \<noteq> [] \<or>
    tget (drafts (work (pb_session s))) (pin_draft_id inp) = None")
  case True
  from flow_skip [OF this] r have "u = s" by simp
  with ok show ?thesis by simp
next
  case False
  then obtain d where d: "duplicates (pin_key inp) (posts_of s) = []"
    "tget (drafts (work (pb_session s))) (pin_draft_id inp) = Some d" by auto
  define pid where "pid = fresh (pb_session s)"
  define row where "row = new_post plat (pin_draft_id inp) d (pin_key inp) pid"
  have new: "pid \<notin> tids (posts_of s)" using ok by (auto simp: pub_ok_def pid_def)
  have key: "sp_idempotency_key row = pin_key inp" by (simp add: row_def new_post_def)
  have pk: "post_keys (social_posts (work (added pid row (pb_session s)))) = post_keys (posts_of s) @ [pin_key inp]"
    using post_keys_new [OF new, of row] key by (simp add: added_def posts_of_def)
  show ?thesis
  proof (cases "keys_unique (social_posts (work (added pid row (pb_session s))))")
    case False
    from flow_clash [OF d pid_def row_def False] r
    have "u = s\<lparr>pb_session := (pb_session s)\<lparr>fresh := Suc (fresh (pb_session s)), work := committed (pb_session s)\<rparr>\<rparr>"
      by simp
    with ok show ?thesis by (fastforce simp: pub_ok_def posts_of_def)
  next
    case True
    then have fresh_key: "pin_key inp \<notin> set (post_keys (posts_of s))" "distinct (post_keys (posts_of s))"
      by (auto simp: keys_unique_post_keys pk)
    from flow_settles [OF d True pid_def row_def r] obtain row' where pu: "sp_idempotency_key row' = pin_key inp"
      "posts_of u = tput pid row' (tput pid row (posts_of s))"
      "social_posts (committed (pb_session u)) = posts_of u" "fresh (pb_session u) = Suc (Suc pid)"
      "pb_sent u = pb_sent s \<or> pb_sent u = pb_sent s @ [(plat, d_content d, pin_key inp)]" by blast
    have pku: "post_keys (posts_of u) = post_keys (posts_of s) @ [pin_key inp]"
      using post_keys_new [OF new, of row'] pu(1,2) by simp
    have ids: "\<forall>k \<in> tids (posts_of u). k < fresh (pb_session u)"
      using ok pu(2,4) by (auto simp: pub_ok_def pid_def less_Suc_eq)
    have "pub_ok u"
      using ok pu(3) pku ids fresh_key pu(5) unfolding pub_ok_def
      by (elim conjE disjE) (auto simp: sent_key_def)
    with pku pu(5) fresh_key show ?thesis by auto
  qed
qed

lemma flow_success:
  assumes ok: "pub_ok s" and r: "publish_flow plat url publish inp s = (Inr out, u)"
    and no: "duplicates (pin_key inp) (posts_of s) = []"
  shows "\<exists>d row. tget (drafts (work (pb_session s))) (pin_draft_id inp) = Some d \<and>
    pb_sent u = pb_sent s @ [(plat, d_content d, pin_key inp)] \<and>
    tget (social_posts (committed (pb_session u))) (fresh (pb_session s)) = Some row \<and>
    duplicates (pin_key inp) (posts_of u) = [(fresh (pb_session s), row)] \<and>
    row = (new_post plat (pin_draft_id inp) d (pin_key inp) (fresh (pb_session s)))
      \<lparr>sp_external_id := Some (pout_post_id out), sp_execution_status := ExecSucceeded\<rparr> \<and>
    pout_url out = url (pout_post_id out)"
proof -
  define pid where "pid = fresh (pb_session s)"
  from r no obtain d where d: "tget (drafts (work (pb_session s))) (pin_draft_id inp) = Some d"
    by (cases "tget (drafts (work (pb_session s))) (pin_draft_id inp)")
      (auto simp: publish_flow_def bind_pub_session find_duplicate_run posts_of_def bind_get raiseE_def)
  define row where "row = new_post plat (pin_draft_id inp) d (pin_key inp) pid"
  have k: "keys_unique (social_posts (work (added pid row (pb_session s))))"
    using flow_clash [OF no d pid_def row_def] r by auto
  obtain q v where q: "publish (d_content d) (pin_key inp) (s\<lparr>pb_session := added pid row (pb_session s)\<rparr>) = (q, v)"
    by fastforce
  from flow_run [OF no d k pid_def row_def q] r obtain res where res: "q = Inr res"
    "out = \<lparr>pout_post_id = ap_external_id res, pout_url = ap_url res\<rparr>"
    "u = v\<lparr>pb_session := settled pid (row\<lparr>sp_external_id := Some (ap_external_id res),
          sp_execution_status := ExecSucceeded\<rparr>) ExecSucceeded (Some (ap_external_id res, ap_url res)) None
          (pb_session v)\<rparr>" by (cases q) auto
  have v: "pb_session v = added pid row (pb_session s)" using keeps_session [OF q] by simp
  let ?row = "row\<lparr>sp_external_id := Some (ap_external_id res), sp_execution_status := ExecSucceeded\<rparr>"
  have new: "pid \<notin> tids (posts_of s)" using ok by (auto simp: pub_ok_def pid_def)
  have posts: "posts_of u = posts_of s @ [(pid, ?row)]" "social_posts (committed (pb_session u)) = posts_of u"
    using res(3) v tput_new [OF new, of ?row] by (simp_all add: settled_def added_def posts_of_def Let_def)
  have "duplicates (pin_key inp) (posts_of u) = [(pid, ?row)]"
    using no posts(1) by (simp add: duplicates_def row_def new_post_def)
  moreover have "tget (social_posts (committed (pb_session u))) pid = Some ?row"
    unfolding posts(2) posts(1) tput_new [OF new, symmetric] by simp
  moreover have "pb_sent u = pb_sent s @ [(plat, d_content d, pin_key inp)]" "ap_url res = url (ap_external_id res)"
    using success_sends [OF q [unfolded res(1)]] url_of_id [OF q [unfolded res(1)]] res(3) by simp_all
  ultimately show ?thesis
    using d res(2) by (intro exI [of _ d] exI [of _ ?row]) (simp add: pid_def row_def)
qed

lemma flow_duplicate:
  assumes "duplicates (pin_key inp) (posts_of s) = [(k, p)]"
  shows "publish_flow plat url publish inp s =
    (Inr \<lparr>pout_post_id = (case sp_external_id p of None \<Rightarrow> [] | Some i \<Rightarrow> i),
          pout_url = url (show_opt (sp_external_id p))\<rparr>, s)"
  using assms by (simp add: publish_flow_def bind_pub_session find_duplicate_run posts_of_def retE_def)

lemma flow_repeat:
  assumes "pub_ok s" "publish_flow plat url publish inp s = (Inr out, u)"
    "duplicates (pin_key inp) (posts_of s) = []"
  shows "publish_flow plat url publish inp u = (Inr out, u)"
proof -
  from flow_success [OF assms] obtain row where row: "duplicates (pin_key inp) (posts_of u) = [(fresh (pb_session s), row)]"
    "sp_external_id row = Some (pout_post_id out)" "pout_url out = url (pout_post_id out)" by auto
  have "\<lparr>pout_post_id = pout_post_id out, pout_url = url (pout_post_id out)\<rparr> = out"
    using row(3) by simp
  then show ?thesis using flow_duplicate [OF row(1)] row(2) by (simp add: show_opt_def)
qed

end

section \<open>The tools and the routes\<close>

definition advances :: "platform \<Rightarrow> string \<Rightarrow> 'w pub \<Rightarrow> 'w pub \<Rightarrow> bool" where
  "advances plat key s u = (pub_ok u \<and> set (post_keys (posts_of s)) \<subseteq> set (post_keys (posts_of u)) \<and>
     (pb_sent u = pb_sent s \<or>
      (\<exists>c. pb_sent u = pb_sent s @ [(plat, c, key)]) \<and> key \<notin> set (post_keys (posts_of s))))"

lemma advances_refl: "pub_ok s \<Longrightarrow> advances plat key s s"
  by (simp add: advances_def)

lemma x_tool_advances: "pub_ok s \<Longrightarrow> advances X (pin_key inp) s (snd (x_publish_tool_execute h c inp s))"
  using x.flow_ok [OF _ prod.collapse [symmetric], of s h c inp]
  by (auto simp: x_publish_tool_execute_def raiseE_def advances_def)

lemma li_tool_advances: "pub_ok s \<Longrightarrow> advances LinkedIn (pin_key inp) s (snd (li_publish_tool_execute h c inp s))"
  using li.flow_ok [OF _ prod.collapse [symmetric], of s h c inp]
  by (auto simp: li_publish_tool_execute_def raiseE_def advances_def)

text \<open>Once a request for a key is out, the key has a post, so a retry sends nothing.\<close>

lemma advances_trans:
  assumes "advances plat key s t" "advances plat key t u"
  shows "advances plat key s u"
proof (cases "pb_sent t = pb_sent s")
  case True
  with assms show ?thesis by (auto simp: advances_def)
next
  case False
  then obtain c where c: "pb_sent t = pb_sent s @ [(plat, c, key)]" using assms(1) by (auto simp: advances_def)
  then have "key \<in> set (post_keys (posts_of t))"
    using assms(1) by (auto simp: advances_def pub_ok_def sent_key_def)
  then have "pb_sent u = pb_sent t" using assms(2) by (auto simp: advances_def)
  with c assms show ?thesis by (auto simp: advances_def)
qed

lemma advances_iter:
  assumes "\<And>s. pub_ok s \<Longrightarrow> advances plat key s (f s)" "pub_ok s"
  shows "advances plat key s ((f ^^ k) s)"
proof (induction k)
  case 0
  show ?case using assms(2) by (simp add: advances_refl)
next
  case (Suc k)
  then have "pub_ok ((f ^^ k) s)" by (simp add: advances_def)
  with Suc assms(1) show ?case by (auto intro: advances_trans)
qed

definition publish_registry ::
  "'w http \<Rightarrow> x_credentials \<Rightarrow> li_credentials \<Rightarrow> (publish_input, publish_output, 'w pub) registry" where
  "publish_registry h xc lc = register (li_publish_tool h lc) (register (x_publish_tool h xc) [])"

definition tool_name_of :: "platform \<Rightarrow> string" where
  "tool_name_of plat = (case plat of X \<Rightarrow> ''social_publish_x'' | LinkedIn \<Rightarrow> ''social_publish_linkedin'')"

lemma publish_lookup:
  "\<exists>t. registry_get (publish_registry h xc lc) (tool_name_of plat) = Inr t \<and>
     (\<forall>inp s. pub_ok s \<longrightarrow> advances plat (pin_key inp) s (snd (tool_execute t inp s)))"
proof (cases plat)
  case X
  then show ?thesis
    by (auto simp: publish_registry_def tool_name_of_def li_publish_tool_def x_publish_tool_def x_tool_advances)
next
  case LinkedIn
  then show ?thesis
    by (auto simp: publish_registry_def tool_name_of_def li_publish_tool_def x_publish_tool_def li_tool_advances)
qed

lemma execute_advances:
  fixes h :: "'w http"
  assumes "tenacity_contract rt" "pub_ok (eng_world s)"
  shows "advances plat (pin_key inp) (eng_world s)
    (eng_world (snd (execute rt clk (publish_registry h xc lc) (tool_name_of plat) inp c s)))"
proof -
  obtain t where t: "registry_get (publish_registry h xc lc) (tool_name_of plat) = Inr t"
    "\<And>s. pub_ok s \<Longrightarrow> advances plat (pin_key inp) s (snd (tool_execute t inp s))"
    using publish_lookup [of h xc lc plat] by blast
  show ?thesis
  proof (cases rule: execute_cases [of "publish_registry h xc lc" "tool_name_of plat" rt clk inp c s])
    case (limited t')
    with assms(2) show ?thesis by (simp add: advances_refl after_token_def)
  next
    case (granted t' row s1)
    then have "t' = t" using t(1) by simp
    with granted execute_world [OF assms(1) granted(1-3), of inp] obtain k where
      "eng_world (snd (execute rt clk (publish_registry h xc lc) (tool_name_of plat) inp c s)) =
        ((\<lambda>w. snd (tool_execute t inp w)) ^^ k) (eng_world s)" by blast
    with advances_iter [of plat "pin_key inp" "\<lambda>w. snd (tool_execute t inp w)" "eng_world s" k] t(2) assms(2)
    show ?thesis by simp
  qed (use assms(2) in \<open>simp_all add: advances_refl\<close>)
qed

lemma load_approved_draft_state: "snd (load_approved_draft rq x) = x"
  by (simp add: load_approved_draft_def get_approval_def op_defs split: option.splits)

lemma publish_route_run:
  "publish_route plat rt clk reg rq s =
    (case fst (load_approved_draft rq (pb_session (eng_world s))) of
      Inl e \<Rightarrow> (Inl e, s)
    | Inr d \<Rightarrow> (case execute rt clk reg (tool_name_of plat) \<lparr>pin_draft_id = pr_draft_id rq, pin_key = pr_key rq\<rparr>
          (Some (default_context\<lparr>ctx_approved_actions := {tool_name_of plat}\<rparr>)) s of
        (Inl e, u) \<Rightarrow> (Inl e, u)
      | (Inr r, u) \<Rightarrow> (Inr \<lparr>pres_platform = plat, pres_external_id = Some (pout_post_id (er_output r)),
             pres_key = pr_key rq, pres_content_hash = [], pres_status = ExecSucceeded\<rparr>, u)))"
  by (simp add: publish_route_def tool_name_of_def [symmetric] Let_def thenE_def bindE_def in_world_def
      pub_session_run load_approved_draft_state retE_def split: sum.splits prod.splits)

lemma publish_route_advances:
  fixes h :: "'w http"
  assumes "tenacity_contract rt" "pub_ok (eng_world s)"
  shows "advances plat (pr_key rq) (eng_world s)
    (eng_world (snd (publish_route plat rt clk (publish_registry h xc lc) rq s)))"
  using execute_advances [OF assms, of plat "\<lparr>pin_draft_id = pr_draft_id rq, pin_key = pr_key rq\<rparr>" clk h xc lc
      "Some (default_context\<lparr>ctx_approved_actions := {tool_name_of plat}\<rparr>)"] assms(2)
  by (auto simp: publish_route_run advances_refl split: sum.splits prod.splits)

text \<open>
  Requests served one after another: each has a session of its own on the committed
  database, so whatever a request left uncommitted is gone.
\<close>

definition reopen :: "'w publish_engine \<Rightarrow> 'w publish_engine" where
  "reopen s = s\<lparr>eng_world := (eng_world s)\<lparr>pb_session :=
     open_session (close_session (pb_session (eng_world s))) (fresh (pb_session (eng_world s)))\<rparr>\<rparr>"

fun serve_publish ::
  "('w pub, publish_output) retrier \<Rightarrow> (nat \<Rightarrow> rat) \<Rightarrow> (publish_input, publish_output, 'w pub) registry
   \<Rightarrow> (platform \<times> publish_request) list \<Rightarrow> 'w publish_engine \<Rightarrow> 'w publish_engine" where
  "serve_publish rt clk reg [] s = s"
| "serve_publish rt clk reg ((plat, rq) # rqs) s =
     serve_publish rt clk reg rqs (reopen (snd (publish_route plat rt clk reg rq s)))"

lemma reopen_ok: "pub_ok (eng_world s) \<Longrightarrow> pub_ok (eng_world (reopen s))"
  by (simp add: pub_ok_def reopen_def posts_of_def open_session_def close_session_def)

lemma serve_publish_ok:
  fixes h :: "'w http"
  assumes "tenacity_contract rt"
  shows "pub_ok (eng_world s) \<Longrightarrow> pub_ok (eng_world (serve_publish rt clk (publish_registry h xc lc) rqs s))"
proof (induction rqs arbitrary: s)
  case (Cons r rqs)
  obtain plat rq where r: "r = (plat, rq)" by (cases r)
  have "pub_ok (eng_world (snd (publish_route plat rt clk (publish_registry h xc lc) rq s)))"
    using publish_route_advances [OF assms Cons.prems] by (simp add: advances_def)
  from Cons.IH [OF reopen_ok [OF this]] r show ?case by simp
qed simp


section \<open>Properties\<close>

definition sample_http :: "nat http" where
  "sample_http = \<lparr>http_post = (\<lambda>u t p w. (Inr \<lparr>hr_status = 201, hr_restli_id = Some ''urn:7'',
       hr_body = Inr (JObj [(''data'', JObj [(''id'', JStr ''42'')])])\<rparr>, Suc w)),
     http_get = (\<lambda>u t w. (Inr \<lparr>hr_status = 200, hr_restli_id = None, hr_body = Inr (JObj [])\<rparr>, Suc w))\<rparr>"

definition failing_http :: "nat http" where
  "failing_http = sample_http\<lparr>http_post := (\<lambda>u t p w. (Inr \<lparr>hr_status = 500, hr_restli_id = None,
     hr_body = Inr JOther\<rparr>, Suc w))\<rparr>"

definition sample_x :: x_credentials where
  "sample_x = \<lparr>x_access_token = Some ''k'', x_bearer_token = None\<rparr>"

definition sample_li :: li_credentials where
  "sample_li = \<lparr>li_access_token = Some ''k'', li_author_urn = Some ''urn:me''\<rparr>"

definition sample_draft :: draft where
  "sample_draft = \<lparr>d_task_id = None, d_platform = X, d_content = ''hello'', d_status = DraftApproved\<rparr>"

definition sample_pub :: "nat pub" where
  "sample_pub = \<lparr>pb_session = open_session (empty_db\<lparr>drafts := [(3, sample_draft)],
     approvals := [(4, \<lparr>a_task_id = 1, a_action = ''x'', a_target = ''y'', a_risk_level = ''high'', a_reason = None,
       a_status = Approved, a_decided_by = None, a_created_at = 4\<rparr>)]\<rparr>) 9, pb_world = 0, pb_sent = []\<rparr>"

definition sample_input :: publish_input where
  "sample_input = \<lparr>pin_draft_id = 3, pin_key = ''key''\<rparr>"

lemma sample_pub_ok: "pub_ok sample_pub"
  by (simp add: pub_ok_def sample_pub_def posts_of_def open_session_def empty_db_def post_keys_def tids_def)

lemma sample_pub_simps:
  "posts_of sample_pub = []" "tget (drafts (work (pb_session sample_pub))) 3 = Some sample_draft"
  "fresh (pb_session sample_pub) = 9" "pb_sent sample_pub = []"
  by (simp_all add: sample_pub_def posts_of_def open_session_def empty_db_def tget_def)

definition publish_engine_of :: "nat pub \<Rightarrow> nat publish_engine" where
  "publish_engine_of p = \<lparr>eng_has_session = True, eng_limiter = \<lparr>rl_rpm = 60, rl_refill_rate = 1,
     rl_max_tokens = 60, rl_tokens = Map.empty, rl_last_refill = Map.empty\<rparr>, eng_calls = [], eng_fresh = 0,
     eng_clock = 0, eng_world = p\<rparr>"

text \<open>A retrier that keeps tenacity's contract.\<close>

fun plain_retry :: "('s, 'o) retrier" where
  "plain_retry 0 p m s = m s"
| "plain_retry (Suc n) p m s = (case m s of
      (Inr x, t) \<Rightarrow> (Inr x, t)
    | (Inl e, t) \<Rightarrow> if \<not> p e then (Inl e, t)
        else if n = 0 then (Inl (py_error TenacityRetryError ''{}'' [AMsg (exn_msg e)]), t)
        else plain_retry n p m t)"

lemma plain_retry_contract: "tenacity_contract plain_retry"
  unfolding tenacity_contract_def
proof (intro allI impI)
  fix n :: nat and p m s assume "0 < n"
  then obtain k where "n = Suc k" by (cases n) auto
  then show "plain_retry n p m s = (case m s of
      (Inr x, t) \<Rightarrow> (Inr x, t)
    | (Inl e, t) \<Rightarrow> if \<not> p e then (Inl e, t)
        else if n = 1 then (Inl (py_error TenacityRetryError ''{}'' [AMsg (exn_msg e)]), t)
        else plain_retry (n - 1) p m t)" by (simp split: prod.splits sum.splits)
qed

text \<open>
  C4. At most one publication per idempotency key: however many publish requests the
  routes serve, for either platform, with the engine's retries and with any answers of the
  platforms, at most one publish request leaves for each key.
\<close>

theorem publish_at_most_once:
  assumes "tenacity_contract rt" "pub_ok (eng_world s)"
  shows "distinct (map sent_key (pb_sent (eng_world (serve_publish rt clk (publish_registry h xc lc) rqs s))))"
  using serve_publish_ok [OF assms] by (simp add: pub_ok_def)

definition two_requests :: "(platform \<times> publish_request) list" where
  "two_requests = [(X, \<lparr>pr_draft_id = 3, pr_approval_id = 4, pr_key = ''key''\<rparr>),
     (X, \<lparr>pr_draft_id = 3, pr_approval_id = 4, pr_key = ''key''\<rparr>)]"

theorem publish_at_most_once_witness:
  "distinct (map sent_key (pb_sent (eng_world (serve_publish plain_retry of_nat
     (publish_registry failing_http sample_x sample_li) two_requests (publish_engine_of sample_pub)))))"
  by (rule publish_at_most_once [OF plain_retry_contract]) (simp add: publish_engine_of_def sample_pub_ok)


lemma sample_adapter:
  "x_publish sample_http sample_x content key s = (Inr \<lparr>ap_external_id = ''42'', ap_url = x_url ''42''\<rparr>,
     s\<lparr>pb_world := Suc (pb_world s), pb_sent := pb_sent s @ [(X, content, key)]\<rparr>)"
  by (simp add: x_publish_def thenE_def bindE_def liftE_def x_require_credentials_def truthy_def sample_x_def
      x_headers_def log_sent_def modE_def pub_world_def sample_http_def x_published_def bindR_def
      json_get_def json_text_def)

lemma sample_publishes:
  "\<exists>out u. x_publish_tool_execute sample_http sample_x sample_input sample_pub = (Inr out, u)"
proof -
  let ?row = "new_post X (pin_draft_id sample_input) sample_draft (pin_key sample_input) 9"
  have 1: "duplicates (pin_key sample_input) (posts_of sample_pub) = []"
    by (simp add: sample_pub_simps duplicates_def)
  have 2: "tget (drafts (work (pb_session sample_pub))) (pin_draft_id sample_input) = Some sample_draft"
    by (simp add: sample_pub_simps sample_input_def)
  have 3: "keys_unique (social_posts (work (added 9 ?row (pb_session sample_pub))))"
    using sample_pub_simps(1) by (simp add: keys_unique_def added_def posts_of_def tput_def)
  have 4: "9 = fresh (pb_session sample_pub)" by (simp add: sample_pub_simps)
  have "x_publish_tool_execute sample_http sample_x sample_input sample_pub =
    publish_flow X x_url (x_publish sample_http sample_x) sample_input sample_pub"
    by (simp add: x_publish_tool_execute_def truthy_def sample_x_def)
  with x.flow_run [OF 1 2 3 4 refl sample_adapter] show ?thesis by auto
qed



text \<open>
  Publishing again is harmless: repeating a successful publication with the same
  input returns the same answer and changes nothing, on either platform.
\<close>

theorem publish_repeat:
  assumes "pub_ok s" "x_publish_tool_execute h c inp s = (Inr out, u)"
    "duplicates (pin_key inp) (posts_of s) = []"
  shows "x_publish_tool_execute h c inp u = (Inr out, u)"
proof -
  have e: "x_publish_tool_execute h c inp = publish_flow X x_url (x_publish h c) inp"
    using assms(2) by (auto simp: x_publish_tool_execute_def raiseE_def split: if_splits)
  show ?thesis using x.flow_repeat [OF assms(1) assms(2) [unfolded e] assms(3)] by (simp add: e)
qed

theorem publish_repeat_witness:
  "\<exists>out u. x_publish_tool_execute sample_http sample_x sample_input sample_pub = (Inr out, u) \<and>
    x_publish_tool_execute sample_http sample_x sample_input u = (Inr out, u)"
proof -
  obtain out u where r: "x_publish_tool_execute sample_http sample_x sample_input sample_pub = (Inr out, u)"
    using sample_publishes by blast
  have "duplicates (pin_key sample_input) (posts_of sample_pub) = []"
    by (simp add: sample_pub_simps duplicates_def)
  from publish_repeat [OF sample_pub_ok r this] r show ?thesis by auto
qed

text \<open>
  A key is spent by its first attempt: when a post with the key exists that did not
  succeed, a further publication fails on the unique constraint before anything is sent, so
  a failed publication cannot be retried under its key.
\<close>

theorem publish_key_spent:
  assumes "pub_ok s" "li_publish_tool_execute h c inp s = (r, u)" "truthy (li_access_token c)"
    "pin_key inp \<in> set (post_keys (posts_of s))" "duplicates (pin_key inp) (posts_of s) = []"
    "tget (drafts (work (pb_session s))) (pin_draft_id inp) = Some d"
  shows "(\<exists>e. r = Inl e \<and> exn_class e = DbIntegrityError) \<and> pb_sent u = pb_sent s \<and> posts_of u = posts_of s"
proof -
  define row where "row = new_post LinkedIn (pin_draft_id inp) d (pin_key inp) (fresh (pb_session s))"
  have new: "fresh (pb_session s) \<notin> tids (posts_of s)" using assms(1) by (auto simp: pub_ok_def)
  have "sp_idempotency_key row = pin_key inp" by (simp add: row_def new_post_def)
  with assms(4) post_keys_new [OF new, of row]
  have "\<not> keys_unique (social_posts (work (added (fresh (pb_session s)) row (pb_session s))))"
    by (simp add: keys_unique_post_keys added_def posts_of_def)
  from li.flow_clash [OF assms(5,6) refl row_def this, of h c] assms(1,2,3) show ?thesis
    by (auto simp: li_publish_tool_execute_def pub_ok_def posts_of_def)
qed

definition spent_post :: social_post where
  "spent_post = (new_post LinkedIn 3 sample_draft ''key'' 5)\<lparr>sp_execution_status := ExecFailed\<rparr>"

definition spent_pub :: "nat pub" where
  "spent_pub = sample_pub\<lparr>pb_session :=
     open_session ((work (pb_session sample_pub))\<lparr>social_posts := [(5, spent_post)]\<rparr>) 9\<rparr>"

lemma spent_post: "sp_idempotency_key spent_post = ''key''" "sp_execution_status spent_post = ExecFailed"
  by (simp_all add: spent_post_def new_post_def)

lemma spent_session:
  "posts_of spent_pub = [(5, spent_post)]" "social_posts (committed (pb_session spent_pub)) = [(5, spent_post)]"
  "pb_sent spent_pub = []" "fresh (pb_session spent_pub) = 9"
  "drafts (work (pb_session spent_pub)) = drafts (work (pb_session sample_pub))"
  by (simp_all add: spent_pub_def posts_of_def open_session_def sample_pub_def)

lemma spent_facts:
  "pub_ok spent_pub" "pin_key sample_input \<in> set (post_keys (posts_of spent_pub))"
  "duplicates (pin_key sample_input) (posts_of spent_pub) = []"
  "tget (drafts (work (pb_session spent_pub))) (pin_draft_id sample_input) = Some sample_draft"
  using sample_pub_simps(2)
  by (simp_all add: pub_ok_def spent_session post_keys_def tids_def duplicates_def spent_post sample_input_def)

theorem publish_key_spent_witness:
  "pb_sent (snd (li_publish_tool_execute sample_http sample_li sample_input spent_pub)) = pb_sent spent_pub"
  using publish_key_spent [OF spent_facts(1) prod.collapse [symmetric] _ spent_facts(2-4), of sample_li sample_http]
  by (simp add: sample_li_def truthy_def)

text \<open>
  C24. What the publish routes check: the request passes exactly when the draft exists and
  the approval it names is approved. Neither the approval's task, its action nor the draft's
  own status enter; and without an approved approval nothing is sent and nothing changes.
\<close>

theorem publish_route_gate:
  "((\<exists>d. load_approved_draft rq x = (Inr d, x)) \<longleftrightarrow>
     tget (drafts (work x)) (pr_draft_id rq) \<noteq> None \<and>
     (\<exists>a. tget (approvals (work x)) (pr_approval_id rq) = Some a \<and> a_status a = Approved)) \<and>
   (pb_session (eng_world s) = x \<and> \<not> (\<exists>d. load_approved_draft rq x = (Inr d, x)) \<longrightarrow>
     snd (publish_route plat rt clk reg rq s) = s)"
proof -
  have "(\<exists>d. load_approved_draft rq x = (Inr d, x)) \<longleftrightarrow>
     tget (drafts (work x)) (pr_draft_id rq) \<noteq> None \<and>
     (\<exists>a. tget (approvals (work x)) (pr_approval_id rq) = Some a \<and> a_status a = Approved)"
    by (auto simp: load_approved_draft_def get_approval_def op_defs split: option.splits)
  moreover have "snd (publish_route plat rt clk reg rq s) = s"
    if "pb_session (eng_world s) = x" "\<not> (\<exists>d. load_approved_draft rq x = (Inr d, x))"
    using that load_approved_draft_state [of rq x]
    by (cases "load_approved_draft rq x") (auto simp: publish_route_run split: sum.splits)
  ultimately show ?thesis by blast
qed

theorem publish_route_gate_witness:
  "snd (publish_route X plain_retry of_nat (publish_registry sample_http sample_x sample_li)
     \<lparr>pr_draft_id = 3, pr_approval_id = 99, pr_key = ''key''\<rparr> (publish_engine_of sample_pub)) = publish_engine_of sample_pub"
proof -
  let ?rq = "\<lparr>pr_draft_id = 3, pr_approval_id = 99, pr_key = ''key''\<rparr>"
  have "tget (approvals (work (pb_session sample_pub))) 99 = None"
    by (simp add: sample_pub_def open_session_def empty_db_def tget_def)
  with publish_route_gate [of ?rq "pb_session sample_pub" "publish_engine_of sample_pub" X plain_retry of_nat
      "publish_registry sample_http sample_x sample_li"]
  show ?thesis by (simp add: publish_engine_of_def)
qed

section \<open>Verification\<close>

lemma verify_frame:
  "verify_x h c ext s = (r, v) \<Longrightarrow> pb_session v = pb_session s \<and> pb_sent v = pb_sent s"
  "verify_linkedin h lc ext s = (r, v) \<Longrightarrow> pb_session v = pb_session s \<and> pb_sent v = pb_sent s"
  by (auto simp: verify_x_def verify_linkedin_def x_verify_def li_verify_def retE_def bindE_def liftE_def
      split: if_splits option.splits sum.splits prod.splits dest!: pub_world_frame)

text \<open>
  Verification re-fetches and records: for a known post the tool always answers, the
  answer is verified exactly when the platform confirms the post and the stored hash is
  the expected one, and the committed post and a new verification row carry that answer.
  A failure of the platform counts as not verified.
\<close>

theorem verify_outcome:
  assumes "filter (\<lambda>(k, p). sp_external_id p = Some (vin_post_id inp)) (posts_of s) = [(pid, p)]"
    "(case vin_platform inp of X \<Rightarrow> verify_x h xc (sp_external_id p)
      | LinkedIn \<Rightarrow> verify_linkedin h lc (sp_external_id p)) s = (r, v)"
    "st = (if (\<exists>d. r = Inr (True, d)) \<and> sp_content_hash p = vin_expected_hash inp then Verified else VerifFailed)"
  shows "\<exists>out u. social_verify_execute h xc lc inp s = (Inr out, u) \<and> vout_status out = st \<and>
    tget (social_posts (committed (pb_session u))) pid = Some (p\<lparr>sp_verification_status := st\<rparr>) \<and>
    (\<exists>vid. tget (verification_results (committed (pb_session u))) vid = Some \<lparr>vr_social_post_id = pid, vr_status = st\<rparr>) \<and>
    pb_sent u = pb_sent s"
proof -
  have f: "find_post (vin_post_id inp) (pb_session s) = (Inr (pid, p), pb_session s)"
    using assms(1) by (simp add: find_post_def posts_of_def op_defs)
  have v: "pb_session v = pb_session s" "pb_sent v = pb_sent s"
    using assms(2) verify_frame(1) [of h xc "sp_external_id p" s r v]
      verify_frame(2) [of h lc "sp_external_id p" s r v]
    by (simp_all split: platform.splits)
  obtain ok details where od: "(case r of Inr a \<Rightarrow> a
      | Inl e \<Rightarrow> (False, [(''error'', Msg ''Verification request failed: {}'' [AMsg (exn_msg e)])])) = (ok, details)"
    by fastforce
  have "ok \<longleftrightarrow> (\<exists>d. r = Inr (True, d))" using od by (cases r) auto
  then have st: "(if ok \<and> sp_content_hash p = vin_expected_hash inp then Verified else VerifFailed) = st"
    using assms(3) by simp
  let ?x = "pb_session s"
  let ?w = "(work ?x)\<lparr>social_posts := tput pid (p\<lparr>sp_verification_status := st\<rparr>) (social_posts (work ?x)),
     verification_results := tput (fresh ?x) \<lparr>vr_social_post_id = pid, vr_status = st\<rparr> (verification_results (work ?x))\<rparr>"
  let ?out = "\<lambda>d. \<lparr>vout_status = st, vout_details = d\<rparr>"
  have store: "thenE (pub_session (put_post pid (p\<lparr>sp_verification_status := st\<rparr>)))
        (bindE (pub_session uuid4) (\<lambda>vid.
         thenE (pub_session (put_verification vid \<lparr>vr_social_post_id = pid, vr_status = st\<rparr>))
         (thenE (pub_session commit) (retE (?out d))))) v =
      (Inr (?out d), v\<lparr>pb_session := ?x\<lparr>fresh := Suc (fresh ?x), work := ?w, committed := ?w\<rparr>\<rparr>)" for d
    using v(1)
    by (simp add: thenE_def bind_pub_session pub_session_run session_ops modE_def retE_def bindE_def)
  have s: "s\<lparr>pb_session := ?x\<rparr> = s" by simp
  have "\<exists>d. social_verify_execute h xc lc inp s =
      (Inr (?out d), v\<lparr>pb_session := ?x\<lparr>fresh := Suc (fresh ?x), work := ?w, committed := ?w\<rparr>\<rparr>)"
    unfolding social_verify_execute_def bind_pub_session f prod.case sum.case bind_try s assms(2)
      Let_def od st store by blast
  then obtain d where "social_verify_execute h xc lc inp s =
      (Inr (?out d), v\<lparr>pb_session := ?x\<lparr>fresh := Suc (fresh ?x), work := ?w, committed := ?w\<rparr>\<rparr>)" by blast
  then show ?thesis using v(2)
    by (intro exI conjI) (assumption, simp, simp, auto intro: exI [of _ "fresh ?x"])
qed


definition posted_pub :: "nat pub" where
  "posted_pub = sample_pub\<lparr>pb_session := open_session ((work (pb_session sample_pub))\<lparr>social_posts :=
     [(5, spent_post\<lparr>sp_platform := X, sp_external_id := Some ''42''\<rparr>)]\<rparr>) 9\<rparr>"

theorem verify_outcome_witness:
  "\<exists>out u. social_verify_execute sample_http sample_x sample_li
      \<lparr>vin_platform = X, vin_post_id = ''42'', vin_expected_hash = ''other''\<rparr> posted_pub = (Inr out, u) \<and>
    vout_status out = VerifFailed"
proof -
  let ?inp = "\<lparr>vin_platform = X, vin_post_id = ''42'', vin_expected_hash = ''other''\<rparr>"
  let ?p = "spent_post\<lparr>sp_platform := X, sp_external_id := Some ''42''\<rparr>"
  have f: "filter (\<lambda>(k, p). sp_external_id p = Some (vin_post_id ?inp)) (posts_of posted_pub) = [(5, ?p)]"
    by (simp add: posted_pub_def posts_of_def open_session_def)
  have "length (sp_content_hash ?p) = 64"
    by (simp add: spent_post_def new_post_def content_hash_def length_sha256_hex)
  then have "sp_content_hash ?p \<noteq> ''other''" by auto
  moreover obtain r v where "(case vin_platform ?inp of X \<Rightarrow> verify_x sample_http sample_x (sp_external_id ?p)
      | LinkedIn \<Rightarrow> verify_linkedin sample_http sample_li (sp_external_id ?p)) posted_pub = (r, v)"
    by fastforce
  ultimately show ?thesis using verify_outcome [OF f _ refl] by fastforce
qed

end
