(* ===== verification/Research_Properties.thy ===== *)
theory Research_Properties
  imports Research "HOL-Library.Multiset"
begin

text \<open>
  What research guarantees: how hosts are classified, in which order sources are tried, what
  is extracted from a page, which claims end as disputed and what a report contains.
\<close>

section \<open>Classification\<close>

lemma re_search_at_Some:
  "re_search_at r b s = Some m \<Longrightarrow> \<exists>u v i. s = u @ v \<and> m = take i v \<and> i \<in> set (mt r (rev u @ b) v)"
proof (induction r b s rule: re_search_at.induct)
  case (1 r b)
  then show ?case by (intro exI [of _ "[]"]) (auto split: list.splits)
next
  case (2 r b c s)
  show ?case
  proof (cases "mt r b (c # s)")
    case Nil
    with 2 obtain u v i where "s = u @ v" "m = take i v" "i \<in> set (mt r (rev u @ c # b) v)" by auto
    then show ?thesis by (intro exI [of _ "c # u"] exI [of _ v] exI [of _ i]) simp
  next
    case (Cons i is')
    with 2(2) show ?thesis by (intro exI [of _ "[]"] exI [of _ "c # s"] exI [of _ i]) auto
  qed
qed

lemma mem_mt_Plus_first: "i \<in> set (mt (Plus (Ch p)) b s) \<Longrightarrow> 0 < i \<and> s \<noteq> [] \<and> p (hd s)"
  unfolding Plus_def mem_mt_Seq Bex_def by (cases s) (auto split: if_splits)

lemma last_suffix_hd: "last_suffix host \<noteq> [] \<Longrightarrow> suffix_char (hd (last_suffix host))"
proof -
  assume ne: "last_suffix host \<noteq> []"
  then obtain m where m: "re_search SUFFIX_RE host = Some m" "last_suffix host = m"
    by (auto simp: last_suffix_def split: option.splits)
  then obtain u v i where i: "m = take i v" "i \<in> set (mt SUFFIX_RE (rev u) v)"
    using re_search_at_Some [of SUFFIX_RE "[]" host m] by (auto simp: re_search_def)
  from i(2) obtain j where "j \<in> set (mt (Plus (Ch suffix_char)) (rev u) v)"
    unfolding SUFFIX_RE_def mem_mt_Seq by blast
  then have "v \<noteq> []" "suffix_char (hd v)" using mem_mt_Plus_first by blast+
  with i(1) m(2) ne show ?thesis by (cases i; cases v) auto
qed

text \<open>
  The disposable top-level domains have no effect: the suffix that is looked up in them
  never begins with a dot, so a host is a community source exactly when one of the keywords
  occurs in it and no earlier rule applies.
\<close>

theorem community_by_keyword:
  "last_suffix host \<notin> COMMUNITY_TLDS \<and>
   (classify_host host = Community \<longleftrightarrow>
      list_ex (\<lambda>k. py_in k host) COMMUNITY_HOST_KEYWORDS \<and>
      \<not> list_ex (\<lambda>k. py_in k host) SECONDARY_HOST_KEYWORDS \<and>
      classify_host host \<notin> {Primary, Official})"
proof -
  have "\<not> suffix_char (CHR ''.'')" by (simp add: suffix_char_def char_class_defs)
  then have "last_suffix host \<notin> COMMUNITY_TLDS"
    using last_suffix_hd [of host] by (auto simp: COMMUNITY_TLDS_def)
  then show ?thesis by (simp add: classify_host_def)
qed

section \<open>Ranking\<close>

lemma freshness_pos: "published \<noteq> None \<longleftrightarrow> 0 < freshness_score now published"
  by (cases published) (simp_all add: freshness_score_def)

lemma freshness_le:
  assumes "freshness_score now (Some s) \<le> freshness_score now (Some t)"
  shows "s \<le> t \<or> now \<le> t"
proof -
  have "- (max 0 (of_rat ((now - s) / 86400))) / HALFLIFE_DAYS \<le> - (max 0 (of_rat ((now - t) / 86400))) / HALFLIFE_DAYS"
    using assms by (simp add: freshness_score_def)
  then have "max 0 (of_rat ((now - t) / 86400)) \<le> max 0 (of_rat ((now - s) / 86400) :: real)"
    by (simp add: HALFLIFE_DAYS_def)
  then have "(now - t) / 86400 \<le> 0 \<or> (now - t) / 86400 \<le> (now - s) / 86400"
  proof (cases "(now - t) / 86400 \<le> 0")
    case False
    then have "0 < (of_rat ((now - t) / 86400) :: real)" by simp
    with \<open>max 0 _ \<le> max 0 _\<close> have "(of_rat ((now - t) / 86400) :: real) \<le> of_rat ((now - s) / 86400)"
      by (simp only: max_def split: if_splits)
    then show ?thesis by (simp only: of_rat_less_eq simp_thms)
  qed simp
  then show ?thesis by (auto simp: field_simps)
qed

text \<open>What comes first within a rank: undated sources, then the older ones.\<close>

definition staler :: "rat \<Rightarrow> source \<Rightarrow> source \<Rightarrow> bool" where
  "staler now a b = (case (src_published a, src_published b) of
      (None, _) \<Rightarrow> True
    | (Some s, Some t) \<Rightarrow> s \<le> t \<or> now \<le> t
    | _ \<Rightarrow> False)"

text \<open>
  The ranking keeps every source and puts better types first, but within a type it
  puts the stalest first: undated sources lead, and an older one precedes a newer one.
\<close>

theorem stalest_first:
  "mset (sort_by_confidence_and_freshness now sources) = mset sources \<and>
   sorted_wrt (\<lambda>a b. source_rank (src_type a) < source_rank (src_type b) \<or>
       (src_type a = src_type b \<and> staler now a b)) (sort_by_confidence_and_freshness now sources)"
proof
  let ?k = "\<lambda>s. (source_rank (src_type s), freshness_score now (src_published s))"
  have rank_inj: "source_rank x = source_rank y \<Longrightarrow> x = y" for x y by (cases x; cases y) simp_all
  have step: "source_rank (src_type a) < source_rank (src_type b) \<or> (src_type a = src_type b \<and> staler now a b)"
    if "?k a \<le> ?k b" for a b
  proof (cases "source_rank (src_type a) < source_rank (src_type b)")
    case False
    with that have "src_type a = src_type b" and f: "freshness_score now (src_published a) \<le> freshness_score now (src_published b)"
      by (auto simp: less_eq_prod_def intro: rank_inj)
    moreover have "staler now a b"
      using f freshness_pos [of "src_published a" now] freshness_pos [of "src_published b" now] freshness_le [of now]
      by (cases "src_published a"; cases "src_published b") (auto simp: staler_def)
    ultimately show ?thesis by blast
  qed simp
  have "sorted_wrt (\<lambda>a b. ?k a \<le> ?k b) (sort_key ?k sources)"
    using sorted_sort_key [of ?k sources] by (simp add: sorted_map)
  then show "sorted_wrt (\<lambda>a b. source_rank (src_type a) < source_rank (src_type b) \<or>
       (src_type a = src_type b \<and> staler now a b)) (sort_by_confidence_and_freshness now sources)"
    unfolding sort_by_confidence_and_freshness_def by (rule sorted_wrt_mono_rel [rotated]) (rule step)
  show "mset (sort_by_confidence_and_freshness now sources) = mset sources"
    by (simp add: sort_by_confidence_and_freshness_def)
qed

section \<open>Extraction\<close>

lemma pure_lit_ic [simp]: "pure_re (lit_ic s)"
  by (induction s rule: lit_ic.induct) simp_all

lemma pure_lit [simp]: "pure_re (lit s)"
  by (induction s rule: lit.induct) simp_all

lemma pure_patterns: "r \<in> set PURE_PATTERNS \<Longrightarrow> pure_re r"
  by (auto simp: PURE_PATTERNS_def SPACES_def TAG_def Plus_def Opt_def)

lemma not_injected_infix:
  assumes "\<not> looks_injected s" "r \<in> set PURE_PATTERNS" "take n s = u @ w @ v"
  shows "w \<notin> lang r"
proof
  assume "w \<in> lang r"
  moreover have "s = u @ w @ (v @ drop n s)" using assms(3) append_take_drop_id [of n s] by simp
  ultimately have "re_search r s \<noteq> None" using re_search_iff [OF pure_patterns [OF assms(2)], of s] by blast
  with assms(1,2) show False by (auto simp: looks_injected_def list_ex_iff)
qed


section \<open>Cross-checking\<close>

lemma contradicts_sym: "contradicts a b \<longleftrightarrow> contradicts b a"
  by (auto simp: contradicts_def overlaps_def consistent_def jaccard_def Let_def Int_commute Un_commute)

lemma contradicts_evidence: "contradicts a b \<Longrightarrow> cm_evidence b \<noteq> []"
  by (auto simp: contradicts_def consistent_def Let_def tokens_of_def py_lower_def re_findall_def)

text \<open>Two claims of different pages that contradict each other; cross-checking never changes it.\<close>

definition conflict :: "claim \<Rightarrow> claim \<Rightarrow> bool" where
  "conflict a b = (src_url (cm_source a) \<noteq> src_url (cm_source b) \<and> contradicts a b)"

lemma conflict_sym: "conflict a b \<longleftrightarrow> conflict b a"
  using contradicts_sym by (auto simp: conflict_def)

definition same_claim :: "claim \<Rightarrow> claim \<Rightarrow> bool" where
  "same_claim a b = (a\<lparr>cm_against := None\<rparr> = b\<lparr>cm_against := None\<rparr>)"

lemma same_claim_refl [simp]: "same_claim a a"
  by (simp add: same_claim_def)

lemma same_claim_sel:
  "same_claim a b \<Longrightarrow> cm_claim a = cm_claim b \<and> cm_source a = cm_source b \<and> cm_evidence a = cm_evidence b \<and>
     cm_confidence a = cm_confidence b"
  by (cases a; cases b) (simp add: same_claim_def)

lemma conflict_same: "same_claim a a' \<Longrightarrow> same_claim b b' \<Longrightarrow> conflict a b \<longleftrightarrow> conflict a' b'"
  by (auto dest!: same_claim_sel simp: conflict_def contradicts_def)

text \<open>
  The claims \<open>xs\<close> reached from \<open>cs\<close>: what was disputed stays, and what became disputed has the
  evidence of a conflicting claim.
\<close>

definition explained :: "claim list \<Rightarrow> claim list \<Rightarrow> bool" where
  "explained cs xs = (length xs = length cs \<and> (\<forall>i < length cs. same_claim (xs ! i) (cs ! i) \<and>
     (cm_against (xs ! i) = cm_against (cs ! i) \<or>
      (\<not> has_conflicting_evidence (cs ! i) \<and> has_conflicting_evidence (xs ! i) \<and>
       (\<exists>j < length cs. conflict (cs ! i) (cs ! j) \<and> cm_against (xs ! i) = Some (cm_evidence (cs ! j)))))))"

lemma dispute_disputed: "i < length xs \<Longrightarrow> ev \<noteq> [] \<Longrightarrow> has_conflicting_evidence (dispute i ev xs ! i)"
  by (simp add: dispute_def has_conflicting_evidence_def truthy_def)

lemma dispute_length [simp]: "length (dispute i ev xs) = length xs"
  by (simp add: dispute_def)

lemma dispute_keeps: "has_conflicting_evidence (xs ! k) \<Longrightarrow> has_conflicting_evidence (dispute i ev xs ! k)"
  by (cases "k = i") (auto simp: dispute_def)

lemma dispute_explained:
  assumes "explained cs xs" "i < length cs" "j < length cs" "conflict (cs ! i) (cs ! j)"
  shows "explained cs (dispute i (cm_evidence (cs ! j)) xs)"
proof -
  have ev: "cm_evidence (cs ! j) \<noteq> []" using assms(4) contradicts_evidence by (auto simp: conflict_def)
  show ?thesis
  proof (cases "has_conflicting_evidence (xs ! i)")
    case False
    let ?xs = "xs[i := (xs ! i)\<lparr>cm_against := Some (cm_evidence (cs ! j))\<rparr>]"
    have "\<not> has_conflicting_evidence (cs ! i)"
      using assms(1,2) False by (auto simp: explained_def has_conflicting_evidence_def)
    moreover have "same_claim (?xs ! i) (cs ! i)" "has_conflicting_evidence (?xs ! i)"
      using assms(1,2) ev by (auto simp: explained_def same_claim_def has_conflicting_evidence_def truthy_def)
    ultimately have "explained cs ?xs"
      using assms unfolding explained_def by (auto simp: nth_list_update)
    with False show ?thesis by (simp add: dispute_def)
  qed (use assms in \<open>simp add: dispute_def\<close>)
qed

lemma check_pair_explained:
  assumes x: "explained cs xs" and ij: "i < length cs" "j < length cs"
  shows "explained cs (check_pair i j xs) \<and>
    (\<forall>k. has_conflicting_evidence (xs ! k) \<longrightarrow> has_conflicting_evidence (check_pair i j xs ! k)) \<and>
    (i \<noteq> j \<and> conflict (cs ! i) (cs ! j) \<longrightarrow>
       has_conflicting_evidence (check_pair i j xs ! i) \<and> has_conflicting_evidence (check_pair i j xs ! j))"
proof -
  have same: "same_claim (xs ! i) (cs ! i)" "same_claim (xs ! j) (cs ! j)" and len: "length xs = length cs"
    using x ij by (auto simp: explained_def)
  have c: "conflict (xs ! i) (xs ! j) \<longleftrightarrow> conflict (cs ! i) (cs ! j)" using conflict_same [OF same] .
  show ?thesis
  proof (cases "i \<noteq> j \<and> conflict (cs ! i) (cs ! j)")
    case True
    let ?y = "dispute i (cm_evidence (cs ! j)) xs"
    have eq: "check_pair i j xs = dispute j (cm_evidence (cs ! i)) ?y"
      using True c same same_claim_sel by (auto simp: check_pair_def conflict_def)
    have "explained cs ?y" using dispute_explained [OF x ij] True by blast
    then have "explained cs (check_pair i j xs)"
      unfolding eq using dispute_explained [of cs ?y j i] ij True conflict_sym by blast
    moreover have "cm_evidence (cs ! j) \<noteq> []" "cm_evidence (cs ! i) \<noteq> []"
      using True contradicts_evidence contradicts_sym by (auto simp: conflict_def)
    then have "has_conflicting_evidence (?y ! i)" "has_conflicting_evidence (check_pair i j xs ! j)"
      unfolding eq using ij len by (auto intro!: dispute_disputed)
    ultimately show ?thesis unfolding eq using dispute_keeps by blast
  next
    case False
    then have "check_pair i j xs = xs" using c by (auto simp: check_pair_def conflict_def)
    with x False show ?thesis by (simp only:) blast
  qed
qed

lemma inner_explained:
  assumes "explained cs xs" "i < length cs" "set js \<subseteq> {..<length cs}"
  shows "explained cs (fold (check_pair i) js xs) \<and>
    (\<forall>k. has_conflicting_evidence (xs ! k) \<longrightarrow> has_conflicting_evidence (fold (check_pair i) js xs ! k)) \<and>
    (\<forall>j \<in> set js. i \<noteq> j \<and> conflict (cs ! i) (cs ! j) \<longrightarrow> has_conflicting_evidence (fold (check_pair i) js xs ! i))"
  using assms
proof (induction js arbitrary: xs)
  case (Cons j js)
  note p = check_pair_explained [OF Cons.prems(1,2), of j]
  from Cons.prems p have "explained cs (check_pair i j xs)" by auto
  from Cons.IH [OF this Cons.prems(2)] Cons.prems p show ?case by auto
qed simp

lemma outer_explained:
  assumes "explained cs xs" "set is' \<subseteq> {..<length cs}"
  shows "explained cs (fold (\<lambda>i. fold (check_pair i) [0..<length cs]) is' xs) \<and>
    (\<forall>k. has_conflicting_evidence (xs ! k) \<longrightarrow>
       has_conflicting_evidence (fold (\<lambda>i. fold (check_pair i) [0..<length cs]) is' xs ! k)) \<and>
    (\<forall>i \<in> set is'. \<forall>j < length cs. i \<noteq> j \<and> conflict (cs ! i) (cs ! j) \<longrightarrow>
       has_conflicting_evidence (fold (\<lambda>i. fold (check_pair i) [0..<length cs]) is' xs ! i))"
  using assms
proof (induction is' arbitrary: xs)
  case (Cons i is')
  note p = inner_explained [OF Cons.prems(1), of i "[0..<length cs]"]
  have "set [0..<length cs] \<subseteq> {..<length cs}" by auto
  note p = p [OF _ this]
  from Cons.prems p have "explained cs (fold (check_pair i) [0..<length cs] xs)" by auto
  from Cons.IH [OF this] Cons.prems p show ?case by auto
qed simp

lemma conflict_irrefl: "\<not> conflict a a"
  by (simp add: conflict_def)

lemma cross_check_marking:
  "length (cross_check cs) = length cs \<and>
   (\<forall>i < length cs. same_claim (cross_check cs ! i) (cs ! i) \<and>
     (has_conflicting_evidence (cross_check cs ! i) \<longleftrightarrow>
        has_conflicting_evidence (cs ! i) \<or> (\<exists>j < length cs. conflict (cs ! i) (cs ! j))) \<and>
     (has_conflicting_evidence (cross_check cs ! i) \<and> \<not> has_conflicting_evidence (cs ! i) \<longrightarrow>
        (\<exists>j < length cs. conflict (cs ! i) (cs ! j) \<and> cm_against (cross_check cs ! i) = Some (cm_evidence (cs ! j)))))"
proof -
  have start: "explained cs cs" by (simp add: explained_def)
  have "set [0..<length cs] \<subseteq> {..<length cs}" by auto
  note p = outer_explained [OF start this]
  then have e: "explained cs (cross_check cs)"
    and keep: "\<And>k. has_conflicting_evidence (cs ! k) \<Longrightarrow> has_conflicting_evidence (cross_check cs ! k)"
    by (auto simp: cross_check_def)
  have found: "has_conflicting_evidence (cross_check cs ! i)"
    if "i < length cs" "j < length cs" "conflict (cs ! i) (cs ! j)" for i j
  proof -
    have "i \<noteq> j" using that(3) conflict_irrefl by auto
    with p that show ?thesis by (simp add: cross_check_def)
  qed
  from e have len: "length (cross_check cs) = length cs" by (simp add: explained_def)
  have "same_claim (cross_check cs ! i) (cs ! i) \<and>
     (has_conflicting_evidence (cross_check cs ! i) \<longleftrightarrow>
        has_conflicting_evidence (cs ! i) \<or> (\<exists>j < length cs. conflict (cs ! i) (cs ! j))) \<and>
     (has_conflicting_evidence (cross_check cs ! i) \<and> \<not> has_conflicting_evidence (cs ! i) \<longrightarrow>
        (\<exists>j < length cs. conflict (cs ! i) (cs ! j) \<and> cm_against (cross_check cs ! i) = Some (cm_evidence (cs ! j))))"
    if i: "i < length cs" for i
    using e i keep [of i] found [OF i] unfolding explained_def has_conflicting_evidence_def by metis
  with len show ?thesis by blast
qed

text \<open>
  C16. Cross-checking marks exactly the claims in conflict: a claim ends disputed when it
  was so before or some claim of another page is about the same subject with other words; it
  then carries such a claim's evidence, and nothing else of any claim changes.
\<close>

theorem cross_check_marks:
  "length (cross_check cs) = length cs \<and>
   (\<forall>i < length cs. same_claim (cross_check cs ! i) (cs ! i) \<and>
     (has_conflicting_evidence (cross_check cs ! i) \<longleftrightarrow>
        has_conflicting_evidence (cs ! i) \<or> (\<exists>j < length cs. conflict (cs ! i) (cs ! j))) \<and>
     (has_conflicting_evidence (cross_check cs ! i) \<and> \<not> has_conflicting_evidence (cs ! i) \<longrightarrow>
        (\<exists>j < length cs. conflict (cs ! i) (cs ! j) \<and> cm_against (cross_check cs ! i) = Some (cm_evidence (cs ! j)))))"
  by (rule cross_check_marking)

definition sample_claim :: "string \<Rightarrow> string \<Rightarrow> string \<Rightarrow> claim" where
  "sample_claim url subject text = \<lparr>cm_claim = subject, cm_source = \<lparr>src_url = url, src_type = Unverified,
     src_title = None, src_published = None\<rparr>, cm_evidence = text, cm_confidence = 2 / 5, cm_against = None\<rparr>"

definition sample_claims :: "claim list" where
  "sample_claims = [sample_claim ''u'' ''sky'' ''blue'', sample_claim ''v'' ''sky'' ''red'']"

theorem cross_check_marks_witness:
  "has_conflicting_evidence (cross_check sample_claims ! 0) \<and>
   cm_against (cross_check sample_claims ! 0) = Some ''red''"
proof -
  have c: "contradicts (sample_claim ''u'' ''sky'' ''blue'') (sample_claim ''v'' ''sky'' ''red'')" by code_simp
  then have "conflict (sample_claims ! 0) (sample_claims ! 1)"
    by (simp add: conflict_def sample_claims_def) (simp add: sample_claim_def)
  moreover have "length sample_claims = 2" "\<not> has_conflicting_evidence (sample_claims ! 0)"
    by (simp_all add: sample_claims_def sample_claim_def has_conflicting_evidence_def truthy_def)
  ultimately have h: "has_conflicting_evidence (cross_check sample_claims ! 0)"
    and "\<exists>j < 2. conflict (sample_claims ! 0) (sample_claims ! j) \<and>
      cm_against (cross_check sample_claims ! 0) = Some (cm_evidence (sample_claims ! j))"
    using cross_check_marks [of sample_claims] by (metis One_nat_def lessI numeral_2_eq_2 zero_less_numeral)+
  then obtain j where j: "j < 2" "conflict (sample_claims ! 0) (sample_claims ! j)"
    "cm_against (cross_check sample_claims ! 0) = Some (cm_evidence (sample_claims ! j))" by blast
  then have "j = 1" using conflict_irrefl by (cases j) auto
  with h j(3) show ?thesis by (simp add: sample_claims_def) (simp add: sample_claim_def)
qed

section \<open>The report\<close>

lemma catch_outcome:
  "catchE m (\<lambda>e. retE d) s = (r, u) \<Longrightarrow> \<exists>x. r = Inr x \<and> (x = d \<or> m s = (Inr x, u))"
  by (auto simp: catchE_def retE_def split: prod.splits sum.splits)

lemma bind_run: "m s = (Inr x, t) \<Longrightarrow> bindE m f s = f x t"
  by (simp add: bindE_def)

lemma search_with_hits:
  assumes "search_with env name valid inp s = (Inr sources, u)"
  shows "valid \<and> list_all (\<lambda>x. src_type x = classify_source (src_url x) \<and> src_published x = None) sources"
  using assms
  by (auto simp: search_with_def bindE_def liftE_def retE_def raiseE_def source_of_hit_def classify_source_obj_def
      list_all_iff split: if_splits prod.splits sum.splits)

text \<open>What the search tools return has the class of its address and no date.\<close>

abbreviation undated_hits :: "source list \<Rightarrow> bool" where
  "undated_hits \<equiv> list_all (\<lambda>x. src_type x = classify_source (src_url x) \<and> src_published x = None)"

lemma sort_by_confidence:
  "set (sort_by_confidence_and_freshness now found) = set found"
  "sorted_wrt (\<lambda>a b. source_rank (src_type a) \<le> source_rank (src_type b)) (sort_by_confidence_and_freshness now found)"
  using sorted_sort_key [of "\<lambda>s. (source_rank (src_type s), freshness_score now (src_published s))" found]
  by (auto simp: sort_by_confidence_and_freshness_def sorted_map less_eq_prod_def elim!: sorted_wrt_mono_rel [rotated])

lemma fallback_hits:
  assumes first: "undated_hits first"
    and x: "(if b then catchE (search_with env tool valid arg) (\<lambda>e. retE []) else retE first) t = (r, t')"
  obtains found where "r = Inr found" "undated_hits found"
proof (cases b)
  case True
  with x catch_outcome [of "search_with env tool valid arg" "[]" t r t']
  obtain y where y: "r = Inr y" "y = [] \<or> search_with env tool valid arg t = (Inr y, t')" by auto
  from y(2) have "undated_hits y" using search_with_hits by (elim disjE) (simp, blast)
  with y(1) show thesis by (rule that)
next
  case False
  with x first show thesis by (auto simp: retE_def intro: that)
qed

lemma pipeline_search_hits:
  assumes "pipeline_search env now question s = (Inr sources, u)"
  shows "length sources \<le> rv_max_sources env \<and> 1 \<le> length question \<and> length question \<le> 500 \<and>
    list_all (\<lambda>x. src_type x = classify_source (src_url x) \<and> src_published x = None) sources \<and>
    sorted_wrt (\<lambda>a b. source_rank (src_type a) \<le> source_rank (src_type b)) sources"
proof -
  define web where "web = \<lparr>si_query = question, si_max_results = rv_max_results env\<rparr>"
  define lang where "lang = \<lparr>lq_query = question, lq_count = rv_max_results env, lq_freshness = ''noLimit'', lq_summary = False\<rparr>"
  obtain r t where w: "search_with env ''web_search'' (valid_search_input web) (SearchIn web) s = (r, t)"
    by (cases "search_with env ''web_search'' (valid_search_input web) (SearchIn web) s")
  with assms obtain first where r: "r = Inr first"
    by (cases r) (auto simp: pipeline_search_def Let_def bindE_def web_def)
  from search_with_hits [OF w [unfolded r]]
  have first: "list_all (\<lambda>x. src_type x = classify_source (src_url x) \<and> src_published x = None) first"
    and q: "1 \<le> length question" "length question \<le> 500" by (auto simp: valid_search_input_def web_def)
  define second where "second = (if first = [] \<and> registry_contains (rv_registry env) ''lang_search''
      then catchE (search_with env ''lang_search'' (valid_lang_input lang) (LangIn lang)) (\<lambda>e. retE [])
      else retE first)"
  obtain r' t' where x: "second t = (r', t')" by (cases "second t")
  from fallback_hits [OF first x [unfolded second_def]]
  obtain found where f: "r' = Inr found" "undated_hits found" .
  have run1: "bindE (search_with env ''web_search'' (valid_search_input web) (SearchIn web)) f s = f first t" for f
    by (rule bind_run) (simp add: w r)
  have run2: "bindE second f t = f found t'" for f by (rule bind_run) (simp add: x f(1))
  have "pipeline_search env now question s =
      (Inr (take (rv_max_sources env) (sort_by_confidence_and_freshness now found)), t')"
    unfolding pipeline_search_def Let_def web_def [symmetric] lang_def [symmetric]
    by (subst run1, unfold second_def [symmetric], subst run2) (simp add: retE_def)
  with assms have src: "sources = take (rv_max_sources env) (sort_by_confidence_and_freshness now found)" by simp
  have "set sources \<subseteq> set found" unfolding src by (metis set_take_subset sort_by_confidence(1))
  then show ?thesis using q f(2) sort_by_confidence(2) unfolding src by (auto simp: list_all_iff sorted_wrt_take)
qed

lemma extract_evidence_claims:
  assumes "extract_evidence env src s = (Inr cs, t)"
  shows "list_all (\<lambda>c. cm_source c = src \<and> cm_against c = None) cs"
proof -
  have "list_all (\<lambda>c. cm_source c = src \<and> cm_against c = None) (claims_of_page split src content)" for split content
    by (auto simp: claims_of_page_def list_all_iff)
  with assms show ?thesis
    by (auto simp: extract_evidence_def bindE_def raiseE_def retE_def Let_def
        split: if_splits prod.splits sum.splits research_output.splits)
qed

lemma collect_evidence_run:
  "\<exists>cs t. collect_evidence env ss s = (Inr cs, t) \<and>
     list_all (\<lambda>c. cm_source c \<in> set ss \<and> cm_against c = None) cs"
proof (induction ss arbitrary: s)
  case (Cons a ss)
  obtain r u where x: "catchE (extract_evidence env a) (\<lambda>e. retE []) s = (r, u)" by fastforce
  from catch_outcome [OF x] obtain cs where cs: "r = Inr cs"
    "cs = [] \<or> extract_evidence env a s = (Inr cs, u)" by blast
  from cs(2) have first: "list_all (\<lambda>c. cm_source c = a \<and> cm_against c = None) cs"
    using extract_evidence_claims by (elim disjE) (simp, blast)
  from Cons.IH [of u] obtain ds t where ds: "collect_evidence env ss u = (Inr ds, t)"
    "list_all (\<lambda>c. cm_source c \<in> set ss \<and> cm_against c = None) ds" by blast
  have "collect_evidence env (a # ss) s = (Inr (cs @ ds), t)"
    using x cs(1) ds(1) by (simp add: bindE_def retE_def)
  with first ds(2) show ?case by (auto simp: list_all_iff)
qed (simp add: retE_def)

lemma cross_checked:
  assumes "list_all (\<lambda>c. cm_source c \<in> S \<and> cm_against c = None) cs"
  shows "list_all (\<lambda>c. cm_source c \<in> S \<and> (has_conflicting_evidence c = list_ex (conflict c) (cross_check cs)))
    (cross_check cs)"
proof -
  note m = cross_check_marking [of cs]
  have "cm_source (cross_check cs ! i) \<in> S \<and>
      (has_conflicting_evidence (cross_check cs ! i) = list_ex (conflict (cross_check cs ! i)) (cross_check cs))"
    if i: "i < length cs" for i
  proof -
    have a: "cs ! i \<in> set cs" using i by simp
    with assms have "cm_source (cs ! i) \<in> S" "\<not> has_conflicting_evidence (cs ! i)"
      by (auto simp: list_all_iff has_conflicting_evidence_def truthy_def)
    moreover have "cm_source (cross_check cs ! i) = cm_source (cs ! i)"
      using m i same_claim_sel by blast
    moreover have "conflict (cross_check cs ! i) (cross_check cs ! j) = conflict (cs ! i) (cs ! j)"
      if "j < length cs" for j using conflict_same m i that by blast
    ultimately show ?thesis using m i by (auto simp: list_ex_length)
  qed
  with m show ?thesis by (simp add: list_all_length)
qed

lemma pipeline_run_report:
  assumes srch: "pipeline_search env now question s = (Inr sources, t)" "sources \<noteq> []"
  shows "\<exists>claims u. list_all (\<lambda>c. cm_source c \<in> set sources \<and> cm_against c = None) claims \<and>
    fst (pipeline_run env now question s) = (case fst (synthesize env (cross_check claims) u) of Inl e \<Rightarrow> Inl e
      | Inr summary \<Rightarrow> Inr \<lparr>rr_question = question, rr_summary = summary, rr_claims = cross_check claims,
          rr_sources = map src_url sources,
          rr_conflicts = map cm_claim (filter has_conflicting_evidence (cross_check claims))\<rparr>)"
proof -
  obtain claims u where c: "collect_evidence env sources t = (Inr claims, u)"
    "list_all (\<lambda>c. cm_source c \<in> set sources \<and> cm_against c = None) claims"
    using collect_evidence_run by blast
  have "pipeline_run env now question s = bindE (synthesize env (cross_check claims)) (\<lambda>summary.
       retE \<lparr>rr_question = question, rr_summary = summary, rr_claims = cross_check claims,
             rr_sources = map src_url sources,
             rr_conflicts = map cm_claim (filter has_conflicting_evidence (cross_check claims))\<rparr>) u"
    unfolding pipeline_run_def Let_def
    by (subst bindE_def, subst srch(1)) (simp add: srch(2), subst bindE_def, simp add: c(1))
  with c(2) show ?thesis
    by (intro exI [of _ claims] exI [of _ u]) (auto simp: bindE_def retE_def split: prod.splits sum.splits)
qed

text \<open>
  C17. A research report is consistent: it names at most the configured number of sources in
  the order of their class, every claim comes from one of them, a claim is disputed exactly
  when another claim of the report conflicts with it, and the conflicts are the disputed
  claims. A page that cannot be fetched never costs the report: an error is an error of the
  search or of the model that writes the summary.
\<close>

theorem research_report:
  "case fst (pipeline_run env now question s) of
     Inl e \<Rightarrow> fst (pipeline_search env now question s) = Inl e \<or> (\<exists>claims t. fst (synthesize env claims t) = Inl e)
   | Inr report \<Rightarrow> rr_question report = question \<and> length (rr_sources report) \<le> rv_max_sources env \<and>
       sorted_wrt (\<lambda>a b. source_rank (classify_source a) \<le> source_rank (classify_source b)) (rr_sources report) \<and>
       list_all (\<lambda>c. src_url (cm_source c) \<in> set (rr_sources report) \<and>
          (has_conflicting_evidence c = list_ex (conflict c) (rr_claims report))) (rr_claims report) \<and>
       rr_conflicts report = map cm_claim (filter has_conflicting_evidence (rr_claims report))"
proof -
  obtain r t where srch: "pipeline_search env now question s = (r, t)" by fastforce
  show ?thesis
  proof (cases r)
    case (Inl e)
    with srch show ?thesis by (simp add: pipeline_run_def bindE_def)
  next
    case (Inr sources)
    note hits = pipeline_search_hits [OF srch [unfolded Inr]]
    show ?thesis
    proof (cases "sources = []")
      case True
      with srch Inr show ?thesis by (simp add: pipeline_run_def bindE_def retE_def)
    next
      case False
      obtain claims u where c: "list_all (\<lambda>c. cm_source c \<in> set sources \<and> cm_against c = None) claims"
        and run: "fst (pipeline_run env now question s) = (case fst (synthesize env (cross_check claims) u) of
          Inl e \<Rightarrow> Inl e
        | Inr summary \<Rightarrow> Inr \<lparr>rr_question = question, rr_summary = summary, rr_claims = cross_check claims,
          rr_sources = map src_url sources,
          rr_conflicts = map cm_claim (filter has_conflicting_evidence (cross_check claims))\<rparr>)"
        using pipeline_run_report [OF srch [unfolded Inr] False] by blast
      have l: "list_all (\<lambda>c. src_url (cm_source c) \<in> set (map src_url sources) \<and>
          (has_conflicting_evidence c = list_ex (conflict c) (cross_check claims))) (cross_check claims)"
        using cross_checked [OF c] by (auto simp: list_all_iff)
      have o: "sorted_wrt (\<lambda>a b. source_rank (classify_source a) \<le> source_rank (classify_source b)) (map src_url sources)"
        unfolding sorted_wrt_map using hits
        by (elim conjE sorted_wrt_mono_rel [rotated]) (simp add: list_all_iff)
      have n: "length (map src_url sources) \<le> rv_max_sources env" using hits by simp
      show ?thesis
      proof (cases "fst (synthesize env (cross_check claims) u)")
        case (Inl e)
        show ?thesis unfolding run Inl sum.case using Inl by blast
      next
        case (Inr summary)
        show ?thesis
          unfolding run Inr sum.case research_result.simps by (intro conjI refl l o n)
      qed
    qed
  qed
qed

end
