(* ===== verification/Fact_Check_Properties.thy ===== *)
theory Fact_Check_Properties
  imports Fact_Check Research_Properties
begin

text \<open>
  What the fact checker guarantees: what counts as a mention, how the pages add up to a
  verdict, and one verdict per claim.
\<close>

section \<open>Mentions\<close>

lemma claim_token_in: "t \<in> set (claim_tokens claim) \<Longrightarrow> py_in t (py_lower claim)"
proof -
  assume "t \<in> set (claim_tokens claim)"
  then have "t \<in> set (findall_at TOKEN_RE [] (py_lower claim))" by (simp add: claim_tokens_def re_findall_def)
  from findall_at_mem [OF this] obtain u v where "py_lower claim = u @ t @ v" by blast
  then show ?thesis by (auto simp: py_in_iff_sublist)
qed

text \<open>
  A page that quotes the claim always counts: with at least one word of four letters in the
  claim, the page supports it, unless one of the ten words of doubt occurs anywhere on the
  page, in the claim itself for instance, when it contradicts it.
\<close>

theorem quoting_page_counts:
  "signal_for_claim claim (before @ claim @ after) =
     (if claim_tokens claim = [] then 0
      else if list_ex (\<lambda>cue. py_in cue (py_lower (before @ claim @ after))) CONTRADICTION_CUES then - 1 else 1)"
proof (cases "claim_tokens claim = []")
  case False
  have "py_lower (before @ claim @ after) = py_lower before @ py_lower claim @ py_lower after"
    by (simp add: py_lower_def)
  then have "py_in t (py_lower (before @ claim @ after))" if "t \<in> set (claim_tokens claim)" for t
    using claim_token_in [OF that] by (simp add: py_in_append)
  then have all: "filter (\<lambda>t. py_in t (py_lower (before @ claim @ after))) (claim_tokens claim) = claim_tokens claim"
    by (simp add: filter_id_conv)
  have "\<not> rat_of_nat (length (claim_tokens claim)) / rat_of_nat (length (claim_tokens claim)) < MIN_OVERLAP_RATIO"
    using False by (simp add: MIN_OVERLAP_RATIO_def)
  with False all show ?thesis by (simp add: signal_for_claim_def Let_def)
qed (simp add: signal_for_claim_def)

section \<open>Verdicts\<close>

text \<open>What a result says about its own evidence.\<close>

definition verdict_fits :: "fact_result \<Rightarrow> bool" where
  "verdict_fits r =
     ((fr_verdict r = CONTRADICTED) = (fr_contradicting r \<noteq> []) \<and>
      (fr_verdict r = SUPPORTED) = (fr_contradicting r = [] \<and> fr_evidence r \<noteq> []) \<and>
      (fr_verdict r = UNVERIFIABLE) = (fr_contradicting r = [] \<and> fr_evidence r = []) \<and>
      0 \<le> fr_confidence r \<and> fr_confidence r \<le> 9 / 10 \<and>
      ((fr_confidence r = 0) = (fr_verdict r = UNVERIFIABLE)))"

lemma verdict_fits_verdict:
  "verdict pro contra = (v, q) \<Longrightarrow>
   verdict_fits \<lparr>fr_claim = c, fr_verdict = v, fr_confidence = q, fr_evidence = pro, fr_contradicting = contra\<rparr>"
proof -
  assume v: "verdict pro contra = (v, q)"
  have r: "0 \<le> rat_of_nat (length contra) / rat_of_nat (length contra + length pro)"
    "rat_of_nat (length contra) / rat_of_nat (length contra + length pro) \<le> 1"
    by (auto simp: divide_le_eq_1 simp flip: of_nat_add)
  have m: "0 \<le> min (rat_of_nat (length pro) / 3) 1" "min (rat_of_nat (length pro) / 3) 1 \<le> 1" by simp_all
  show ?thesis
  proof (cases "contra = []")
    case True
    with v m show ?thesis by (auto simp: verdict_def verdict_fits_def split: if_splits)
  next
    case False
    define ratio where "ratio = (if pro \<noteq> [] then rat_of_nat (length contra) / rat_of_nat (length contra + length pro) else 1)"
    from v False have "v = CONTRADICTED" "q = 3 / 10 + 6 / 10 * ratio" by (simp_all add: verdict_def ratio_def Let_def)
    moreover have "0 \<le> ratio" "ratio \<le> 1" using r by (simp_all add: ratio_def)
    ultimately show ?thesis using False by (simp add: verdict_fits_def)
  qed
qed

text \<open>A claim that passed the input model always gives a query that passes the search's.\<close>

lemma narrow_query_valid:
  "valid_fact_claim c \<Longrightarrow> valid_search_input \<lparr>si_query = narrow_query (fc_claim c), si_max_results = 5\<rparr>"
  by (auto simp: valid_fact_claim_def valid_search_input_def narrow_query_def Let_def Suc_le_eq)

section \<open>One claim\<close>

lemma check_pages_count:
  "check_pages eng claim urls ev s = (Inr (pro, contra), t) \<Longrightarrow>
   length pro + length contra \<le> length (fst ev) + length (snd ev) + length urls"
proof (induction urls arbitrary: ev s)
  case (Cons u us)
  from Cons.prems obtain ev' s' where first: "check_page eng claim u ev s = (Inr ev', s')"
    and rest: "check_pages eng claim us ev' s' = (Inr (pro, contra), t)"
    by (auto simp: bindE_def split: prod.splits sum.splits)
  from first have "length (fst ev') + length (snd ev') \<le> length (fst ev) + length (snd ev) + 1"
    by (auto simp: check_page_def Let_def bindE_def raiseE_def retE_def add_signal_def
        split: if_splits prod.splits sum.splits research_output.splits)
  with Cons.IH [OF rest] show ?case by simp
qed (auto simp: retE_def)

lemma check_page_count:
  "check_page eng claim u ev s = (Inr (pro, contra), t) \<Longrightarrow>
   length pro + length contra \<le> length (fst ev) + length (snd ev) + 1"
  using check_pages_count [of eng claim "[u]" ev s pro contra t] by (simp add: bindE_def retE_def)

lemma check_claim_result:
  assumes "check_claim eng n claim source_url s = (Inr r, u)"
  shows "fr_claim r = claim \<and> verdict_fits r \<and> length (fr_evidence r) + length (fr_contradicting r) \<le> n + 1"
proof -
  have "valid_search_input \<lparr>si_query = narrow_query claim, si_max_results = 5\<rparr>"
    using assms by (auto simp: check_claim_def Let_def raiseE_def split: if_splits)
  then have "\<exists>(hits :: search_result list) ev s1 s2 pc s3.
      check_pages eng claim (map sr_url (take n hits)) ([], []) s1 = (Inr ev, s2) \<and>
      (if truthy source_url then check_page eng claim (the source_url) ev else retE ev) s2 = (Inr pc, s3) \<and>
      (case pc of (pro, contra) \<Rightarrow> case verdict pro contra of (v, confidence) \<Rightarrow>
        retE \<lparr>fr_claim = claim, fr_verdict = v, fr_confidence = confidence, fr_evidence = pro,
          fr_contradicting = contra\<rparr>) s3 = (Inr r, u)"
    using assms unfolding check_claim_def Let_def 
    by (simp only: bindE_Inr_iff not_True_eq_False if_False) blast
  then obtain hits :: "search_result list" and ev s1 s2 pro contra where
    pages: "check_pages eng claim (map sr_url (take n hits)) ([], []) s1 = (Inr ev, s2)"
    and own: "(if truthy source_url then check_page eng claim (the source_url) ev else retE ev) s2 = (Inr (pro, contra), u)"
    and r: "r = \<lparr>fr_claim = claim, fr_verdict = fst (verdict pro contra), fr_confidence = snd (verdict pro contra),
      fr_evidence = pro, fr_contradicting = contra\<rparr>"
    by (fastforce simp: retE_def split_beta)
  have "length (fst ev) + length (snd ev) \<le> n"
    using check_pages_count [of eng claim "map sr_url (take n hits)" "([], [])" s1 "fst ev" "snd ev" s2] pages by simp
  then have "length pro + length contra \<le> n + 1"
    using own check_page_count [of eng claim "the source_url" ev s2 pro contra u]
    by (auto simp: retE_def split: if_splits)
  moreover have "verdict_fits r" unfolding r by (rule verdict_fits_verdict) simp
  ultimately show ?thesis by (simp add: r)
qed

section \<open>The whole check\<close>

text \<open>The ways in which a check of claims can end with an error.\<close>

definition sub_tool_error :: "'s sub_engine \<Rightarrow> exn \<Rightarrow> bool" where
  "sub_tool_error eng e = ((\<exists>name inp t. fst (call_sub_tool eng name inp t) = Inl e) \<or> e = schema_error \<or>
     e = attribute_error ''results'' \<or> e = attribute_error ''content'')"

lemma call_error: "call_sub_tool eng n inp s = (Inl e, t) \<Longrightarrow> sub_tool_error eng e"
  unfolding sub_tool_error_def by (metis fst_conv)

lemma results_error: "liftE (results_of out) s = (Inl e, t) \<Longrightarrow> sub_tool_error eng e"
  by (auto simp: sub_tool_error_def liftE_def results_of_def split: research_output.splits)

lemma schema_sub_tool_error [simp]: "sub_tool_error eng schema_error" "sub_tool_error eng (attribute_error ''content'')"
  by (simp_all add: sub_tool_error_def)

lemma check_page_error: "check_page eng claim u ev s = (Inl e, t) \<Longrightarrow> sub_tool_error eng e"
proof -
  have "(case out of ResultsOut hits \<Rightarrow> raiseE (attribute_error ''content'')
      | PageOut p \<Rightarrow> retE (add_signal claim u (signal_for_claim claim (fo_content p)) ev)) s = (Inl e, t)
    \<Longrightarrow> sub_tool_error eng e" for out s
    by (cases out) (auto simp: raiseE_def retE_def)
  then show "check_page eng claim u ev s = (Inl e, t) \<Longrightarrow> sub_tool_error eng e"
    by (auto simp: check_page_def Let_def bindE_Inl_iff raiseE_def [of schema_error] split: if_splits dest: call_error)
qed

lemma check_pages_error: "check_pages eng claim urls ev s = (Inl e, t) \<Longrightarrow> sub_tool_error eng e"
  by (induction urls arbitrary: ev s) (auto simp: bindE_Inl_iff retE_def dest: check_page_error)

lemma check_claim_error: "check_claim eng n claim src s = (Inl e, t) \<Longrightarrow> sub_tool_error eng e"
  by (auto simp: check_claim_def Let_def bindE_Inl_iff raiseE_def retE_def
      split: if_splits prod.splits dest: check_page_error check_pages_error call_error results_error)

lemma check_claims_error: "check_claims eng n cs s = (Inl e, t) \<Longrightarrow> sub_tool_error eng e"
  by (induction cs arbitrary: s) (auto simp: bindE_Inl_iff retE_def dest: check_claim_error)

lemma check_claims_results:
  "check_claims eng n cs s = (Inr rs, t) \<Longrightarrow> map fr_claim rs = map fc_claim cs \<and>
     list_all (\<lambda>r. verdict_fits r \<and> length (fr_evidence r) + length (fr_contradicting r) \<le> n + 1) rs"
proof (induction cs arbitrary: s rs)
  case (Cons c cs)
  then show ?case using check_claim_result [of eng n "fc_claim c" "fc_source_url c"]
    by (fastforce simp: bindE_Inr_iff retE_def)
qed (simp add: retE_def)

text \<open>
  C18. A fact check answers every claim, in order, with a verdict that fits its own evidence:
  contradicted as soon as one page contradicts, never \<open>UNSUPPORTED\<close>, with a confidence of at most
  0.9 that is zero only when nothing was found, and with at most one page more than the
  tool's own bound. Otherwise the tool was not wired, a web tool is missing, or one call of a
  tool failed, which ends the whole check.
\<close>

theorem fact_check_results:
  "case fst (fact_check_execute wired n inp s) of
     Inl e \<Rightarrow> (case wired of
         None \<Rightarrow> exn_class e = App ResearchError
       | Some eng \<Rightarrow> sub_tool_error eng e \<or> exn_class e = App ResearchError)
   | Inr results \<Rightarrow> map fr_claim results = map fc_claim (fx_claims inp) \<and>
       list_all (\<lambda>r. verdict_fits r \<and> fr_verdict r \<noteq> UNSUPPORTED \<and>
         length (fr_evidence r) + length (fr_contradicting r) \<le> n + 1) results"
proof (cases wired)
  case None
  then show ?thesis by (simp add: fact_check_execute_def raiseE_def)
next
  case (Some eng)
  have fits: "verdict_fits r \<Longrightarrow> fr_verdict r \<noteq> UNSUPPORTED" for r by (auto simp: verdict_fits_def)
  obtain r t where run: "check_claims eng n (fx_claims inp) s = (r, t)" by fastforce
  show ?thesis
  proof (cases "se_contains eng ''web_search'' \<and> se_contains eng ''web_fetch''")
    case True
    then have "fact_check_execute wired n inp s = (r, t)" using Some run by (simp add: fact_check_execute_def)
    with Some run check_claims_error check_claims_results [of eng n "fx_claims inp" s] fits show ?thesis
      by (cases r) (auto simp: list_all_iff)
  qed (auto simp: Some fact_check_execute_def raiseE_def)
qed

section \<open>What it does to the engine\<close>

text \<open>The check calls two tools only, so it keeps what those calls keep, and depends on nothing else.\<close>

lemma call_stays:
  "reflp R \<Longrightarrow> transp R \<Longrightarrow> stays R (se_execute eng n i None) \<Longrightarrow> stays R (call_sub_tool eng n i)"
  unfolding call_sub_tool_def by (intro steps_intro)

lemma check_pages_stays:
  assumes "reflp R" "transp R" "\<And>i. stays R (se_execute eng ''web_fetch'' i None)"
  shows "stays R (check_page eng claim u ev)" "stays R (check_pages eng claim us ev)"
proof -
  show page: "stays R (check_page eng claim u ev)" for u ev
    unfolding check_page_def Let_def
    by (intro steps_intro assms(1,2) call_stays assms(3))
      (auto split: research_output.splits intro: steps_intro assms(1))
  show "stays R (check_pages eng claim us ev)"
    by (induction us arbitrary: ev) (auto intro!: steps_intro assms page)
qed

lemma check_claims_stays:
  assumes "reflp R" "transp R" "\<And>i. stays R (se_execute eng ''web_fetch'' i None)"
    "\<And>i. stays R (se_execute eng ''web_search'' i None)"
  shows "stays R (check_claims eng n cs)"
proof -
  have "stays R (check_claim eng n claim src)" for claim src
    unfolding check_claim_def Let_def case_prod_beta
    by (intro steps_intro assms(1,2) call_stays assms(3,4) check_pages_stays)
  then show ?thesis
    by (induction cs) (auto intro!: steps_intro assms)
qed

lemma fact_check_stays:
  assumes "reflp R" "transp R"
    "\<And>eng name i. wired = Some eng \<Longrightarrow> name \<in> {''web_search'', ''web_fetch''} \<Longrightarrow> stays R (se_execute eng name i None)"
  shows "stays R (fact_check_execute wired n inp)"
proof (cases wired)
  case None
  then show ?thesis by (simp add: fact_check_execute_def steps_raise [OF assms(1)])
next
  case (Some eng)
  then show ?thesis
    by (auto simp: fact_check_execute_def intro!: check_claims_stays assms steps_raise)
qed

lemma check_claims_raises:
  assumes "valid_fact_claim c" "\<And>i s. \<exists>e. fst (se_execute eng ''web_search'' (SearchIn i) None s) = Inl e \<and> P e"
  shows "\<exists>e. fst (check_claims eng n (c # cs) s) = Inl e \<and> P e \<and>
    snd (check_claims eng n (c # cs) s) =
      snd (se_execute eng ''web_search'' (SearchIn \<lparr>si_query = narrow_query (fc_claim c), si_max_results = 5\<rparr>) None s)"
proof -
  let ?i = "\<lparr>si_query = narrow_query (fc_claim c), si_max_results = 5\<rparr>"
  obtain e u where call: "se_execute eng ''web_search'' (SearchIn ?i) None s = (Inl e, u)" "P e"
    using assms(2) [of ?i s] by (metis prod.collapse)
  then have "check_claims eng n (c # cs) s = (Inl e, u)"
    using narrow_query_valid [OF assms(1)] by (simp add: check_claim_def Let_def call_sub_tool_def bindE_def)
  with call show ?thesis by simp
qed

lemma check_claims_cong:
  assumes "\<And>name i. name \<in> {''web_search'', ''web_fetch''} \<Longrightarrow> se_execute eng name i None = se_execute eng' name i None"
  shows "check_claims eng n cs = check_claims eng' n cs"
proof -
  have call: "call_sub_tool eng name i = call_sub_tool eng' name i" if "name \<in> {''web_search'', ''web_fetch''}" for name i
    using assms [OF that] by (simp add: call_sub_tool_def)
  have page: "check_page eng claim u ev = check_page eng' claim u ev" for claim u ev
    by (simp add: check_page_def call Let_def)
  have pages: "check_pages eng claim us = check_pages eng' claim us" for claim us
    by (induction us) (simp_all add: page fun_eq_iff [of "check_pages eng claim (a # us)" for a us] fun_eq_iff [of "check_pages eng claim []"])
  have "check_claim eng n claim src = check_claim eng' n claim src" for claim src
    by (simp add: check_claim_def call page pages Let_def cong: if_cong)
  then show ?thesis by (induction cs) simp_all
qed

lemma fact_check_cong:
  assumes "\<And>name. name \<in> {''web_search'', ''web_fetch''} \<Longrightarrow> se_contains eng name = se_contains eng' name"
    "\<And>name i. name \<in> {''web_search'', ''web_fetch''} \<Longrightarrow> se_execute eng name i None = se_execute eng' name i None"
  shows "fact_check_execute (if b then Some eng else None) n inp = fact_check_execute (if b then Some eng' else None) n inp"
  using assms(1) check_claims_cong [of eng eng', OF assms(2)] by (simp add: fact_check_execute_def)

end
