(* ===== verification/System_Properties.thy ===== *)
theory System_Properties
  imports Agent_System Local_Properties Browser_Properties Publish_Properties Fact_Check_Properties
begin

text \<open>
  What an agent can do through the engine over the whole catalogue of tools: without the
  approval of a publish tool nothing is published, without the approval of a deletion nothing
  disappears unless a shell command removes it; and what \<open>build_tool_engine\<close> leaves wired.
\<close>

section \<open>What the tools leave alone\<close>

definition same_sent :: "'w machine \<Rightarrow> 'w machine \<Rightarrow> bool" where
  "same_sent s t = (mc_sent t = mc_sent s)"

definition files_kept :: "os \<Rightarrow> os \<Rightarrow> bool" where
  "files_kept s t = (\<forall>p. node_at s p \<noteq> None \<longrightarrow> node_at t p \<noteq> None)"

definition paths_kept :: "'w machine \<Rightarrow> 'w machine \<Rightarrow> bool" where
  "paths_kept s t = files_kept (mc_os s) (mc_os t)"

lemma kept_relations [steps_intro]:
  "reflp same_sent" "transp same_sent" "reflp files_kept" "transp files_kept" "reflp paths_kept" "transp paths_kept"
  by (auto simp: same_sent_def files_kept_def paths_kept_def reflp_def transp_def)

lemma steps_mapE [steps_intro]: "reflp R \<Longrightarrow> transp R \<Longrightarrow> stays R m \<Longrightarrow> stays R (mapE f m)"
  unfolding mapE_def by (intro steps_intro)

lemma parts_same_sent [steps_intro]:
  "stays same_sent (on_files m1)" "stays same_sent (on_outside m2)" "stays same_sent (on_shell m3)"
  "stays same_sent (on_web m4)" "stays same_sent (on_manager m5)"
  by (rule files.run_within outside.run_within shell.run_within web.run_within pages.run_within, simp add: same_sent_def)+

lemma parts_paths_kept [steps_intro]:
  "stays paths_kept (on_outside m2)" "stays paths_kept (on_web m4)" "stays paths_kept (on_manager m5)"
  "stays paths_kept (on_publisher m6)"
  by (rule outside.run_within web.run_within pages.run_within publisher.run_within,
      simp add: paths_kept_def files_kept_def)+

lemma on_files_paths_kept [steps_intro]: "stays files_kept m \<Longrightarrow> stays paths_kept (on_files m)"
  unfolding paths_kept_def by (rule files.run_lifts)

lemma verify_same_sent: "stays same_sent (on_publisher (social_verify_execute h xc lc i))"
proof -
  have x: "stays (\<lambda>s t. pb_sent t = pb_sent s) (verify_x h xc e)"
    and l: "stays (\<lambda>s t. pb_sent t = pb_sent s) (verify_linkedin h lc e)" for e
    by (auto simp: stays_def) (metis prod.collapse verify_frame)+
  have rel: "reflp (\<lambda>s t. pb_sent t = pb_sent s)" "transp (\<lambda>s t. pb_sent t = pb_sent s)"
    by (simp_all add: reflp_def transp_def)
  have p: "stays (\<lambda>s t. pb_sent t = pb_sent s) (pub_session m)" for m
    by (rule pub_rows.run_within) simp
  have t: "stays (\<lambda>s t. pb_sent t = pb_sent s) (tryE m)" if "stays (\<lambda>s t. pb_sent t = pb_sent s) m" for m
    using that by (auto simp: stays_def tryE_def split: prod.splits) (metis snd_conv)
  have "stays (\<lambda>s t. pb_sent t = pb_sent s) (social_verify_execute h xc lc i)"
    unfolding social_verify_execute_def Let_def case_prod_beta
    by (intro steps_intro rel p t; cases "vin_platform i"; simp add: x l)
  from publisher.run_lifts [OF this] show ?thesis by (simp add: stays_def same_sent_def)
qed

lemma grows_kept: "grows s t \<Longrightarrow> files_kept s t"
  unfolding grows_def files_kept_def by metis

lemma stays_mono: "stays R m \<Longrightarrow> (\<And>s t. R s t \<Longrightarrow> Q s t) \<Longrightarrow> stays Q m"
  by (simp add: stays_def)

lemma mkdir_kept [steps_intro]: "stays files_kept (mkdir_parents p b)"
  using mkdir_keeps grows_kept by (rule stays_mono)

lemma set_node_kept: "files_kept s (set_node p n s)"
  by (simp add: files_kept_def node_at_def set_node_def update_conv)

lemma write_bytes_kept [steps_intro]: "stays files_kept (write_bytes p b)"
proof -
  have "files_kept s s" for s by (simp add: files_kept_def)
  then show ?thesis
    by (simp add: stays_def write_bytes_def set_node_kept split: option.splits node.splits)
qed

lemma text_kept [steps_intro]: "stays files_kept (read_text c p)" "stays files_kept (write_text c p t)"
  unfolding read_text_def write_text_def
  by (intro steps_intro; auto simp: stays_def files_kept_def read_bytes_def)+

lemma guarded_kept: "(\<And>p. stays files_kept (body p)) \<Longrightarrow> stays files_kept (guarded t body)"
  unfolding guarded_def
  by (intro steps_intro) (auto simp: stays_def files_kept_def resolve_path_def)

lemma file_tools_kept [steps_intro]:
  "stays files_kept (file_read_execute c p)" "stays files_kept (file_write_execute c p t b)"
  "stays files_kept (file_edit_execute c p old new)" "stays files_kept (folder_create_execute p b)"
  "stays files_kept (folder_list_execute p b)"
  unfolding file_read_execute_def file_write_execute_def file_edit_execute_def folder_create_execute_def
    folder_list_execute_def
  by (intro guarded_kept steps_intro)+


section \<open>The whole catalogue\<close>

text \<open>The tools that do not call the engine act on its world; the fact checker does what its calls do.\<close>

lemma run_tool_same_sent:
  assumes "tool_of inp \<notin> {''social_publish_x'', ''social_publish_linkedin''}"
    "\<And>name i. name \<in> {''web_search'', ''web_fetch''} \<Longrightarrow> stays (world_rel same_sent) (se_execute eng name i None)"
  shows "stays (world_rel same_sent) (run_tool sys cfg eng inp)"
proof (cases inp)
  case (PublishX i)
  with assms show ?thesis by simp
next
  case (PublishLinkedIn i)
  with assms show ?thesis by simp
qed (simp_all only: run_tool.simps with_session_def,
    (intro steps_intro verify_same_sent fact_check_stays; use assms(2) in \<open>auto split: if_splits\<close>)+)

lemma run_tool_paths_kept:
  assumes "tool_of inp \<notin> {''shell_run'', ''file_delete'', ''folder_delete''}"
    "\<And>name i. name \<in> {''web_search'', ''web_fetch''} \<Longrightarrow> stays (world_rel paths_kept) (se_execute eng name i None)"
  shows "stays (world_rel paths_kept) (run_tool sys cfg eng inp)"
proof (cases inp)
  case (FileDelete i)
  with assms show ?thesis by simp
next
  case (FolderDelete i)
  with assms show ?thesis by simp
next
  case (RunShell i)
  with assms show ?thesis by simp
qed (simp_all only: run_tool.simps with_session_def,
    (intro steps_intro fact_check_stays; use assms(2) in \<open>auto split: if_splits\<close>)+)

definition approved_by :: "execution_context option \<Rightarrow> string set" where
  "approved_by c = ctx_approved_actions (ctx_of c)"

lemma gated_needs_approval:
  assumes "(n, p) \<in> set (catalogue b)"
    "n \<in> {''file_delete'', ''folder_delete'', ''social_publish_x'', ''social_publish_linkedin''}"
  shows "needs_approval p"
proof -
  have "list_all (\<lambda>(n, p). n \<in> {''file_delete'', ''folder_delete'', ''social_publish_x'', ''social_publish_linkedin''}
      \<longrightarrow> needs_approval p) (catalogue b)"
    by (cases b) (simp_all add: catalogue_defs needs_approval_def perms_def publish_permissions_def)
  with assms show ?thesis unfolding list_all_iff by blast
qed

definition GATED :: "string set" where
  "GATED = {''file_delete'', ''folder_delete'', ''social_publish_x'', ''social_publish_linkedin''}"

text \<open>Every level of the registry has the tools of the catalogue with the bodies of the system.\<close>

lemma registry_at_body: "\<exists>eng. registry_at d sys cfg b = build_registry (tool_body sys cfg eng) b"
  by (cases d) auto

lemma built_tool:
  assumes "registry_get (build_registry (tool_body sys cfg eng) b) n = Inr t"
  shows "tool_execute t inp = (if tool_of inp = n then run_tool sys cfg eng inp else raiseE (attribute_error n))"
    "tool_name t = n" "(n, tool_permissions t) \<in> set (catalogue b)"
  using assms by (auto simp: build_registry_get make_tool_def tool_body_def split: option.splits dest: map_of_SomeD)

text \<open>
  A relation that the bodies of all tools keep but those of \<open>gated\<close>, which need an approval, and of
  \<open>others\<close>, is kept by every call that is neither approved nor of \<open>others\<close>, nested calls included.
\<close>

locale kept_by_tools =
  fixes R :: "'w machine \<Rightarrow> 'w machine \<Rightarrow> bool"
    and gated others :: "string set"
  assumes refl: "reflp R"
    and trans: "transp R"
    and gated: "gated \<subseteq> GATED"
    and web: "{''web_search'', ''lang_search'', ''web_fetch''} \<inter> others = {}"
    and run: "tool_of inp \<notin> gated \<union> others \<Longrightarrow>
      (\<And>name i. name \<in> {''web_search'', ''web_fetch''} \<Longrightarrow> stays (world_rel R) (se_execute eng name i None)) \<Longrightarrow>
      stays (world_rel R) (run_tool sys cfg eng inp)"
begin

lemma granted_tool:
  assumes t: "registry_get (build_registry (tool_body sys cfg eng) b) n = Inr t" "enforce_permissions t (ctx_of c) = Inr ()"
    and c: "gated \<inter> approved_by c = {}" "n \<notin> others"
    and eng: "\<And>name i. name \<in> {''web_search'', ''web_fetch''} \<Longrightarrow> stays (world_rel R) (se_execute eng name i None)"
  shows "stays (world_rel R) (tool_execute t inp)"
proof (cases "tool_of inp = n")
  case True
  have "needs_approval (tool_permissions t)" if "n \<in> gated"
    using gated_needs_approval [OF built_tool(3) [OF t(1)]] that gated unfolding GATED_def by blast
  then have "n \<in> approved_by c" if "n \<in> gated"
    using t(2) that built_tool(2) [OF t(1)] by (simp add: approved_by_def enforce_permissions_Inr_iff)
  with c have "n \<notin> gated \<union> others" by blast
  with run eng True show ?thesis by (simp add: built_tool(1) [OF t(1)])
next
  case False
  with refl show ?thesis by (simp add: built_tool(1) [OF t(1)] steps_raise world_rel_order)
qed

lemma call_keeps:
  assumes "tenacity_contract (sys_retrier sys)"
  shows "gated \<inter> approved_by c = {} \<Longrightarrow> n \<notin> others \<Longrightarrow>
    stays (world_rel R) (system_execute sys (registry_at d sys cfg b) n inp c)"
proof (induction d arbitrary: n inp c)
  case 0
  show ?case unfolding system_execute_def registry_at.simps
    by (intro execute_through_stays refl trans retry_stays [OF assms] world_rel_order granted_tool; (rule 0)?)
      (auto simp: steps_raise world_rel_order refl)
next
  case (Suc d)
  have "stays (world_rel R) (se_execute (sub_engine_of sys (registry_at d sys cfg b)) name i None)"
    if "name \<in> {''web_search'', ''web_fetch''}" for name i
  proof -
    have "gated \<inter> approved_by None = {}" by (simp add: approved_by_def default_context_def)
    moreover have "name \<notin> others" using that web by auto
    ultimately have "stays (world_rel R) (system_execute sys (registry_at d sys cfg b) name (sub_input i) None)"
      by (rule Suc.IH)
    then show ?thesis unfolding sub_engine_of_def sub_engine.simps
      by (intro steps_intro refl trans) (auto split: option.splits intro!: steps_intro refl)
  qed
  then show ?case unfolding system_execute_def registry_at.simps
    by (intro execute_through_stays refl trans retry_stays [OF assms] world_rel_order granted_tool [OF _ _ Suc.prems])
qed

lemma serve_keeps:
  assumes "tenacity_contract (sys_retrier sys)"
    "list_all (\<lambda>(name, inp, c). name \<notin> others \<and> gated \<inter> approved_by c = {}) cs"
  shows "R (eng_world s) (eng_world (serve_calls sys (registry_at d sys cfg b) cs s))"
  using assms(2)
proof (induction cs arbitrary: s)
  case Nil
  show ?case using refl by (simp add: reflp_def)
next
  case (Cons x cs)
  obtain n inp c where x: "x = (n, inp, c)" by (cases x)
  let ?s' = "snd (system_execute sys (registry_at d sys cfg b) n inp c s)"
  have "R (eng_world s) (eng_world ?s')"
    using call_keeps [OF assms(1), of c n d cfg b inp] Cons.prems x by (simp add: stays_def world_rel_def)
  moreover have "R (eng_world ?s') (eng_world (serve_calls sys (registry_at d sys cfg b) cs ?s'))"
    using Cons.IH Cons.prems by simp
  ultimately show ?case using trans x by (auto dest: transpD)
qed

end

interpretation publishing: kept_by_tools same_sent "{''social_publish_x'', ''social_publish_linkedin''}" "{}"
proof unfold_locales
  show "stays (world_rel same_sent) (run_tool sys cfg eng inp)"
    if "tool_of inp \<notin> {''social_publish_x'', ''social_publish_linkedin''} \<union> {}"
      "\<And>name i. name \<in> {''web_search'', ''web_fetch''} \<Longrightarrow> stays (world_rel same_sent) (se_execute eng name i None)"
    for sys :: "'a system" and cfg eng inp
    using that by (intro run_tool_same_sent) auto
qed (auto simp: kept_relations GATED_def)

interpretation deleting: kept_by_tools paths_kept "{''file_delete'', ''folder_delete''}" "{''shell_run''}"
proof unfold_locales
  show "stays (world_rel paths_kept) (run_tool sys cfg eng inp)"
    if "tool_of inp \<notin> {''file_delete'', ''folder_delete''} \<union> {''shell_run''}"
      "\<And>name i. name \<in> {''web_search'', ''web_fetch''} \<Longrightarrow> stays (world_rel paths_kept) (se_execute eng name i None)"
    for sys :: "'a system" and cfg eng inp
    using that by (intro run_tool_paths_kept) auto
qed (auto simp: kept_relations GATED_def)

section \<open>One level of nesting is enough\<close>

lemma tool_body_engine:
  assumes "n \<noteq> ''fact_check''"
  shows "tool_body sys cfg eng n = tool_body sys cfg eng' n"
proof
  fix inp
  show "tool_body sys cfg eng n inp = tool_body sys cfg eng' n inp"
    using assms by (cases inp) (auto simp: tool_body_def)
qed

lemma registry_get_body:
  "f n = g n \<Longrightarrow> registry_get (build_registry f b) n = registry_get (build_registry g b) n"
  by (simp add: build_registry_get make_tool_def split: option.splits)

lemma leaf_call:
  assumes "n \<noteq> ''fact_check''"
  shows "system_execute sys (registry_at d sys cfg b) n = system_execute sys (registry_at d' sys cfg b) n"
proof -
  from registry_at_body obtain eng where r: "registry_at d sys cfg b = build_registry (tool_body sys cfg eng) b" ..
  from registry_at_body obtain eng' where r': "registry_at d' sys cfg b = build_registry (tool_body sys cfg eng') b" ..
  show ?thesis unfolding system_execute_def r r'
    by (intro execute_through_cong registry_get_body tool_body_engine assms)
qed

lemma registry_at_contains: "registry_contains (registry_at d sys cfg b) n \<longleftrightarrow> n \<in> fst ` set (catalogue b)"
proof -
  from registry_at_body obtain eng where r: "registry_at d sys cfg b = build_registry (tool_body sys cfg eng) b" ..
  show ?thesis unfolding r
    using build_registry_get [of "tool_body sys cfg eng" b n]
    by (auto simp: registry_contains_def registry_get_def map_of_eq_None_iff
        split: option.splits intro: rev_image_eqI dest: map_of_SomeD)
qed

lemma sub_engine_levels:
  "fact_check_execute (if w then Some (sub_engine_of sys (registry_at d sys cfg b)) else None) k inp =
   fact_check_execute (if w then Some (sub_engine_of sys (registry_at d' sys cfg b)) else None) k inp"
proof (rule fact_check_cong)
  show "se_contains (sub_engine_of sys (registry_at d sys cfg b)) name = se_contains (sub_engine_of sys (registry_at d' sys cfg b)) name"
    for name by (simp add: sub_engine_of_def registry_at_contains)
  show "se_execute (sub_engine_of sys (registry_at d sys cfg b)) name i None =
      se_execute (sub_engine_of sys (registry_at d' sys cfg b)) name i None"
    if "name \<in> {''web_search'', ''web_fetch''}" for name i
  proof -
    have "name \<noteq> ''fact_check''" using that by auto
    then have "system_execute sys (registry_at d sys cfg b) name = system_execute sys (registry_at d' sys cfg b) name"
      by (rule leaf_call)
    then show ?thesis by (simp add: sub_engine_of_def)
  qed
qed

text \<open>
  Nesting ends: the registry unfolded any number of times more is the same registry, so the one
  level of \<open>system_registry\<close> is what the engine that calls itself without bound does.
\<close>

theorem nesting_ends: "registry_at (Suc d) sys cfg b = system_registry sys cfg b"
proof -
  have "tool_body sys cfg (sub_engine_of sys (registry_at d sys cfg b)) n inp =
      tool_body sys cfg (sub_engine_of sys (registry_at 0 sys cfg b)) n inp" for n inp
    using sub_engine_levels [of "tf_engine cfg" sys d cfg b MAX_SEARCH_RESULTS _ 0]
    by (cases inp) (simp_all add: tool_body_def del: registry_at.simps)
  then have "tool_body sys cfg (sub_engine_of sys (registry_at d sys cfg b)) =
      tool_body sys cfg (sub_engine_of sys (registry_at 0 sys cfg b))" by (intro ext) (simp only:)
  then show ?thesis by (simp add: system_registry_def del: registry_at.simps(1))
qed

section \<open>Wiring\<close>

lemma wire_tools_effect:
  "tf_session (wire_tools social names cfg) = (tf_session cfg \<or> set names \<inter>
      {''social_publish_x'', ''social_publish_linkedin'', ''social_verify''} \<noteq> {})"
  "tf_engine (wire_tools social names cfg) = (tf_engine cfg \<or> ''fact_check'' \<in> set names)"
  "tf_x (wire_tools social names cfg) =
     (if set names \<inter> {''social_publish_x'', ''social_verify''} \<noteq> {} then x_tokens social else tf_x cfg)"
  "tf_li (wire_tools social names cfg) =
     (if set names \<inter> {''social_publish_linkedin'', ''social_verify''} \<noteq> {} then li_tokens social else tf_li cfg)"
  unfolding wire_tools_def
  by (induction names arbitrary: cfg) (auto simp: wire_tool_def)

lemma system_tools: "set (list_tools (system_registry sys cfg b)) = fst ` set (catalogue b)"
proof -
  have "registry_contains (system_registry sys cfg b) n \<longleftrightarrow> n \<in> fst ` set (catalogue b)" for n
    unfolding system_registry_def by (rule registry_at_contains)
  then show ?thesis using list_tools_contains by blast
qed

text \<open>
  \<open>build_tool_engine\<close> wires every tool that needs it, whatever the registry was built with: the
  publish and verify tools get the session and the current tokens, the fact checker the engine.
\<close>

lemma built_engine_wired:
  assumes "build_tool_engine social rpm sys cfg b rows n w = Inr (eng, reg)"
  shows "reg = system_registry sys \<lparr>tf_session = True, tf_engine = True, tf_x = x_tokens social, tf_li = li_tokens social\<rparr> b"
proof -
  have names: "{''fact_check'', ''social_publish_x'', ''social_publish_linkedin'', ''social_verify''} \<subseteq> fst ` set (catalogue b)"
    by (cases b) (simp_all add: catalogue_defs)
  let ?cfg = "wire_tools social (list_tools (system_registry sys cfg b)) cfg"
  have "?cfg = \<lparr>tf_session = True, tf_engine = True, tf_x = x_tokens social, tf_li = li_tokens social\<rparr>"
    using names by (intro tool_config.equality) (auto simp: wire_tools_effect system_tools)
  moreover have "reg = system_registry sys ?cfg b"
    using assms by (auto simp: build_tool_engine_def Let_def new_limiter_def split: if_splits)
  ultimately show ?thesis by simp
qed


lemma built_engine:
  assumes "build_tool_engine social rpm sys cfg b rows n w = Inr (eng, reg)"
  shows "eng_world eng = w \<and> (\<exists>cfg'. reg = system_registry sys cfg' b)"
  using assms by (auto simp: build_tool_engine_def Let_def new_limiter_def split: if_splits)

section \<open>Calls without approval\<close>

text \<open>
  C7. Whatever an agent calls through the built engine, and in whatever order: as long as no
  call carries the approval of a publish tool, no publish request is sent to a platform; and as
  long as none carries the approval of a deletion, every file and folder that was there is still
  there, unless a shell command was run, which needs no approval.
\<close>

theorem unapproved_calls_harmless:
  assumes "tenacity_contract (sys_retrier sys)" "build_tool_engine social rpm sys cfg b rows n w = Inr (eng, reg)"
  shows "(list_all (\<lambda>(name, inp, c). {''social_publish_x'', ''social_publish_linkedin''} \<inter> approved_by c = {}) cs \<longrightarrow>
      mc_sent (eng_world (serve_calls sys reg cs eng)) = mc_sent w) \<and>
    (list_all (\<lambda>(name, inp, c). name \<noteq> ''shell_run'' \<and> {''file_delete'', ''folder_delete''} \<inter> approved_by c = {}) cs \<longrightarrow>
      (\<forall>p. node_at (mc_os w) p \<noteq> None \<longrightarrow> node_at (mc_os (eng_world (serve_calls sys reg cs eng))) p \<noteq> None))"
proof (intro conjI impI)
  from built_engine [OF assms(2)] obtain cfg' where built: "eng_world eng = w" "reg = registry_at 1 sys cfg' b"
    by (auto simp: system_registry_def)
  show "mc_sent (eng_world (serve_calls sys reg cs eng)) = mc_sent w"
    if "list_all (\<lambda>(name, inp, c). {''social_publish_x'', ''social_publish_linkedin''} \<inter> approved_by c = {}) cs"
    using publishing.serve_keeps [OF assms(1), of cs eng 1 cfg' b] that built by (simp add: same_sent_def)
  show "\<forall>p. node_at (mc_os w) p \<noteq> None \<longrightarrow> node_at (mc_os (eng_world (serve_calls sys reg cs eng))) p \<noteq> None"
    if "list_all (\<lambda>(name, inp, c). name \<noteq> ''shell_run'' \<and> {''file_delete'', ''folder_delete''} \<inter> approved_by c = {}) cs"
    using deleting.serve_keeps [OF assms(1), of cs eng 1 cfg' b] that built by (simp add: paths_kept_def files_kept_def)
qed

definition sample_system :: "nat system" where
  "sample_system = \<lparr>sys_codec = (\<lambda>_. \<lparr>cd_encode = Inr, cd_decode = Inr\<rparr>), sys_spawn = (\<lambda>c d t. retE (Exited [] [] 0)),
     sys_decode = (\<lambda>t. t), sys_tavily_key = None, sys_read_float = (\<lambda>t. Inr 0), sys_tavily = (\<lambda>k n q. retE JNull),
     sys_lang_key = None, sys_lang_post = (\<lambda>k i. retE JNull), sys_resolve = (\<lambda>h. retE []),
     sys_get = (\<lambda>u t. retE \<lparr>pg_text = [], pg_status = 200, pg_content_type = None, pg_url = u\<rparr>),
     sys_loads = (\<lambda>t. None), sys_tone_model = (\<lambda>ms. retE []),
     sys_http = sample_http, sys_driver = sample_driver,
     sys_retrier = plain_retry, sys_clock = of_nat\<rparr>"

definition sample_machine :: "nat machine" where
  "sample_machine = \<lparr>mc_os = \<lparr>os_nodes = [([''a''], FileNode ''x'')], os_cwd = [], os_denied = []\<rparr>,
     mc_session = pb_session sample_pub, mc_manager = give_world () sample_manager, mc_commands = [], mc_requests = [],
     mc_sent = [], mc_world = 0\<rparr>"

definition sample_social :: social_settings where
  "sample_social = \<lparr>ss_x_client_id = None, ss_x_client_secret = None, ss_x_access_token = Some ''k'', ss_x_bearer_token = None,
     ss_linkedin_client_id = None, ss_linkedin_client_secret = None, ss_linkedin_access_token = Some ''k'',
     ss_linkedin_author_urn = Some ''urn:me''\<rparr>"

definition unapproved_calls :: "(string \<times> tool_input \<times> execution_context option) list" where
  "unapproved_calls = [(''social_publish_x'', PublishX sample_input, None), (''file_delete'', FileDelete \<lparr>fdi_path = ''/a''\<rparr>, None),
     (''file_write'', FileWrite \<lparr>fwi_path = ''/a'', fwi_content = ''y'', fwi_encoding = ''utf-8'', fwi_create_parents = True\<rparr>, None)]"

theorem unapproved_calls_harmless_witness:
  "\<exists>eng reg. build_tool_engine sample_social 60 sample_system (registered_config sample_social) True [] 0 sample_machine =
     Inr (eng, reg) \<and>
   mc_sent (eng_world (serve_calls sample_system reg unapproved_calls eng)) = [] \<and>
   node_at (mc_os (eng_world (serve_calls sample_system reg unapproved_calls eng))) [''a''] \<noteq> None"
proof -
  obtain eng reg where built: "build_tool_engine sample_social 60 sample_system (registered_config sample_social) True [] 0
      sample_machine = Inr (eng, reg)"
    by (simp add: build_tool_engine_def new_limiter_def Let_def)
  have calls: "list_all (\<lambda>(name, inp, c). {''social_publish_x'', ''social_publish_linkedin''} \<inter> approved_by c = {}) unapproved_calls"
    "list_all (\<lambda>(name, inp, c). name \<noteq> ''shell_run'' \<and> {''file_delete'', ''folder_delete''} \<inter> approved_by c = {}) unapproved_calls"
    by (simp_all add: unapproved_calls_def approved_by_def default_context_def)
  have "node_at (mc_os sample_machine) [''a''] \<noteq> None" by (simp add: sample_machine_def node_at_def)
  have "tenacity_contract (sys_retrier sample_system)" by (simp add: sample_system_def plain_retry_contract)
  from unapproved_calls_harmless [OF this built, of unapproved_calls] calls built show ?thesis
    using \<open>node_at (mc_os sample_machine) [''a''] \<noteq> None\<close> by (auto simp: sample_machine_def)
qed

section \<open>Errors of nested calls\<close>

lemma search_registered:
  obtains t where "registry_get (registry_at d sys cfg b) ''web_search'' = Inr t"
    "\<And>i. tool_execute t (SearchWeb i) =
       in_world (mapE SearchResults (on_outside (web_search_execute (sys_tavily_key sys) (sys_read_float sys) (sys_tavily sys) i)))"
    "\<And>c. enforce_permissions t c = Inr ()"
proof -
  from registry_at_body obtain eng where r: "registry_at d sys cfg b = build_registry (tool_body sys cfg eng) b" ..
  have "map_of (catalogue b) ''web_search'' = Some (perms LOW False)" by (cases b) (simp_all add: catalogue_defs)
  then show thesis
    by (intro that [of "make_tool (tool_body sys cfg eng) (''web_search'', perms LOW False)"])
      (simp_all add: r build_registry_get make_tool_def tool_body_def fun_eq_iff enforce_permissions_Inr_iff
        needs_approval_def perms_def)
qed

lemma search_call_raises:
  assumes "tenacity_contract (sys_retrier sys)"
    "\<And>w. \<exists>e. fst (web_search_execute (sys_tavily_key sys) (sys_read_float sys) (sys_tavily sys) i w) = Inl e"
  shows "\<exists>e. fst (system_execute sys (registry_at d sys cfg b) ''web_search'' (SearchWeb i) None s) = Inl e \<and> is_retryable_error e"
proof -
  obtain t where t: "registry_get (registry_at d sys cfg b) ''web_search'' = Inr t"
    "tool_execute t (SearchWeb i) =
       in_world (mapE SearchResults (on_outside (web_search_execute (sys_tavily_key sys) (sys_read_float sys) (sys_tavily sys) i)))"
    "\<And>c. enforce_permissions t c = Inr ()"
    using search_registered [of d sys cfg b] by metis
  have "\<exists>e. fst (tool_execute t (SearchWeb i) s) = Inl e" for s
    using assms(2) [of "mc_world (eng_world s)"]
    by (auto simp: t(2) in_world_def mapE_def bindE_def on_outside_def split: prod.splits sum.splits)
  then have "\<exists>e. fst (execute_with_retry (sys_retrier sys) t (SearchWeb i) s) = Inl e" for s
    unfolding execute_with_retry_def by (intro retry_raises [OF assms(1)]) simp_all
  then have body: "\<exists>e u. execute_with_retry (sys_retrier sys) t (SearchWeb i) s = (Inl e, u)" for s
    by (metis prod.collapse)
  show ?thesis
  proof (cases "token_granted (sys_clock sys) ''web_search'' s")
    case False
    then show ?thesis
      by (simp add: system_execute_def execute_through_def op_defs Let_def t is_retryable_error_def is_app_instance_def app_error_def)
  next
    case True
    obtain row s1 where row: "start_tool_call t default_context (SearchWeb i) (after_token (sys_clock sys) ''web_search'' s) = (Inr row, s1)"
      using start_tool_call_Inr by metis
    obtain e u where "execute_with_retry (sys_retrier sys) t (SearchWeb i) (s1\<lparr>eng_clock := Suc (eng_clock s1)\<rparr>) = (Inl e, u)"
      using body by blast
    with True row show ?thesis
      by (auto simp: system_execute_def execute_through_def op_defs Let_def t tryE_def monotonic_def
          finish_tool_call_def is_retryable_error_def is_app_instance_def app_error_def)
  qed
qed
text \<open>
  C38. Errors below become retries above: when the search raises whatever error it likes, the engine
  wraps it in one it retries, so an admitted check calls the search three times, each call with its
  own token and its own attempts, and then fails.
\<close>

theorem nested_errors_repeat:
  assumes "tenacity_contract (sys_retrier sys)"
    "\<And>i w. \<exists>e. fst (web_search_execute (sys_tavily_key sys) (sys_read_float sys) (sys_tavily sys) i w) = Inl e"
    "registry_get (system_registry sys cfg b) ''fact_check'' = Inr t" "tf_engine cfg"
    "fx_claims inp = c # cs" "valid_fact_claim c"
  shows "\<exists>e. execute_with_retry (sys_retrier sys) t (CheckFacts inp) s =
    (Inl e, ((\<lambda>s. snd (system_execute sys (system_registry sys cfg b) ''web_search''
       (SearchWeb \<lparr>si_query = narrow_query (fc_claim c), si_max_results = 5\<rparr>) None s)) ^^ 3) s)"
proof -
  let ?q = "\<lparr>si_query = narrow_query (fc_claim c), si_max_results = 5\<rparr>"
  let ?search = "\<lambda>d i. system_execute sys (registry_at d sys cfg b) ''web_search'' (SearchWeb i) None"
  let ?eng = "sub_engine_of sys (registry_at 0 sys cfg b)"
  have fails: "\<exists>e. fst (?search 0 i s) = Inl e \<and> is_retryable_error e" for i s
    using search_call_raises [OF assms(1,2)] .
  have sub: "snd (se_execute ?eng ''web_search'' (SearchIn i) None s) = snd (?search 0 i s) \<and>
    fst (se_execute ?eng ''web_search'' (SearchIn i) None s) = Inl e" if "fst (?search 0 i s) = Inl e" for i s e
    using that by (simp add: sub_engine_of_def bindE_def case_prod_beta del: registry_at.simps)
  have contains: "se_contains ?eng ''web_search''" "se_contains ?eng ''web_fetch''"
    by (cases b; simp add: sub_engine_of_def registry_at_contains catalogue_defs del: registry_at.simps)+
  have body: "\<exists>e. fst (tool_execute t (CheckFacts inp) s) = Inl e \<and> is_retryable_error e \<and>
      snd (tool_execute t (CheckFacts inp) s) = snd (?search 0 ?q s)" for s
  proof -
    have "\<exists>e. fst (se_execute ?eng ''web_search'' (SearchIn i) None s) = Inl e \<and> is_retryable_error e" for i s
      using fails [of i s] sub [of i s] by blast
    from check_claims_raises [OF assms(6) this] obtain e where
      e: "fst (check_claims ?eng MAX_SEARCH_RESULTS (c # cs) s) = Inl e" "is_retryable_error e"
      "snd (check_claims ?eng MAX_SEARCH_RESULTS (c # cs) s) = snd (se_execute ?eng ''web_search'' (SearchIn ?q) None s)"
      by blast
    have "tool_execute t (CheckFacts inp) = mapE FactsChecked (check_claims ?eng MAX_SEARCH_RESULTS (c # cs))"
      using built_tool(1) [of sys cfg ?eng b "''fact_check''" t "CheckFacts inp"] assms(3-5) contains
      by (simp add: system_registry_def fact_check_execute_def del: registry_at.simps(1))
    with e fails [of ?q s] sub [of ?q s] show ?thesis
      by (auto simp: mapE_def bindE_def case_prod_beta split: sum.splits)
  qed
  then have "\<exists>e. fst (tool_execute t (CheckFacts inp) s) = Inl e \<and> is_retryable_error e" for s by blast
  from retry_repeats [where m = "tool_execute t (CheckFacts inp)" and p = is_retryable_error and n = 3 and s = s, OF assms(1) this] obtain e where
    "execute_with_retry (sys_retrier sys) t (CheckFacts inp) s = (Inl e, ((\<lambda>s. snd (tool_execute t (CheckFacts inp) s)) ^^ 3) s)"
    by (auto simp: execute_with_retry_def)
  moreover have "(\<lambda>s. snd (tool_execute t (CheckFacts inp) s)) = (\<lambda>s. snd (?search 1 ?q s))"
    using body leaf_call [of "''web_search''" sys 0 cfg b 1] by (auto simp del: registry_at.simps)
  ultimately show ?thesis by (auto simp: system_registry_def simp del: registry_at.simps)
qed


definition sample_config :: tool_config where
  "sample_config = \<lparr>tf_session = True, tf_engine = True, tf_x = x_tokens sample_social, tf_li = li_tokens sample_social\<rparr>"

definition sample_facts :: fact_input where
  "sample_facts = \<lparr>fx_claims = [\<lparr>fc_claim = ''water is wet'', fc_source_url = None\<rparr>], fx_max_search_results = 5\<rparr>"

definition sample_engine :: "nat system_engine" where
  "sample_engine = \<lparr>eng_has_session = True, eng_limiter = \<lparr>rl_rpm = 60, rl_refill_rate = 1, rl_max_tokens = 60,
     rl_tokens = Map.empty, rl_last_refill = Map.empty\<rparr>, eng_calls = [], eng_fresh = 0, eng_clock = 0,
     eng_world = sample_machine\<rparr>"

theorem nested_errors_repeat_witness:
  "\<exists>t e. registry_get (system_registry sample_system sample_config False) ''fact_check'' = Inr t \<and>
    execute_with_retry plain_retry t (CheckFacts sample_facts) sample_engine =
      (Inl e, ((\<lambda>s. snd (system_execute sample_system (system_registry sample_system sample_config False) ''web_search''
         (SearchWeb \<lparr>si_query = narrow_query ''water is wet'', si_max_results = 5\<rparr>) None s)) ^^ 3) sample_engine)"
proof -
  obtain t where t: "registry_get (system_registry sample_system sample_config False) ''fact_check'' = Inr t"
    by (simp add: system_registry_def build_registry_get catalogue_defs)
  have "tenacity_contract (sys_retrier sample_system)" by (simp add: sample_system_def plain_retry_contract)
  moreover have "\<exists>e. fst (web_search_execute (sys_tavily_key sample_system) (sys_read_float sample_system)
      (sys_tavily sample_system) i w) = Inl e" for i w
    by (simp add: sample_system_def web_search_execute_def raiseE_def)
  ultimately show ?thesis
    using nested_errors_repeat [OF _ _ t, of sample_facts "\<lparr>fc_claim = ''water is wet'', fc_source_url = None\<rparr>" "[]" sample_engine] t
    by (simp add: sample_config_def sample_facts_def valid_fact_claim_def) (simp add: sample_system_def)
qed

text \<open>The body of a refused call does delete the file: it is the gate that keeps it.\<close>

lemma ungated_body_deletes:
  "node_at (mc_os (eng_world (snd (tool_body sample_system cfg eng ''file_delete'' (FileDelete \<lparr>fdi_path = ''/a''\<rparr>)
     \<lparr>eng_has_session = False, eng_limiter = rl, eng_calls = [], eng_fresh = 0, eng_clock = 0, eng_world = sample_machine\<rparr>))))
     [''a''] = None"
  by code_simp

end
