(* ===== verification/Content_Properties.thy ===== *)
theory Content_Properties
  imports Content
begin

text \<open>
  Threads keep the text and respect the limits, stored drafts are valid, and what the link
  check really accepts.
\<close>

section \<open>Validation\<close>

lemma concat_options: "concat (map (\<lambda>c. case c of None \<Rightarrow> [] | Some i \<Rightarrow> [i]) cs) = [] \<longleftrightarrow> list_all (\<lambda>c. c = None) cs"
  by (induction cs) (auto split: option.splits)

lemma validate_content_valid:
  "va_valid (validate_content p content existing) \<longleftrightarrow>
   py_strip content \<noteq> [] \<and> length content \<le> PLATFORM_CHARACTER_LIMITS p \<and>
   (\<forall>url \<in> set (re_findall URL_PATTERN content). \<not> malformed_link url) \<and> content_hash content \<notin> existing"
proof -
  have "validate_links content = None \<longleftrightarrow> filter malformed_link (re_findall URL_PATTERN content) = []"
    by (simp add: validate_links_def split: list.splits)
  also have "\<dots> \<longleftrightarrow> (\<forall>url \<in> set (re_findall URL_PATTERN content). \<not> malformed_link url)"
    by (simp add: filter_empty_conv)
  finally show ?thesis
    unfolding validate_content_def Let_def
    by (auto simp: concat_options validate_length_def validate_duplicate_def simp del: concat.simps list.map)
qed

lemma validate_content_issues:
  "va_valid v \<longleftrightarrow> va_issues v = []" if "v = validate_content p content existing" for v
  using that by (simp add: validate_content_def Let_def)

section \<open>Grouping sentences\<close>

definition fits :: "string list \<Rightarrow> bool" where
  "fits g = (g \<noteq> [] \<and> (length g = 1 \<or> length (py_join '' '' g) \<le> THREAD_BUDGET))"

definition group_inv :: "string list list \<Rightarrow> string list \<Rightarrow> nat \<Rightarrow> bool" where
  "group_inv groups current len = (list_all fits groups \<and> (current \<noteq> [] \<longrightarrow> fits current) \<and>
     len = length (py_join '' '' current) \<and> (current = [] \<longrightarrow> groups = []))"

lemma length_join_snoc:
  "length (py_join '' '' (xs @ [y])) = (if xs = [] then length y else length (py_join '' '' xs) + 1 + length y)"
  by (simp add: py_join_snoc)

lemma fold_group:
  "group_inv groups current len \<Longrightarrow>
   \<exists>groups' current' len'. fold (\<lambda>s st. group_step st s) ss (map (py_join '' '') groups, current, len) =
       (map (py_join '' '') groups', current', len') \<and> group_inv groups' current' len' \<and>
     concat groups' @ current' = concat groups @ current @ ss"
proof (induction ss arbitrary: groups current len)
  case (Cons s ss)
  let ?needed = "if current = [] then length s else len + 1 + length s"
  show ?case
  proof (cases "current \<noteq> [] \<and> ?needed > THREAD_BUDGET")
    case True
    then have st: "group_step (map (py_join '' '') groups, current, len) s =
        (map (py_join '' '') (groups @ [current]), [s], length s)"
      by (auto simp: group_step_def Let_def)
    have "group_inv (groups @ [current]) [s] (length s)"
      using Cons.prems True by (auto simp: group_inv_def fits_def)
    from Cons.IH [OF this] show ?thesis by (simp add: st)
  next
    case False
    then have st: "group_step (map (py_join '' '') groups, current, len) s =
        (map (py_join '' '') groups, current @ [s], ?needed)"
      by (auto simp: group_step_def Let_def)
    have "?needed = length (py_join '' '' (current @ [s]))"
      using Cons.prems by (auto simp: group_inv_def length_join_snoc)
    moreover have "fits (current @ [s])"
      using False Cons.prems by (cases "current = []") (auto simp: fits_def group_inv_def length_join_snoc)
    ultimately have "group_inv groups (current @ [s]) ?needed"
      using Cons.prems by (auto simp: group_inv_def)
    from Cons.IH [OF this] show ?thesis by (simp add: st)
  qed
qed auto

lemma group_sentences_groups:
  "\<exists>groups. group_sentences ss = map (py_join '' '') groups \<and> list_all fits groups \<and> concat groups = ss"
proof -
  have "group_inv [] [] 0" by (simp add: group_inv_def)
  from fold_group [OF this, of ss] obtain groups current len where
    f: "fold (\<lambda>s st. group_step st s) ss ([], [], 0) = (map (py_join '' '') groups, current, len)"
    and inv: "group_inv groups current len" and c: "concat groups @ current = ss" by auto
  show ?thesis
  proof (cases "current = []")
    case True
    with f inv c show ?thesis
      by (intro exI [of _ groups]) (auto simp: group_sentences_def group_inv_def)
  next
    case False
    with f inv c show ?thesis
      by (intro exI [of _ "groups @ [current]"]) (auto simp: group_sentences_def group_inv_def)
  qed
qed

lemma join_groups:
  "list_all (\<lambda>g. g \<noteq> []) groups \<Longrightarrow> py_join sep (map (py_join sep) groups) = py_join sep (concat groups)"
proof (induction groups)
  case (Cons g groups)
  show ?case
  proof (cases groups)
    case (Cons h hs)
    then have "concat groups \<noteq> []" using Cons.prems by auto
    with Cons Cons.prems Cons.IH show ?thesis by (simp add: py_join_append)
  qed simp
qed simp

lemma fits_nonempty: "list_all fits groups \<Longrightarrow> list_all (\<lambda>g. g \<noteq> []) groups"
  by (auto simp: list_all_iff fits_def)

lemma number_posts_nth:
  "i < length raw \<Longrightarrow> number_posts raw ! i = \<lparr>tp_index = i + 1, tp_total = length raw,
     tp_content = raw ! i @ number_suffix (i + 1) (length raw)\<rparr>"
  by (simp add: number_posts_def)

lemma length_number_posts [simp]: "length (number_posts raw) = length raw"
  by (simp add: number_posts_def)

lemma length_number_suffix: "0 < i \<Longrightarrow> i \<le> n \<Longrightarrow> n < 10 \<Longrightarrow> length (number_suffix i n) = 4"
  by (simp add: number_suffix_def length_show_nat_1)

section \<open>Properties\<close>

text \<open>
  A thread is the text: the posts of the thread, joined with blanks, are the sentences
  of the content joined with blanks, in order and without loss, and every post is within
  the budget of 275 characters unless it is one single sentence.
\<close>

theorem thread_keeps_text:
  "py_join '' '' (build_raw_posts content) = py_join '' '' (split_into_sentences content) \<and>
   (\<forall>post \<in> set (build_raw_posts content). length post \<le> THREAD_BUDGET \<or> post \<in> set (split_into_sentences content))"
proof -
  obtain groups where g: "build_raw_posts content = map (py_join '' '') groups" "list_all fits groups"
    "concat groups = split_into_sentences content"
    using group_sentences_groups unfolding build_raw_posts_def by blast
  have "length post \<le> THREAD_BUDGET \<or> post \<in> set (split_into_sentences content)"
    if "post \<in> set (build_raw_posts content)" for post
  proof -
    from that g(1) obtain grp where grp: "grp \<in> set groups" "post = py_join '' '' grp" by auto
    with g(2) have "fits grp" by (simp add: list_all_iff)
    show ?thesis
    proof (cases "length grp = 1")
      case True
      then obtain x where "grp = [x]" by (auto simp: length_Suc_conv)
      with grp show ?thesis unfolding g(3) [symmetric] by (auto intro!: bexI [of _ "[x]"])
    next
      case False
      with \<open>fits grp\<close> grp show ?thesis by (simp add: fits_def)
    qed
  qed
  with g join_groups [OF fits_nonempty [OF g(2)], of "'' ''"] show ?thesis by auto
qed

theorem thread_keeps_text_witness:
  "py_join '' '' (build_raw_posts ''One. Two!'') = py_join '' '' (split_into_sentences ''One. Two!'')"
  using thread_keeps_text [of "''One. Two!''"] by blast

text \<open>
  C34. What the drafting tool calls valid fits the platform: a valid answer for X holds
  posts numbered from one to their number, each of at most 280 characters, or is the
  content itself within the limit; for LinkedIn it is the content within 3000 characters.
\<close>

theorem valid_draft_fits:
  assumes "content_draft_execute p content = out" "do_valid out"
  shows "(do_thread out = [] \<and> do_formatted out = content \<and> length content \<le> PLATFORM_CHARACTER_LIMITS p \<and>
      py_strip content \<noteq> []) \<or>
    (p = X \<and> length content > 280 \<and> do_formatted out = py_join (newline @ newline) (map tp_content (do_thread out)) \<and>
      map tp_index (do_thread out) = [1..<Suc (length (do_thread out))] \<and>
      (\<forall>post \<in> set (do_thread out). tp_total post = length (do_thread out) \<and> length (tp_content post) \<le> 280))"
proof (cases "p = X \<and> length content > 280")
  case False
  with assms show ?thesis
    by (auto simp: content_draft_execute_def Let_def validate_content_valid split: if_splits)
next
  case True
  let ?raw = "build_raw_posts content"
  have out: "do_thread out = number_posts ?raw"
    "do_formatted out = py_join (newline @ newline) (map tp_content (number_posts ?raw))"
    "\<forall>q \<in> set (number_posts ?raw). va_valid (validate_content X (tp_content q) {})"
    using assms True
    by (auto simp: content_draft_execute_def Let_def filter_empty_conv split: list.splits if_splits)
  have "map tp_index (number_posts ?raw) = [1..<Suc (length ?raw)]"
    by (rule nth_equalityI) (simp_all add: number_posts_nth del: upt_Suc)
  moreover have "tp_total post = length ?raw" if "post \<in> set (number_posts ?raw)" for post
    using that by (auto simp: in_set_conv_nth number_posts_nth)
  ultimately show ?thesis using True out by (simp add: validate_content_valid)
qed

theorem valid_draft_fits_witness:
  "length ''Hello there.'' \<le> PLATFORM_CHARACTER_LIMITS LinkedIn"
proof -
  have "py_strip ''Hello there.'' \<noteq> []" by (simp add: py_strip_Nil_iff char_class_defs)
  moreover have "re_findall URL_PATTERN ''Hello there.'' = []" by code_simp
  ultimately have "do_valid (content_draft_execute LinkedIn ''Hello there.'')"
    by (simp add: content_draft_execute_def Let_def validate_content_valid)
  from valid_draft_fits [OF refl this] show ?thesis by simp
qed


text \<open>
  The numbering fits: when the content makes at most nine posts and no sentence is
  longer than 275 characters, every numbered post has at most 280 characters. With ten
  posts or more a full post exceeds the limit.
\<close>

theorem numbered_posts_fit:
  assumes "length (build_raw_posts content) < 10" "list_all (\<lambda>x. length x \<le> THREAD_BUDGET) (split_into_sentences content)"
    "post \<in> set (number_posts (build_raw_posts content))"
  shows "length (tp_content post) \<le> 280"
proof -
  let ?raw = "build_raw_posts content"
  from assms(3) obtain i where i: "i < length ?raw" "post = number_posts ?raw ! i"
    by (auto simp: in_set_conv_nth)
  have "length (?raw ! i) \<le> THREAD_BUDGET"
  proof -
    obtain groups where g: "?raw = map (py_join '' '') groups" "list_all fits groups"
      "concat groups = split_into_sentences content"
      using group_sentences_groups unfolding build_raw_posts_def by blast
    then have f: "fits (groups ! i)" "?raw ! i = py_join '' '' (groups ! i)" "groups ! i \<in> set groups"
      using i(1) by (auto simp: list_all_length)
    then show ?thesis
    proof (cases "length (groups ! i) = 1")
      case True
      then obtain x where x: "groups ! i = [x]" by (auto simp: length_Suc_conv)
      with f(3) have "x \<in> set (split_into_sentences content)" unfolding g(3) [symmetric]
        by (auto intro!: bexI [of _ "[x]"])
      with assms(2) f(2) x show ?thesis by (simp add: list_all_iff)
    qed (simp add: fits_def)
  qed
  with i assms(1) length_number_suffix [of "i + 1" "length ?raw"] show ?thesis
    by (simp add: number_posts_nth THREAD_BUDGET_def)
qed

theorem numbered_posts_fit_witness:
  "length (tp_content (number_posts (build_raw_posts ''One. Two!'') ! 0)) \<le> 280"
proof -
  have a: "length (build_raw_posts ''One. Two!'') < 10" by code_simp
  have "list_all (\<lambda>x. length x \<le> 275) (split_into_sentences ''One. Two!'')" by code_simp
  moreover have "0 < length (number_posts (build_raw_posts ''One. Two!''))" by code_simp
  then have "number_posts (build_raw_posts ''One. Two!'') ! 0 \<in> set (number_posts (build_raw_posts ''One. Two!''))"
    by (rule nth_mem)
  ultimately show ?thesis using numbered_posts_fit [OF a] unfolding THREAD_BUDGET_def by blast
qed

text \<open>The pattern of \<open>_URL_PATTERN\<close> on a text without the letter \<open>s\<close> and without backslashes.\<close>

lemma url_pattern_whole:
  assumes "list_all url_char rest" "rest \<noteq> []"
  shows "re_findall URL_PATTERN (''http://'' @ rest) = [''http://'' @ rest]"
proof -
  obtain c cs where r: "rest = c # cs" using assms(2) by (cases rest) auto
  have t: "takeWhile url_char cs = cs" using assms(1) r by (simp add: takeWhile_eq_all_conv list_all_iff)
  from mt_Plus_Ch [of url_char c "rev ''http://''" cs] assms(1) r t obtain xs where
    m: "mt (Plus (Ch url_char)) (rev ''http://'') (c # cs) = Suc (length cs) # xs" by auto
  have "\<exists>ys. mt URL_PATTERN [] (''http://'' @ rest) = length (''http://'' @ rest) # ys"
    using m by (simp add: URL_PATTERN_def Opt_def char_is_def r)
  then have "first_len URL_PATTERN [] (''http://'' @ rest) = length (''http://'' @ rest)"
    by (auto simp: first_len_def)
  then show ?thesis by (simp add: re_findall_def Let_def)
qed

text \<open>
  The link check flags ordinary text: in a text that begins with a link and continues
  after a blank, without the letter \<open>s\<close> or a backslash, the link is taken to reach to the
  end of the text and is reported as malformed, however well-formed it is.
\<close>

theorem link_with_text_flagged:
  assumes "list_all url_char host" "list_all url_char rest"
  shows "validate_links (''http://'' @ host @ '' '' @ rest) =
    Some \<lparr>is_check = CheckLinks, is_message = Msg ''Malformed link: {}'' [AStr (''http://'' @ host @ '' '' @ rest)]\<rparr>"
proof -
  have "list_all url_char (host @ '' '' @ rest)" using assms by (simp add: url_char_def)
  from url_pattern_whole [OF this] have
    "re_findall URL_PATTERN (''http://'' @ host @ '' '' @ rest) = [''http://'' @ host @ '' '' @ rest]" by simp
  moreover have "malformed_link (''http://'' @ host @ '' '' @ rest)" by (simp add: malformed_link_def)
  ultimately show ?thesis by (simp add: validate_links_def)
qed

theorem link_with_text_flagged_witness:
  "validate_links ''http://agentoperator.io today'' \<noteq> None \<and> validate_links ''http://agentoperator.io'' = None"
proof -
  have "list_all url_char ''agentoperator.io''" "list_all url_char ''today''"
    by (simp_all add: url_char_def)
  from link_with_text_flagged [OF this] have "validate_links ''http://agentoperator.io today'' \<noteq> None" by simp
  moreover have "validate_links ''http://agentoperator.io'' = None" by code_simp
  ultimately show ?thesis by blast
qed


section \<open>Stored drafts\<close>

definition draft_valid :: "draft \<Rightarrow> bool" where
  "draft_valid d = va_valid (validate_content (d_platform d) (d_content d) {})"

definition drafts_valid :: "draft table \<Rightarrow> bool" where
  "drafts_valid t = (\<forall>k d. tget t k = Some d \<longrightarrow> draft_valid d)"

lemma drafts_valid_put: "drafts_valid t \<Longrightarrow> draft_valid d \<Longrightarrow> drafts_valid (tput k d t)"
  by (simp add: drafts_valid_def)



lemma re_split_Nil [simp]: "re_split r [] = [[]]"
  by (simp add: re_split_def)

text \<open>
  A blank text of more than 280 characters passes the drafting tool for X as a valid
  thread without posts, although a shorter blank text is refused as empty.
\<close>

theorem blank_text_thread:
  assumes "list_all is_space content" "length content > 280"
  shows "content_draft_execute X content =
      \<lparr>do_valid = True, do_thread = [], do_issues = [], do_formatted = []\<rparr> \<and>
    \<not> do_valid (content_draft_execute X (take 280 content))"
proof -
  have "py_strip content = []" "py_strip (take 280 content) = []"
    using assms(1) by (auto simp: py_strip_Nil_iff list_all_iff dest: in_set_takeD)
  note blank = this
  have "py_strip [] = []" by (simp add: py_strip_def)
  with blank(1) have "split_into_sentences content = []" by (simp add: split_into_sentences_def)
  then have "build_raw_posts content = []" by (simp add: build_raw_posts_def group_sentences_def)
  then have "number_posts (build_raw_posts content) = []" by (simp add: number_posts_def)
  with assms(2) have "content_draft_execute X content =
      \<lparr>do_valid = True, do_thread = [], do_issues = [], do_formatted = []\<rparr>"
    by (simp add: content_draft_execute_def)
  moreover have "\<not> do_valid (content_draft_execute X (take 280 content))"
    using blank(2) by (simp add: content_draft_execute_def validate_content_def)
  ultimately show ?thesis by blast
qed

theorem blank_text_thread_witness:
  "do_valid (content_draft_execute X (replicate 300 (CHR '' '')))"
proof -
  have "list_all is_space (replicate 300 (CHR '' ''))" by (simp add: list_all_iff char_class_defs)
  from blank_text_thread [OF this] show ?thesis by simp
qed

text \<open>
  The tone check fails open: if the model raises or its answer is not JSON, no issue
  is reported; whatever it reports is about tone or safety; and the only exception it lets
  out is the type error of an answer that is a bare number, truth value or null.
\<close>

theorem tone_check_fails_open:
  "(\<forall>e. fst (ainvoke (tone_messages content tone) w) = Inl e \<longrightarrow> fst (tone_check loads ainvoke content tone w) = Inr []) \<and>
   (\<forall>issues. fst (tone_check loads ainvoke content tone w) = Inr issues \<longrightarrow>
      (\<forall>i \<in> set issues. is_check i = CheckTone \<or> is_check i = CheckSafety)) \<and>
   (\<forall>e. fst (tone_check loads ainvoke content tone w) = Inl e \<longrightarrow> exn_class e = PyOther ''TypeError'')"
proof -
  have i: "is_check i = CheckTone \<or> is_check i = CheckSafety" if "i \<in> set (tone_issue item)" for i item
    using that by (auto simp: tone_issue_def split: jvalue.splits option.splits if_splits)
  obtain r w' where a: "ainvoke (tone_messages content tone) w = (r, w')" by fastforce
  have t: "(\<forall>issues. tone_issues d = Inr issues \<longrightarrow> (\<forall>i \<in> set issues. is_check i = CheckTone \<or> is_check i = CheckSafety)) \<and>
      (\<forall>e. tone_issues d = Inl e \<longrightarrow> exn_class e = PyOther ''TypeError'')" for d
    using i by (cases d) (auto simp: tone_issues_def)
  show ?thesis
  proof (cases r)
    case (Inl e)
    with a show ?thesis by (simp add: tone_check_def bindE_def tryE_def retE_def)
  next
    case (Inr reply)
    with a t show ?thesis
      by (cases "loads (strip_fences (py_strip reply))")
        (simp_all add: tone_check_def bindE_def tryE_def retE_def liftE_def)
  qed
qed

theorem tone_check_fails_open_witness:
  "fst (tone_check (\<lambda>_. None) (\<lambda>ms. raiseE (py_error PyOSError '''' [])) ''x'' Casual (0 :: nat)) = Inr []"
  using tone_check_fails_open [of "\<lambda>ms. raiseE (py_error PyOSError '''' [])" "''x''" Casual "0 :: nat" "\<lambda>_. None"]
  by (simp add: raiseE_def)

end
