(* ===== verification/Secrets_Audit.thy ===== *)
theory Secrets_Audit
  imports Py_Regex Operator_Errors
begin

text \<open>
  The secrets audit of \<open>app/services/audit_service.py\<close> and its route: the patterns, the
  redaction and the scan of the newest tool calls. A row keeps the identifier and the
  creation time of a tool call and its two JSON columns; \<open>show\<close> is \<open>str\<close> on such a value
  and \<open>true\<close> its truth value, both arguments.
\<close>

section \<open>Patterns\<close>

definition bearer_char :: "char \<Rightarrow> bool" where
  "bearer_char c = (is_alnum c \<or> c = CHR ''_'' \<or> c = CHR ''-'' \<or> c = CHR ''.'')"

definition separator_char :: "char \<Rightarrow> bool" where
  "separator_char c = (is_space c \<or> c = CHR '':'' \<or> c = CHR ''='')"

definition not_space :: "char \<Rightarrow> bool" where
  "not_space c = (\<not> is_space c)"

definition github_kind :: "char \<Rightarrow> bool" where
  "github_kind c = (c \<in> set ''pousr'')"

definition API_KEY :: re where
  "API_KEY = Seq (lit ''sk-'') (AtLeast 20 (Ch is_alnum))"

definition GITHUB_TOKEN :: re where
  "GITHUB_TOKEN = Seq (lit ''gh'') (Seq (Ch github_kind) (Seq (lit ''_'') (AtLeast 36 (Ch is_alnum))))"

definition BEARER_TOKEN :: re where
  "BEARER_TOKEN = Seq (lit ''Bearer'') (Seq (Plus (Ch is_space)) (AtLeast 20 (Ch bearer_char)))"

definition PRIVATE_KEY :: re where
  "PRIVATE_KEY = Seq (lit ''-----BEGIN '') (Seq (Opt (Alts [lit ''RSA '', lit ''EC '', lit ''DSA '']))
     (lit ''PRIVATE KEY-----''))"

definition PASSWORD :: re where
  "PASSWORD = Seq (lit_ic ''password'') (Seq (Plus (Ch separator_char)) (AtLeast 4 (Ch not_space)))"

definition SECRET_PATTERNS :: "(string \<times> re) list" where
  "SECRET_PATTERNS = [(''api_key'', API_KEY), (''github_token'', GITHUB_TOKEN), (''bearer_token'', BEARER_TOKEN),
     (''private_key'', PRIVATE_KEY), (''password'', PASSWORD)]"

section \<open>Scanning\<close>

text \<open>\<open>value[:4] + "..." + value[-4:]\<close>, with two characters for a short value.\<close>

definition last_chars :: "nat \<Rightarrow> string \<Rightarrow> string" where
  "last_chars n s = drop (length s - n) s"

definition redact :: "string \<Rightarrow> string" where
  "redact value =
     (if length value \<le> 8 then take 2 value @ ''...'' @ last_chars 2 value
      else take 4 value @ ''...'' @ last_chars 4 value)"

record finding =
  sf_tool_call_id :: uuid
  sf_field :: string
  sf_pattern :: string
  sf_preview :: string

definition scan_value :: "uuid \<Rightarrow> string \<Rightarrow> string \<Rightarrow> finding list" where
  "scan_value call field text =
     concat (map (\<lambda>(name, r). map (\<lambda>m. \<lparr>sf_tool_call_id = call, sf_field = field, sf_pattern = name,
        sf_preview = redact m\<rparr>) (re_findall r text)) SECRET_PATTERNS)"

record 'v call_record =
  cr_id :: uuid
  cr_created_at :: int
  cr_input :: 'v
  cr_output :: 'v

record audit_result =
  ar_scanned :: nat
  ar_findings :: "finding list"

definition scan_call :: "('v \<Rightarrow> bool) \<Rightarrow> ('v \<Rightarrow> string) \<Rightarrow> 'v call_record \<Rightarrow> finding list" where
  "scan_call true show c =
     (if true (cr_input c) then scan_value (cr_id c) ''input'' (show (cr_input c)) else []) @
     (if true (cr_output c) then scan_value (cr_id c) ''output'' (show (cr_output c)) else [])"

text \<open>\<open>order_by(created_at.desc()).limit(limit)\<close>.\<close>

definition newest_calls :: "nat \<Rightarrow> 'v call_record list \<Rightarrow> 'v call_record list" where
  "newest_calls limit calls = take limit (sort_key (\<lambda>c. - cr_created_at c) calls)"

definition audit_tool_calls ::
  "('v \<Rightarrow> bool) \<Rightarrow> ('v \<Rightarrow> string) \<Rightarrow> nat \<Rightarrow> 'v call_record list \<Rightarrow> audit_result" where
  "audit_tool_calls true show limit calls =
     (let rows = newest_calls limit calls in
      \<lparr>ar_scanned = length rows, ar_findings = concat (map (scan_call true show) rows)\<rparr>)"

definition audit_secrets_route :: "('v \<Rightarrow> bool) \<Rightarrow> ('v \<Rightarrow> string) \<Rightarrow> 'v call_record list \<Rightarrow> audit_result" where
  "audit_secrets_route true show calls = audit_tool_calls true show 1000 calls"

lemmas secret_pattern_defs = API_KEY_def GITHUB_TOKEN_def BEARER_TOKEN_def PRIVATE_KEY_def PASSWORD_def

section \<open>Searching for a pattern\<close>

lemma findall_at_nonempty:
  assumes "pure_re r" "[] \<notin> lang r" "w \<in> lang r"
  shows "findall_at r b (u @ w @ v) \<noteq> []"
proof (induction u arbitrary: b)
  case Nil
  have "w \<noteq> []" using assms by auto
  then obtain c cs where w: "w = c # cs" by (cases w) auto
  have "length w \<in> set (mt r b (w @ v))" by (rule mt_complete [OF assms(1,3)])
  then obtain i js where i: "mt r b (w @ v) = i # js" by (cases "mt r b (w @ v)") auto
  then have "i \<in> set (mt r b (w @ v))" by simp
  then have "i \<le> length (w @ v)" "take i (w @ v) \<in> lang r" using mt_le mt_sound [OF assms(1)] by blast+
  then have "0 < first_len r b (w @ v)" using i assms(2) by (cases i) (auto simp: first_len_def)
  then show ?case unfolding w by (simp add: Let_def)
next
  case (Cons c u)
  then show ?case by (auto simp: Let_def)
qed

lemma findall_iff:
  assumes "pure_re r" "[] \<notin> lang r"
  shows "re_findall r s \<noteq> [] \<longleftrightarrow> (\<exists>u w v. s = u @ w @ v \<and> w \<in> lang r)"
proof
  assume "re_findall r s \<noteq> []"
  then obtain x where "x \<in> set (findall_at r [] s)" by (cases "findall_at r [] s") (auto simp: re_findall_def)
  then obtain u v c where "s = u @ x @ v" "length x \<in> set (mt r c (x @ v))" using findall_at_mem by blast
  with mt_sound [OF assms(1), of "length x" c "x @ v"] show "\<exists>u w v. s = u @ w @ v \<and> w \<in> lang r" by auto
qed (auto simp: re_findall_def dest: findall_at_nonempty [OF assms])

lemma findall_lang: "pure_re r \<Longrightarrow> x \<in> set (re_findall r s) \<Longrightarrow> x \<in> lang r"
  unfolding re_findall_def using findall_at_mem [of x r "[]" s] mt_sound by fastforce

section \<open>The five languages\<close>

fun min_len :: "re \<Rightarrow> nat" where
  "min_len (Ch p) = 1"
| "min_len (Seq r q) = min_len r + min_len q"
| "min_len (Alt r q) = min (min_len r) (min_len q)"
| "min_len _ = 0"

lemma min_len_le: "w \<in> lang r \<Longrightarrow> min_len r \<le> length w"
proof (induction r arbitrary: w)
  case (Seq r q)
  then obtain u v where "w = u @ v" "min_len r \<le> length u" "min_len q \<le> length v" by auto
  then show ?case by simp
next
  case (Alt r q)
  from Alt.prems Alt.IH have "min_len r \<le> length w \<or> min_len q \<le> length w" by auto
  then show ?case by auto
qed auto

lemma min_len_AtLeast: "min_len (AtLeast n (Ch p)) = n"
  by (induction n) auto

lemma pure_AtLeast: "pure_re r \<Longrightarrow> pure_re (AtLeast n r)"
  by (induction n) auto

lemma patterns_pure: "(name, r) \<in> set SECRET_PATTERNS \<Longrightarrow> pure_re r"
  by (auto simp: SECRET_PATTERNS_def secret_pattern_defs pure_AtLeast Plus_def Opt_def)

lemma patterns_min_len: "(name, r) \<in> set SECRET_PATTERNS \<Longrightarrow> 13 \<le> min_len r"
  by (auto simp: SECRET_PATTERNS_def secret_pattern_defs min_len_AtLeast Plus_def Opt_def)

lemma patterns_no_empty: "(name, r) \<in> set SECRET_PATTERNS \<Longrightarrow> [] \<notin> lang r"
  using patterns_min_len min_len_le by fastforce

lemma scan_value_iff:
  "f \<in> set (scan_value k field body) \<longleftrightarrow> sf_tool_call_id f = k \<and> sf_field f = field \<and>
     (\<exists>r m. (sf_pattern f, r) \<in> set SECRET_PATTERNS \<and> m \<in> set (re_findall r body) \<and> sf_preview f = redact m)"
  by (cases f) (auto simp: scan_value_def)

lemma pattern_hit:
  "(\<exists>r m. (name, r) \<in> set SECRET_PATTERNS \<and> m \<in> set (re_findall r body)) \<longleftrightarrow>
   (\<exists>r u w v. (name, r) \<in> set SECRET_PATTERNS \<and> body = u @ w @ v \<and> w \<in> lang r)"
proof -
  have "(\<exists>r m. (name, r) \<in> set SECRET_PATTERNS \<and> m \<in> set (re_findall r body)) \<longleftrightarrow>
      (\<exists>r. (name, r) \<in> set SECRET_PATTERNS \<and> re_findall r body \<noteq> [])"
    by (metis list.set_sel(1) list.set(1) empty_iff)
  also have "\<dots> \<longleftrightarrow> (\<exists>r u w v. (name, r) \<in> set SECRET_PATTERNS \<and> body = u @ w @ v \<and> w \<in> lang r)"
    using findall_iff patterns_pure patterns_no_empty by metis
  finally show ?thesis .
qed

lemma scan_value_hit:
  "(\<exists>f \<in> set (scan_value k field body). sf_tool_call_id f = i \<and> sf_field f = field' \<and> sf_pattern f = name) \<longleftrightarrow>
   k = i \<and> field = field' \<and> (\<exists>r u w v. (name, r) \<in> set SECRET_PATTERNS \<and> body = u @ w @ v \<and> w \<in> lang r)"
  (is "?L \<longleftrightarrow> _")
proof -
  have "?L \<longleftrightarrow> k = i \<and> field = field' \<and> (\<exists>r m. (name, r) \<in> set SECRET_PATTERNS \<and> m \<in> set (re_findall r body))"
    (is "_ \<longleftrightarrow> ?M")
  proof
    assume ?L
    then show ?M unfolding Bex_def scan_value_iff by force
  next
    assume ?M
    then obtain r m where "k = i" "field = field'" "(name, r) \<in> set SECRET_PATTERNS" "m \<in> set (re_findall r body)" by blast
    then show ?L unfolding Bex_def scan_value_iff
      by (intro exI [of _ "\<lparr>sf_tool_call_id = i, sf_field = field', sf_pattern = name, sf_preview = redact m\<rparr>"]) auto
  qed
  then show ?thesis unfolding pattern_hit .
qed

lemma scan_call_iff:
  "f \<in> set (scan_call true show c) \<longleftrightarrow>
     (\<exists>(field, x) \<in> {(''input'', cr_input c), (''output'', cr_output c)}.
        true x \<and> f \<in> set (scan_value (cr_id c) field (show x)))"
  by (simp add: scan_call_def)

lemma scan_call_bex:
  "(\<exists>f \<in> set (scan_call true show c). P f) \<longleftrightarrow>
     (\<exists>(field, x) \<in> {(''input'', cr_input c), (''output'', cr_output c)}.
        true x \<and> (\<exists>f \<in> set (scan_value (cr_id c) field (show x)). P f))"
  unfolding Bex_def scan_call_iff by auto

lemma set_findings:
  "set (ar_findings (audit_tool_calls true show limit calls)) = (\<Union>c \<in> set (newest_calls limit calls). set (scan_call true show c))"
  by (simp add: audit_tool_calls_def Let_def)

lemma preview_redacts:
  assumes "f \<in> set (scan_value k field body)"
  shows "\<exists>r w. (sf_pattern f, r) \<in> set SECRET_PATTERNS \<and> w \<in> lang r \<and> 13 \<le> length w \<and>
    sf_preview f = take 4 w @ ''...'' @ last_chars 4 w \<and> length (sf_preview f) = 11"
proof -
  from assms obtain r m where m: "(sf_pattern f, r) \<in> set SECRET_PATTERNS" "m \<in> set (re_findall r body)"
    "sf_preview f = redact m" by (auto simp: scan_value_iff)
  then have "m \<in> lang r" using findall_lang patterns_pure by blast
  moreover from this have "13 \<le> length m" using min_len_le patterns_min_len [OF m(1)] le_trans by blast
  ultimately show ?thesis using m by (intro exI [of _ r] exI [of _ m]) (simp add: redact_def last_chars_def)
qed


text \<open>The audit's own report shows a secret of four characters in full.\<close>

lemma preview_of_short_secret: "length w = 4 \<Longrightarrow> redact (''password='' @ w) = ''pass...'' @ w"
  by (simp add: redact_def last_chars_def)

lemma newest_calls_newest:
  assumes "c \<in> set (newest_calls limit calls)" "d \<in> set calls" "d \<notin> set (newest_calls limit calls)"
  shows "cr_created_at d \<le> cr_created_at c"
proof -
  define xs where "xs = sort_key (\<lambda>c. - cr_created_at c) calls"
  have "sorted (map (\<lambda>c. - cr_created_at c) xs)" by (simp add: xs_def)
  then have ordered: "\<And>x y. x \<in> set (take limit xs) \<Longrightarrow> y \<in> set (drop limit xs) \<Longrightarrow> - cr_created_at x \<le> - cr_created_at y"
    using sorted_append [of "map (\<lambda>c. - cr_created_at c) (take limit xs)" "map (\<lambda>c. - cr_created_at c) (drop limit xs)"]
    by (simp flip: map_append)
  have c: "c \<in> set (take limit xs)" using assms(1) by (simp add: newest_calls_def xs_def)
  have "d \<in> set (take limit xs @ drop limit xs)" using assms(2) unfolding append_take_drop_id by (simp add: xs_def)
  then have "d \<in> set (drop limit xs)" using assms(3) unfolding newest_calls_def xs_def [symmetric] set_append by blast
  from ordered [OF c this] show ?thesis by simp
qed

end
