(* ===== verification/Py_Argparse.thy ===== *)
theory Py_Argparse
  imports Py_Regex
begin

text \<open>
  What the command line client uses of \<open>argparse\<close> (Python 3.11): parsers with options that store one
  value, the help option, and at most one positional, a text or the name of a command with a
  parser of its own. A parser reads a list of words into a namespace; an error ends the process with
  status 2, the help with 0. Messages are left out. \<open>int\<close> reads a number as Python does.
\<close>

section \<open>Parsers\<close>

datatype arg_value = NoValue | TextValue string | IntValue int

type_synonym namespace = "string \<rightharpoonup> arg_value"

text \<open>An option: its strings, whether it stores a value (else it is the help), as a number, and whether it must be given.\<close>

record arg_option =
  ao_strings :: "string list"
  ao_dest :: string
  ao_stores :: bool
  ao_int :: bool
  ao_required :: bool
  ao_default :: arg_value

datatype arg_positional = NoPositional | TextPositional string | CommandPositional string "string list"

record arg_parser =
  ap_options :: "arg_option list"
  ap_positional :: arg_positional

definition help_option :: arg_option where
  "help_option = \<lparr>ao_strings = [''-h'', ''--help''], ao_dest = ''help'', ao_stores = False, ao_int = False,
     ao_required = False, ao_default = NoValue\<rparr>"

text \<open>\<open>_option_string_actions\<close>, in the order of the declarations.\<close>

definition option_strings :: "arg_parser \<Rightarrow> (string \<times> arg_option) list" where
  "option_strings p = concat (map (\<lambda>a. map (\<lambda>s. (s, a)) (ao_strings a)) (ap_options p))"

section \<open>Numbers\<close>

definition digit_value :: "char \<Rightarrow> nat" where
  "digit_value c = char_code c - 48"

text \<open>Digits with single underscores between them.\<close>

fun int_digits :: "string \<Rightarrow> nat list option" where
  "int_digits [] = None"
| "int_digits [c] = (if is_digit c then Some [digit_value c] else None)"
| "int_digits (c # d # cs) =
     (if \<not> is_digit c then None
      else case int_digits (if d = CHR ''_'' then cs else d # cs) of
        None \<Rightarrow> None | Some ds \<Rightarrow> Some (digit_value c # ds))"

definition MAX_STR_DIGITS :: nat where
  "MAX_STR_DIGITS = 4300"

definition py_int :: "string \<Rightarrow> int option" where
  "py_int s =
     (let t = py_strip s;
          negative = (t \<noteq> [] \<and> hd t = CHR ''-'');
          body = (if t \<noteq> [] \<and> hd t \<in> {CHR ''-'', CHR ''+''} then tl t else t)
      in case int_digits body of
        None \<Rightarrow> None
      | Some ds \<Rightarrow> if length ds > MAX_STR_DIGITS then None
          else let n = int (foldl (\<lambda>n d. 10 * n + d) 0 ds) in Some (if negative then - n else n))"

section \<open>Which words are options\<close>

text \<open>\<open>(action, option_string, sep, explicit_arg)\<close>; the last two are one option here, the separator being \<open>=\<close> or nothing.\<close>

record option_match =
  om_action :: "arg_option option"
  om_string :: string
  om_explicit :: "(bool \<times> string) option"

definition EXIT_ERROR :: nat where
  "EXIT_ERROR = 2"

text \<open>\<open>s.partition('=')\<close>: what is before and after the first \<open>=\<close>, when there is one.\<close>

definition split_equals :: "string \<Rightarrow> string \<times> string option" where
  "split_equals s = (case dropWhile (\<lambda>c. c \<noteq> CHR ''='') s of
      [] \<Rightarrow> (s, None) | _ # rest \<Rightarrow> (takeWhile (\<lambda>c. c \<noteq> CHR ''='') s, Some rest))"

definition get_option_tuples :: "arg_parser \<Rightarrow> string \<Rightarrow> option_match list" where
  "get_option_tuples p arg =
     (if length arg \<ge> 2 \<and> arg ! 1 = CHR ''-'' then
        (case split_equals arg of (option_prefix, explicit) \<Rightarrow>
          map (\<lambda>(s, a). \<lparr>om_action = Some a, om_string = s, om_explicit = map_option (Pair True) explicit\<rparr>)
            (filter (\<lambda>(s, a). py_startswith s option_prefix) (option_strings p)))
      else
        concat (map (\<lambda>(s, a).
          if s = take 2 arg then [\<lparr>om_action = Some a, om_string = s, om_explicit = Some (False, drop 2 arg)\<rparr>]
          else if py_startswith s arg then [\<lparr>om_action = Some a, om_string = s, om_explicit = None\<rparr>]
          else []) (option_strings p)))"

definition NEGATIVE_NUMBER_RE :: re where
  "NEGATIVE_NUMBER_RE = Seq AtStart (Seq (lit ''-'') (Alt
     (Seq (Plus (Ch is_digit)) AtEnd)
     (Seq (Star (Ch is_digit)) (Seq (lit ''.'') (Seq (Plus (Ch is_digit)) AtEnd)))))"

text \<open>\<open>_parse_optional\<close>: \<open>Inr None\<close> is a positional word. No option of the client looks like a negative number.\<close>

definition parse_optional :: "arg_parser \<Rightarrow> string \<Rightarrow> nat + option_match option" where
  "parse_optional p arg =
     (let exact = map_of (option_strings p); (key, explicit) = split_equals arg in
      if arg = [] \<or> hd arg \<noteq> CHR ''-'' then Inr None
      else if exact arg \<noteq> None then Inr (Some \<lparr>om_action = exact arg, om_string = arg, om_explicit = None\<rparr>)
      else if length arg = 1 then Inr None
      else if explicit \<noteq> None \<and> exact key \<noteq> None
      then Inr (Some \<lparr>om_action = exact key, om_string = key, om_explicit = map_option (Pair True) explicit\<rparr>)
      else case get_option_tuples p arg of
        [m] \<Rightarrow> Inr (Some m)
      | _ # _ # _ \<Rightarrow> Inl EXIT_ERROR
      | [] \<Rightarrow>
          if re_match NEGATIVE_NUMBER_RE arg \<noteq> None \<or> CHR '' '' \<in> set arg then Inr None
          else Inr (Some \<lparr>om_action = None, om_string = arg, om_explicit = None\<rparr>))"

datatype word_kind = Dashes | Word | Optional option_match

fun classify_words :: "arg_parser \<Rightarrow> string list \<Rightarrow> nat + (string \<times> word_kind) list" where
  "classify_words p [] = Inr []"
| "classify_words p (w # ws) =
     (if w = ''--'' then Inr ((w, Dashes) # map (\<lambda>v. (v, Word)) ws)
      else case parse_optional p w of
        Inl n \<Rightarrow> Inl n
      | Inr m \<Rightarrow> (case classify_words p ws of
          Inl n \<Rightarrow> Inl n
        | Inr ks \<Rightarrow> Inr ((w, case m of None \<Rightarrow> Word | Some x \<Rightarrow> Optional x) # ks)))"

section \<open>Reading the words\<close>

record parse_state =
  pa_namespace :: namespace
  pa_seen :: "string list"
  pa_positional :: arg_positional
  pa_extras :: "string list"
  pa_unrecognized :: "string list"

definition store_value :: "arg_option \<Rightarrow> string \<Rightarrow> parse_state \<Rightarrow> nat + parse_state" where
  "store_value a w st =
     (let put = (\<lambda>v. Inr (st\<lparr>pa_namespace := (pa_namespace st)(ao_dest a \<mapsto> v), pa_seen := ao_dest a # pa_seen st\<rparr>)) in
      if ao_int a then (case py_int w of None \<Rightarrow> Inl EXIT_ERROR | Some n \<Rightarrow> put (IntValue n)) else put (TextValue w))"

text \<open>
  The status of a help option with something attached to it: \<open>-hh\<close> is the help again, an unknown letter is
  set aside, and what follows \<open>=\<close> or a dash is an error. \<open>-h\<close> is the only option of one letter.
\<close>

fun help_cluster :: "(string \<Rightarrow> bool) \<Rightarrow> bool \<Rightarrow> string \<Rightarrow> nat" where
  "help_cluster known eq [] = EXIT_ERROR"
| "help_cluster known eq (c # cs) =
     (if eq \<or> c = CHR ''-'' then EXIT_ERROR
      else if \<not> known [CHR ''-'', c] then 0
      else case cs of
        [] \<Rightarrow> 0
      | d # ds \<Rightarrow> if d = CHR ''='' then help_cluster known True ds else help_cluster known False cs)"

text \<open>\<open>consume_optional\<close>: how many of the words after the option were its arguments, and the state.\<close>

definition consume_optional ::
  "arg_parser \<Rightarrow> string \<Rightarrow> option_match \<Rightarrow> (string \<times> word_kind) list \<Rightarrow> parse_state \<Rightarrow> nat + (nat \<times> parse_state)" where
  "consume_optional p w m rest st = (case om_action m of
      None \<Rightarrow> Inr (0, st\<lparr>pa_extras := pa_extras st @ [w]\<rparr>)
    | Some a \<Rightarrow>
        if ao_stores a then (case om_explicit m of
            Some (eq, v) \<Rightarrow> map_sum id (Pair 0) (store_value a v st)
          | None \<Rightarrow> (case rest of
              (v, Word) # _ \<Rightarrow> map_sum id (Pair 1) (store_value a v st)
            | _ \<Rightarrow> Inl EXIT_ERROR))
        else (case om_explicit m of
            None \<Rightarrow> Inl 0
          | Some (eq, v) \<Rightarrow> Inl (if om_string m ! 1 = CHR ''-'' then EXIT_ERROR
              else help_cluster (\<lambda>s. map_of (option_strings p) s \<noteq> None) eq v)))"

text \<open>How many words the positional takes from here: a text may be fenced by \<open>--\<close>, a command takes all.\<close>

definition positional_count :: "arg_positional \<Rightarrow> word_kind list \<Rightarrow> nat" where
  "positional_count pos ks =
     (let d = length (takeWhile (\<lambda>k. k = Dashes) ks) in
      case drop d ks of
        Word # r \<Rightarrow> (case pos of
            NoPositional \<Rightarrow> 0
          | TextPositional dest \<Rightarrow> d + 1 + length (takeWhile (\<lambda>k. k = Dashes) r)
          | CommandPositional dest names \<Rightarrow> length ks)
      | _ \<Rightarrow> 0)"

text \<open>\<open>sub\<close> reads the words of a command: its namespace and what it did not recognize.\<close>

definition take_positional ::
  "(string \<Rightarrow> string list \<Rightarrow> nat + namespace \<times> string list) \<Rightarrow> string list \<Rightarrow> parse_state \<Rightarrow> nat + parse_state" where
  "take_positional sub args st = (case pa_positional st of
      NoPositional \<Rightarrow> Inr st
    | TextPositional dest \<Rightarrow> Inr (st\<lparr>pa_namespace := (pa_namespace st)(dest \<mapsto> TextValue (hd (remove1 ''--'' args))),
        pa_seen := dest # pa_seen st, pa_positional := NoPositional\<rparr>)
    | CommandPositional dest names \<Rightarrow>
        if hd args \<notin> set names then Inl EXIT_ERROR
        else (case sub (hd args) (tl args) of
          Inl n \<Rightarrow> Inl n
        | Inr (ns, extras) \<Rightarrow> Inr (st\<lparr>pa_namespace := (pa_namespace st)(dest \<mapsto> TextValue (hd args)) ++ ns,
            pa_seen := dest # pa_seen st, pa_positional := NoPositional,
            pa_unrecognized := pa_unrecognized st @ extras\<rparr>)))"

definition is_optional :: "string \<times> word_kind \<Rightarrow> bool" where
  "is_optional wk = (case snd wk of Optional m \<Rightarrow> True | _ \<Rightarrow> False)"

definition no_option :: "string \<times> word_kind \<Rightarrow> bool" where
  "no_option wk = (\<not> is_optional wk)"

text \<open>\<open>consume_positionals\<close>: how many words, and the state.\<close>

definition consume_positionals ::
  "(string \<Rightarrow> string list \<Rightarrow> nat + namespace \<times> string list) \<Rightarrow> (string \<times> word_kind) list \<Rightarrow> parse_state
   \<Rightarrow> nat + (nat \<times> parse_state)" where
  "consume_positionals sub xs st =
     (let n = positional_count (pa_positional st) (map snd xs) in
      if n = 0 then Inr (0, st) else map_sum id (Pair n) (take_positional sub (map fst (take n xs)) st))"

text \<open>The loop of \<open>_parse_known_args\<close>, on the words that are left.\<close>

function (sequential) parse_loop ::
  "arg_parser \<Rightarrow> (string \<Rightarrow> string list \<Rightarrow> nat + namespace \<times> string list) \<Rightarrow> (string \<times> word_kind) list \<Rightarrow> parse_state
   \<Rightarrow> nat + parse_state" where
  "parse_loop p sub ((w, Optional m) # rest) st = (case consume_optional p w m rest st of
      Inl n \<Rightarrow> Inl n | Inr (k, st') \<Rightarrow> parse_loop p sub (drop k rest) st')"
| "parse_loop p sub xs st = (case consume_positionals sub xs st of
      Inl n \<Rightarrow> Inl n
    | Inr (k, st') \<Rightarrow>
        if list_ex is_optional xs then
          if k = 0 then parse_loop p sub (dropWhile no_option xs)
              (st\<lparr>pa_extras := pa_extras st @ map fst (takeWhile no_option xs)\<rparr>)
          else parse_loop p sub (drop k xs) st'
        else Inr (st'\<lparr>pa_extras := pa_extras st' @ map fst (drop k xs)\<rparr>))"
  by pat_completeness auto
termination
  by (relation "measure (\<lambda>(p, sub, xs, st). length xs)")
    (auto simp: no_option_def is_optional_def length_dropWhile_le le_imp_less_Suc)

text \<open>What must be given and was not.\<close>

definition missing_arguments :: "arg_parser \<Rightarrow> parse_state \<Rightarrow> bool" where
  "missing_arguments p st =
     (list_ex (\<lambda>a. ao_required a \<and> ao_dest a \<notin> set (pa_seen st)) (ap_options p) \<or>
      (case pa_positional st of TextPositional dest \<Rightarrow> True | _ \<Rightarrow> False))"

definition parser_defaults :: "arg_parser \<Rightarrow> namespace" where
  "parser_defaults p =
     map_of (map (\<lambda>a. (ao_dest a, ao_default a)) (filter ao_stores (ap_options p)) @
       (case ap_positional p of NoPositional \<Rightarrow> [] | TextPositional dest \<Rightarrow> [(dest, NoValue)]
        | CommandPositional dest names \<Rightarrow> [(dest, NoValue)]))"

definition parse_known_args ::
  "arg_parser \<Rightarrow> (string \<Rightarrow> string list \<Rightarrow> nat + namespace \<times> string list) \<Rightarrow> string list \<Rightarrow> nat + namespace \<times> string list" where
  "parse_known_args p sub words = (case classify_words p words of
      Inl n \<Rightarrow> Inl n
    | Inr ks \<Rightarrow> (case parse_loop p sub ks \<lparr>pa_namespace = parser_defaults p, pa_seen = [],
          pa_positional = ap_positional p, pa_extras = [], pa_unrecognized = []\<rparr> of
        Inl n \<Rightarrow> Inl n
      | Inr st \<Rightarrow> if missing_arguments p st then Inl EXIT_ERROR
          else Inr (pa_namespace st, pa_extras st @ pa_unrecognized st)))"

text \<open>\<open>parse_args\<close> of a parser whose commands have the parsers \<open>subs\<close>.\<close>

definition parse_args :: "arg_parser \<Rightarrow> (string \<Rightarrow> arg_parser) \<Rightarrow> string list \<Rightarrow> nat + namespace" where
  "parse_args p subs words =
     (case parse_known_args p (\<lambda>name. parse_known_args (subs name) (\<lambda>_ _. Inl EXIT_ERROR)) words of
       Inl n \<Rightarrow> Inl n
     | Inr (ns, extras) \<Rightarrow> if extras = [] then Inr ns else Inl EXIT_ERROR)"

end
