(* ===== verification/Command_Line.thy ===== *)
theory Command_Line
  imports Json_Values Py_Argparse
begin

text \<open>
  The command line client: \<open>cli.py\<close>. The HTTP client is a record of two operations on a world
  \<open>'w\<close>; Python's \<open>str\<close> of a decoded value, the reading of a line and the parsing of a uuid are
  arguments. \<open>argparse\<close> is modelled in \<open>Py_Argparse\<close>. What is printed is a list of texts. The loop of \<open>cli_run_task\<close> has fuel: \<open>None\<close> is a loop that has not ended yet.
\<close>

section \<open>The client\<close>

record response =
  rs_status :: nat
  rs_json :: "jvalue result"

record 'w http =
  ht_get :: "string \<Rightarrow> ('w, response) op"
  ht_post :: "string \<Rightarrow> jvalue option \<Rightarrow> ('w, response) op"

record 'w console =
  co_printed :: "string list"
  co_world :: 'w

record 'w cli =
  cl_http :: "'w http"
  cl_base :: string
  cl_str :: "jvalue \<Rightarrow> string"
  cl_input :: "'w \<Rightarrow> string"

definition new_cli :: "'w http \<Rightarrow> (jvalue \<Rightarrow> string) \<Rightarrow> ('w \<Rightarrow> string) \<Rightarrow> string \<Rightarrow> 'w cli" where
  "new_cli h str_of ask api_base = \<lparr>cl_http = h, cl_base = rev (dropWhile (\<lambda>c. c = CHR ''/'') (rev api_base)),
     cl_str = str_of, cl_input = ask\<rparr>"

definition say :: "string \<Rightarrow> ('w console, unit) op" where
  "say line = modE (\<lambda>s. s\<lparr>co_printed := co_printed s @ [line]\<rparr>)"

fun say_all :: "string list \<Rightarrow> ('w console, unit) op" where
  "say_all [] = retE ()"
| "say_all (l # ls) = thenE (say l) (say_all ls)"

definition on_http :: "('w, 'a) op \<Rightarrow> ('w console, 'a) op" where
  "on_http m = (\<lambda>s. case m (co_world s) of (r, w) \<Rightarrow> (r, s\<lparr>co_world := w\<rparr>))"

interpretation console_world: component co_world "\<lambda>x s. s\<lparr>co_world := x\<rparr>" on_http
  by unfold_locales (simp_all add: on_http_def split: prod.splits)

definition RULE :: string where
  "RULE = replicate 50 (CHR ''='')"

text \<open>\<open>v[key]\<close> for a decoded value.\<close>

definition jitem :: "jvalue \<Rightarrow> string \<Rightarrow> jvalue result" where
  "jitem v key = (case v of
      JDict kv \<Rightarrow> (case map_of kv key of
          None \<Rightarrow> Inl (py_error (PyOther ''KeyError'') ''{}'' [AStr key])
        | Some x \<Rightarrow> Inr x)
    | _ \<Rightarrow> Inl type_error)"

definition body_of :: "response \<Rightarrow> ('w console, jvalue) op" where
  "body_of r = liftE (rs_json r)"

definition say_item :: "'w cli \<Rightarrow> string \<Rightarrow> jvalue \<Rightarrow> string \<Rightarrow> ('w console, unit) op" where
  "say_item c label v key = bindE (liftE (jitem v key)) (\<lambda>x. say (label @ cl_str c x))"

definition task_url :: "'w cli \<Rightarrow> string \<Rightarrow> string" where
  "task_url c tid = cl_base c @ ''/api/v1/tasks/'' @ tid"

section \<open>The commands\<close>

definition poll_and_prompt :: "'w cli \<Rightarrow> string \<Rightarrow> ('w console, unit) op" where
  "poll_and_prompt c tid =
     bindE (on_http (ht_get (cl_http c) (task_url c tid @ ''/approval''))) (\<lambda>response.
     if rs_status response = 404 then say (''No pending approval for task '' @ tid)
     else
       bindE (body_of response) (\<lambda>approval.
       thenE (say_all [newline @ ''Approval Request'', RULE])
       (thenE (say_item c ''Task ID: '' approval ''task_id'')
       (thenE (say_item c ''Action: '' approval ''action'')
       (thenE (say_item c ''Target: '' approval ''target'')
       (thenE (say_item c ''Risk Level: '' approval ''risk_level'')
       (bindE (liftE (jget approval ''reason'' (JText ''N/A''))) (\<lambda>reason.
        thenE (say_all [''Reason: '' @ cl_str c reason, RULE @ newline])
        (bindE (getE (\<lambda>s. cl_input c (co_world s))) (\<lambda>answer.
         let approved = (py_lower (py_strip answer) = ''y'') in
         bindE (on_http (ht_post (cl_http c) (task_url c tid @ ''/approval'')
             (Some (JDict [(''approved'', JBool approved), (''decided_by'', JText ''cli-user'')])))) (\<lambda>response2.
         bindE (body_of response2) (\<lambda>result.
         say_item c (newline @ ''Decision recorded: '') result ''status''))))))))))))"

definition cli_cancel_task :: "'w cli \<Rightarrow> string \<Rightarrow> ('w console, unit) op" where
  "cli_cancel_task c tid =
     bindE (on_http (ht_post (cl_http c) (task_url c tid @ ''/cancel'') None)) (\<lambda>response.
     bindE (body_of response) (\<lambda>result.
     say_item c (''Task '' @ tid @ '' cancelled. State: '') result ''state''))"

fun say_findings :: "'w cli \<Rightarrow> jvalue list \<Rightarrow> ('w console, unit) op" where
  "say_findings c [] = retE ()"
| "say_findings c (f # fs) =
     thenE (say_item c (newline @ ''  Tool Call: '') f ''tool_call_id'')
     (thenE (say_item c ''  Field: '' f ''field'')
     (thenE (say_item c ''  Pattern: '' f ''pattern'')
     (thenE (say_item c ''  Preview: '' f ''redacted_preview'')
     (say_findings c fs))))"

definition cli_audit_secrets :: "'w cli \<Rightarrow> ('w console, unit) op" where
  "cli_audit_secrets c =
     bindE (on_http (ht_get (cl_http c) (cl_base c @ ''/api/v1/audit/secrets''))) (\<lambda>response.
     bindE (body_of response) (\<lambda>result.
     thenE (say_all [newline @ ''Secrets Audit'', RULE])
     (bindE (liftE (jitem result ''scanned'')) (\<lambda>scanned.
      thenE (say (''Scanned: '' @ cl_str c scanned @ '' tool calls''))
      (bindE (liftE (bindR (jitem result ''findings'') jiter)) (\<lambda>findings.
       thenE (say (''Findings: '' @ show_nat (length findings)))
       (thenE (say_findings c findings)
       (say (newline @ RULE)))))))))"

definition CLI_TERMINAL :: "string set" where
  "CLI_TERMINAL = {''completed'', ''failed'', ''cancelled'', ''timed_out''}"

text \<open>The \<open>while True\<close> loop with its fuel; it yields the last task and its state.\<close>

fun poll_task :: "'w cli \<Rightarrow> string \<Rightarrow> nat \<Rightarrow> ('w console, (jvalue \<times> jvalue) option) op" where
  "poll_task c tid 0 = retE None"
| "poll_task c tid (Suc fuel) =
     bindE (on_http (ht_get (cl_http c) (task_url c tid))) (\<lambda>response.
     bindE (body_of response) (\<lambda>task.
     bindE (liftE (jitem task ''state'')) (\<lambda>state.
     thenE (say (''  State: '' @ cl_str c state))
     (if state \<in> JText ` CLI_TERMINAL then retE (Some (task, state)) else poll_task c tid fuel))))"

definition cli_run_task :: "'w cli \<Rightarrow> string \<Rightarrow> int option \<Rightarrow> nat \<Rightarrow> ('w console, unit option) op" where
  "cli_run_task c instruction timeout fuel =
     (let payload = JDict ([(''instruction'', JText instruction)] @ (case timeout of
            None \<Rightarrow> [] | Some t \<Rightarrow> if t = 0 then [] else [(''timeout_seconds'', JNumber (of_int t))])) in
      bindE (on_http (ht_post (cl_http c) (cl_base c @ ''/api/v1/tasks'') (Some payload))) (\<lambda>response.
      bindE (body_of response) (\<lambda>task.
      bindE (liftE (jitem task ''id'')) (\<lambda>tid.
      thenE (say (''Task created: '' @ cl_str c tid))
      (thenE (say_item c ''Initial state: '' task ''state'')
      (bindE (poll_task c (cl_str c tid) fuel) (\<lambda>ended. case ended of
         None \<Rightarrow> retE None
       | Some (final, state) \<Rightarrow>
           thenE (say (newline @ ''Final state: '' @ cl_str c state))
           (bindE (liftE (jget final ''result'' JNull)) (\<lambda>r.
            thenE (whenE (jtrue r) (say_item c ''Result: '' final ''result''))
            (retE (Some ())))))))))))"

definition say_if_true :: "'w cli \<Rightarrow> string \<Rightarrow> jvalue \<Rightarrow> string \<Rightarrow> ('w console, unit) op" where
  "say_if_true c label v key =
     bindE (liftE (jget v key JNull)) (\<lambda>x. whenE (jtrue x) (say_item c label v key))"

definition get_status :: "'w cli \<Rightarrow> string \<Rightarrow> ('w console, unit) op" where
  "get_status c tid =
     bindE (on_http (ht_get (cl_http c) (task_url c tid))) (\<lambda>response.
     bindE (body_of response) (\<lambda>task.
     thenE (say_all [newline @ ''Task Status'', RULE])
     (thenE (say_item c ''ID: '' task ''id'')
     (thenE (say_item c ''Instruction: '' task ''instruction'')
     (thenE (say_item c ''State: '' task ''state'')
     (thenE (say_item c ''Created: '' task ''created_at'')
     (thenE (say_item c ''Updated: '' task ''updated_at'')
     (thenE (say_if_true c ''Result: '' task ''result'')
     (say_if_true c ''Error: '' task ''error'')))))))))"

fun say_runs :: "'w cli \<Rightarrow> jvalue list \<Rightarrow> ('w console, unit) op" where
  "say_runs c [] = retE ()"
| "say_runs c (r # rs) =
     thenE (say_item c (newline @ ''  Agent: '') r ''agent_name'')
     (thenE (say_item c ''  Status: '' r ''status'')
     (bindE (liftE (jget r ''duration_seconds'' (JText ''N/A''))) (\<lambda>d.
      thenE (say (''  Duration: '' @ cl_str c d @ ''s''))
      (thenE (say_if_true c ''  Output: '' r ''output'')
      (say_runs c rs)))))"

text \<open>\<open>runs[:limit]\<close>: a list is sliced, anything else raises; a negative limit drops from the end.\<close>

definition slice_list :: "jvalue \<Rightarrow> int \<Rightarrow> jvalue list result" where
  "slice_list v limit = (case v of
      JArray xs \<Rightarrow> Inr (if 0 \<le> limit then take (nat limit) xs else take (length xs - nat (- limit)) xs)
    | JText t \<Rightarrow> Inr (map (\<lambda>ch. JText [ch]) (if 0 \<le> limit then take (nat limit) t else take (length t - nat (- limit)) t))
    | _ \<Rightarrow> Inl type_error)"

definition get_logs :: "'w cli \<Rightarrow> (int \<Rightarrow> string) \<Rightarrow> string \<Rightarrow> int \<Rightarrow> ('w console, unit) op" where
  "get_logs c show_limit tid limit =
     bindE (on_http (ht_get (cl_http c) (task_url c tid @ ''/runs''))) (\<lambda>response.
     if rs_status response \<noteq> 200 then say (''Error: '' @ show_nat (rs_status response))
     else
       bindE (body_of response) (\<lambda>runs.
       thenE (say_all [newline @ ''Task Logs (last '' @ show_limit limit @ '')'', RULE])
       (bindE (liftE (slice_list runs limit)) (say_runs c))))"

section \<open>The command line\<close>

definition value_option :: "string \<Rightarrow> string \<Rightarrow> bool \<Rightarrow> bool \<Rightarrow> arg_value \<Rightarrow> arg_option" where
  "value_option flag dest is_int required dv = \<lparr>ao_strings = [flag], ao_dest = dest, ao_stores = True,
     ao_int = is_int, ao_required = required, ao_default = dv\<rparr>"

definition task_id_option :: arg_option where
  "task_id_option = value_option ''--task-id'' ''task_id'' False True NoValue"

definition timeout_option :: arg_option where
  "timeout_option = value_option ''--timeout'' ''timeout'' True False NoValue"

definition limit_option :: arg_option where
  "limit_option = value_option ''--limit'' ''limit'' True False (IntValue 20)"

definition DEFAULT_API_BASE :: string where
  "DEFAULT_API_BASE = ''http://localhost:8000''"

definition api_base_option :: arg_option where
  "api_base_option = value_option ''--api-base'' ''api_base'' False False (TextValue DEFAULT_API_BASE)"

definition CLI_PARSER :: arg_parser where
  "CLI_PARSER = \<lparr>ap_options = [help_option, api_base_option],
     ap_positional = CommandPositional ''command'' [''approve'', ''cancel'', ''audit'', ''run'', ''status'', ''logs'']\<rparr>"

definition command_parser :: "string \<Rightarrow> arg_parser" where
  "command_parser name =
     (if name = ''audit'' then \<lparr>ap_options = [help_option], ap_positional = NoPositional\<rparr>
      else if name = ''run'' then \<lparr>ap_options = [help_option, timeout_option], ap_positional = TextPositional ''instruction''\<rparr>
      else if name = ''logs'' then \<lparr>ap_options = [help_option, task_id_option, limit_option], ap_positional = NoPositional\<rparr>
      else \<lparr>ap_options = [help_option, task_id_option], ap_positional = NoPositional\<rparr>)"

datatype cli_command = Approve string | Cancel string | Audit | RunTask string "int option" | Status string | Logs string int

text \<open>\<open>args.name\<close> of a text, of a number.\<close>

definition arg_text :: "namespace \<Rightarrow> string \<Rightarrow> string" where
  "arg_text ns name = (case ns name of Some (TextValue t) \<Rightarrow> t | _ \<Rightarrow> [])"

definition arg_int :: "namespace \<Rightarrow> string \<Rightarrow> int option" where
  "arg_int ns name = (case ns name of Some (IntValue n) \<Rightarrow> Some n | _ \<Rightarrow> None)"

definition command_of :: "namespace \<Rightarrow> cli_command option" where
  "command_of ns =
     (let name = arg_text ns ''command''; tid = arg_text ns ''task_id'' in
      if name = ''approve'' then Some (Approve tid)
      else if name = ''cancel'' then Some (Cancel tid)
      else if name = ''audit'' then Some Audit
      else if name = ''run'' then Some (RunTask (arg_text ns ''instruction'') (arg_int ns ''timeout''))
      else if name = ''status'' then Some (Status tid)
      else if name = ''logs'' then Some (Logs tid (the (arg_int ns ''limit'')))
      else None)"

definition parse_command_line :: "string list \<Rightarrow> nat + string \<times> cli_command option" where
  "parse_command_line argv = (case parse_args CLI_PARSER command_parser argv of
      Inl n \<Rightarrow> Inl n
    | Inr ns \<Rightarrow> Inr (arg_text ns ''api_base'', command_of ns))"

section \<open>The program\<close>

definition system_exit :: "nat \<Rightarrow> exn" where
  "system_exit n = py_error (PyOther ''SystemExit'') ''{}'' [AStr (show_nat n)]"

text \<open>\<open>main\<close> after \<open>parse_args\<close>; \<open>parse\<close> is \<open>uuid.UUID\<close>, as the text of the parsed value.\<close>

definition cli_main ::
  "'w cli \<Rightarrow> (int \<Rightarrow> string) \<Rightarrow> (string \<Rightarrow> string result) \<Rightarrow> string \<Rightarrow> nat \<Rightarrow> cli_command option
   \<Rightarrow> ('w console, unit option) op" where
  "cli_main c show_limit parse help fuel command =
     (let some = (\<lambda>m. bindE m (\<lambda>x. retE (Some ()))) in
      case command of
        None \<Rightarrow> thenE (say help) (raiseE (system_exit 1))
      | Some (Approve tid) \<Rightarrow> bindE (liftE (parse tid)) (\<lambda>t. some (poll_and_prompt c t))
      | Some (Cancel tid) \<Rightarrow> bindE (liftE (parse tid)) (\<lambda>t. some (cli_cancel_task c t))
      | Some Audit \<Rightarrow> some (cli_audit_secrets c)
      | Some (RunTask instruction timeout) \<Rightarrow> cli_run_task c instruction timeout fuel
      | Some (Status tid) \<Rightarrow> bindE (liftE (parse tid)) (\<lambda>t. some (get_status c t))
      | Some (Logs tid limit) \<Rightarrow> bindE (liftE (parse tid)) (\<lambda>t. some (get_logs c show_limit t limit)))"

text \<open>The whole program on its arguments: \<open>argparse\<close> ends it with 0 after a help text and with 2 after an error.\<close>

definition main ::
  "(string \<Rightarrow> 'w cli) \<Rightarrow> (int \<Rightarrow> string) \<Rightarrow> (string \<Rightarrow> string result) \<Rightarrow> string \<Rightarrow> nat \<Rightarrow> string list
   \<Rightarrow> ('w console, unit option) op" where
  "main client show_limit parse help fuel argv = (case parse_command_line argv of
      Inl n \<Rightarrow> raiseE (system_exit n)
    | Inr (api_base, command) \<Rightarrow> cli_main (client api_base) show_limit parse help fuel command)"

end
