(* ===== verification/Command_Line_Parsing.thy ===== *)
theory Command_Line_Parsing
  imports Command_Line
begin

text \<open>
  What the words of a command line mean to the client: every command has a spelling that is read
  back, and the address of the service is no option of a command.
\<close>

section \<open>Numbers\<close>

definition show_int :: "int \<Rightarrow> string" where
  "show_int n = (if n < 0 then CHR ''-'' # show_nat (nat (- n)) else show_nat (nat n))"

lemma digit_char: "d < 10 \<Longrightarrow> is_digit (char_of (48 + d)) \<and> digit_value (char_of (48 + d)) = d"
  by (simp add: is_digit_def digit_value_def char_code_def)

lemma int_digits_snoc:
  "int_digits s = Some ds \<Longrightarrow> list_all is_digit s \<Longrightarrow> is_digit c \<Longrightarrow> int_digits (s @ [c]) = Some (ds @ [digit_value c])"
proof (induction s arbitrary: ds rule: int_digits.induct)
  case (3 c' d cs)
  then have "d \<noteq> CHR ''_''" by (auto simp: is_digit_def char_code_def)
  with 3 show ?case by (auto split: option.splits)
next
  case (2 c')
  have "\<not> is_digit (CHR ''_'')" by (simp add: is_digit_def char_code_def)
  with 2 show ?case by (auto split: if_splits)
qed auto

lemma shown_digits:
  "list_all is_digit (show_nat n) \<and> show_nat n \<noteq> [] \<and>
   (\<exists>ds. int_digits (show_nat n) = Some ds \<and> length ds = length (show_nat n) \<and> foldl (\<lambda>n d. 10 * n + d) 0 ds = n)"
proof (induction n rule: show_nat.induct)
  case (1 n)
  show ?case
  proof (cases "n < 10")
    case True
    then show ?thesis using digit_char [of n] by (simp add: show_nat.simps)
  next
    case False
    with 1 obtain ds where ih: "list_all is_digit (show_nat (n div 10))" "show_nat (n div 10) \<noteq> []"
      "int_digits (show_nat (n div 10)) = Some ds" "length ds = length (show_nat (n div 10))"
      "foldl (\<lambda>n d. 10 * n + d) 0 ds = n div 10" by auto
    let ?c = "char_of (48 + n mod 10) :: char"
    have c: "is_digit ?c" "digit_value ?c = n mod 10" using digit_char [of "n mod 10"] by simp_all
    have "show_nat n = show_nat (n div 10) @ [?c]" using False by (subst show_nat.simps) simp
    with ih c int_digits_snoc [OF ih(3,1) c(1)] show ?thesis by simp
  qed
qed

lemma dropWhile_hd_False: "xs \<noteq> [] \<Longrightarrow> \<not> P (hd xs) \<Longrightarrow> dropWhile P xs = xs"
  by (cases xs) auto

lemma py_strip_ends: "s \<noteq> [] \<Longrightarrow> \<not> is_space (hd s) \<Longrightarrow> \<not> is_space (last s) \<Longrightarrow> py_strip s = s"
  by (simp add: py_strip_def dropWhile_hd_False hd_rev)

text \<open>\<open>int(str(n))\<close> is \<open>n\<close>, up to Python's limit on the number of digits.\<close>

lemma py_int_show:
  assumes "length (show_nat (nat \<bar>n\<bar>)) \<le> MAX_STR_DIGITS"
  shows "py_int (show_int n) = Some n"
proof -
  let ?t = "show_nat (nat \<bar>n\<bar>)"
  from shown_digits [of "nat \<bar>n\<bar>"] obtain ds where t: "list_all is_digit ?t" "?t \<noteq> []" "int_digits ?t = Some ds"
    "length ds = length ?t" "foldl (\<lambda>n d. 10 * n + d) 0 ds = nat \<bar>n\<bar>" by auto
  have "is_digit (hd ?t)" "is_digit (last ?t)" using t(1,2) by (simp_all add: list_all_iff)
  then have ends: "\<not> is_space (hd ?t)" "\<not> is_space (last ?t)" "hd ?t \<noteq> CHR ''-''" "hd ?t \<noteq> CHR ''+''"
    by (auto simp: is_digit_def is_space_def char_code_def)
  show ?thesis
  proof (cases "n < 0")
    case True
    have "\<not> is_space (CHR ''-'')" by (simp add: is_space_def char_code_def)
    with True t(2) ends have "py_strip (CHR ''-'' # ?t) = CHR ''-'' # ?t" by (intro py_strip_ends) auto
    with True t assms show ?thesis by (simp add: py_int_def show_int_def Let_def)
  next
    case False
    then have "py_strip ?t = ?t" using t(2) ends by (intro py_strip_ends)
    with False t ends assms show ?thesis by (simp add: py_int_def show_int_def Let_def)
  qed
qed


section \<open>What the client's words mean\<close>

lemmas cli_parser_defs = CLI_PARSER_def command_parser_def help_option_def api_base_option_def task_id_option_def
  timeout_option_def limit_option_def value_option_def option_strings_def

text \<open>The options of the client in their unambiguous form.\<close>

fun command_words :: "cli_command \<Rightarrow> string list" where
  "command_words (Approve t) = [''--task-id='' @ t]"
| "command_words (Cancel t) = [''--task-id='' @ t]"
| "command_words Audit = []"
| "command_words (RunTask i None) = [''--'', i]"
| "command_words (RunTask i (Some n)) = [''--timeout='' @ show_int n, ''--'', i]"
| "command_words (Status t) = [''--task-id='' @ t]"
| "command_words (Logs t n) = [''--task-id='' @ t, ''--limit='' @ show_int n]"

fun command_name :: "cli_command \<Rightarrow> string" where
  "command_name (Approve t) = ''approve''"
| "command_name (Cancel t) = ''cancel''"
| "command_name Audit = ''audit''"
| "command_name (RunTask i n) = ''run''"
| "command_name (Status t) = ''status''"
| "command_name (Logs t n) = ''logs''"

fun command_ints :: "cli_command \<Rightarrow> int list" where
  "command_ints (RunTask i (Some n)) = [n]"
| "command_ints (Logs t n) = [n]"
| "command_ints c = []"

definition words_of :: "string \<Rightarrow> cli_command \<Rightarrow> string list" where
  "words_of api_base c = (''--api-base='' @ api_base) # command_name c # command_words c"

text \<open>To the parser of the program the options of a command are words or unknown options, never an error.\<close>

definition kind_ok :: "word_kind \<Rightarrow> bool" where
  "kind_ok k = (case k of Optional m \<Rightarrow> om_action m = None | _ \<Rightarrow> True)"

lemma root_option:
  "parse_optional CLI_PARSER (''--task-id='' @ t) \<noteq> Inl n"
  "parse_optional CLI_PARSER (''--timeout='' @ t) \<noteq> Inl n"
  "parse_optional CLI_PARSER (''--limit='' @ t) \<noteq> Inl n"
  by (simp_all add: parse_optional_def cli_parser_defs get_option_tuples_def split_equals_def py_startswith_def)

lemmas root_option_words [simp] = root_option [simplified]

lemma root_words:
  "\<exists>ks. classify_words CLI_PARSER (command_words c) = Inr ks \<and> length ks = length (command_words c) \<and> map fst ks = command_words c"
  by (cases c rule: command_words.cases) (auto split: sum.splits)

lemma root_loop:
  assumes "map fst ks = ws" "pa_positional st = CommandPositional d names" "name \<in> set names" 
  shows "parse_loop p sub ((name, Word) # ks) st = (case sub name ws of
      Inl n \<Rightarrow> Inl n
    | Inr (ns, extras) \<Rightarrow> Inr (st\<lparr>pa_namespace := (pa_namespace st)(d \<mapsto> TextValue name) ++ ns,
        pa_seen := d # pa_seen st, pa_positional := NoPositional, pa_unrecognized := pa_unrecognized st @ extras\<rparr>))"
  using assms
  by (auto simp: consume_positionals_def positional_count_def take_positional_def split: sum.splits)

lemma command_parsed:
  assumes "list_all (\<lambda>n. length (show_nat (nat \<bar>n\<bar>)) \<le> MAX_STR_DIGITS) (command_ints c)"
  shows "\<exists>ns. parse_known_args (command_parser (command_name c)) (\<lambda>_ _. Inl EXIT_ERROR) (command_words c) = Inr (ns, []) \<and>
    ''api_base'' \<notin> dom ns \<and> ''command'' \<notin> dom ns \<and> (\<forall>root. command_of (root(''command'' \<mapsto> TextValue (command_name c)) ++ ns) = Some c)"
  using assms
  by (cases c rule: command_words.cases)
    (simp_all add: parse_known_args_def cli_parser_defs parse_optional_def split_equals_def consume_optional_def store_value_def
        missing_arguments_def parser_defaults_def consume_positionals_def positional_count_def take_positional_def
        command_of_def arg_text_def arg_int_def Let_def py_int_show is_optional_def)

lemma command_line_parses:
  assumes "list_all (\<lambda>n. length (show_nat (nat \<bar>n\<bar>)) \<le> MAX_STR_DIGITS) (command_ints c)"
  shows "parse_command_line (words_of api_base c) = Inr (api_base, Some c)"
proof -
  let ?sub = "\<lambda>name. parse_known_args (command_parser name) (\<lambda>_ _. Inl EXIT_ERROR)"
  obtain ks where ks: "classify_words CLI_PARSER (command_words c) = Inr ks" "map fst ks = command_words c"
    using root_words by blast
  obtain ns where ns: "?sub (command_name c) (command_words c) = Inr (ns, [])" "''api_base'' \<notin> dom ns"
    "\<And>root. command_of (root(''command'' \<mapsto> TextValue (command_name c)) ++ ns) = Some c"
    using command_parsed [OF assms] by blast
  have word: "parse_optional CLI_PARSER (command_name c) = Inr None" "command_name c \<noteq> ''--''"
    "command_name c \<in> set [''approve'', ''cancel'', ''audit'', ''run'', ''status'', ''logs'']"
    by (cases c; simp add: parse_optional_def split_equals_def)+
  have base: "parse_optional CLI_PARSER (''--api-base='' @ api_base) =
      Inr (Some \<lparr>om_action = Some api_base_option, om_string = ''--api-base'', om_explicit = Some (True, api_base)\<rparr>)"
    by (simp add: parse_optional_def cli_parser_defs split_equals_def)
  have kinds: "classify_words CLI_PARSER (words_of api_base c) =
      Inr ((''--api-base='' @ api_base, Optional \<lparr>om_action = Some api_base_option, om_string = ''--api-base'',
        om_explicit = Some (True, api_base)\<rparr>) # (command_name c, Word) # ks)"
    using base word ks by (simp add: words_of_def)
  define st where "st = \<lparr>pa_namespace = (parser_defaults CLI_PARSER)(''api_base'' \<mapsto> TextValue api_base), pa_seen = [''api_base''],
     pa_positional = CommandPositional ''command'' [''approve'', ''cancel'', ''audit'', ''run'', ''status'', ''logs''],
     pa_extras = [], pa_unrecognized = []\<rparr>"
  have "parse_loop CLI_PARSER ?sub ((''--api-base='' @ api_base, Optional \<lparr>om_action = Some api_base_option,
        om_string = ''--api-base'', om_explicit = Some (True, api_base)\<rparr>) # (command_name c, Word) # ks)
      \<lparr>pa_namespace = parser_defaults CLI_PARSER, pa_seen = [], pa_positional = ap_positional CLI_PARSER,
       pa_extras = [], pa_unrecognized = []\<rparr> = parse_loop CLI_PARSER ?sub ((command_name c, Word) # ks) st"
    by (simp add: consume_optional_def store_value_def api_base_option_def value_option_def st_def CLI_PARSER_def)
  moreover have "parse_loop CLI_PARSER ?sub ((command_name c, Word) # ks) st =
      Inr (st\<lparr>pa_namespace := (pa_namespace st)(''command'' \<mapsto> TextValue (command_name c)) ++ ns,
        pa_seen := ''command'' # pa_seen st, pa_positional := NoPositional, pa_unrecognized := pa_unrecognized st @ []\<rparr>)"
    using root_loop [OF ks(2) _ word(3), of st "''command''" CLI_PARSER ?sub] ns(1) by (simp add: st_def)
  ultimately have "parse_args CLI_PARSER command_parser (words_of api_base c) =
      Inr ((parser_defaults CLI_PARSER)(''api_base'' \<mapsto> TextValue api_base, ''command'' \<mapsto> TextValue (command_name c)) ++ ns)"
    using kinds by (simp add: parse_args_def parse_known_args_def [of CLI_PARSER] missing_arguments_def st_def)
      (simp add: CLI_PARSER_def help_option_def api_base_option_def value_option_def)
  with ns(2,3) show ?thesis
    by (simp add: parse_command_line_def arg_text_def map_add_def domIff)
qed

text \<open>
  C35. The command line is read back: the words of any command, with any base address, texts and numbers,
  are read as that command with that address; numbers have at most 4300 digits.
\<close>

theorem command_line_roundtrip:
  assumes "list_all (\<lambda>n. length (show_nat (nat \<bar>n\<bar>)) \<le> MAX_STR_DIGITS) (command_ints c)"
  shows "parse_command_line (words_of api_base c) = Inr (api_base, Some c)"
  using assms by (rule command_line_parses)

theorem command_line_roundtrip_witness:
  "parse_command_line [''--api-base=http://h'', ''logs'', ''--task-id=7'', ''--limit=-25''] =
     Inr (''http://h'', Some (Logs ''7'' (- 25)))"
proof -
  have "show_int (- 25) = ''-25''" by code_simp
  moreover have "list_all (\<lambda>n. length (show_nat (nat \<bar>n\<bar>)) \<le> MAX_STR_DIGITS) (command_ints (Logs ''7'' (- 25)))"
    by (simp add: show_nat.simps MAX_STR_DIGITS_def)
  ultimately show ?thesis
    using command_line_roundtrip [of "Logs ''7'' (- 25)" "''http://h''"] by (simp add: words_of_def)
qed

text \<open>The address is an option of the program only: after a command it ends the program with an error.\<close>

lemma base_after_command:
  "parse_command_line [''approve'', ''--task-id='' @ t, ''--api-base=http://h''] = Inl EXIT_ERROR"
proof -
  let ?sub = "\<lambda>name. parse_known_args (command_parser name) (\<lambda>_ _. Inl EXIT_ERROR)"
  let ?ws = "[''--task-id='' @ t, ''--api-base=http://h'']"
  have neg: "re_match NEGATIVE_NUMBER_RE ''--api-base=http://h'' = None" by code_simp
  have "\<exists>ns. ?sub ''approve'' ?ws = Inr (ns, [''--api-base=http://h''])"
    by (simp add: parse_known_args_def cli_parser_defs parse_optional_def split_equals_def get_option_tuples_def
        py_startswith_def neg consume_optional_def store_value_def missing_arguments_def consume_positionals_def
        positional_count_def Let_def is_optional_def)
  then obtain ns where sub: "?sub ''approve'' ?ws = Inr (ns, [''--api-base=http://h''])" by blast
  have word: "parse_optional CLI_PARSER ''approve'' = Inr None" by (simp add: parse_optional_def split_equals_def)
  have base: "parse_optional CLI_PARSER ''--api-base=http://h'' =
      Inr (Some \<lparr>om_action = Some api_base_option, om_string = ''--api-base'', om_explicit = Some (True, ''http://h'')\<rparr>)"
    by (simp add: parse_optional_def cli_parser_defs split_equals_def)
  obtain m where m: "parse_optional CLI_PARSER (''--task-id='' @ t) = Inr m"
    using root_option(1) by (cases "parse_optional CLI_PARSER (''--task-id='' @ t)") blast+
  then have "\<exists>ks. classify_words CLI_PARSER ?ws = Inr ks \<and> map fst ks = ?ws"
    using base by simp
  then obtain ks where ks: "classify_words CLI_PARSER ?ws = Inr ks" "map fst ks = ?ws"
    by (elim exE conjE) (rule that)
  define st where "st = \<lparr>pa_namespace = parser_defaults CLI_PARSER, pa_seen = [],
     pa_positional = ap_positional CLI_PARSER, pa_extras = [], pa_unrecognized = []\<rparr>"
  have "parse_loop CLI_PARSER ?sub ((''approve'', Word) # ks) st = (case ?sub ''approve'' ?ws of
      Inl n \<Rightarrow> Inl n
    | Inr (ns, extras) \<Rightarrow> Inr (st\<lparr>pa_namespace := (pa_namespace st)(''command'' \<mapsto> TextValue ''approve'') ++ ns,
        pa_seen := ''command'' # pa_seen st, pa_positional := NoPositional, pa_unrecognized := pa_unrecognized st @ extras\<rparr>))"
    by (rule root_loop [OF ks(2), where names = "[''approve'', ''cancel'', ''audit'', ''run'', ''status'', ''logs'']"])
      (simp_all add: st_def CLI_PARSER_def)
  then show ?thesis
    using ks word sub by (simp add: parse_command_line_def parse_args_def parse_known_args_def [of CLI_PARSER] st_def)
qed

end
