(* ===== verification/Command_Line_Properties.thy ===== *)
theory Command_Line_Properties
  imports Command_Line_Parsing Service_Properties
begin

text \<open>
  The client against the service: what the commands do when the other side is the modelled
  API, and when the loop of \<open>run\<close> ends.
\<close>

section \<open>Waiting for a task\<close>

lemma cli_terminal_states: "CLI_TERMINAL = state_value ` TERMINAL_STATES"
  by (simp add: CLI_TERMINAL_def TERMINAL_STATES_def insert_commute)

text \<open>A server whose answer for the task's URL is a task with a state.\<close>

definition answers_state :: "'w cli \<Rightarrow> string \<Rightarrow> ('w \<Rightarrow> task_state) \<Rightarrow> ('w \<Rightarrow> 'w) \<Rightarrow> bool" where
  "answers_state c tid st next_world = (\<forall>w. \<exists>n body. ht_get (cl_http c) (task_url c tid) w =
     (Inr \<lparr>rs_status = n, rs_json = Inr body\<rparr>, next_world w) \<and> jitem body ''state'' = Inr (JText (state_value (st w))))"

lemma state_value_terminal: "JText (state_value x) \<in> JText ` CLI_TERMINAL \<longleftrightarrow> x \<in> TERMINAL_STATES"
  by (cases x) (simp_all add: CLI_TERMINAL_def TERMINAL_STATES_def image_iff)

lemma poll_step:
  assumes "answers_state c tid st next_world"
  shows "\<exists>body. poll_task c tid (Suc fuel) \<lparr>co_printed = ls, co_world = w\<rparr> =
    (let con = \<lparr>co_printed = ls @ [''  State: '' @ cl_str c (JText (state_value (st w)))], co_world = next_world w\<rparr> in
     if st w \<in> TERMINAL_STATES then (Inr (Some (body, JText (state_value (st w)))), con)
     else poll_task c tid fuel con)"
proof -
  from assms obtain n body where g: "ht_get (cl_http c) (task_url c tid) w =
     (Inr \<lparr>rs_status = n, rs_json = Inr body\<rparr>, next_world w)" "jitem body ''state'' = Inr (JText (state_value (st w)))"
    unfolding answers_state_def by blast
  show ?thesis
    by (intro exI [of _ body]) (simp add: bindE_def thenE_def on_http_def body_of_def liftE_def retE_def say_def modE_def
        g state_value_terminal Let_def)
qed

lemma poll_ended:
  assumes "answers_state c tid st next_world"
  shows "(\<exists>r. fst (poll_task c tid fuel \<lparr>co_printed = ls, co_world = w\<rparr>) = Inr (Some r)) \<longleftrightarrow>
    (\<exists>k < fuel. st ((next_world ^^ k) w) \<in> TERMINAL_STATES)"
proof (induction fuel arbitrary: ls w)
  case 0
  then show ?case by (simp add: retE_def)
next
  case (Suc fuel)
  obtain body where step: "poll_task c tid (Suc fuel) \<lparr>co_printed = ls, co_world = w\<rparr> =
    (let con = \<lparr>co_printed = ls @ [''  State: '' @ cl_str c (JText (state_value (st w)))], co_world = next_world w\<rparr> in
     if st w \<in> TERMINAL_STATES then (Inr (Some (body, JText (state_value (st w)))), con)
     else poll_task c tid fuel con)"
    using poll_step [OF assms] by blast
  show ?case
  proof (cases "st w \<in> TERMINAL_STATES")
    case True
    with step show ?thesis by (auto simp: Let_def intro!: exI [of _ 0])
  next
    case False
    have "(\<exists>k < Suc fuel. st ((next_world ^^ k) w) \<in> TERMINAL_STATES) \<longleftrightarrow>
        (\<exists>k < fuel. st ((next_world ^^ k) (next_world w)) \<in> TERMINAL_STATES)"
      using False by (auto simp: Ex_less_Suc2 funpow_swap1 funpow_Suc_right simp del: funpow.simps)
    with step False Suc.IH show ?thesis by (simp add: Let_def)
  qed
qed

text \<open>
  The loop of the \<open>run\<close> command ends within a number of polls exactly when one of them
  answers with a terminal state of the task's state machine; a task that stays blocked or waits
  for an approval is polled for ever.
\<close>

theorem run_loop_ends:
  assumes "answers_state c tid st next_world"
  shows "(\<exists>r. fst (poll_task c tid fuel \<lparr>co_printed = ls, co_world = w\<rparr>) = Inr (Some r)) \<longleftrightarrow>
    (\<exists>k < fuel. st ((next_world ^^ k) w) \<in> TERMINAL_STATES)"
  using poll_ended [OF assms] .

text \<open>A server whose task executes for two polls and is then completed.\<close>

definition sample_state :: "nat \<Rightarrow> task_state" where
  "sample_state n = (if n < 2 then EXECUTING else COMPLETED)"

definition sample_http :: "nat http" where
  "sample_http = \<lparr>ht_get = \<lambda>url w. (Inr \<lparr>rs_status = 200,
       rs_json = Inr (JDict [(''state'', JText (state_value (sample_state w)))])\<rparr>, Suc w),
     ht_post = \<lambda>url body w. (Inr \<lparr>rs_status = 200, rs_json = Inr JNull\<rparr>, w)\<rparr>"

definition sample_cli :: "nat cli" where
  "sample_cli = new_cli sample_http (\<lambda>v. case v of JText t \<Rightarrow> t | _ \<Rightarrow> ''?'') (\<lambda>w. ''y'') ''http://h/''"

theorem run_loop_ends_witness:
  "\<exists>r. fst (poll_task sample_cli ''1'' 3 \<lparr>co_printed = [], co_world = 0\<rparr>) = Inr (Some r)"
proof -
  have "answers_state sample_cli ''1'' sample_state Suc"
    by (simp add: answers_state_def sample_cli_def new_cli_def sample_http_def jitem_def)
  from run_loop_ends [OF this, of 3 "[]" 0] show ?thesis
    by (auto simp: sample_state_def TERMINAL_STATES_def intro!: exI [of _ 2])
qed

section \<open>Deciding an approval from the command line\<close>

text \<open>
  One request to the API: the route runs on a session; what it returns is encoded, an error goes
  through the exception handlers, its session is closed and the next request opens a new one. An
  error outside the hierarchy is answered by the server without JSON.
\<close>

definition json_error :: exn where
  "json_error = py_error (PyOther ''JSONDecodeError'') ''Expecting value'' []"

definition api_request :: "('a \<Rightarrow> jvalue) \<Rightarrow> (emsg \<Rightarrow> string) \<Rightarrow> (session, 'a) op \<Rightarrow> (session, response) op" where
  "api_request enc render m = (\<lambda>s. case m s of
      (Inr x, u) \<Rightarrow> (Inr \<lparr>rs_status = 200, rs_json = Inr (enc x)\<rparr>, u)
    | (Inl e, u) \<Rightarrow> (Inr \<lparr>rs_status = fst (handle_error e), rs_json = (case to_dict e of
          None \<Rightarrow> Inl json_error
        | Some b \<Rightarrow> Inr (JDict [(''error'', JDict [(''code'', JText (eb_code b)),
            (''message'', JText (render (eb_message b))), (''retryable'', JBool (eb_retryable b))])]))\<rparr>,
        open_session (close_session u) (fresh u)))"

fun status_text :: "approval_status \<Rightarrow> string" where
  "status_text Pending = ''pending''"
| "status_text Approved = ''approved''"
| "status_text Rejected = ''rejected''"

definition approval_read :: "(uuid \<Rightarrow> string) \<Rightarrow> approval_row \<Rightarrow> jvalue" where
  "approval_read show_uuid a = JDict [(''task_id'', JText (show_uuid (a_task_id a))), (''action'', JText (a_action a)),
     (''target'', JText (a_target a)), (''risk_level'', JText (a_risk_level a)),
     (''reason'', case a_reason a of None \<Rightarrow> JNull | Some t \<Rightarrow> JText t), (''status'', JText (status_text (a_status a)))]"

definition api_approval :: "session cli \<Rightarrow> (uuid \<Rightarrow> string) \<Rightarrow> (emsg \<Rightarrow> string) \<Rightarrow> uuid \<Rightarrow> bool" where
  "api_approval c show_uuid render n \<longleftrightarrow>
     ht_get (cl_http c) (task_url c (show_uuid n) @ ''/approval'') =
       api_request (approval_read show_uuid \<circ> snd) render (get_approval_route n) \<and>
     (\<forall>ok by. ht_post (cl_http c) (task_url c (show_uuid n) @ ''/approval'')
         (Some (JDict [(''approved'', JBool ok), (''decided_by'', JText by)])) =
       api_request (approval_read show_uuid) render
         (decide_approval_route n \<lparr>dec_approved = ok, dec_decided_by = Some by\<rparr>))"

lemma get_approval_run:
  "api_request enc render (get_approval_route n) s = (case pending_query n (approvals (work s)) of
      Some ka \<Rightarrow> (Inr \<lparr>rs_status = 200, rs_json = Inr (enc ka)\<rparr>, s)
    | None \<Rightarrow> (Inr \<lparr>rs_status = 422, rs_json = Inr (JDict [(''error'', JDict [(''code'', JText ''validation_error''),
        (''message'', JText (render (Msg ''No pending approval for task {}'' [AId n]))), (''retryable'', JBool False)])])\<rparr>,
        open_session (close_session s) (fresh s)))"
  by (simp add: api_request_def get_approval_route_def get_pending_for_task_def bind_get retE_def raiseE_def handle_error_def
      to_dict_def split: option.split)

lemma api_request_returns: "\<exists>resp u. api_request enc render m s = (Inr resp, u)"
  by (auto simp: api_request_def split: prod.splits sum.splits)

lemmas bind_then_defs = bindE_def thenE_def

lemma bind_returned: "bindE (liftE (Inr x)) f = f x"
  by (simp add: bindE_def liftE_def)

lemma bind_done:
  "snd (bindE m (\<lambda>x. retE (f x)) s) = snd (m s)"
  "m s = (Inl e, u) \<Longrightarrow> bindE m (\<lambda>x. retE (f x)) s = (Inl e, u)"
  by (auto simp: bindE_def retE_def split: prod.splits sum.splits)

text \<open>What the command itself does.\<close>

lemma approve_through_route:
  assumes "api_approval c show_uuid render n"
  shows "case pending_query n (approvals (work s)) of
     None \<Rightarrow> poll_and_prompt c (show_uuid n) \<lparr>co_printed = ls, co_world = s\<rparr> =
       (Inl (py_error (PyOther ''KeyError'') ''{}'' [AStr ''task_id'']),
        \<lparr>co_printed = ls @ [newline @ ''Approval Request'', RULE], co_world = open_session (close_session s) (fresh s)\<rparr>)
   | Some ka \<Rightarrow> co_world (snd (poll_and_prompt c (show_uuid n) \<lparr>co_printed = ls, co_world = s\<rparr>)) =
       snd (api_request (approval_read show_uuid) render (decide_approval_route n
         \<lparr>dec_approved = (py_lower (py_strip (cl_input c s)) = ''y''), dec_decided_by = Some ''cli-user''\<rparr>) s)"
proof (cases "pending_query n (approvals (work s))")
  case None
  with assms show ?thesis
    by (simp add: api_approval_def poll_and_prompt_def get_approval_run bindE_def [of "on_http _"] on_http_def
        body_of_def liftE_def jitem_def say_item_def thenE_def bindE_def say_def modE_def retE_def)
next
  case (Some ka)
  obtain aid a where ka: "ka = (aid, a)" by (cases ka)
  let ?answer = "py_lower (py_strip (cl_input c s)) = ''y''"
  let ?post = "api_request (approval_read show_uuid) render (decide_approval_route n
    \<lparr>dec_approved = ?answer, dec_decided_by = Some ''cli-user''\<rparr>)"
  obtain resp u where post: "?post s = (Inr resp, u)" using api_request_returns by blast
  have get: "ht_get (cl_http c) (task_url c (show_uuid n) @ ''/approval'') s =
      (Inr \<lparr>rs_status = 200, rs_json = Inr (approval_read show_uuid a)\<rparr>, s)"
    using assms Some ka by (simp add: api_approval_def get_approval_run)
  have send: "ht_post (cl_http c) (task_url c (show_uuid n) @ ''/approval'')
      (Some (JDict [(''approved'', JBool ?answer), (''decided_by'', JText ''cli-user'')])) s = (Inr resp, u)"
    using assms post by (simp add: api_approval_def)
  have "co_world (snd (poll_and_prompt c (show_uuid n) \<lparr>co_printed = ls, co_world = s\<rparr>)) = u"
    by (simp add: poll_and_prompt_def bind_then_defs on_http_def get send body_of_def liftE_def say_item_def jitem_def
        approval_read_def jget_def say_def modE_def getE_def retE_def Let_def split: sum.split jvalue.split option.split)
  with Some post show ?thesis by simp
qed

text \<open>
  C39. Deciding from the command line decides through the route: when the words are those of an
  approval, in whatever order and spelling \<open>argparse\<close> accepts, and one is pending, the program leaves
  exactly the state of the decision route with the user's answer, approved only for \<open>y\<close>; without a
  pending one it raises a key error after printing a heading, because the API answers 422 and the
  command expects 404, and nothing is decided.
\<close>

theorem cli_decides_through_route:
  assumes "parse_command_line argv = Inr (api_base, Some (Approve t))" "parse t = Inr (show_uuid n)"
    "api_approval (client api_base) show_uuid render n"
  shows "case pending_query n (approvals (work s)) of
     None \<Rightarrow> main client show_limit parse help fuel argv \<lparr>co_printed = ls, co_world = s\<rparr> =
       (Inl (py_error (PyOther ''KeyError'') ''{}'' [AStr ''task_id'']),
        \<lparr>co_printed = ls @ [newline @ ''Approval Request'', RULE], co_world = open_session (close_session s) (fresh s)\<rparr>)
   | Some ka \<Rightarrow> co_world (snd (main client show_limit parse help fuel argv \<lparr>co_printed = ls, co_world = s\<rparr>)) =
       snd (api_request (approval_read show_uuid) render (decide_approval_route n
         \<lparr>dec_approved = (py_lower (py_strip (cl_input (client api_base) s)) = ''y''), dec_decided_by = Some ''cli-user''\<rparr>) s)"
proof -
  have "main client show_limit parse help fuel argv =
      bindE (poll_and_prompt (client api_base) (show_uuid n)) (\<lambda>x. retE (Some ()))"
    using assms(1,2) by (simp add: main_def cli_main_def bind_returned)
  then show ?thesis
    using approve_through_route [OF assms(3), of ls s] by (simp add: bind_done split: option.splits)
qed

definition route_cli :: "session cli" where
  "route_cli = new_cli \<lparr>ht_get = \<lambda>url. api_request (approval_read (\<lambda>_. ''1'') \<circ> snd) (\<lambda>_. ''m'') (get_approval_route 1),
     ht_post = \<lambda>url body. (case body of
        Some (JDict [(_, JBool ok), (_, JText by)]) \<Rightarrow> api_request (approval_read (\<lambda>_. ''1'')) (\<lambda>_. ''m'')
          (decide_approval_route 1 \<lparr>dec_approved = ok, dec_decided_by = Some by\<rparr>)
      | _ \<Rightarrow> raiseE json_error)\<rparr> (\<lambda>v. ''v'') (\<lambda>s. '' Y '') ''http://h''"

lemma small_approved:
  "pending_query 1 (approvals (work (small_session WAITING_FOR_APPROVAL))) \<noteq> None \<and>
   task_at (committed (snd (api_request (approval_read (\<lambda>_. ''1'')) (\<lambda>_. ''m'')
     (decide_approval_route 1 \<lparr>dec_approved = True, dec_decided_by = Some ''cli-user''\<rparr>)
     (small_session WAITING_FOR_APPROVAL)))) 1 = Some EXECUTING"
  by code_simp

theorem cli_decides_through_route_witness:
  "task_at (committed (co_world (snd (main (\<lambda>b. route_cli) (\<lambda>n. []) Inr [] 0 [''--api-base=x'', ''approve'', ''--task-id=1'']
     \<lparr>co_printed = [], co_world = small_session WAITING_FOR_APPROVAL\<rparr>)))) 1 = Some EXECUTING"
proof -
  have api: "api_approval route_cli (\<lambda>_. ''1'') (\<lambda>_. ''m'') 1"
    by (simp add: api_approval_def route_cli_def new_cli_def)
  obtain ka where ka: "pending_query 1 (approvals (work (small_session WAITING_FOR_APPROVAL))) = Some ka"
    using small_approved by blast
  have words: "parse_command_line [''--api-base=x'', ''approve'', ''--task-id=1''] = Inr (''x'', Some (Approve ''1''))"
    using command_line_parses [of "Approve ''1''" "''x''"] by (simp add: words_of_def)
  have "(py_lower (py_strip (cl_input route_cli (small_session WAITING_FOR_APPROVAL))) = ''y'') = True"
    by (simp add: route_cli_def new_cli_def) code_simp
  with cli_decides_through_route [OF words, of Inr "\<lambda>_. ''1''" 1 "\<lambda>b. route_cli" "\<lambda>_. ''m''"
      "\<lambda>n. []" "[]" 0 "[]" "small_session WAITING_FOR_APPROVAL"] api ka small_approved
  show ?thesis by simp
qed

end
