(* ===== verification/Http_Api.thy ===== *)
theory Http_Api
  imports Command_Line_Parsing Py_Net
begin

text \<open>
  The routes of the HTTP interface: the routers of \<open>app/api/routes\<close>, put together by \<open>app/api/router.py\<close>
  and mounted by \<open>create_app\<close> under the prefix of the settings. A route is its method, its path
  as segments, the status of its success and the name of its handler, whose model is in the theory of
  its component. A segment in braces takes any text without a slash.
\<close>

datatype http_method = Get | Post | Patch | Delete

datatype segment = Fixed string | Param string

record api_route =
  rt_method :: http_method
  rt_path :: "segment list"
  rt_status :: nat
  rt_handler :: string

definition route_at :: "segment list \<Rightarrow> http_method \<Rightarrow> segment list \<Rightarrow> nat \<Rightarrow> string \<Rightarrow> api_route" where
  "route_at pre m p status handler = \<lparr>rt_method = m, rt_path = pre @ p, rt_status = status, rt_handler = handler\<rparr>"

definition health_router :: "api_route list" where
  "health_router = [route_at [] Get [Fixed ''health''] 200 ''health'']"

definition tasks_router :: "api_route list" where
  "tasks_router = (let on = route_at [Fixed ''tasks''] in
     [on Post [] 201 ''create_task'', on Get [Param ''task_id''] 200 ''get_task'',
      on Post [Param ''task_id'', Fixed ''cancel''] 200 ''cancel_task''])"

definition approvals_router :: "api_route list" where
  "approvals_router = (let on = route_at [Fixed ''tasks'', Param ''task_id'', Fixed ''approval''] in
     [on Get [] 200 ''get_approval'', on Post [] 200 ''decide_approval''])"

definition browser_router :: "api_route list" where
  "browser_router = (let on = route_at [Fixed ''browser'', Fixed ''sessions''] in
     [on Post [] 201 ''open_session'', on Get [Param ''session_id''] 200 ''get_session'',
      on Delete [Param ''session_id''] 204 ''close_session''])"

definition content_router :: "api_route list" where
  "content_router = (let on = route_at [Fixed ''content'', Fixed ''drafts''] in
     [on Post [] 201 ''create_draft'', on Get [Param ''draft_id''] 200 ''get_draft'',
      on Patch [Param ''draft_id''] 200 ''update_draft''])"

definition social_router :: "api_route list" where
  "social_router = (let on = route_at [Fixed ''social''] in
     [on Post [Fixed ''x'', Fixed ''publish''] 200 ''publish_x'',
      on Post [Fixed ''linkedin'', Fixed ''publish''] 200 ''publish_linkedin''])"

definition audit_router :: "api_route list" where
  "audit_router = [route_at [Fixed ''audit''] Get [Fixed ''secrets''] 200 ''audit_secrets'']"

definition api_router :: "api_route list" where
  "api_router = health_router @ tasks_router @ approvals_router @ browser_router @ content_router @
     social_router @ audit_router"

lemmas router_defs = api_router_def health_router_def tasks_router_def approvals_router_def browser_router_def
  content_router_def social_router_def audit_router_def

text \<open>\<open>app.include_router(api_router, prefix=settings.application.api_prefix)\<close>\<close>

definition app_routes :: "string \<Rightarrow> api_route list" where
  "app_routes api_prefix = map (\<lambda>r. r\<lparr>rt_path := map Fixed (tl (split_on CHR ''/'' api_prefix)) @ rt_path r\<rparr>) api_router"

text \<open>When a request is for a route.\<close>

fun takes_segment :: "segment \<Rightarrow> string \<Rightarrow> bool" where
  "takes_segment (Fixed t) s = (s = t)"
| "takes_segment (Param n) s = (s \<noteq> [])"

definition takes_path :: "segment list \<Rightarrow> string \<Rightarrow> bool" where
  "takes_path ps path = list_all2 takes_segment (Fixed [] # ps) (split_on CHR ''/'' path)"

definition takes_request :: "http_method \<Rightarrow> string \<Rightarrow> api_route \<Rightarrow> bool" where
  "takes_request m path r = (rt_method r = m \<and> takes_path (rt_path r) path)"

definition API_PREFIX :: string where
  "API_PREFIX = ''/api/v1''"

section \<open>No request has two handlers\<close>

fun both_take :: "segment \<times> segment \<Rightarrow> bool" where
  "both_take (Fixed s, Fixed t) = (s = t)"
| "both_take (Fixed s, Param n) = (s \<noteq> [])"
| "both_take (Param n, Fixed t) = (t \<noteq> [])"
| "both_take (Param n, Param k) = True"

definition overlap :: "api_route \<Rightarrow> api_route \<Rightarrow> bool" where
  "overlap r q = (rt_method r = rt_method q \<and> length (rt_path r) = length (rt_path q) \<and>
     list_all both_take (zip (rt_path r) (rt_path q)))"

lemma both_take_segment: "takes_segment p s \<Longrightarrow> takes_segment q s \<Longrightarrow> both_take (p, q)"
  by (cases p; cases q) auto

lemma takes_overlap:
  assumes "takes_request m path r" "takes_request m path q"
  shows "overlap r q"
proof -
  obtain w ws where "split_on CHR ''/'' path = w # ws" by (cases "split_on CHR ''/'' path") auto
  with assms have "list_all2 takes_segment (rt_path r) ws" "list_all2 takes_segment (rt_path q) ws"
    by (simp_all add: takes_request_def takes_path_def)
  then show ?thesis
    using assms both_take_segment
    by (fastforce simp: overlap_def takes_request_def list_all2_conv_all_nth list_all_length)
qed

fun pairwise_apart :: "api_route list \<Rightarrow> bool" where
  "pairwise_apart [] = True"
| "pairwise_apart (r # rs) = (list_all (\<lambda>q. \<not> overlap r q) rs \<and> pairwise_apart rs)"

lemma apart_unique:
  "pairwise_apart rs \<Longrightarrow> length (filter (takes_request m path) rs) \<le> 1"
proof (induction rs)
  case (Cons r rs)
  show ?case
  proof (cases "takes_request m path r")
    case True
    with Cons.prems takes_overlap [OF True] have "filter (takes_request m path) rs = []"
      by (auto simp: filter_empty_conv list_all_iff)
    then show ?thesis by simp
  qed (use Cons in simp)
qed simp

lemma overlap_prefix: "overlap (r\<lparr>rt_path := xs @ rt_path r\<rparr>) (q\<lparr>rt_path := xs @ rt_path q\<rparr>) \<Longrightarrow> overlap r q"
  by (auto simp: overlap_def)

lemma apart_prefix: "pairwise_apart rs \<Longrightarrow> pairwise_apart (map (\<lambda>r. r\<lparr>rt_path := xs @ rt_path r\<rparr>) rs)"
  by (induction rs) (auto simp: list_all_iff dest: overlap_prefix)

text \<open>
  Under whatever prefix the interface is mounted, a request is for at most one of its routes, so
  the order in which the routers are included does not matter.
\<close>

theorem routes_apart: "length (filter (takes_request m path) (app_routes api_prefix)) \<le> 1"
proof -
  have "pairwise_apart api_router" by code_simp
  then show ?thesis unfolding app_routes_def by (intro apart_unique apart_prefix)
qed

section \<open>The client on the interface\<close>

text \<open>An HTTP client that keeps a record of the requests it sends.\<close>

definition logged :: "'w http \<Rightarrow> ('w \<times> (http_method \<times> string) list) http" where
  "logged h = \<lparr>ht_get = (\<lambda>url (w, l). case ht_get h url w of (r, v) \<Rightarrow> (r, v, l @ [(Get, url)])),
     ht_post = (\<lambda>url body (w, l). case ht_post h url body w of (r, v) \<Rightarrow> (r, v, l @ [(Post, url)]))\<rparr>"

definition served :: "string \<Rightarrow> http_method \<times> string \<Rightarrow> bool" where
  "served base req = (\<exists>path. snd req = base @ path \<and>
     list_ex (takes_request (fst req) path) (app_routes API_PREFIX))"

definition requests_ok :: "(http_method \<times> string \<Rightarrow> bool) \<Rightarrow> ('w \<times> (http_method \<times> string) list) console \<Rightarrow> bool" where
  "requests_ok ok s = list_all ok (snd (co_world s))"

definition path_segment :: "string \<Rightarrow> bool" where
  "path_segment t = (t \<noteq> [] \<and> CHR ''/'' \<notin> set t)"

lemma split_task:
  assumes "path_segment t"
  shows "split_on CHR ''/'' (''/api/v1/tasks/'' @ t) = [[], ''api'', ''v1'', ''tasks'', t]"
    and "split_on CHR ''/'' (''/api/v1/tasks/'' @ t @ CHR ''/'' # s) = [] # ''api'' # ''v1'' # ''tasks'' # t # split_on CHR ''/'' s"
  using assms split_on_append [of "CHR ''/''" t s] by (simp_all add: path_segment_def split_on_none)

lemma served_by:
  assumes "split_on CHR ''/'' path = ws"
    and "list_ex (\<lambda>r. rt_method r = m \<and> list_all2 takes_segment (Fixed [] # rt_path r) ws) (app_routes API_PREFIX)"
  shows "served base (m, base @ path)"
  using assms unfolding served_def takes_request_def takes_path_def by auto

lemmas route_table = app_routes_def API_PREFIX_def router_defs route_at_def Let_def

lemma served_task:
  assumes "path_segment t"
  shows "served base (Get, base @ ''/api/v1/tasks/'' @ t)"
    and "served base (Get, base @ ''/api/v1/tasks/'' @ t @ ''/approval'')"
    and "served base (Post, base @ ''/api/v1/tasks/'' @ t @ ''/approval'')"
    and "served base (Post, base @ ''/api/v1/tasks/'' @ t @ ''/cancel'')"
proof -
  have t: "t \<noteq> []" using assms by (simp add: path_segment_def)
  show "served base (Get, base @ ''/api/v1/tasks/'' @ t)"
    by (rule served_by [OF split_task(1) [OF assms]]) (simp add: route_table t)
  show "served base (Get, base @ ''/api/v1/tasks/'' @ t @ ''/approval'')"
    "served base (Post, base @ ''/api/v1/tasks/'' @ t @ ''/approval'')"
    "served base (Post, base @ ''/api/v1/tasks/'' @ t @ ''/cancel'')"
    by (rule served_by [OF split_task(2) [OF assms]], simp add: route_table t)+
qed

lemma served_fixed:
  "served base (Post, base @ ''/api/v1/tasks'')" "served base (Get, base @ ''/api/v1/audit/secrets'')"
  by (rule served_by [OF refl], simp add: route_table)+

section \<open>What the commands request\<close>

lemma preserves_bind_result:
  assumes "preserves P m" "\<And>s x t. m s = (Inr x, t) \<Longrightarrow> preserves P (f x)"
  shows "preserves P (bindE m f)"
  unfolding preserves_def
proof (intro allI impI)
  fix s assume "P s"
  obtain r t where m: "m s = (r, t)" by (cases "m s")
  with assms(1) \<open>P s\<close> have "P t" by (auto simp: preserves_def dest: spec [of _ s])
  with m assms(2) show "P (snd (bindE m f s))" by (cases r) (auto simp: bindE_def preserves_def)
qed

lemma requests_get:
  assumes "ok (Get, url)"
  shows "preserves (requests_ok ok) (on_http (ht_get (logged h) url))"
  unfolding requests_ok_def
  by (rule console_world.run_preserves [where P = "\<lambda>w. list_all ok (snd w)"])
    (use assms in \<open>auto simp: preserves_def logged_def split: prod.splits\<close>)

lemma requests_post:
  assumes "ok (Post, url)"
  shows "preserves (requests_ok ok) (on_http (ht_post (logged h) url body))"
  unfolding requests_ok_def
  by (rule console_world.run_preserves [where P = "\<lambda>w. list_all ok (snd w)"])
    (use assms in \<open>auto simp: preserves_def logged_def split: prod.splits\<close>)

lemma requests_say [preserves_intro]: "preserves (requests_ok ok) (say l)"
  by (simp add: preserves_def requests_ok_def say_def modE_def)

lemma requests_say_all [preserves_intro]: "preserves (requests_ok ok) (say_all ls)"
  by (induction ls) (auto intro: preserves_intro)

lemma requests_say_item [preserves_intro]: "preserves (requests_ok ok) (say_item c l v k)"
  unfolding say_item_def by (intro preserves_intro)

lemma requests_body [preserves_intro]: "preserves (requests_ok ok) (body_of r)"
  unfolding body_of_def by (intro preserves_intro)

lemma requests_say_if_true [preserves_intro]: "preserves (requests_ok ok) (say_if_true c l v k)"
  unfolding say_if_true_def by (intro preserves_intro)

lemma requests_say_findings [preserves_intro]: "preserves (requests_ok ok) (say_findings c fs)"
  by (induction fs) (auto intro!: preserves_intro)

lemma requests_say_runs [preserves_intro]: "preserves (requests_ok ok) (say_runs c rs)"
  by (induction rs) (auto intro!: preserves_intro)

definition fits_command :: "string \<Rightarrow> cli_command option \<Rightarrow> http_method \<times> string \<Rightarrow> bool" where
  "fits_command base command req = (served base req = (case command of Some (Logs tid n) \<Rightarrow> False | _ \<Rightarrow> True))"

lemma runs_not_served:
  assumes "path_segment t"
  shows "\<not> served base (Get, base @ ''/api/v1/tasks/'' @ t @ ''/runs'')"
proof
  assume "served base (Get, base @ ''/api/v1/tasks/'' @ t @ ''/runs'')"
  then have "list_ex (takes_request Get (''/api/v1/tasks/'' @ t @ ''/runs'')) (app_routes API_PREFIX)"
    by (auto simp: served_def)
  then show False
    using split_task(2) [OF assms, of "''runs''"] by (simp add: route_table takes_request_def takes_path_def)
qed

lemma requests_poll:
  assumes "cl_http c = logged h" "path_segment t" "\<And>req. served (cl_base c) req \<Longrightarrow> ok req"
  shows "preserves (requests_ok ok) (poll_task c t n)"
proof (induction n)
  case (Suc n)
  have "preserves (requests_ok ok) (on_http (ht_get (logged h) (task_url c t)))"
    unfolding task_url_def using assms served_task(1) by (intro requests_get) blast
  with Suc assms(1) show ?case by (auto intro!: preserves_intro)
qed (auto intro: preserves_intro)

lemma requests_approve:
  assumes "cl_http c = logged h" "path_segment t" "\<And>req. served (cl_base c) req \<Longrightarrow> ok req"
  shows "preserves (requests_ok ok) (poll_and_prompt c t)"
proof -
  have get: "preserves (requests_ok ok) (on_http (ht_get (logged h) (task_url c t @ ''/approval'')))"
    unfolding task_url_def append_assoc using assms served_task(2) by (intro requests_get) blast
  have post: "preserves (requests_ok ok) (on_http (ht_post (logged h) (task_url c t @ ''/approval'') b))" for b
    unfolding task_url_def append_assoc using assms served_task(3) by (intro requests_post) blast
  show ?thesis unfolding poll_and_prompt_def assms(1) Let_def
    by (intro preserves_intro get post)
qed

lemma requests_cancel:
  assumes "cl_http c = logged h" "path_segment t" "\<And>req. served (cl_base c) req \<Longrightarrow> ok req"
  shows "preserves (requests_ok ok) (cli_cancel_task c t)"
proof -
  have post: "preserves (requests_ok ok) (on_http (ht_post (logged h) (task_url c t @ ''/cancel'') b))" for b
    unfolding task_url_def append_assoc using assms served_task(4) by (intro requests_post) blast
  show ?thesis unfolding cli_cancel_task_def assms(1) by (intro preserves_intro post)
qed

lemma requests_audit:
  assumes "cl_http c = logged h" "\<And>req. served (cl_base c) req \<Longrightarrow> ok req"
  shows "preserves (requests_ok ok) (cli_audit_secrets c)"
proof -
  have get: "preserves (requests_ok ok) (on_http (ht_get (logged h) (cl_base c @ ''/api/v1/audit/secrets'')))"
    using assms(2) served_fixed(2) by (intro requests_get) blast
  show ?thesis unfolding cli_audit_secrets_def assms(1) by (intro preserves_intro get)
qed

lemma requests_status:
  assumes "cl_http c = logged h" "path_segment t" "\<And>req. served (cl_base c) req \<Longrightarrow> ok req"
  shows "preserves (requests_ok ok) (get_status c t)"
proof -
  have get: "preserves (requests_ok ok) (on_http (ht_get (logged h) (task_url c t)))"
    unfolding task_url_def using assms served_task(1) by (intro requests_get) blast
  show ?thesis unfolding get_status_def assms(1) by (intro preserves_intro get)
qed

lemma requests_logs:
  assumes "cl_http c = logged h" "ok (Get, cl_base c @ ''/api/v1/tasks/'' @ t @ ''/runs'')"
  shows "preserves (requests_ok ok) (get_logs c sl t n)"
proof -
  have get: "preserves (requests_ok ok) (on_http (ht_get (logged h) (task_url c t @ ''/runs'')))"
    unfolding task_url_def append_assoc using assms(2) by (intro requests_get)
  show ?thesis unfolding get_logs_def assms(1) by (intro preserves_intro get)
qed

text \<open>The identifier of a task that the server creates.\<close>

definition answers_ids :: "'w http \<Rightarrow> (jvalue \<Rightarrow> string) \<Rightarrow> bool" where
  "answers_ids h str_of = (\<forall>url body w r v j x. ht_post h url body w = (Inr r, v) \<longrightarrow> rs_json r = Inr j \<longrightarrow>
     jitem j ''id'' = Inr x \<longrightarrow> path_segment (str_of x))"

lemma requests_run:
  assumes "cl_http c = logged h" "answers_ids h (cl_str c)" "\<And>req. served (cl_base c) req \<Longrightarrow> ok req"
  shows "preserves (requests_ok ok) (cli_run_task c i timeout n)"
proof -
  have post: "preserves (requests_ok ok) (on_http (ht_post (logged h) (cl_base c @ ''/api/v1/tasks'') b))" for b
    using assms(3) served_fixed(1) by (intro requests_post) blast
  have rest: "preserves (requests_ok ok) (thenE (say (''Task created: '' @ cl_str c tid))
      (thenE (say_item c ''Initial state: '' task ''state'')
      (bindE (poll_task c (cl_str c tid) n) (\<lambda>ended. case ended of
         None \<Rightarrow> retE None
       | Some (final, state) \<Rightarrow>
           thenE (say (newline @ ''Final state: '' @ cl_str c state))
           (bindE (liftE (jget final ''result'' JNull)) (\<lambda>r.
            thenE (whenE (jtrue r) (say_item c ''Result: '' final ''result''))
            (retE (Some ()))))))))" if "path_segment (cl_str c tid)" for tid task
    using requests_poll [OF assms(1) that assms(3)]
    by (auto intro!: preserves_intro split: option.splits)
  show ?thesis unfolding cli_run_task_def Let_def assms(1)
  proof (rule preserves_bind_result [OF post], rule preserves_bind_result [OF requests_body],
      rule preserves_bind_result [OF preserves_lift], rule rest)
    fix s response t u task u' v tid v'
    assume "on_http (ht_post (logged h) (cl_base c @ ''/api/v1/tasks'') (Some (JDict ([(''instruction'', JText i)] @
        (case timeout of None \<Rightarrow> [] | Some t \<Rightarrow> if t = 0 then [] else [(''timeout_seconds'', JNumber (of_int t))]))))) s =
        (Inr response, t)"
      and task: "body_of response u = (Inr task, u')" and tid: "liftE (jitem task ''id'') v = (Inr tid, v')"
    then obtain b w x where "ht_post h (cl_base c @ ''/api/v1/tasks'') b w = (Inr response, x)"
      by (auto simp: on_http_def logged_def split: prod.splits)
    from assms(2) [unfolded answers_ids_def, rule_format, OF this] task tid
    show "path_segment (cl_str c tid)" by (simp add: body_of_def liftE_def)
  qed
qed

text \<open>One command: the requests it sends.\<close>

lemma command_calls_routes:
  fixes c :: "('w \<times> (http_method \<times> string) list) cli"
  assumes "cl_http c = logged h" "answers_ids h (cl_str c)"
    and "\<And>t u. parse t = Inr u \<Longrightarrow> path_segment u" "co_world s = (w, [])"
  shows "list_all (fits_command (cl_base c) command)
    (snd (co_world (snd (cli_main c show_limit parse help fuel command s))))"
proof -
  let ?ok = "fits_command (cl_base c) command"
  have some: "preserves (requests_ok ?ok) m \<Longrightarrow> preserves (requests_ok ?ok) (bindE m (\<lambda>x. retE (Some ())))" for m
    by (intro preserves_intro)
  have lifted: "preserves (requests_ok ?ok) (bindE (liftE (parse t)) (\<lambda>u. bindE (m u) (\<lambda>x. retE (Some ()))))"
    if "\<And>u. path_segment u \<Longrightarrow> preserves (requests_ok ?ok) (m u)" for t m
    by (rule preserves_bind_result [OF preserves_lift], rule some, rule that)
      (auto simp: liftE_def dest: assms(3))
  have "preserves (requests_ok ?ok) (cli_main c show_limit parse help fuel command)"
  proof (cases command)
    case None
    then show ?thesis by (auto simp: cli_main_def intro!: preserves_intro)
  next
    case (Some x)
    show ?thesis
    proof (cases "\<exists>t n. x = Logs t n")
      case True
      then obtain t n where x: "x = Logs t n" by blast
      have "preserves (requests_ok ?ok) (get_logs c show_limit u n)" if "path_segment u" for u
        using requests_logs [OF assms(1)] runs_not_served [OF that, of "cl_base c"] Some x
        by (simp add: fits_command_def)
      from lifted [of "\<lambda>u. get_logs c show_limit u n", OF this, of t] Some x show ?thesis by (simp add: cli_main_def)
    next
      case False
      then have ok: "served (cl_base c) req \<Longrightarrow> ?ok req" for req
        using Some by (cases x) (simp_all add: fits_command_def)
      note tasks = lifted [OF requests_approve [OF assms(1) _ ok]] lifted [OF requests_cancel [OF assms(1) _ ok]]
        lifted [OF requests_status [OF assms(1) _ ok]]
      show ?thesis
      proof (cases x)
        case (RunTask i timeout)
        with Some requests_run [OF assms(1,2) ok] show ?thesis by (simp add: cli_main_def)
      next
        case Audit
        with Some some [OF requests_audit [OF assms(1) ok]] show ?thesis by (simp add: cli_main_def)
      qed (use Some False tasks in \<open>simp_all add: cli_main_def\<close>)
    qed
  qed
  moreover have "requests_ok ?ok s" using assms(4) by (simp add: requests_ok_def)
  ultimately show ?thesis unfolding preserves_def requests_ok_def by blast
qed

text \<open>
  C28. The client and the service fit: whatever the words of the command line, every request that the
  program sends is for a route of the service, except that of \<open>logs\<close>, which is for none; words that do
  not parse send nothing and end the program with the status of the parser. The parsed task identifiers
  and the identifier that the service answers are assumed to be path segments, as uuids are.
\<close>

theorem client_calls_routes:
  fixes client :: "string \<Rightarrow> ('w \<times> (http_method \<times> string) list) cli"
  assumes "\<And>b. cl_http (client b) = logged h" "\<And>b. answers_ids h (cl_str (client b))"
    and "\<And>t u. parse t = Inr u \<Longrightarrow> path_segment u" "co_world s = (w, [])"
  shows "case parse_command_line argv of
     Inl n \<Rightarrow> main client show_limit parse help fuel argv s = (Inl (system_exit n), s)
   | Inr (api_base, command) \<Rightarrow> list_all (fits_command (cl_base (client api_base)) command)
       (snd (co_world (snd (main client show_limit parse help fuel argv s))))"
  using command_calls_routes [OF assms(1) assms(2) assms(3) assms(4)]
  by (auto simp: main_def raiseE_def split: sum.splits)

definition quiet_http :: "unit http" where
  "quiet_http = \<lparr>ht_get = (\<lambda>url. retE \<lparr>rs_status = 404, rs_json = Inl type_error\<rparr>),
     ht_post = (\<lambda>url body. retE \<lparr>rs_status = 200, rs_json = Inl type_error\<rparr>)\<rparr>"

theorem client_calls_routes_witness:
  "list_all (fits_command ''http://h'' (Some (Approve ''7'')))
    (snd (co_world (snd (main (new_cli (logged quiet_http) (\<lambda>v. ''1'') (\<lambda>w. [])) (\<lambda>n. []) Inr [] 3
      [''--api-base=http://h/'', ''approve'', ''--task-id=7''] \<lparr>co_printed = [], co_world = ((), [])\<rparr>))))"
proof -
  let ?client = "new_cli (logged quiet_http) (\<lambda>v. ''1'') (\<lambda>w. []) :: string \<Rightarrow> (unit \<times> (http_method \<times> string) list) cli"
  let ?argv = "[''--api-base=http://h/'', ''approve'', ''--task-id=7'']"
  define parse where "parse = (\<lambda>t. if path_segment t then Inr t else Inl type_error :: string result)"
  have words: "parse_command_line ?argv = Inr (''http://h/'', Some (Approve ''7''))"
    using command_line_parses [of "Approve ''7''" "''http://h/''"] by (simp add: words_of_def)
  have same: "main ?client (\<lambda>n. []) parse [] 3 ?argv = main ?client (\<lambda>n. []) Inr [] 3 ?argv"
    by (simp add: main_def words cli_main_def parse_def path_segment_def)
  have base: "cl_base (?client ''http://h/'') = ''http://h''" by (simp add: new_cli_def)
  have "\<And>b. cl_http (?client b) = logged quiet_http" "\<And>b. answers_ids quiet_http (cl_str (?client b))"
    by (simp_all add: new_cli_def answers_ids_def quiet_http_def path_segment_def)
  moreover have "parse t = Inr u \<Longrightarrow> path_segment u" for t u by (auto simp: parse_def split: if_splits)
  ultimately show ?thesis
    using client_calls_routes [of ?client quiet_http parse "\<lparr>co_printed = [], co_world = ((), [])\<rparr>" "()"
      "\<lambda>n. []" "[]" 3 ?argv] words base unfolding same by simp
qed

end
