(* ===== verification/Application.thy ===== *)
theory Application
  imports Settings
begin

text \<open>
  The process around the requests: the cached providers of \<open>app/api/deps.py\<close> and \<open>app/db/session.py\<close>, the
  logging setup (\<open>app/logging.py\<close>), the start of the application (\<open>lifespan\<close> of \<open>app/main.py\<close>) and the log
  lines of an agent run (\<open>app/agents/callbacks.py\<close>). What SQLAlchemy and the browser manager make of
  their settings are arguments; structlog is represented by what it is configured with and by the
  calls made to it, in order.
\<close>

section \<open>Log lines\<close>

datatype log_method = LogInfo | LogWarning

datatype log_value = LogText string | LogNumber int | LogNothing | LogError emsg

type_synonym log_call = "log_method \<times> string \<times> (string \<times> log_value) list"

section \<open>Configuring the logging\<close>

text \<open>What the module \<open>logging\<close> has under a name in capitals; two of them are not levels.\<close>

datatype logging_attribute = LevelNumber int | FormatText | StyleTable

definition logging_attributes :: "(string \<times> logging_attribute) list" where
  "logging_attributes = [(''CRITICAL'', LevelNumber 50), (''FATAL'', LevelNumber 50), (''ERROR'', LevelNumber 40),
     (''WARNING'', LevelNumber 30), (''WARN'', LevelNumber 30), (''INFO'', LevelNumber 20), (''DEBUG'', LevelNumber 10),
     (''NOTSET'', LevelNumber 0), (''BASIC_FORMAT'', FormatText), (''_STYLES'', StyleTable)]"

definition upper_char :: "char \<Rightarrow> char" where
  "upper_char c = (if is_lower c then char_of (char_code c - 32) else c)"

text \<open>\<open>getattr(logging, level.upper(), logging.INFO)\<close> and what \<open>basicConfig\<close> makes of it.\<close>

definition level_attribute :: "string \<Rightarrow> logging_attribute" where
  "level_attribute level = (case map_of logging_attributes (map upper_char level) of
      None \<Rightarrow> LevelNumber 20 | Some a \<Rightarrow> a)"

fun check_level :: "logging_attribute \<Rightarrow> int result" where
  "check_level (LevelNumber n) = Inr n"
| "check_level FormatText = Inl (py_error PyValueError ''Unknown level'' [])"
| "check_level StyleTable = Inl type_error"

datatype renderer = JSONRenderer | ConsoleRenderer

text \<open>\<open>structlog.configure\<close>: the level of its filter and the last processor.\<close>

record structlog_config =
  sc_level :: logging_attribute
  sc_renderer :: renderer

text \<open>The process: the caches, the root logger's level (the first \<open>basicConfig\<close> counts) and the log.\<close>

record ('e, 'k, 'm) process =
  pr_settings :: "settings option"
  pr_engine :: "'e option"
  pr_sessionmaker :: "'k option"
  pr_manager :: "'m option"
  pr_root_level :: "int option"
  pr_structlog :: "structlog_config option"
  pr_log :: "log_call list"

definition log_call :: "log_call \<Rightarrow> (('e, 'k, 'm) process, unit) op" where
  "log_call l = modE (\<lambda>s. s\<lparr>pr_log := pr_log s @ [l]\<rparr>)"

text \<open>The filter that structlog makes of the level is an argument.\<close>

definition configure_logging :: "(logging_attribute \<Rightarrow> unit result) \<Rightarrow> settings \<Rightarrow> (('e, 'k, 'm) process, unit) op" where
  "configure_logging make_filter st =
     (let level = level_attribute (lo_level (st_logging st)) in
      bindE (getE pr_root_level) (\<lambda>root.
      thenE (whenE (root = None) (bindE (liftE (check_level level)) (\<lambda>n. modE (\<lambda>s. s\<lparr>pr_root_level := Some n\<rparr>))))
      (thenE (liftE (make_filter level))
      (modE (\<lambda>s. s\<lparr>pr_structlog := Some \<lparr>sc_level = level,
         sc_renderer = (if lo_json_format (st_logging st) then JSONRenderer else ConsoleRenderer)\<rparr>\<rparr>)))))"

section \<open>Providers that are built once\<close>

text \<open>\<open>functools.lru_cache\<close> on a function without arguments: a raised error is not cached.\<close>

definition lru_cache :: "('s \<Rightarrow> 'v option) \<Rightarrow> ('v option \<Rightarrow> 's \<Rightarrow> 's) \<Rightarrow> ('s, 'v) op \<Rightarrow> ('s, 'v) op" where
  "lru_cache place put m = bindE (getE place) (\<lambda>c. case c of
      Some v \<Rightarrow> retE v
    | None \<Rightarrow> bindE m (\<lambda>v. thenE (modE (put (Some v))) (retE v)))"

lemma lru_cache_get_settings:
  "get_settings rd env = lru_cache (\<lambda>c. c) (\<lambda>v c. v) (liftE (load_settings rd env))"
  by (auto simp: get_settings_def lru_cache_def op_defs split: option.splits sum.splits)

text \<open>What the providers make of the settings, and the environment they are read from.\<close>

record ('e, 'k, 'm) makers =
  mk_readers :: readers
  mk_environ :: environ
  mk_engine :: "string \<Rightarrow> bool \<Rightarrow> int \<Rightarrow> int \<Rightarrow> 'e result"
  mk_sessionmaker :: "'e \<Rightarrow> 'k"
  mk_manager :: "browser_settings \<Rightarrow> 'm"
  mk_filter :: "logging_attribute \<Rightarrow> unit result"

definition process_settings :: "('e, 'k, 'm) makers \<Rightarrow> (('e, 'k, 'm) process, settings) op" where
  "process_settings mk = lru_cache pr_settings (\<lambda>v s. s\<lparr>pr_settings := v\<rparr>) (liftE (load_settings (mk_readers mk) (mk_environ mk)))"

definition get_engine :: "('e, 'k, 'm) makers \<Rightarrow> (('e, 'k, 'm) process, 'e) op" where
  "get_engine mk = lru_cache pr_engine (\<lambda>v s. s\<lparr>pr_engine := v\<rparr>)
     (bindE (process_settings mk) (\<lambda>st. let d = st_database st in
        liftE (mk_engine mk (db_url d) (db_echo d) (db_pool_size d) (db_max_overflow d))))"

definition get_sessionmaker :: "('e, 'k, 'm) makers \<Rightarrow> (('e, 'k, 'm) process, 'k) op" where
  "get_sessionmaker mk = lru_cache pr_sessionmaker (\<lambda>v s. s\<lparr>pr_sessionmaker := v\<rparr>)
     (bindE (get_engine mk) (\<lambda>e. retE (mk_sessionmaker mk e)))"

definition browser_manager :: "('e, 'k, 'm) makers \<Rightarrow> (('e, 'k, 'm) process, 'm) op" where
  "browser_manager mk = lru_cache pr_manager (\<lambda>v s. s\<lparr>pr_manager := v\<rparr>)
     (bindE (process_settings mk) (\<lambda>st. retE (mk_manager mk (st_browser st))))"

text \<open>\<open>lifespan\<close> up to its \<open>yield\<close>, and after it.\<close>

definition lifespan_startup :: "('e, 'k, 'm) makers \<Rightarrow> (('e, 'k, 'm) process, unit) op" where
  "lifespan_startup mk = bindE (process_settings mk) (\<lambda>st.
     thenE (configure_logging (mk_filter mk) st)
     (log_call (LogInfo, ''app.startup'', [(''environment'', LogText (ap_environment (st_application st)))])))"

definition lifespan_shutdown :: "(('e, 'k, 'm) process, unit) op" where
  "lifespan_shutdown = log_call (LogInfo, ''app.shutdown'', [])"

section \<open>What an agent run logs\<close>

record callback_handler =
  cb_task_id :: "string option"
  cb_enable_langsmith :: bool
  cb_run_id :: "string option"

text \<open>\<open>os.getenv\<close> takes the names as they are written.\<close>

definition langsmith_enabled :: "environ \<Rightarrow> bool" where
  "langsmith_enabled env =
     (py_lower (case map_of env ''LANGCHAIN_TRACING_V2'' of None \<Rightarrow> [] | Some t \<Rightarrow> t) = ''true'' \<and>
      truthy (map_of env ''LANGCHAIN_API_KEY''))"

definition new_callback_handler :: "environ \<Rightarrow> string option \<Rightarrow> callback_handler" where
  "new_callback_handler env task_id = \<lparr>cb_task_id = task_id, cb_enable_langsmith = langsmith_enabled env, cb_run_id = None\<rparr>"

text \<open>The calls of LangChain's callback manager; \<open>serialized\<close> is read under the key \<open>name\<close>.\<close>

datatype callback_event =
    LlmStart "string option" "string list"
  | LlmEnd llm_reply
  | ToolStart "string option" string
  | ToolEnd string
  | ToolFailed emsg
  | ChainFailed emsg

definition optional_text :: "string option \<Rightarrow> log_value" where
  "optional_text v = (case v of None \<Rightarrow> LogNothing | Some t \<Rightarrow> LogText t)"

definition task_field :: "callback_handler \<Rightarrow> string \<times> log_value" where
  "task_field h = (''task_id'', LogText (case cb_task_id h of None \<Rightarrow> ''None'' | Some t \<Rightarrow> t))"

fun callback_line :: "callback_handler \<Rightarrow> callback_event \<Rightarrow> log_call" where
  "callback_line h (LlmStart name prompts) = (LogInfo, ''llm.start'', [task_field h, (''model'', optional_text name)])"
| "callback_line h (LlmEnd response) = (let usage = extract_usage response in
     (LogInfo, ''llm.end'', [task_field h, (''prompt_tokens'', LogNumber (prompt_tokens usage)),
        (''completion_tokens'', LogNumber (completion_tokens usage))]))"
| "callback_line h (ToolStart name input) = (LogInfo, ''tool.start'', [task_field h, (''tool'', optional_text name)])"
| "callback_line h (ToolEnd out) = (LogInfo, ''tool.end'', [task_field h])"
| "callback_line h (ToolFailed e) = (LogWarning, ''tool.error'', [task_field h, (''error'', LogError e)])"
| "callback_line h (ChainFailed e) = (LogWarning, ''chain.error'', [task_field h, (''error'', LogError e)])"

definition handle_callback :: "callback_handler \<Rightarrow> callback_event \<Rightarrow> (('e, 'k, 'm) process, unit) op" where
  "handle_callback h e = log_call (callback_line h e)"

section \<open>Built once\<close>

text \<open>A cache is a place in the process that only its own provider fills.\<close>

locale cached_provider =
  fixes place :: "'s \<Rightarrow> 'v option"
    and put :: "'v option \<Rightarrow> 's \<Rightarrow> 's"
  assumes place_put: "place (put v s) = v"
begin

lemma cached: "lru_cache place put m s = (Inr v, t) \<Longrightarrow> place t = Some v"
  by (auto simp: lru_cache_def op_defs place_put split: option.splits sum.splits prod.splits)

lemma reused: "place t = Some v \<Longrightarrow> lru_cache place put m t = (Inr v, t)"
  by (simp add: lru_cache_def op_defs)

text \<open>The second call returns the first one's value, however it would be made by then.\<close>

lemma built_once: "lru_cache place put m s = (Inr v, t) \<Longrightarrow> place u = place t \<Longrightarrow> lru_cache place put m' u = (Inr v, u)"
  using cached reused by metis

lemma error_not_cached: "lru_cache place put m s = (Inl e, t) \<Longrightarrow> place s = None \<and> m s = (Inl e, t)"
  by (auto simp: lru_cache_def op_defs split: option.splits sum.splits prod.splits)

end

interpretation cached_settings: cached_provider pr_settings "\<lambda>v s. s\<lparr>pr_settings := v\<rparr>"
  by unfold_locales simp

interpretation cached_engine: cached_provider pr_engine "\<lambda>v s. s\<lparr>pr_engine := v\<rparr>"
  by unfold_locales simp

interpretation cached_sessionmaker: cached_provider pr_sessionmaker "\<lambda>v s. s\<lparr>pr_sessionmaker := v\<rparr>"
  by unfold_locales simp

interpretation cached_manager: cached_provider pr_manager "\<lambda>v s. s\<lparr>pr_manager := v\<rparr>"
  by unfold_locales simp

lemmas provider_defs = process_settings_def get_engine_def get_sessionmaker_def browser_manager_def

text \<open>
  All requests share one engine, one session factory and one browser manager, made of the settings
  that the process read first: asked again, in whatever state of the other providers and of the
  environment, each returns what it returned.
\<close>

theorem providers_shared:
  "get_engine mk s = (Inr e, t) \<Longrightarrow> pr_engine u = pr_engine t \<Longrightarrow> get_engine mk' u = (Inr e, u)"
  "get_sessionmaker mk s = (Inr k, t) \<Longrightarrow> pr_sessionmaker u = pr_sessionmaker t \<Longrightarrow> get_sessionmaker mk' u = (Inr k, u)"
  "browser_manager mk s = (Inr m, t) \<Longrightarrow> pr_manager u = pr_manager t \<Longrightarrow> browser_manager mk' u = (Inr m, u)"
  unfolding provider_defs
  by (rule cached_engine.built_once cached_sessionmaker.built_once cached_manager.built_once; assumption)+

text \<open>
  The application starts with any level but the two names of the module that are no levels, written
  in any case; an unknown name is the level INFO.
\<close>

definition logging_levels :: "int set" where
  "logging_levels = {0, 10, 20, 30, 40, 50}"

lemma level_refused:
  "(\<exists>e. check_level (level_attribute l) = Inl e) \<longleftrightarrow> map upper_char l \<in> {''BASIC_FORMAT'', ''_STYLES''}"
  by (auto simp: level_attribute_def logging_attributes_def split: if_splits)

lemma level_accepted:
  "check_level (level_attribute l) = Inr n \<Longrightarrow> level_attribute l = LevelNumber n \<and> n \<in> logging_levels"
  by (auto simp: level_attribute_def logging_attributes_def logging_levels_def split: if_splits)

theorem startup_level:
  assumes first: "pr_root_level s = None" "pr_settings s = Some st"
    and filters: "\<And>n. n \<in> logging_levels \<Longrightarrow> mk_filter mk (LevelNumber n) = Inr ()"
  shows "(\<exists>e. fst (lifespan_startup mk s) = Inl e) \<longleftrightarrow>
    map upper_char (lo_level (st_logging st)) \<in> {''BASIC_FORMAT'', ''_STYLES''}"
proof -
  let ?level = "level_attribute (lo_level (st_logging st))"
  have settings: "process_settings mk s = (Inr st, s)"
    unfolding process_settings_def using first(2) by (rule cached_settings.reused)
  have "(\<exists>e. fst (lifespan_startup mk s) = Inl e) \<longleftrightarrow> (\<exists>e. check_level ?level = Inl e)"
  proof (cases "check_level ?level")
    case (Inl e)
    then show ?thesis
      using first(1) by (simp add: lifespan_startup_def settings configure_logging_def op_defs Let_def)
  next
    case (Inr n)
    then have "mk_filter mk ?level = Inr ()" using level_accepted filters by metis
    with Inr show ?thesis
      using first(1) by (simp add: lifespan_startup_def settings configure_logging_def log_call_def op_defs Let_def)
  qed
  then show ?thesis by (simp only: level_refused)
qed

text \<open>
  The lines of a run carry no prompt and no input or output of a tool: events that differ only
  there are logged alike. An error, however, is logged with its whole text.
\<close>

fun event_shape :: "callback_event \<Rightarrow> callback_event" where
  "event_shape (LlmStart name prompts) = LlmStart name []"
| "event_shape (ToolStart name input) = ToolStart name []"
| "event_shape (ToolEnd out) = ToolEnd []"
| "event_shape e = e"

theorem callbacks_log_shape:
  "map event_shape es = map event_shape es' \<Longrightarrow> map (callback_line h) es = map (callback_line h) es'"
proof (induction es arbitrary: es')
  case (Cons e es)
  then obtain e' fs where es': "es' = e' # fs" "event_shape e = event_shape e'" "map event_shape es = map event_shape fs"
    by (cases es') auto
  have "callback_line h e = callback_line h (event_shape e)" for e by (cases e) simp_all
  then have "callback_line h e = callback_line h e'" using es'(2) by metis
  with Cons.IH es' show ?case by simp
qed simp

lemma tool_error_logged: "callback_line h (ToolFailed e) = (LogWarning, ''tool.error'', [task_field h, (''error'', LogError e)])"
  by simp

text \<open>
  LangChain hands \<open>on_llm_end\<close> an \<open>LLMResult\<close>, neither a message nor a mapping: the token counts that
  are logged are always zero.
\<close>

lemma logged_usage_zero:
  "callback_line h (LlmEnd OtherReply) =
     (LogInfo, ''llm.end'', [task_field h, (''prompt_tokens'', LogNumber 0), (''completion_tokens'', LogNumber 0)])"
  by (simp add: extract_usage_def nonempty_def)

end
