(* ===== verification/Schema.thy ===== *)
theory Schema
  imports Tool_Catalogue
begin

text \<open>
  The database schema twice: as the ORM classes of \<open>app/db/models\<close> declare it and as the migration
  of \<open>migrations/versions\<close> builds it, with the operations of a migration on a schema.

  What SQLAlchemy makes of a class is written out: the mixins' columns come first and last, a
  foreign key of a column becomes a constraint of the table, \<open>index=True\<close> an index named after table
  and column, and an annotation gives the type where the column names none. Defaults that Python
  fills in and relationships are not part of the schema.
\<close>

section \<open>Schemas\<close>

datatype column_type = UuidType | VarChar nat | UnboundedString | TextType | JsonType | FloatType | IntegerType
  | BooleanType | DateTimeType | EnumType "string list" nat

record table_column =
  cn_name :: string
  cn_type :: column_type
  cn_nullable :: bool
  cn_server_now :: bool

definition column :: "string \<Rightarrow> column_type \<Rightarrow> bool \<Rightarrow> bool \<Rightarrow> table_column" where
  "column n t nullable now = \<lparr>cn_name = n, cn_type = t, cn_nullable = nullable, cn_server_now = now\<rparr>"

datatype constraint = PrimaryKey "string list" | ForeignKey string string string | Unique "string list" "string option"

record table_def =
  tb_name :: string
  tb_columns :: "table_column list"
  tb_constraints :: "constraint list"

record index_def =
  ix_name :: string
  ix_table :: string
  ix_columns :: "string list"
  ix_unique :: bool

record schema =
  sc_tables :: "table_def list"
  sc_indexes :: "index_def list"

definition empty_schema :: schema where
  "empty_schema = \<lparr>sc_tables = [], sc_indexes = []\<rparr>"

definition find_table :: "string \<Rightarrow> schema \<Rightarrow> table_def option" where
  "find_table n sch = List.find (\<lambda>t. tb_name t = n) (sc_tables sch)"

definition has_columns :: "string list \<Rightarrow> table_def \<Rightarrow> bool" where
  "has_columns ns t = list_all (\<lambda>n. n \<in> set (map cn_name (tb_columns t))) ns"

section \<open>Migrations\<close>

datatype migration_op = CreateTable table_def | CreateIndex string string "string list" bool
  | DropTable string | DropIndex string string

text \<open>What the database requires of a constraint of a new table, and when a table is referenced.\<close>

fun constraint_ok :: "schema \<Rightarrow> table_def \<Rightarrow> constraint \<Rightarrow> bool" where
  "constraint_ok sch t (PrimaryKey ns) = has_columns ns t"
| "constraint_ok sch t (Unique ns name) = has_columns ns t"
| "constraint_ok sch t (ForeignKey n tb c) = (has_columns [n] t \<and>
     (case find_table tb sch of None \<Rightarrow> False | Some u \<Rightarrow> has_columns [c] u))"

fun refers_to :: "string \<Rightarrow> constraint \<Rightarrow> bool" where
  "refers_to n (ForeignKey c tb k) = (tb = n)"
| "refers_to n _ = False"

fun apply_op :: "migration_op \<Rightarrow> schema \<Rightarrow> schema option" where
  "apply_op (CreateTable t) sch =
     (if find_table (tb_name t) sch \<noteq> None \<or> \<not> list_all (constraint_ok sch t) (tb_constraints t) then None
      else Some (sch\<lparr>sc_tables := sc_tables sch @ [t]\<rparr>))"
| "apply_op (CreateIndex n tb ns u) sch = (case find_table tb sch of
      None \<Rightarrow> None
    | Some t \<Rightarrow> if \<not> has_columns ns t \<or> n \<in> set (map ix_name (sc_indexes sch)) then None
        else Some (sch\<lparr>sc_indexes := sc_indexes sch @ [\<lparr>ix_name = n, ix_table = tb, ix_columns = ns, ix_unique = u\<rparr>]\<rparr>))"
| "apply_op (DropTable n) sch =
     (if find_table n sch = None \<or>
         list_ex (\<lambda>t. tb_name t \<noteq> n \<and> list_ex (refers_to n) (tb_constraints t)) (sc_tables sch) then None
      else Some \<lparr>sc_tables = filter (\<lambda>t. tb_name t \<noteq> n) (sc_tables sch),
                 sc_indexes = filter (\<lambda>x. ix_table x \<noteq> n) (sc_indexes sch)\<rparr>)"
| "apply_op (DropIndex n tb) sch =
     (if \<not> list_ex (\<lambda>x. ix_name x = n \<and> ix_table x = tb) (sc_indexes sch) then None
      else Some (sch\<lparr>sc_indexes := filter (\<lambda>x. ix_name x \<noteq> n) (sc_indexes sch)\<rparr>))"

fun run_ops :: "migration_op list \<Rightarrow> schema \<Rightarrow> schema option" where
  "run_ops [] sch = Some sch"
| "run_ops (x # xs) sch = Option.bind (apply_op x sch) (run_ops xs)"

section \<open>The initial migration\<close>

definition create_tasks :: migration_op where
  "create_tasks = CreateTable \<lparr>tb_name = ''tasks'', tb_columns =
     [column ''id'' (UuidType) False False,
      column ''instruction'' (UnboundedString) False False,
      column ''state'' (EnumType [''CREATED'', ''VALIDATING'', ''PLANNING'', ''RESEARCHING'', ''DRAFTING'', ''VALIDATING_RESULT'', ''WAITING_FOR_APPROVAL'', ''EXECUTING'', ''VERIFYING'', ''COMPLETED'', ''FAILED'', ''CANCELLED'', ''TIMED_OUT'', ''BLOCKED''] 32) False False,
      column ''risk_level'' (VarChar 16) True False,
      column ''user_id'' (VarChar 64) True False,
      column ''result'' (JsonType) True False,
      column ''error'' (JsonType) True False,
      column ''created_at'' (DateTimeType) False True,
      column ''updated_at'' (DateTimeType) False True],
     tb_constraints = [PrimaryKey [''id'']]\<rparr>"

definition create_users :: migration_op where
  "create_users = CreateTable \<lparr>tb_name = ''users'', tb_columns =
     [column ''id'' (UuidType) False False,
      column ''email'' (VarChar 320) False False,
      column ''display_name'' (VarChar 128) True False,
      column ''created_at'' (DateTimeType) False True,
      column ''updated_at'' (DateTimeType) False True],
     tb_constraints = [PrimaryKey [''id''], Unique [''email''] None]\<rparr>"

definition create_agent_runs :: migration_op where
  "create_agent_runs = CreateTable \<lparr>tb_name = ''agent_runs'', tb_columns =
     [column ''id'' (UuidType) False False,
      column ''task_id'' (UuidType) False False,
      column ''agent_name'' (VarChar 64) False False,
      column ''model_class'' (VarChar 32) True False,
      column ''model_name'' (VarChar 64) True False,
      column ''status'' (VarChar 32) False False,
      column ''input'' (JsonType) True False,
      column ''output'' (JsonType) True False,
      column ''error'' (JsonType) True False,
      column ''duration_seconds'' (FloatType) True False,
      column ''created_at'' (DateTimeType) False True,
      column ''updated_at'' (DateTimeType) False True],
     tb_constraints = [ForeignKey ''task_id'' ''tasks'' ''id'', PrimaryKey [''id'']]\<rparr>"

definition create_approvals :: migration_op where
  "create_approvals = CreateTable \<lparr>tb_name = ''approvals'', tb_columns =
     [column ''id'' (UuidType) False False,
      column ''task_id'' (UuidType) False False,
      column ''action'' (VarChar 128) False False,
      column ''target'' (VarChar 256) False False,
      column ''risk_level'' (VarChar 16) False False,
      column ''content'' (JsonType) True False,
      column ''reason'' (UnboundedString) True False,
      column ''status'' (VarChar 16) False False,
      column ''decided_by'' (VarChar 64) True False,
      column ''created_at'' (DateTimeType) False True,
      column ''updated_at'' (DateTimeType) False True],
     tb_constraints = [ForeignKey ''task_id'' ''tasks'' ''id'', PrimaryKey [''id'']]\<rparr>"

definition create_browser_sessions :: migration_op where
  "create_browser_sessions = CreateTable \<lparr>tb_name = ''browser_sessions'', tb_columns =
     [column ''id'' (UuidType) False False,
      column ''task_id'' (UuidType) True False,
      column ''status'' (VarChar 16) False False,
      column ''current_url'' (UnboundedString) True False,
      column ''metadata'' (JsonType) True False,
      column ''created_at'' (DateTimeType) False True,
      column ''updated_at'' (DateTimeType) False True],
     tb_constraints = [ForeignKey ''task_id'' ''tasks'' ''id'', PrimaryKey [''id'']]\<rparr>"

definition create_drafts :: migration_op where
  "create_drafts = CreateTable \<lparr>tb_name = ''drafts'', tb_columns =
     [column ''id'' (UuidType) False False,
      column ''task_id'' (UuidType) True False,
      column ''platform'' (VarChar 32) False False,
      column ''content'' (TextType) False False,
      column ''status'' (VarChar 16) False False,
      column ''created_at'' (DateTimeType) False True,
      column ''updated_at'' (DateTimeType) False True],
     tb_constraints = [ForeignKey ''task_id'' ''tasks'' ''id'', PrimaryKey [''id'']]\<rparr>"

definition create_research_sources :: migration_op where
  "create_research_sources = CreateTable \<lparr>tb_name = ''research_sources'', tb_columns =
     [column ''id'' (UuidType) False False,
      column ''task_id'' (UuidType) False False,
      column ''url'' (UnboundedString) False False,
      column ''source_type'' (VarChar 32) False False,
      column ''title'' (UnboundedString) True False,
      column ''published_at'' (DateTimeType) True False,
      column ''retrieved_at'' (DateTimeType) True False,
      column ''created_at'' (DateTimeType) False True,
      column ''updated_at'' (DateTimeType) False True],
     tb_constraints = [ForeignKey ''task_id'' ''tasks'' ''id'', PrimaryKey [''id'']]\<rparr>"

definition create_task_steps :: migration_op where
  "create_task_steps = CreateTable \<lparr>tb_name = ''task_steps'', tb_columns =
     [column ''id'' (UuidType) False False,
      column ''task_id'' (UuidType) False False,
      column ''name'' (VarChar 128) False False,
      column ''state'' (EnumType [''CREATED'', ''VALIDATING'', ''PLANNING'', ''RESEARCHING'', ''DRAFTING'', ''VALIDATING_RESULT'', ''WAITING_FOR_APPROVAL'', ''EXECUTING'', ''VERIFYING'', ''COMPLETED'', ''FAILED'', ''CANCELLED'', ''TIMED_OUT'', ''BLOCKED''] 32) False False,
      column ''details'' (JsonType) True False,
      column ''created_at'' (DateTimeType) False True,
      column ''updated_at'' (DateTimeType) False True],
     tb_constraints = [ForeignKey ''task_id'' ''tasks'' ''id'', PrimaryKey [''id'']]\<rparr>"

definition create_errors :: migration_op where
  "create_errors = CreateTable \<lparr>tb_name = ''errors'', tb_columns =
     [column ''id'' (UuidType) False False,
      column ''task_id'' (UuidType) True False,
      column ''run_id'' (UuidType) True False,
      column ''code'' (VarChar 64) False False,
      column ''message'' (UnboundedString) False False,
      column ''retryable'' (BooleanType) False False,
      column ''context'' (JsonType) True False,
      column ''created_at'' (DateTimeType) False True,
      column ''updated_at'' (DateTimeType) False True],
     tb_constraints = [ForeignKey ''run_id'' ''agent_runs'' ''id'', ForeignKey ''task_id'' ''tasks'' ''id'', PrimaryKey [''id'']]\<rparr>"

definition create_research_claims :: migration_op where
  "create_research_claims = CreateTable \<lparr>tb_name = ''research_claims'', tb_columns =
     [column ''id'' (UuidType) False False,
      column ''task_id'' (UuidType) False False,
      column ''source_id'' (UuidType) True False,
      column ''claim'' (TextType) False False,
      column ''evidence'' (TextType) True False,
      column ''confidence'' (FloatType) True False,
      column ''contradicting_evidence'' (TextType) True False,
      column ''created_at'' (DateTimeType) False True,
      column ''updated_at'' (DateTimeType) False True],
     tb_constraints = [ForeignKey ''source_id'' ''research_sources'' ''id'', ForeignKey ''task_id'' ''tasks'' ''id'', PrimaryKey [''id'']]\<rparr>"

definition create_social_posts :: migration_op where
  "create_social_posts = CreateTable \<lparr>tb_name = ''social_posts'', tb_columns =
     [column ''id'' (UuidType) False False,
      column ''task_id'' (UuidType) True False,
      column ''draft_id'' (UuidType) True False,
      column ''platform'' (VarChar 32) False False,
      column ''idempotency_key'' (VarChar 128) False False,
      column ''content_hash'' (VarChar 64) False False,
      column ''external_id'' (VarChar 128) True False,
      column ''execution_status'' (VarChar 16) False False,
      column ''verification_status'' (VarChar 16) False False,
      column ''created_at'' (DateTimeType) False True,
      column ''updated_at'' (DateTimeType) False True],
     tb_constraints = [ForeignKey ''draft_id'' ''drafts'' ''id'', ForeignKey ''task_id'' ''tasks'' ''id'', PrimaryKey [''id''], Unique [''idempotency_key''] (Some ''uq_social_posts_idempotency_key'')]\<rparr>"

definition create_tool_calls :: migration_op where
  "create_tool_calls = CreateTable \<lparr>tb_name = ''tool_calls'', tb_columns =
     [column ''id'' (UuidType) False False,
      column ''agent_run_id'' (UuidType) False False,
      column ''tool_name'' (VarChar 64) False False,
      column ''risk_level'' (VarChar 16) False False,
      column ''status'' (VarChar 32) False False,
      column ''input'' (JsonType) True False,
      column ''output'' (JsonType) True False,
      column ''error'' (JsonType) True False,
      column ''duration_seconds'' (FloatType) True False,
      column ''retry_count'' (IntegerType) False False,
      column ''created_at'' (DateTimeType) False True,
      column ''updated_at'' (DateTimeType) False True],
     tb_constraints = [ForeignKey ''agent_run_id'' ''agent_runs'' ''id'', PrimaryKey [''id'']]\<rparr>"

definition create_publish_attempts :: migration_op where
  "create_publish_attempts = CreateTable \<lparr>tb_name = ''publish_attempts'', tb_columns =
     [column ''id'' (UuidType) False False,
      column ''social_post_id'' (UuidType) False False,
      column ''status'' (VarChar 16) False False,
      column ''response'' (JsonType) True False,
      column ''error'' (JsonType) True False,
      column ''created_at'' (DateTimeType) False True,
      column ''updated_at'' (DateTimeType) False True],
     tb_constraints = [ForeignKey ''social_post_id'' ''social_posts'' ''id'', PrimaryKey [''id'']]\<rparr>"

definition create_verification_results :: migration_op where
  "create_verification_results = CreateTable \<lparr>tb_name = ''verification_results'', tb_columns =
     [column ''id'' (UuidType) False False,
      column ''social_post_id'' (UuidType) True False,
      column ''task_id'' (UuidType) True False,
      column ''status'' (VarChar 16) False False,
      column ''details'' (JsonType) True False,
      column ''created_at'' (DateTimeType) False True,
      column ''updated_at'' (DateTimeType) False True],
     tb_constraints = [ForeignKey ''social_post_id'' ''social_posts'' ''id'', ForeignKey ''task_id'' ''tasks'' ''id'', PrimaryKey [''id'']]\<rparr>"

definition upgrade :: "migration_op list" where
  "upgrade = [create_tasks,
     CreateIndex ''ix_tasks_state'' ''tasks'' [''state''] False,
     CreateIndex ''ix_tasks_user_id'' ''tasks'' [''user_id''] False,
     create_users,
     create_agent_runs,
     create_approvals,
     create_browser_sessions,
     create_drafts,
     create_research_sources,
     create_task_steps,
     create_errors,
     create_research_claims,
     create_social_posts,
     create_tool_calls,
     create_publish_attempts,
     create_verification_results]"

definition downgrade :: "migration_op list" where
  "downgrade = [DropTable ''verification_results'',
     DropTable ''publish_attempts'',
     DropTable ''tool_calls'',
     DropTable ''social_posts'',
     DropTable ''research_claims'',
     DropTable ''errors'',
     DropTable ''task_steps'',
     DropTable ''research_sources'',
     DropTable ''drafts'',
     DropTable ''browser_sessions'',
     DropTable ''approvals'',
     DropTable ''agent_runs'',
     DropTable ''users'',
     DropIndex ''ix_tasks_user_id'' ''tasks'',
     DropIndex ''ix_tasks_state'' ''tasks'',
     DropTable ''tasks'']"

section \<open>The models\<close>

text \<open>The members of \<open>TaskState\<close> by name, which is what \<open>Enum(TaskState, native_enum=False)\<close> stores.\<close>

fun state_name :: "task_state \<Rightarrow> string" where
  "state_name CREATED = ''CREATED''"
| "state_name VALIDATING = ''VALIDATING''"
| "state_name PLANNING = ''PLANNING''"
| "state_name RESEARCHING = ''RESEARCHING''"
| "state_name DRAFTING = ''DRAFTING''"
| "state_name VALIDATING_RESULT = ''VALIDATING_RESULT''"
| "state_name WAITING_FOR_APPROVAL = ''WAITING_FOR_APPROVAL''"
| "state_name EXECUTING = ''EXECUTING''"
| "state_name VERIFYING = ''VERIFYING''"
| "state_name COMPLETED = ''COMPLETED''"
| "state_name FAILED = ''FAILED''"
| "state_name CANCELLED = ''CANCELLED''"
| "state_name TIMED_OUT = ''TIMED_OUT''"
| "state_name BLOCKED = ''BLOCKED''"

definition TASK_STATE_NAMES :: "string list" where
  "TASK_STATE_NAMES = map state_name all_task_states"

record mapped_column =
  mp_name :: string
  mp_type :: column_type
  mp_nullable :: bool
  mp_references :: "(string \<times> string) option"
  mp_unique :: bool
  mp_index :: bool

definition mapped :: "string \<Rightarrow> column_type \<Rightarrow> bool \<Rightarrow> (string \<times> string) option \<Rightarrow> bool \<Rightarrow> bool \<Rightarrow> mapped_column" where
  "mapped n t nullable ref unique index = \<lparr>mp_name = n, mp_type = t, mp_nullable = nullable, mp_references = ref,
     mp_unique = unique, mp_index = index\<rparr>"

record orm_model =
  om_table :: string
  om_columns :: "mapped_column list"
  om_uniques :: "(string list \<times> string option) list"
  om_indexes :: "(string \<times> string list) list"

definition id_column :: table_column where
  "id_column = column ''id'' UuidType False False"

definition timestamp_columns :: "table_column list" where
  "timestamp_columns = [column ''created_at'' DateTimeType False True, column ''updated_at'' DateTimeType False True]"

definition model_columns :: "orm_model \<Rightarrow> table_column list" where
  "model_columns m = id_column # map (\<lambda>c. column (mp_name c) (mp_type c) (mp_nullable c) False) (om_columns m) @ timestamp_columns"

definition model_constraints :: "orm_model \<Rightarrow> constraint list" where
  "model_constraints m = PrimaryKey [''id''] #
     concat (map (\<lambda>c. case mp_references c of None \<Rightarrow> [] | Some (t, k) \<Rightarrow> [ForeignKey (mp_name c) t k]) (om_columns m)) @
     map (\<lambda>c. Unique [mp_name c] None) (filter mp_unique (om_columns m)) @ map (\<lambda>(ns, n). Unique ns n) (om_uniques m)"

definition model_indexes :: "orm_model \<Rightarrow> index_def list" where
  "model_indexes m = map (\<lambda>(n, ns). \<lparr>ix_name = n, ix_table = om_table m, ix_columns = ns, ix_unique = False\<rparr>) (om_indexes m) @
     map (\<lambda>c. \<lparr>ix_name = ''ix_'' @ om_table m @ ''_'' @ mp_name c, ix_table = om_table m, ix_columns = [mp_name c],
       ix_unique = False\<rparr>) (filter mp_index (om_columns m))"

text \<open>A statement of the ORM names every column of its class.\<close>

definition serves :: "schema \<Rightarrow> orm_model \<Rightarrow> bool" where
  "serves sch m = (case find_table (om_table m) sch of
      None \<Rightarrow> False
    | Some t \<Rightarrow> has_columns (map cn_name (model_columns m)) t)"

definition user_model :: orm_model where
  "user_model = \<lparr>om_table = ''users'', om_columns =
     [mapped ''email'' (VarChar 320) False None True False,
      mapped ''display_name'' (VarChar 128) True None False False],
     om_uniques = [], om_indexes = []\<rparr>"

definition task_model :: orm_model where
  "task_model = \<lparr>om_table = ''tasks'', om_columns =
     [mapped ''instruction'' (UnboundedString) False None False False,
      mapped ''state'' (EnumType TASK_STATE_NAMES 32) False None False False,
      mapped ''risk_level'' (VarChar 16) True None False False,
      mapped ''user_id'' (VarChar 64) True None False True,
      mapped ''result'' (JsonType) True None False False,
      mapped ''error'' (JsonType) True None False False,
      mapped ''timeout_seconds'' (IntegerType) True None False False],
     om_uniques = [], om_indexes = [(''ix_tasks_state'', [''state''])]\<rparr>"

definition task_step_model :: orm_model where
  "task_step_model = \<lparr>om_table = ''task_steps'', om_columns =
     [mapped ''task_id'' (UuidType) False (Some (''tasks'', ''id'')) False False,
      mapped ''name'' (VarChar 128) False None False False,
      mapped ''state'' (EnumType TASK_STATE_NAMES 32) False None False False,
      mapped ''details'' (JsonType) True None False False],
     om_uniques = [], om_indexes = []\<rparr>"

definition agent_run_model :: orm_model where
  "agent_run_model = \<lparr>om_table = ''agent_runs'', om_columns =
     [mapped ''task_id'' (UuidType) False (Some (''tasks'', ''id'')) False False,
      mapped ''agent_name'' (VarChar 64) False None False False,
      mapped ''model_class'' (VarChar 32) True None False False,
      mapped ''model_name'' (VarChar 64) True None False False,
      mapped ''status'' (VarChar 32) False None False False,
      mapped ''input'' (JsonType) True None False False,
      mapped ''output'' (JsonType) True None False False,
      mapped ''error'' (JsonType) True None False False,
      mapped ''duration_seconds'' (FloatType) True None False False],
     om_uniques = [], om_indexes = []\<rparr>"

definition tool_call_model :: orm_model where
  "tool_call_model = \<lparr>om_table = ''tool_calls'', om_columns =
     [mapped ''agent_run_id'' (UuidType) False (Some (''agent_runs'', ''id'')) False False,
      mapped ''tool_name'' (VarChar 64) False None False False,
      mapped ''risk_level'' (VarChar 16) False None False False,
      mapped ''status'' (VarChar 32) False None False False,
      mapped ''input'' (JsonType) True None False False,
      mapped ''output'' (JsonType) True None False False,
      mapped ''error'' (JsonType) True None False False,
      mapped ''duration_seconds'' (FloatType) True None False False,
      mapped ''retry_count'' (IntegerType) False None False False],
     om_uniques = [], om_indexes = []\<rparr>"

definition approval_model :: orm_model where
  "approval_model = \<lparr>om_table = ''approvals'', om_columns =
     [mapped ''task_id'' (UuidType) False (Some (''tasks'', ''id'')) False False,
      mapped ''action'' (VarChar 128) False None False False,
      mapped ''target'' (VarChar 256) False None False False,
      mapped ''risk_level'' (VarChar 16) False None False False,
      mapped ''content'' (JsonType) True None False False,
      mapped ''reason'' (UnboundedString) True None False False,
      mapped ''status'' (VarChar 16) False None False False,
      mapped ''decided_by'' (VarChar 64) True None False False],
     om_uniques = [], om_indexes = []\<rparr>"

definition browser_session_model :: orm_model where
  "browser_session_model = \<lparr>om_table = ''browser_sessions'', om_columns =
     [mapped ''task_id'' (UuidType) True (Some (''tasks'', ''id'')) False False,
      mapped ''status'' (VarChar 16) False None False False,
      mapped ''current_url'' (UnboundedString) True None False False,
      mapped ''metadata'' (JsonType) True None False False],
     om_uniques = [], om_indexes = []\<rparr>"

definition research_source_model :: orm_model where
  "research_source_model = \<lparr>om_table = ''research_sources'', om_columns =
     [mapped ''task_id'' (UuidType) False (Some (''tasks'', ''id'')) False False,
      mapped ''url'' (UnboundedString) False None False False,
      mapped ''source_type'' (VarChar 32) False None False False,
      mapped ''title'' (UnboundedString) True None False False,
      mapped ''published_at'' (DateTimeType) True None False False,
      mapped ''retrieved_at'' (DateTimeType) True None False False],
     om_uniques = [], om_indexes = []\<rparr>"

definition research_claim_model :: orm_model where
  "research_claim_model = \<lparr>om_table = ''research_claims'', om_columns =
     [mapped ''task_id'' (UuidType) False (Some (''tasks'', ''id'')) False False,
      mapped ''source_id'' (UuidType) True (Some (''research_sources'', ''id'')) False False,
      mapped ''claim'' (TextType) False None False False,
      mapped ''evidence'' (TextType) True None False False,
      mapped ''confidence'' (FloatType) True None False False,
      mapped ''contradicting_evidence'' (TextType) True None False False],
     om_uniques = [], om_indexes = []\<rparr>"

definition draft_model :: orm_model where
  "draft_model = \<lparr>om_table = ''drafts'', om_columns =
     [mapped ''task_id'' (UuidType) True (Some (''tasks'', ''id'')) False False,
      mapped ''platform'' (VarChar 32) False None False False,
      mapped ''content'' (TextType) False None False False,
      mapped ''status'' (VarChar 16) False None False False],
     om_uniques = [], om_indexes = []\<rparr>"

definition social_post_model :: orm_model where
  "social_post_model = \<lparr>om_table = ''social_posts'', om_columns =
     [mapped ''task_id'' (UuidType) True (Some (''tasks'', ''id'')) False False,
      mapped ''draft_id'' (UuidType) True (Some (''drafts'', ''id'')) False False,
      mapped ''platform'' (VarChar 32) False None False False,
      mapped ''idempotency_key'' (VarChar 128) False None False False,
      mapped ''content_hash'' (VarChar 64) False None False False,
      mapped ''external_id'' (VarChar 128) True None False False,
      mapped ''execution_status'' (VarChar 16) False None False False,
      mapped ''verification_status'' (VarChar 16) False None False False],
     om_uniques = [([''idempotency_key''], Some ''uq_social_posts_idempotency_key'')], om_indexes = []\<rparr>"

definition publish_attempt_model :: orm_model where
  "publish_attempt_model = \<lparr>om_table = ''publish_attempts'', om_columns =
     [mapped ''social_post_id'' (UuidType) False (Some (''social_posts'', ''id'')) False False,
      mapped ''status'' (VarChar 16) False None False False,
      mapped ''response'' (JsonType) True None False False,
      mapped ''error'' (JsonType) True None False False],
     om_uniques = [], om_indexes = []\<rparr>"

definition verification_result_model :: orm_model where
  "verification_result_model = \<lparr>om_table = ''verification_results'', om_columns =
     [mapped ''social_post_id'' (UuidType) True (Some (''social_posts'', ''id'')) False False,
      mapped ''task_id'' (UuidType) True (Some (''tasks'', ''id'')) False False,
      mapped ''status'' (VarChar 16) False None False False,
      mapped ''details'' (JsonType) True None False False],
     om_uniques = [], om_indexes = []\<rparr>"

definition error_log_model :: orm_model where
  "error_log_model = \<lparr>om_table = ''errors'', om_columns =
     [mapped ''task_id'' (UuidType) True (Some (''tasks'', ''id'')) False False,
      mapped ''run_id'' (UuidType) True (Some (''agent_runs'', ''id'')) False False,
      mapped ''code'' (VarChar 64) False None False False,
      mapped ''message'' (UnboundedString) False None False False,
      mapped ''retryable'' (BooleanType) False None False False,
      mapped ''context'' (JsonType) True None False False],
     om_uniques = [], om_indexes = []\<rparr>"

definition orm_models :: "orm_model list" where
  "orm_models = [user_model, task_model, task_step_model, agent_run_model,
     tool_call_model, approval_model, browser_session_model, research_source_model,
     research_claim_model, draft_model, social_post_model, publish_attempt_model,
     verification_result_model, error_log_model]"

text \<open>What \<open>Base.metadata.create_all\<close> builds, with which the tests run.\<close>

definition model_table :: "orm_model \<Rightarrow> table_def" where
  "model_table m = \<lparr>tb_name = om_table m, tb_columns = model_columns m, tb_constraints = model_constraints m\<rparr>"

definition metadata_schema :: schema where
  "metadata_schema = \<lparr>sc_tables = map model_table orm_models, sc_indexes = concat (map model_indexes orm_models)\<rparr>"

text \<open>A text is stored when it has the column's length, and is a member where the column enumerates.\<close>

definition fits :: "orm_model \<Rightarrow> string \<Rightarrow> string \<Rightarrow> bool" where
  "fits m n v = (case List.find (\<lambda>c. mp_name c = n) (om_columns m) of
      None \<Rightarrow> False
    | Some c \<Rightarrow> (case mp_type c of
        VarChar k \<Rightarrow> length v \<le> k
      | EnumType vs k \<Rightarrow> v \<in> set vs \<and> length v \<le> k
      | UnboundedString \<Rightarrow> True
      | TextType \<Rightarrow> True
      | _ \<Rightarrow> False))"

end
