(* ===== verification/Schema_Properties.thy ===== *)
theory Schema_Properties
  imports Schema Social_Publish Agents Content
begin

text \<open>
  The migration against the models: it builds what the models declare but for one column, its
  downgrade takes back its upgrade, and the texts that the program stores have room in the columns.
\<close>

section \<open>The migration\<close>

text \<open>
  C12. The schema after \<open>upgrade\<close> is the one the models declare, with the same tables, columns in
  order, constraints and indexes, except for the column \<open>timeout_seconds\<close> of \<open>tasks\<close>. Hence the
  statements of exactly one model, the task's, fail on a migrated database.
\<close>

theorem migration_builds_models:
  "\<exists>sch. run_ops upgrade empty_schema = Some sch \<and>
    set (map tb_name (sc_tables sch)) = set (map tb_name (sc_tables metadata_schema)) \<and>
    set (sc_indexes sch) = set (sc_indexes metadata_schema) \<and>
    list_all (\<lambda>t. case find_table (tb_name t) sch of
        None \<Rightarrow> False
      | Some u \<Rightarrow> set (tb_constraints u) = set (tb_constraints t) \<and>
          tb_columns u = filter (\<lambda>c. \<not> (tb_name t = ''tasks'' \<and> cn_name c = ''timeout_seconds'')) (tb_columns t))
      (sc_tables metadata_schema) \<and>
    map om_table (filter (\<lambda>m. \<not> serves sch m) orm_models) = [''tasks'']"
proof -
  have "case run_ops upgrade empty_schema of
      None \<Rightarrow> False
    | Some sch \<Rightarrow>
    set (map tb_name (sc_tables sch)) = set (map tb_name (sc_tables metadata_schema)) \<and>
    set (sc_indexes sch) = set (sc_indexes metadata_schema) \<and>
    list_all (\<lambda>t. case find_table (tb_name t) sch of
        None \<Rightarrow> False
      | Some u \<Rightarrow> set (tb_constraints u) = set (tb_constraints t) \<and>
          tb_columns u = filter (\<lambda>c. \<not> (tb_name t = ''tasks'' \<and> cn_name c = ''timeout_seconds'')) (tb_columns t))
      (sc_tables metadata_schema) \<and>
    map om_table (filter (\<lambda>m. \<not> serves sch m) orm_models) = [''tasks'']"
    by code_simp
  then show ?thesis by (auto split: option.splits)
qed

text \<open>
  The downgrade can run after the upgrade, no table being dropped while another refers to it, and
  leaves the empty schema.
\<close>

theorem downgrade_undoes_upgrade:
  "Option.bind (run_ops upgrade empty_schema) (run_ops downgrade) = Some empty_schema"
  by code_simp

section \<open>Column lengths\<close>

lemma state_names_listed: "state_name s \<in> set TASK_STATE_NAMES"
  by (cases s) (simp_all add: TASK_STATE_NAMES_def all_task_states_def)

lemma fits_simps:
  "fits approval_model ''action'' v = (length v \<le> 128)"
  "fits approval_model ''target'' v = (length v \<le> 256)"
  "fits approval_model ''risk_level'' v = (length v \<le> 16)"
  "fits agent_run_model ''agent_name'' v = (length v \<le> 64)"
  "fits tool_call_model ''tool_name'' v = (length v \<le> 64)"
  "fits tool_call_model ''risk_level'' v = (length v \<le> 16)"
  "fits task_model ''state'' v = (v \<in> set TASK_STATE_NAMES \<and> length v \<le> 32)"
  "fits social_post_model ''idempotency_key'' v = (length v \<le> 128)"
  "fits social_post_model ''content_hash'' v = (length v \<le> 64)"
  "fits social_post_model ''platform'' v = (length v \<le> 32)"
  "fits draft_model ''platform'' v = (length v \<le> 32)"
  by (simp_all add: fits_def mapped_def approval_model_def agent_run_model_def tool_call_model_def task_model_def
      social_post_model_def draft_model_def)

lemma state_name_length: "length (state_name s) \<le> 32"
  by (cases s) simp_all

lemma risk_value_length: "length (risk_value r) \<le> 16"
  by (cases r) simp_all

lemma platform_value_length: "length (platform_value p) \<le> 32"
  by (cases p) simp_all

lemma catalogue_names_length: "list_all (\<lambda>(n, p). length n \<le> 64) (catalogue b)"
  by (cases b) (simp_all add: catalogue_defs)

lemma step_kinds_length: "a \<in> STEP_KINDS \<Longrightarrow> length a \<le> 64"
  by (auto simp: STEP_KINDS_def)

text \<open>
  The texts that a run stores fit their columns: a valid step's name and agent in the approval and
  in the agent run, the states, risk levels and platforms, the tools' names in the audit rows, and for a
  draft identifier of 36 characters the idempotency keys and the content hash of its post.
\<close>

theorem stored_texts_fit:
  assumes "valid_plan_step s" "length draft_id = 36"
  shows "fits approval_model ''action'' (ps_name s) \<and> fits approval_model ''target'' (ps_agent s) \<and>
    fits agent_run_model ''agent_name'' (ps_agent s) \<and> fits task_model ''state'' (state_name t) \<and>
    fits approval_model ''risk_level'' (risk_value r) \<and> fits tool_call_model ''risk_level'' (risk_value r) \<and>
    list_all (\<lambda>(n, p). fits tool_call_model ''tool_name'' n) (catalogue b) \<and>
    fits social_post_model ''platform'' (platform_value q) \<and>
    fits social_post_model ''idempotency_key'' (x_idempotency_key draft_id c) \<and>
    fits social_post_model ''idempotency_key'' (li_idempotency_key draft_id c) \<and>
    fits social_post_model ''content_hash'' (content_hash c)"
proof -
  have "length (ps_name s) \<le> 128" "length (ps_agent s) \<le> 64"
    using assms(1) step_kinds_length by (simp_all add: valid_plan_step_def)
  moreover have "length (content_hash c) = 64"
    by (simp add: content_hash_def length_sha256_hex)
  ultimately show ?thesis
    using assms(2) catalogue_names_length [of b]
    by (simp add: fits_simps state_names_listed state_name_length risk_value_length platform_value_length
        x_idempotency_key_def li_idempotency_key_def)
qed

theorem stored_texts_fit_witness:
  "fits approval_model ''action'' ''publish'' \<and>
    fits social_post_model ''idempotency_key'' (li_idempotency_key (replicate 36 CHR ''a'') ''hello'')"
  using stored_texts_fit [of "\<lparr>ps_name = ''publish'', ps_agent = ''social'', ps_description = ''d'', ps_requires_approval = True\<rparr>"
      "replicate 36 CHR ''a''" CREATED LOW True X "''hello''"]
  by (simp add: valid_plan_step_def STEP_KINDS_def)

end
