(* ===== verification/Migration_Runner.thy ===== *)
theory Migration_Runner
  imports Settings Schema_Properties "HOL-Library.AList"
begin

text \<open>
  The environment that Alembic runs the migrations in: \<open>migrations/env.py\<close>. Alembic's context, its
  configuration file and SQLAlchemy's engine are the operations of a record; what they do to a
  database whose definitions of tables are transactional is written out at the end.
\<close>

section \<open>The environment\<close>

record ('w, 'e, 'c) alembic =
  al_offline :: bool
  al_config_file :: "string option"
  al_section :: "(string \<times> string) list option"
  al_file_config :: "string \<Rightarrow> ('w, unit) op"
  al_configure_url :: "string \<Rightarrow> ('w, unit) op"
  al_configure_connection :: "'c \<Rightarrow> ('w, unit) op"
  al_begin :: "('w, unit) op"
  al_commit :: "('w, unit) op"
  al_rollback :: "('w, unit) op"
  al_run :: "('w, unit) op"
  al_engine :: "(string \<times> string) list \<Rightarrow> ('w, 'e) op"
  al_connect :: "'e \<Rightarrow> ('w, 'c) op"
  al_close :: "'c \<Rightarrow> ('w, unit) op"
  al_dispose :: "'e \<Rightarrow> ('w, unit) op"

text \<open>\<open>get_settings\<close> returns settings or raises; \<open>with context.begin_transaction()\<close> commits or rolls back.\<close>

definition database_url :: "settings result \<Rightarrow> string result" where
  "database_url loaded = bindR loaded (\<lambda>st. Inr (db_url (st_database st)))"

definition in_transaction :: "('w, 'e, 'c) alembic \<Rightarrow> ('w, unit) op \<Rightarrow> ('w, unit) op" where
  "in_transaction al body = thenE (al_begin al) (bindE (tryE body) (\<lambda>r. case r of
      Inl e \<Rightarrow> thenE (al_rollback al) (raiseE e)
    | Inr x \<Rightarrow> al_commit al))"

definition run_migrations_offline :: "('w, 'e, 'c) alembic \<Rightarrow> settings result \<Rightarrow> ('w, unit) op" where
  "run_migrations_offline al loaded =
     bindE (liftE (database_url loaded)) (\<lambda>url.
     thenE (al_configure_url al url)
     (in_transaction al (al_run al)))"

definition do_run_migrations :: "('w, 'e, 'c) alembic \<Rightarrow> 'c \<Rightarrow> ('w, unit) op" where
  "do_run_migrations al connection =
     thenE (al_configure_connection al connection)
     (in_transaction al (al_run al))"

definition run_migrations_online :: "('w, 'e, 'c) alembic \<Rightarrow> settings result \<Rightarrow> ('w, unit) op" where
  "run_migrations_online al loaded =
     (let configuration = (case al_section al of None \<Rightarrow> [] | Some c \<Rightarrow> c) in
      bindE (liftE (database_url loaded)) (\<lambda>url.
      bindE (al_engine al (AList.update ''sqlalchemy.url'' url configuration)) (\<lambda>engine.
      thenE (bindE (al_connect al engine) (\<lambda>connection.
        finallyE (do_run_migrations al connection) (al_close al connection)))
      (al_dispose al engine))))"

definition run_environment :: "('w, 'e, 'c) alembic \<Rightarrow> settings result \<Rightarrow> ('w, unit) op" where
  "run_environment al loaded =
     thenE (case al_config_file al of None \<Rightarrow> retE () | Some f \<Rightarrow> al_file_config al f)
     (if al_offline al then run_migrations_offline al loaded else run_migrations_online al loaded)"

lemma in_transaction_section: "in_transaction (al\<lparr>al_section := v\<rparr>) m = in_transaction al m"
proof -
  have "case_sum (\<lambda>e. thenE (al_rollback (al\<lparr>al_section := v\<rparr>)) (raiseE e)) (\<lambda>x. al_commit (al\<lparr>al_section := v\<rparr>)) =
    case_sum (\<lambda>e. thenE (al_rollback al) (raiseE e)) (\<lambda>x :: unit. al_commit al)"
    by (rule ext) (simp split: sum.split)
  then show ?thesis by (simp add: in_transaction_def)
qed

text \<open>
  The address always comes from the settings: whatever address the section of the configuration file
  holds, and whether it holds one, the migrations run alike.
\<close>

theorem address_from_settings:
  "run_environment (al\<lparr>al_section := map_option (AList.update ''sqlalchemy.url'' url) (al_section al)\<rparr>) loaded =
   run_environment al loaded"
  by (cases "al_section al") (simp_all add: run_environment_def run_migrations_offline_def run_migrations_online_def
      do_run_migrations_def in_transaction_section AList.update_last split: option.split)

text \<open>Without settings nothing is connected or migrated.\<close>

lemma no_settings_no_migration:
  "al_config_file al = None \<Longrightarrow> run_environment al (Inl e) s = (Inl e, s)"
  by (simp add: run_environment_def run_migrations_offline_def run_migrations_online_def database_url_def op_defs)

section \<open>A database with transactions\<close>

text \<open>The committed schema, the one of the open transaction, and what is open.\<close>

record sql_server =
  sv_schema :: schema
  sv_work :: "schema option"
  sv_connections :: nat
  sv_engines :: nat

definition migration_failed :: exn where
  "migration_failed = py_error (PyOther ''ProgrammingError'') '''' []"

definition run_script :: "migration_op list \<Rightarrow> (sql_server, unit) op" where
  "run_script ops = bindE (getE sv_work) (\<lambda>w. case Option.bind w (run_ops ops) of
      None \<Rightarrow> raiseE migration_failed
    | Some sch \<Rightarrow> modE (\<lambda>s. s\<lparr>sv_work := Some sch\<rparr>))"

definition sql_alembic :: "migration_op list \<Rightarrow> (sql_server, unit, unit) alembic" where
  "sql_alembic ops = \<lparr>al_offline = False, al_config_file = None, al_section = None,
     al_file_config = (\<lambda>f. retE ()), al_configure_url = (\<lambda>u. retE ()), al_configure_connection = (\<lambda>c. retE ()),
     al_begin = modE (\<lambda>s. s\<lparr>sv_work := Some (sv_schema s)\<rparr>),
     al_commit = modE (\<lambda>s. s\<lparr>sv_schema := (case sv_work s of None \<Rightarrow> sv_schema s | Some w \<Rightarrow> w), sv_work := None\<rparr>),
     al_rollback = modE (\<lambda>s. s\<lparr>sv_work := None\<rparr>),
     al_run = run_script ops,
     al_engine = (\<lambda>cfg. modE (\<lambda>s. s\<lparr>sv_engines := Suc (sv_engines s)\<rparr>)),
     al_connect = (\<lambda>e. modE (\<lambda>s. s\<lparr>sv_connections := Suc (sv_connections s)\<rparr>)),
     al_close = (\<lambda>c. modE (\<lambda>s. s\<lparr>sv_connections := sv_connections s - 1\<rparr>)),
     al_dispose = (\<lambda>e. modE (\<lambda>s. s\<lparr>sv_engines := sv_engines s - 1\<rparr>))\<rparr>"

text \<open>
  A script runs as a whole or not at all, and its connection is closed either way; the engine of one that
  fails, however, is not disposed of.
\<close>

theorem migration_atomic:
  assumes "sv_work s = None"
  shows "run_environment (sql_alembic ops) (Inr st) s = (case run_ops ops (sv_schema s) of
      Some sch \<Rightarrow> (Inr (), s\<lparr>sv_schema := sch\<rparr>)
    | None \<Rightarrow> (Inl migration_failed, s\<lparr>sv_engines := Suc (sv_engines s)\<rparr>))"
  using assms
  by (cases s) (simp add: run_environment_def run_migrations_online_def do_run_migrations_def in_transaction_def
      sql_alembic_def run_script_def database_url_def op_defs finallyE_def tryE_def split: option.splits)

text \<open>On a new database the initial migration succeeds, and its reversal leaves the database as it was.\<close>

lemma migrated_and_back:
  "\<exists>sch. run_environment (sql_alembic upgrade) (Inr st) \<lparr>sv_schema = empty_schema, sv_work = None, sv_connections = n, sv_engines = m\<rparr> =
      (Inr (), \<lparr>sv_schema = sch, sv_work = None, sv_connections = n, sv_engines = m\<rparr>) \<and>
    run_environment (sql_alembic downgrade) (Inr st) \<lparr>sv_schema = sch, sv_work = None, sv_connections = n, sv_engines = m\<rparr> =
      (Inr (), \<lparr>sv_schema = empty_schema, sv_work = None, sv_connections = n, sv_engines = m\<rparr>)"
proof -
  obtain sch where "run_ops upgrade empty_schema = Some sch" "run_ops downgrade sch = Some empty_schema"
    using downgrade_undoes_upgrade by (cases "run_ops upgrade empty_schema") auto
  then show ?thesis by (auto simp: migration_atomic)
qed

end
