(* ===== verification/Skills.thy ===== *)
theory Skills
  imports Local_System Tool_Catalogue Json_Values Py_Regex Py_Net
begin

text \<open>
  The skills (\<open>src/skills\<close>): the packager, which reads the contract of every skill from its
  \<open>SKILL.md\<close> (\<open>packager.py\<close>), and the graphs the skills compile (\<open>*/graph.py\<close>). \<open>json.loads\<close> and the
  UTF-8 codec are arguments; the file system is the one of the local tools.
\<close>

section \<open>Reading a contract\<close>

record skill_contract =
  sk_name :: string
  sk_purpose :: string
  sk_inputs :: "(string \<times> jvalue) list"
  sk_outputs :: "(string \<times> jvalue) list"
  sk_tools :: "string list"
  sk_risk_level :: string

text \<open>The dot with and without \<open>re.DOTALL\<close>, and \<open>.+?\<close>.\<close>

definition any_char :: re where
  "any_char = Ch (\<lambda>_. True)"

definition line_char :: re where
  "line_char = Ch (\<lambda>c. c \<noteq> LF)"

definition lazy_text :: re where
  "lazy_text = Seq any_char (LazyStar any_char)"

text \<open>The line that heads a section, and the fence that opens its JSON.\<close>

definition heading :: "string \<Rightarrow> string" where
  "heading title = ''## '' @ title @ newline"

definition fence :: string where
  "fence = ''```json'' @ newline"

definition SECTION_END :: re where
  "SECTION_END = Ahead (Alt (lit (newline @ ''##'')) AtTextEnd)"

text \<open>The first line below the title that is neither blank nor a heading.\<close>

fun fallback_purpose :: "string list \<Rightarrow> string" where
  "fallback_purpose [] = []"
| "fallback_purpose (l # ls) = (let line = py_strip l in
     if line \<noteq> [] \<and> \<not> py_startswith line ''#'' then line else fallback_purpose ls)"

definition skill_purpose :: "string \<Rightarrow> string" where
  "skill_purpose content = (case re_group (lit (heading ''Purpose'')) lazy_text SECTION_END content of
      Some p \<Rightarrow> py_strip p
    | None \<Rightarrow> fallback_purpose (tl (split_on LF (py_strip content))))"

text \<open>A block that is missing or is not JSON counts as empty.\<close>

definition json_section :: "(string \<Rightarrow> jvalue option) \<Rightarrow> string \<Rightarrow> string \<Rightarrow> jvalue" where
  "json_section loads title content =
     (case re_group (lit (heading title @ fence)) lazy_text (lit (newline @ ''```'')) content of
        None \<Rightarrow> JDict []
      | Some t \<Rightarrow> (case loads t of None \<Rightarrow> JDict [] | Some v \<Rightarrow> v))"

definition TOOL_LINES :: re where
  "TOOL_LINES = Plus (Seq (lit ''-'') (Seq (Plus line_char) (Opt (lit newline))))"

definition lstrip_bullet :: "string \<Rightarrow> string" where
  "lstrip_bullet s = dropWhile (\<lambda>c. c = CHR ''-'' \<or> c = CHR '' '') s"

definition tool_lines :: "string \<Rightarrow> string list" where
  "tool_lines block = filter (\<lambda>t. t \<noteq> [])
     (map (\<lambda>l. py_strip (lstrip_bullet (py_strip l))) (split_on LF (py_strip block)))"

definition skill_tools :: "string \<Rightarrow> string list" where
  "skill_tools content = (case re_group (lit (heading ''Required Tools'')) TOOL_LINES Eps content of
      None \<Rightarrow> [] | Some block \<Rightarrow> tool_lines block)"

definition RISK_WORD :: re where
  "RISK_WORD = Alts [lit_ic ''low'', lit_ic ''medium'', lit_ic ''high'']"

definition white :: re where
  "white = Star (Ch is_space)"

definition risk_label :: re where
  "risk_label = Seq (lit_ic ''risk'') (Seq white (Seq (lit_ic ''level:'') white))"

text \<open>The three patterns as what stands before and after the group, all with \<open>re.IGNORECASE\<close>.\<close>

definition risk_patterns :: "(re \<times> re) list" where
  "risk_patterns =
     [(Seq (Alt AtStart (lit newline)) (Seq (lit ''-'') (Seq white risk_label)), Eps),
      (Eps, Seq (Plus (Ch is_space)) (lit_ic ''risk'')),
      (risk_label, Eps)]"

fun first_risk :: "(re \<times> re) list \<Rightarrow> string \<Rightarrow> string" where
  "first_risk [] content = ''unknown''"
| "first_risk ((p, q) # ps) content = (case re_group p RISK_WORD q content of
      Some r \<Rightarrow> py_lower r
    | None \<Rightarrow> first_risk ps content)"

text \<open>A field that the contract types as a dictionary.\<close>

definition jdict :: "jvalue \<Rightarrow> (string \<times> jvalue) list result" where
  "jdict v = (case v of JDict kv \<Rightarrow> Inr kv | _ \<Rightarrow> Inl schema_error)"

definition parse_skill_md :: "(string \<Rightarrow> jvalue option) \<Rightarrow> string \<Rightarrow> string \<Rightarrow> skill_contract result" where
  "parse_skill_md loads content name =
     bindR (jdict (json_section loads ''Inputs'' content)) (\<lambda>ins.
     bindR (jdict (json_section loads ''Outputs'' content)) (\<lambda>outs.
     Inr \<lparr>sk_name = name, sk_purpose = skill_purpose content, sk_inputs = ins, sk_outputs = outs,
          sk_tools = skill_tools content, sk_risk_level = first_risk risk_patterns content\<rparr>))"

section \<open>Collecting the contracts\<close>

record skills_manifest =
  sm_version :: string
  sm_skills :: "skill_contract list"

text \<open>
  What the system finds under a path, links followed and every component searched:
  \<open>Path.exists\<close> and \<open>Path.is_dir\<close> answer from it.
\<close>

function walk_from :: "nat \<Rightarrow> os \<Rightarrow> path \<Rightarrow> path \<Rightarrow> path option" where
  "walk_from fuel s base [] = (if node_at s base = None then None else Some base)"
| "walk_from fuel s base (c # cs) =
     (if node_at s base \<noteq> Some DirNode then None
      else if c = ''.'' then walk_from fuel s base cs
      else if c = ''..'' then walk_from fuel s (butlast base) cs
      else (case node_at s (base @ [c]) of
          None \<Rightarrow> None
        | Some (LinkNode t) \<Rightarrow>
            if fuel = 0 then None
            else walk_from (fuel - 1) s (if is_absolute t then [] else base) (path_parts [] t @ cs)
        | Some _ \<Rightarrow> walk_from fuel s (base @ [c]) cs))"
  by pat_completeness auto
termination
  by (relation "measures [\<lambda>(f, s, b, cs). f, \<lambda>(f, s, b, cs). length cs]") auto

definition found :: "os \<Rightarrow> path \<Rightarrow> path \<Rightarrow> path option" where
  "found s base cs = walk_from SYMLINK_LIMIT s base cs"

definition is_dir_at :: "os \<Rightarrow> path \<Rightarrow> path \<Rightarrow> bool" where
  "is_dir_at s base cs = (case found s base cs of None \<Rightarrow> False | Some p \<Rightarrow> node_at s p = Some DirNode)"

text \<open>The contract file of one entry of the directory, when it is a skill.\<close>

definition skill_file :: "os \<Rightarrow> path \<Rightarrow> string \<Rightarrow> path option" where
  "skill_file s dir name = (if \<not> is_dir_at s dir [name] then None else found s dir [name, ''SKILL.md''])"

fun read_skills :: "codec \<Rightarrow> (string \<Rightarrow> jvalue option) \<Rightarrow> path \<Rightarrow> string list \<Rightarrow> (os, skill_contract list) op" where
  "read_skills enc loads dir [] = retE []"
| "read_skills enc loads dir (n # ns) = bindE (getE (\<lambda>s. skill_file s dir n)) (\<lambda>file. case file of
      None \<Rightarrow> read_skills enc loads dir ns
    | Some p \<Rightarrow>
        bindE (read_text enc p) (\<lambda>content.
        bindE (liftE (parse_skill_md loads content n)) (\<lambda>contract.
        bindE (read_skills enc loads dir ns) (\<lambda>rest. retE (contract # rest)))))"

text \<open>\<open>here\<close> is the directory of the module; the entries come in the order of their paths.\<close>

definition validate_skills ::
  "codec \<Rightarrow> (string \<Rightarrow> jvalue option) \<Rightarrow> string \<Rightarrow> string option \<Rightarrow> (os, skills_manifest) op" where
  "validate_skills enc loads here skills_dir =
     (let t = (case skills_dir of None \<Rightarrow> here @ ''/../skills'' | Some d \<Rightarrow> d) in
      bindE (getE (\<lambda>s. found s (if is_absolute t then [] else os_cwd s) (path_parts [] t))) (\<lambda>place.
      case place of
        None \<Rightarrow> raiseE (py_error PyFileNotFoundError ''Skills directory not found: {}'' [AStr t])
      | Some dir \<Rightarrow>
          bindE (getE (\<lambda>s. node_at s dir)) (\<lambda>n.
          if n \<noteq> Some DirNode then raiseE (os_error PyOSError dir)
          else bindE (getE (\<lambda>s. sort (entries_of s dir))) (\<lambda>names.
               bindE (read_skills enc loads dir names) (\<lambda>skills.
               retE \<lparr>sm_version = ''1.0'', sm_skills = skills\<rparr>)))))"

section \<open>The graphs of the skills\<close>

definition WEB_RESEARCH_SKILL_TOOLS :: "string list" where
  "WEB_RESEARCH_SKILL_TOOLS = [''web_search'', ''web_fetch'']"

definition BROWSER_SKILL_TOOLS :: "string list" where
  "BROWSER_SKILL_TOOLS = [''browser_navigate'', ''browser_inspect'', ''browser_click'', ''browser_type'',
     ''browser_extract'', ''browser_scroll'', ''browser_screenshot'', ''browser_wait'']"

definition CONTENT_SKILL_TOOLS :: "string list" where
  "CONTENT_SKILL_TOOLS = [''content_draft'', ''content_validate'']"

definition LINKEDIN_SKILL_TOOLS :: "string list" where
  "LINKEDIN_SKILL_TOOLS = [''social_publish_linkedin'', ''social_verify'']"

definition X_SKILL_TOOLS :: "string list" where
  "X_SKILL_TOOLS = [''social_publish_x'', ''social_verify'']"

definition web_research_skill where
  "web_research_skill react = react_graph react RESEARCH_CRITERIA WEB_RESEARCH_SKILL_TOOLS"

definition content_generation_skill where
  "content_generation_skill react = react_graph react CONTENT_CRITERIA CONTENT_SKILL_TOOLS"

definition linkedin_publishing_skill where
  "linkedin_publishing_skill react = react_graph react SOCIAL_CRITERIA LINKEDIN_SKILL_TOOLS"

definition x_publishing_skill where
  "x_publishing_skill react = react_graph react SOCIAL_CRITERIA X_SKILL_TOOLS"

definition local_system_skill where
  "local_system_skill react = local_system_graph react"

definition fact_checking_skill :: "'m provider_registry \<Rightarrow> routing_settings \<Rightarrow> ('i, 'o, 'w) registry \<Rightarrow> 'g result" where
  "fact_checking_skill providers settings reg = Inl (py_error PyNotImplementedError
     ''Fact Checking skill -- implemented in Phase 4'' [])"

text \<open>This skill takes no registry but builds one, with a browser.\<close>

definition browser_control_skill where
  "browser_control_skill react providers settings body =
     react_graph react BROWSER_CRITERIA BROWSER_SKILL_TOOLS providers settings (build_registry body True)"

lemmas skill_tools_defs = WEB_RESEARCH_SKILL_TOOLS_def BROWSER_SKILL_TOOLS_def CONTENT_SKILL_TOOLS_def
  LINKEDIN_SKILL_TOOLS_def X_SKILL_TOOLS_def

end
