(* ===== verification/Skills_Properties.thy ===== *)
theory Skills_Properties
  imports Skills
begin

text \<open>
  The packager reads back what a contract document says, and collects one contract for every skill
  of the directory; the tools of the skills are among those of the agents.
\<close>

section \<open>The matcher on literals and lazy text\<close>

lemma mt_lit: "mt (lit w) b s = (if prefix w s then [length w] else [])"
proof (induction w arbitrary: b s rule: lit.induct)
  case (2 c)
  then show ?case by (cases s) (auto simp: char_is_def)
next
  case (3 c d cs)
  then show ?case by (cases s) (auto simp: char_is_def)
qed simp

lemma map_plus_one_upt: "map ((+) (Suc 0)) [i..<j] = [Suc i..<Suc j]"
proof -
  have "(+) (Suc 0) = Suc" by auto
  then show ?thesis by (simp only: map_Suc_upt)
qed

lemma mt_lazy_star: "mt (LazyStar any_char) b s = [0..<Suc (length s)]"
proof (induction s arbitrary: b)
  case Nil
  show ?case by (subst mt.simps(6)) (simp add: any_char_def)
next
  case (Cons c s)
  have "mt any_char b (c # s) = [1]" by (simp add: any_char_def)
  with Cons [of "c # b"] show ?case
    by (subst mt.simps(6)) (simp del: upt_Suc add: map_plus_one_upt upt_conv_Cons)
qed

lemma mt_lazy_text: "mt lazy_text b s = [1..<Suc (length s)]"
proof (cases s)
  case (Cons c t)
  then have "mt any_char b s = [1]" by (simp add: any_char_def)
  with Cons show ?thesis
    by (simp del: upt_Suc add: lazy_text_def mt_lazy_star map_plus_one_upt)
qed (simp add: lazy_text_def any_char_def)

lemma mt_section_end: "mt SECTION_END b s = (if prefix (newline @ ''##'') s \<or> s = [] then [0] else [])"
  by (simp add: SECTION_END_def mt_lit)

lemma mt_Seq_head:
  assumes "mt r b s = i # is" "mt q (rev (take i s) @ b) (drop i s) = j # js"
  shows "\<exists>ks. mt (Seq r q) b s = (i + j) # ks"
  using assms by simp

section \<open>Searching for a group\<close>

lemma search_hit:
  "group_matches p g q b s = (i, j) # rest \<Longrightarrow> search_group_at p g q b s = Some (take j (drop i s))"
  by (cases s) simp_all

lemma group_matches_lit:
  "group_matches (lit h) g q b s = (if prefix h s then
     concat (map (\<lambda>j. map (\<lambda>_. (length h, j)) (mt q (rev (take (length h + j) s) @ b) (drop (length h + j) s)))
       (mt g (rev (take (length h) s) @ b) (drop (length h) s))) else [])"
  by (simp add: group_matches_def mt_lit)

lemma search_step:
  "\<not> prefix h (c # s) \<Longrightarrow> search_group_at (lit h) g q b (c # s) = search_group_at (lit h) g q (c # b) s"
  by (simp add: group_matches_lit del: lit.simps)

declare search_group_at.simps [simp del]

lemma search_skip:
  "a \<notin> set w \<Longrightarrow> search_group_at (lit (a # h)) g q b (w @ s) = search_group_at (lit (a # h)) g q (rev w @ b) s"
proof (induction w arbitrary: b)
  case (Cons c w)
  then have "\<not> prefix (a # h) (c # w @ s)" by auto
  then have "search_group_at (lit (a # h)) g q b (c # w @ s) = search_group_at (lit (a # h)) g q (c # b) (w @ s)"
    by (rule search_step)
  with Cons show ?case by simp
qed simp

lemma heading_Cons: "heading t = CHR ''#'' # CHR ''#'' # CHR '' '' # t @ newline"
  by (simp add: heading_def)

lemma newline_LF: "newline = [LF]"
  by (simp add: newline_def LF_def)

text \<open>Another section is passed over, and so is the title.\<close>

lemma skip_section:
  assumes "CHR ''#'' \<notin> set t" "CHR ''#'' \<notin> set w" "\<not> prefix (title @ f) (t @ newline @ w @ s)"
  shows "search_group_at (lit (CHR ''#'' # CHR ''#'' # CHR '' '' # title @ f)) g q b (heading t @ w @ s) =
    search_group_at (lit (CHR ''#'' # CHR ''#'' # CHR '' '' # title @ f)) g q (rev (heading t @ w) @ b) s"
proof -
  let ?h = "CHR ''#'' # CHR '' '' # title @ f"
  have "\<not> prefix (CHR ''#'' # ?h) (heading t @ w @ s)" "\<not> prefix (CHR ''#'' # ?h) (tl (heading t) @ w @ s)"
    using assms(3) by (simp_all add: heading_Cons)
  moreover have "CHR ''#'' \<notin> set (tl (tl (heading t)) @ w)"
    using assms(1,2) by (simp add: heading_Cons newline_def)
  ultimately show ?thesis
    using search_skip [of "CHR ''#''" "tl (tl (heading t)) @ w" ?h g q "CHR ''#'' # CHR ''#'' # b" s]
    by (simp add: heading_Cons search_step del: lit.simps)
qed

lemma skip_title:
  assumes "CHR ''#'' \<notin> set t"
  shows "search_group_at (lit (CHR ''#'' # CHR ''#'' # h)) g q b (''# Skill: '' @ t @ newline @ newline @ s) =
    search_group_at (lit (CHR ''#'' # CHR ''#'' # h)) g q (rev (''# Skill: '' @ t @ newline @ newline) @ b) s"
proof -
  have "CHR ''#'' \<notin> set ('' Skill: '' @ t @ newline @ newline)" using assms by (simp add: newline_def)
  from search_skip [OF this, of "CHR ''#'' # h" g q "CHR ''#'' # b" s] show ?thesis
    by (simp add: search_step del: lit.simps)
qed

text \<open>A lazy group takes the text up to the first place where the rest matches.\<close>

lemma search_lazy:
  assumes "x \<noteq> []" "mt q (rev x @ rev h @ b) y \<noteq> []"
    and "\<And>k c. 0 < k \<Longrightarrow> k < length x \<Longrightarrow> mt q c (drop k x @ y) = []"
  shows "search_group_at (lit h) lazy_text q b (h @ x @ y) = Some x"
proof -
  have cut: "[Suc 0..<Suc (length x + length y)] =
      [Suc 0..<length x] @ length x # [Suc (length x)..<Suc (length x + length y)]"
    using assms(1) upt_add_eq_append [of "Suc 0" "length x" "Suc (length y)"]
    by (cases x) (simp_all del: upt_Suc add: upt_conv_Cons)
  have none: "concat (map (\<lambda>j. map (\<lambda>_. (length h, j)) (mt q (rev (take (j - length x) y) @ rev (take j x) @ rev h @ b)
      (drop j x @ drop (j - length x) y))) [Suc 0..<length x]) = []"
    using assms(3) by (auto simp: concat_eq_Nil_conv)
  obtain m ms where m: "mt q (rev x @ rev h @ b) y = m # ms" using assms(2) by (cases "mt q (rev x @ rev h @ b) y") auto
  from m have "\<exists>rest. group_matches (lit h) lazy_text q b (h @ x @ y) = (length h, length x) # rest"
    unfolding group_matches_lit mt_lazy_text
    by (simp add: cut none del: upt_Suc)
  then obtain rest where "group_matches (lit h) lazy_text q b (h @ x @ y) = (length h, length x) # rest" ..
  from search_hit [OF this] show ?thesis by simp
qed

section \<open>The list of tools\<close>

definition clean :: "string \<Rightarrow> bool" where
  "clean t = (t \<noteq> [] \<and> \<not> is_space (hd t) \<and> \<not> is_space (last t))"

definition tool_item :: "string \<Rightarrow> string" where
  "tool_item t = ''- '' @ t @ newline"

definition tool_ok :: "string \<Rightarrow> bool" where
  "tool_ok t = (clean t \<and> hd t \<noteq> CHR ''-'' \<and> LF \<notin> set t)"

lemma is_space_LF: "is_space LF"
  by (simp add: LF_def char_class_defs)

lemma clean_strip: "clean t \<Longrightarrow> py_strip t = t"
proof -
  assume t: "clean t"
  then obtain c u where "t = c # u" "\<not> is_space c" by (cases t) (auto simp: clean_def)
  then have "py_strip t = rev (dropWhile is_space (rev t))" by (simp add: py_strip_def)
  also have "\<dots> = t" using t by (cases t rule: rev_cases) (auto simp: clean_def)
  finally show ?thesis .
qed

lemma strip_newline: "clean t \<Longrightarrow> py_strip (t @ newline) = t"
proof -
  assume t: "clean t"
  then obtain c u where "t = c # u" "\<not> is_space c" by (cases t) (auto simp: clean_def)
  then have "dropWhile is_space (t @ newline) = t @ newline" by simp
  then have "py_strip (t @ newline) = rev (dropWhile is_space (LF # rev t))"
    by (simp add: py_strip_def newline_LF)
  also have "\<dots> = rev (dropWhile is_space (rev t))" by (simp add: is_space_LF)
  also have "\<dots> = t" using t by (cases t rule: rev_cases) (auto simp: clean_def)
  finally show ?thesis .
qed

lemma mt_tool_item:
  assumes "t \<noteq> []" "LF \<notin> set t"
  shows "\<exists>r. mt (Seq (lit ''-'') (Seq (Plus line_char) (Opt (lit newline)))) b (tool_item t @ s) =
    length (tool_item t) # r"
proof -
  have dash: "mt (lit ''-'') b (tool_item t @ s) = [1]"
    by (simp add: mt_lit tool_item_def del: lit.simps)
  have "takeWhile (\<lambda>c. c \<noteq> LF) (t @ LF # s) = t"
    using assms(2) by (auto simp: takeWhile_append)
  then obtain r where line: "mt (Plus line_char) (CHR ''-'' # b) (CHR '' '' # t @ newline @ s) = Suc (length t) # r"
    using mt_Plus_Ch [of "\<lambda>c. c \<noteq> LF" "CHR '' ''" "CHR ''-'' # b" "t @ newline @ s"]
    by (auto simp: line_char_def newline_LF LF_def)
  have "mt (Opt (lit newline)) (rev t @ CHR '' '' # CHR ''-'' # b) (newline @ s) = [1, 0]"
    by (simp add: Opt_def mt_lit newline_def del: lit.simps)
  with line obtain r' where "mt (Seq (Plus line_char) (Opt (lit newline))) (CHR ''-'' # b) (CHR '' '' # t @ newline @ s) =
      (Suc (length t) + 1) # r'"
    using mt_Seq_head [of "Plus line_char" "CHR ''-'' # b" "CHR '' '' # t @ newline @ s" "Suc (length t)" r
        "Opt (lit newline)" 1 "[0]"] by auto
  then have "mt (Seq (Plus line_char) (Opt (lit newline))) (rev (take 1 (tool_item t @ s)) @ b) (drop 1 (tool_item t @ s)) =
      (Suc (length t) + 1) # r'" by (simp add: tool_item_def)
  from mt_Seq_head [OF dash this] show ?thesis by (simp add: tool_item_def newline_def)
qed

text \<open>A repetition over texts that it matches one by one takes them all.\<close>

lemma mt_Star_items:
  assumes "\<And>t b s. t \<in> set ts \<Longrightarrow> \<exists>r. mt p b (f t @ s) = length (f t) # r" "\<And>t. t \<in> set ts \<Longrightarrow> f t \<noteq> []"
    and "\<And>b. mt p b s = []"
  shows "\<exists>r. mt (Star p) b (concat (map f ts) @ s) = length (concat (map f ts)) # r"
  using assms(1,2)
proof (induction ts arbitrary: b)
  case Nil
  show ?case by (subst mt.simps(5)) (simp add: assms(3))
next
  case (Cons t ts)
  obtain r where r: "mt p b (f t @ concat (map f ts) @ s) = length (f t) # r"
    using Cons.prems(1) [of t b "concat (map f ts) @ s"] by auto
  obtain q where q: "mt (Star p) (rev (f t) @ b) (concat (map f ts) @ s) = length (concat (map f ts)) # q"
    using Cons by (metis list.set_intros(2))
  have "0 < length (f t)" using Cons.prems(2) by simp
  with r q show ?case by (subst mt.simps(5)) simp
qed

lemma mt_tool_items:
  assumes "list_all tool_ok ts" "\<not> prefix ''-'' s"
  shows "\<exists>r. mt (Star (Seq (lit ''-'') (Seq (Plus line_char) (Opt (lit newline))))) b (concat (map tool_item ts) @ s) =
    length (concat (map tool_item ts)) # r"
proof (rule mt_Star_items)
  fix t b s assume "t \<in> set ts"
  with assms(1) have "t \<noteq> []" "LF \<notin> set t" by (auto simp: list_all_iff tool_ok_def clean_def)
  then show "\<exists>r. mt (Seq (lit ''-'') (Seq (Plus line_char) (Opt (lit newline)))) b (tool_item t @ s) = length (tool_item t) # r"
    by (rule mt_tool_item)
next
  fix b show "mt (Seq (lit ''-'') (Seq (Plus line_char) (Opt (lit newline)))) b s = []"
    using assms(2) by (simp add: mt_lit del: lit.simps)
qed (simp add: tool_item_def)

lemma tool_group:
  assumes "ts \<noteq> []" "list_all tool_ok ts" "\<not> prefix ''-'' s"
  shows "search_group_at (lit h) TOOL_LINES Eps b (h @ concat (map tool_item ts) @ s) = Some (concat (map tool_item ts))"
proof -
  let ?item = "Seq (lit ''-'') (Seq (Plus line_char) (Opt (lit newline)))"
  obtain t us where ts: "ts = t # us" using assms(1) by (cases ts) auto
  with assms(2) have t: "t \<noteq> []" "LF \<notin> set t" and us: "list_all tool_ok us" by (auto simp: tool_ok_def clean_def)
  from mt_tool_item [OF t] obtain r where r: "mt ?item (rev h @ b) (tool_item t @ concat (map tool_item us) @ s) =
      length (tool_item t) # r" by blast
  from mt_tool_items [OF us assms(3)] obtain q where
    "mt (Star ?item) (rev (tool_item t) @ rev h @ b) (concat (map tool_item us) @ s) =
      length (concat (map tool_item us)) # q" by blast
  with r have "\<exists>ks. mt TOOL_LINES (rev h @ b) (concat (map tool_item ts) @ s) =
      (length (tool_item t) + length (concat (map tool_item us))) # ks"
    unfolding TOOL_LINES_def Plus_def [of ?item] by (intro mt_Seq_head) (simp_all add: ts)
  then have "\<exists>rest. group_matches (lit h) TOOL_LINES Eps b (h @ concat (map tool_item ts) @ s) =
      (length h, length (concat (map tool_item ts))) # rest"
    by (auto simp: group_matches_lit ts simp del: lit.simps)
  then obtain rest where "group_matches (lit h) TOOL_LINES Eps b (h @ concat (map tool_item ts) @ s) =
      (length h, length (concat (map tool_item ts))) # rest" ..
  from search_hit [OF this] show ?thesis by simp
qed

text \<open>The block split into lines is the list again.\<close>

lemma items_join:
  "ts \<noteq> [] \<Longrightarrow> concat (map tool_item ts) = py_join newline (map (\<lambda>t. ''- '' @ t) ts) @ newline"
  by (induction ts rule: list_nonempty_induct) (auto simp: tool_item_def neq_Nil_conv)

lemma split_join:
  "list_all (\<lambda>w. c \<notin> set w) ws \<Longrightarrow> ws \<noteq> [] \<Longrightarrow> split_on c (py_join [c] ws) = ws"
proof (induction "[c]" ws rule: py_join.induct)
  case (3 x y ys)
  then show ?case using split_on_append [of c x "py_join [c] (y # ys)"] by simp
qed (simp_all add: split_on_none)

lemma last_join: "ts \<noteq> [] \<Longrightarrow> last ts \<noteq> [] \<Longrightarrow> last (py_join sep ts) = last (last ts) \<and> py_join sep ts \<noteq> []"
  by (induction sep ts rule: py_join.induct) (auto simp: last_append)

lemma tool_lines_items:
  assumes "ts \<noteq> []" "list_all tool_ok ts"
  shows "tool_lines (concat (map tool_item ts)) = ts"
proof -
  let ?ls = "map (\<lambda>t. ''- '' @ t) ts"
  have "tool_ok (last ts)" using assms by (simp add: list_all_iff)
  moreover have "hd (py_join newline ?ls) = CHR ''-''"
    using assms(1) by (cases ts; cases "tl ts") auto
  ultimately have "clean (py_join newline ?ls)"
    using last_join [of ?ls newline] assms(1)
    by (auto simp: clean_def tool_ok_def last_map char_class_defs)
  then have block: "py_strip (concat (map tool_item ts)) = py_join newline ?ls"
    unfolding items_join [OF assms(1)] by (rule strip_newline)
  have lines: "split_on LF (py_join newline ?ls) = ?ls"
    unfolding newline_LF using assms by (intro split_join) (auto simp: list_all_iff tool_ok_def LF_def)
  have item: "py_strip (lstrip_bullet (py_strip (''- '' @ t))) = t \<and> t \<noteq> []" if "t \<in> set ts" for t
  proof -
    have t: "clean t" "hd t \<noteq> CHR ''-''" using assms(2) that by (auto simp: list_all_iff tool_ok_def)
    then have "clean (''- '' @ t)" by (simp add: clean_def char_class_defs)
    moreover have "lstrip_bullet (''- '' @ t) = t"
      using t by (cases t) (auto simp: lstrip_bullet_def clean_def char_class_defs)
    ultimately show ?thesis using t by (auto simp: clean_strip) (simp add: clean_def)
  qed
  have "map (\<lambda>l. py_strip (lstrip_bullet (py_strip l))) ?ls = ts"
    using item by (simp add: map_idI del: append_Cons)
  then show ?thesis
    unfolding tool_lines_def block lines using item by (simp add: filter_id_conv del: append_Cons)
qed

section \<open>Documents\<close>

record skill_document =
  sd_title :: string
  sd_purpose :: string
  sd_inputs :: string
  sd_outputs :: string
  sd_tools :: "string list"
  sd_rest :: string

definition json_part :: "string \<Rightarrow> string \<Rightarrow> string" where
  "json_part title t = heading title @ fence @ t @ newline @ ''```'' @ newline @ newline"

definition skill_text :: "skill_document \<Rightarrow> string" where
  "skill_text d = ''# Skill: '' @ sd_title d @ newline @ newline @
     heading ''Purpose'' @ sd_purpose d @ newline @ newline @
     json_part ''Inputs'' (sd_inputs d) @ json_part ''Outputs'' (sd_outputs d) @
     heading ''Required Tools'' @ concat (map tool_item (sd_tools d)) @ sd_rest d"

definition document_ok :: "skill_document \<Rightarrow> bool" where
  "document_ok d = (CHR ''#'' \<notin> set (sd_title d @ sd_purpose d @ sd_inputs d @ sd_outputs d) \<and>
     CHR 0x60 \<notin> set (sd_inputs d @ sd_outputs d) \<and> clean (sd_purpose d) \<and> sd_inputs d \<noteq> [] \<and> sd_outputs d \<noteq> [] \<and>
     sd_tools d \<noteq> [] \<and> list_all tool_ok (sd_tools d) \<and> \<not> prefix ''-'' (sd_rest d))"

lemma no_section_end:
  "CHR ''#'' \<notin> set u \<Longrightarrow> \<not> prefix (newline @ ''##'') (u @ newline @ newline @ z) \<and> u @ newline @ newline @ z \<noteq> []"
  by (cases u; cases "tl u") (auto simp: newline_def)

lemma no_fence: "u \<noteq> [] \<Longrightarrow> CHR 0x60 \<notin> set u \<Longrightarrow> \<not> prefix (newline @ ''```'') (u @ newline @ z)"
  by (cases u; cases "tl u") (auto simp: newline_def)

lemma find_purpose:
  assumes "CHR ''#'' \<notin> set p"
  shows "search_group_at (lit (heading ''Purpose'')) lazy_text SECTION_END b
    (heading ''Purpose'' @ p @ newline @ newline @ heading t @ z) = Some (p @ newline)"
proof -
  have "search_group_at (lit (heading ''Purpose'')) lazy_text SECTION_END b
      (heading ''Purpose'' @ (p @ newline) @ newline @ heading t @ z) = Some (p @ newline)"
  proof (rule search_lazy)
    show "mt SECTION_END (rev (p @ newline) @ rev (heading ''Purpose'') @ b) (newline @ heading t @ z) \<noteq> []"
      by (simp add: mt_section_end heading_Cons)
  next
    fix k c assume "k < length (p @ newline)"
    then have "drop k (p @ newline) @ newline @ heading t @ z = drop k p @ newline @ newline @ heading t @ z"
      by (simp add: newline_def)
    moreover have "CHR ''#'' \<notin> set (drop k p)" using assms by (auto dest: in_set_dropD)
    ultimately show "mt SECTION_END c (drop k (p @ newline) @ newline @ heading t @ z) = []"
      using no_section_end by (simp add: mt_section_end)
  qed (simp add: newline_def)
  then show ?thesis by simp
qed

lemma find_json:
  assumes "t \<noteq> []" "CHR 0x60 \<notin> set t"
  shows "search_group_at (lit (heading title @ fence)) lazy_text (lit (newline @ ''```'')) b (json_part title t @ z) = Some t"
proof -
  have "search_group_at (lit (heading title @ fence)) lazy_text (lit (newline @ ''```'')) b
      ((heading title @ fence) @ t @ newline @ ''```'' @ newline @ newline @ z) = Some t"
  proof (rule search_lazy)
    fix k c assume "0 < k" "k < length t"
    then have "drop k t \<noteq> []" by simp
    moreover have "CHR 0x60 \<notin> set (drop k t)" using assms(2) by (auto dest: in_set_dropD)
    ultimately show "mt (lit (newline @ ''```'')) c (drop k t @ newline @ ''```'' @ newline @ newline @ z) = []"
      using no_fence by (simp add: mt_lit del: lit.simps append.simps)
  qed (use assms in \<open>simp_all add: mt_lit newline_def del: lit.simps\<close>)
  then show ?thesis by (simp add: json_part_def)
qed

text \<open>Skipping, for headings as they are written in the patterns.\<close>

lemma over_title:
  assumes "CHR ''#'' \<notin> set t"
  shows "search_group_at (lit (heading title @ f)) g q b (''# Skill: '' @ t @ newline @ newline @ s) =
    search_group_at (lit (heading title @ f)) g q (rev (''# Skill: '' @ t @ newline @ newline) @ b) s"
  using skip_title [OF assms, of "CHR '' '' # title @ newline @ f" g q b s] by (simp add: heading_Cons del: lit.simps)

lemma over_purpose:
  assumes "CHR ''#'' \<notin> set p" "\<not> prefix title ''Purpose''"
    "\<not> prefix ''Purpose'' title"
  shows "search_group_at (lit (heading title @ f)) g q b (heading ''Purpose'' @ p @ newline @ newline @ s) =
    search_group_at (lit (heading title @ f)) g q (rev (heading ''Purpose'' @ p @ newline @ newline) @ b) s"
proof -
  have "\<not> prefix (title @ newline @ f) (''Purpose'' @ newline @ (p @ newline @ newline) @ s)"
    using assms(2,3) by (meson prefix_order.trans prefixI prefix_same_cases)
  from skip_section [OF _ _ this, of g q b] assms(1) show ?thesis
    by (simp add: heading_Cons newline_def del: lit.simps)
qed

lemma over_json:
  assumes "CHR ''#'' \<notin> set x" "CHR ''#'' \<notin> set t" "\<not> prefix title t" "\<not> prefix t title"
  shows "search_group_at (lit (heading title @ f)) g q b (json_part t x @ s) =
    search_group_at (lit (heading title @ f)) g q (rev (json_part t x) @ b) s"
proof -
  have "\<not> prefix (title @ newline @ f) (t @ newline @ (fence @ x @ newline @ ''```'' @ newline @ newline) @ s)"
    using assms(3,4) by (meson prefix_order.trans prefixI prefix_same_cases)
  from skip_section [OF _ _ this, of g q b] assms(1,2) show ?thesis
    by (simp add: json_part_def heading_Cons newline_def fence_def del: lit.simps)
qed

lemmas over = over_title over_purpose over_json

lemma purpose_of_document:
  assumes "document_ok d"
  shows "skill_purpose (skill_text d) = sd_purpose d"
proof -
  have p: "clean (sd_purpose d)" "CHR ''#'' \<notin> set (sd_purpose d)" "CHR ''#'' \<notin> set (sd_title d)"
    using assms by (auto simp: document_ok_def)
  have "re_group (lit (heading ''Purpose'')) lazy_text SECTION_END (skill_text d) = Some (sd_purpose d @ newline)"
    using over_title [OF p(3), of "''Purpose''" "[]"] find_purpose [OF p(2)]
    by (simp add: re_group_def skill_text_def json_part_def del: lit.simps)
  with p(1) show ?thesis by (simp add: skill_purpose_def strip_newline)
qed

lemma json_of_document:
  assumes "document_ok d"
  shows "re_group (lit (heading ''Inputs'' @ fence)) lazy_text (lit (newline @ ''```'')) (skill_text d) = Some (sd_inputs d)"
    and "re_group (lit (heading ''Outputs'' @ fence)) lazy_text (lit (newline @ ''```'')) (skill_text d) = Some (sd_outputs d)"
proof -
  have d: "CHR ''#'' \<notin> set (sd_title d)" "CHR ''#'' \<notin> set (sd_purpose d)" "CHR ''#'' \<notin> set (sd_inputs d)"
    "CHR 0x60 \<notin> set (sd_inputs d)" "CHR 0x60 \<notin> set (sd_outputs d)" "sd_inputs d \<noteq> []" "sd_outputs d \<noteq> []"
    using assms by (auto simp: document_ok_def)
  show "re_group (lit (heading ''Inputs'' @ fence)) lazy_text (lit (newline @ ''```'')) (skill_text d) = Some (sd_inputs d)"
    using d by (simp add: re_group_def skill_text_def over_title over_purpose find_json del: lit.simps append_Cons)
  show "re_group (lit (heading ''Outputs'' @ fence)) lazy_text (lit (newline @ ''```'')) (skill_text d) = Some (sd_outputs d)"
    using d by (simp add: re_group_def skill_text_def over_title over_purpose over_json find_json del: lit.simps append_Cons)
qed

lemma tools_of_document:
  assumes "document_ok d"
  shows "skill_tools (skill_text d) = sd_tools d"
proof -
  have d: "CHR ''#'' \<notin> set (sd_title d)" "CHR ''#'' \<notin> set (sd_purpose d)" "CHR ''#'' \<notin> set (sd_inputs d)"
    "CHR ''#'' \<notin> set (sd_outputs d)" "sd_tools d \<noteq> []" "list_all tool_ok (sd_tools d)" "\<not> prefix ''-'' (sd_rest d)"
    using assms by (auto simp: document_ok_def)
  have "re_group (lit (heading ''Required Tools'')) TOOL_LINES Eps (skill_text d) =
      Some (concat (map tool_item (sd_tools d)))"
    using d by (simp add: re_group_def skill_text_def over [where f = "[]", unfolded append_Nil2] tool_group del: lit.simps append_Cons)
  with tool_lines_items [OF d(5,6)] show ?thesis by (simp add: skill_tools_def)
qed

section \<open>The risk level\<close>

lemma search_group_sound:
  "search_group_at p g q b s = Some t \<Longrightarrow> pure_re g \<Longrightarrow> t \<in> lang g"
proof (induction p g q b s rule: search_group_at.induct)
  case (1 p g q b)
  then obtain i j rest where "group_matches p g q b [] = (i, j) # rest" "t = []"
    by (auto simp: search_group_at.simps split: list.splits)
  then have "(i, j) \<in> set (group_matches p g q b [])" by simp
  then have "j \<in> set (mt g (rev (take i []) @ b) (drop i []))" by (auto simp: group_matches_def)
  with mt_sound [OF "1.prems"(2)] \<open>t = []\<close> show ?case by fastforce
next
  case (2 p g q b c s)
  show ?case
  proof (cases "group_matches p g q b (c # s)")
    case Nil
    with 2 show ?thesis by (simp add: search_group_at.simps)
  next
    case (Cons ij rest)
    obtain i j where ij: "ij = (i, j)" by (cases ij)
    with Cons have "(i, j) \<in> set (group_matches p g q b (c # s))" by simp
    then have "j \<in> set (mt g (rev (take i (c # s)) @ b) (drop i (c # s)))" by (auto simp: group_matches_def)
    with mt_sound [OF "2.prems"(2)] have "take j (drop i (c # s)) \<in> lang g" by blast
    with Cons ij "2.prems"(1) show ?thesis by (simp add: search_group_at.simps)
  qed
qed

definition RISK_LEVELS :: "string list" where
  "RISK_LEVELS = [''low'', ''medium'', ''high'', ''unknown'']"

lemma lit_ic_lang: "w \<in> lang (lit_ic v) \<Longrightarrow> py_lower w = py_lower v"
  by (induction v arbitrary: w rule: lit_ic.induct) (auto simp: py_lower_def char_ic_def)

lemma first_risk_level: "first_risk ps content \<in> set RISK_LEVELS"
proof (induction ps content rule: first_risk.induct)
  case (2 p q ps content)
  show ?case
  proof (cases "re_group p RISK_WORD q content")
    case (Some r)
    then have "r \<in> lang RISK_WORD"
      using search_group_sound [of p RISK_WORD q "[]" content r] by (simp add: re_group_def RISK_WORD_def)
    then have "r \<in> lang (lit_ic ''low'') \<or> r \<in> lang (lit_ic ''medium'') \<or> r \<in> lang (lit_ic ''high'')"
      by (simp only: RISK_WORD_def Alts.simps lang.simps Un_iff)
    then have "py_lower r \<in> {py_lower ''low'', py_lower ''medium'', py_lower ''high''}"
      using lit_ic_lang by blast
    moreover have "py_lower ''low'' = ''low''" "py_lower ''medium'' = ''medium''" "py_lower ''high'' = ''high''"
      by (simp_all add: py_lower_def char_class_defs)
    ultimately show ?thesis using Some by (auto simp: RISK_LEVELS_def)
  qed (use 2 in simp)
qed (simp add: RISK_LEVELS_def)

section \<open>Properties of the packager\<close>

text \<open>
  C27. A document with a title, the sections Purpose, Inputs, Outputs and Required Tools and anything
  below them is read back: the contract has the document's purpose, its JSON blocks as they are loaded,
  and its tools in order, and one of the four risk levels.
\<close>

theorem skill_document_roundtrip:
  assumes "document_ok d" "loads (sd_inputs d) = Some (JDict ins)" "loads (sd_outputs d) = Some (JDict outs)"
  shows "\<exists>r. r \<in> set RISK_LEVELS \<and> parse_skill_md loads (skill_text d) n = Inr \<lparr>sk_name = n,
    sk_purpose = sd_purpose d, sk_inputs = ins, sk_outputs = outs, sk_tools = sd_tools d, sk_risk_level = r\<rparr>"
  using first_risk_level [of risk_patterns "skill_text d"] assms(2,3)
  by (simp add: parse_skill_md_def json_section_def json_of_document [OF assms(1)] purpose_of_document [OF assms(1)]
      tools_of_document [OF assms(1)] bindR_def jdict_def)

definition sample_document :: skill_document where
  "sample_document = \<lparr>sd_title = ''Test'', sd_purpose = ''A test.'', sd_inputs = ''{}'', sd_outputs = ''{}'',
     sd_tools = [''tool_a'', ''tool b''], sd_rest = newline @ ''## Required Permissions'' @ newline @ ''- HIGH risk''\<rparr>"

theorem skill_document_roundtrip_witness:
  "\<exists>r. r \<in> set RISK_LEVELS \<and> parse_skill_md (\<lambda>_. Some (JDict [])) (skill_text sample_document) ''test'' =
    Inr \<lparr>sk_name = ''test'', sk_purpose = ''A test.'', sk_inputs = [], sk_outputs = [],
      sk_tools = [''tool_a'', ''tool b''], sk_risk_level = r\<rparr>"
proof -
  have "document_ok sample_document" by code_simp
  from skill_document_roundtrip [OF this, of "\<lambda>_. Some (JDict [])" "[]" "[]" "''test''"] show ?thesis
    by (simp add: sample_document_def)
qed

lemma read_text_state: "snd (read_text enc p s) = s"
  by (auto simp: read_text_def read_bytes_def bindE_def liftE_def retE_def split: sum.splits)

text \<open>
  What was read of one entry: the manifest's contract is the parsed text of the entry's own file.
\<close>

definition contract_of :: "codec \<Rightarrow> (string \<Rightarrow> jvalue option) \<Rightarrow> os \<Rightarrow> path \<Rightarrow> skill_contract \<Rightarrow> bool" where
  "contract_of enc loads s dir k = (case skill_file s dir (sk_name k) of
      None \<Rightarrow> False
    | Some p \<Rightarrow> (case fst (read_text enc p s) of
        Inl e \<Rightarrow> False
      | Inr content \<Rightarrow> parse_skill_md loads content (sk_name k) = Inr k))"

lemma parse_skill_md_name: "parse_skill_md loads content n = Inr k \<Longrightarrow> sk_name k = n"
  by (auto simp: parse_skill_md_def bindR_def split: sum.splits)

lemma read_skills_lists:
  assumes "read_skills enc loads dir ns s = (Inr ks, s')"
  shows "s' = s \<and> map sk_name ks = filter (\<lambda>n. skill_file s dir n \<noteq> None) ns \<and> list_all (contract_of enc loads s dir) ks"
  using assms
proof (induction ns arbitrary: ks s')
  case Nil
  then show ?case by (simp add: retE_def)
next
  case (Cons n ns)
  show ?case
  proof (cases "skill_file s dir n")
    case None
    with Cons show ?thesis by (simp add: bindE_def getE_def)
  next
    case (Some p)
    obtain r where r: "read_text enc p s = (r, s)" using read_text_state by (metis prod.collapse)
    with Some Cons.prems obtain content k where k: "r = Inr content" "parse_skill_md loads content n = Inr k"
      by (auto simp: bindE_def getE_def liftE_def split: sum.splits)
    obtain q t where q: "read_skills enc loads dir ns s = (q, t)" by fastforce
    with Some Cons.prems r k obtain js where js: "q = Inr js" "ks = k # js" "t = s'"
      by (auto simp: bindE_def getE_def liftE_def retE_def split: sum.splits)
    from Cons.IH [of js s'] q js have "s' = s" "map sk_name js = filter (\<lambda>n. skill_file s dir n \<noteq> None) ns"
      "list_all (contract_of enc loads s dir) js" by auto
    moreover have "sk_name k = n" using k(2) by (rule parse_skill_md_name)
    moreover from this have "contract_of enc loads s dir k" using k r Some by (simp add: contract_of_def)
    ultimately show ?thesis using js(2) Some by simp
  qed
qed

text \<open>
  The manifest lists exactly the subdirectories that hold a \<open>SKILL.md\<close>, in the order of their names,
  each with the contract parsed from its own file; nothing is written.
\<close>

theorem validate_skills_lists:
  assumes "validate_skills enc loads here skills_dir s = (Inr m, s')"
  shows "s' = s \<and> (\<exists>dir. node_at s dir = Some DirNode \<and>
    map sk_name (sm_skills m) = filter (\<lambda>n. skill_file s dir n \<noteq> None) (sort (entries_of s dir)) \<and>
    list_all (contract_of enc loads s dir) (sm_skills m))"
proof -
  define t where "t = (case skills_dir of None \<Rightarrow> here @ ''/../skills'' | Some d \<Rightarrow> d)"
  from assms obtain dir where dir: "found s (if is_absolute t then [] else os_cwd s) (path_parts [] t) = Some dir"
    "node_at s dir = Some DirNode"
    by (auto simp: validate_skills_def Let_def t_def bindE_def getE_def raiseE_def split: option.splits if_splits)
  obtain q u where q: "read_skills enc loads dir (sort (entries_of s dir)) s = (q, u)" by fastforce
  from assms dir q have "\<exists>ks. q = Inr ks \<and> sm_skills m = ks \<and> u = s'"
    unfolding validate_skills_def t_def [symmetric] Let_def
    by (auto simp: bindE_def getE_def retE_def split: sum.splits)
  with read_skills_lists [of enc loads dir "sort (entries_of s dir)" s] q dir(2) show ?thesis by blast
qed

definition sample_disk :: os where
  "sample_disk = \<lparr>os_nodes = [([''skills''], DirNode), ([''skills'', ''b''], DirNode),
     ([''skills'', ''b'', ''SKILL.md''], FileNode ''## Purpose''), ([''skills'', ''a''], DirNode),
     ([''skills'', ''c''], FileNode [])], os_cwd = [], os_denied = []\<rparr>"

definition plain_codec :: codec where
  "plain_codec = \<lparr>cd_encode = Inr, cd_decode = Inr\<rparr>"

theorem validate_skills_lists_witness:
  "case validate_skills plain_codec (\<lambda>_. None) ''/pkg'' (Some ''/skills'') sample_disk of
     (Inl e, t) \<Rightarrow> False
   | (Inr m, t) \<Rightarrow> t = sample_disk \<and> map sk_name (sm_skills m) = [''b'']"
proof -
  have run: "case validate_skills plain_codec (\<lambda>_. None) ''/pkg'' (Some ''/skills'') sample_disk of
      (Inl e, t) \<Rightarrow> False | (Inr m, t) \<Rightarrow> map sk_name (sm_skills m) = [''b'']"
    by code_simp
  obtain r t where v: "validate_skills plain_codec (\<lambda>_. None) ''/pkg'' (Some ''/skills'') sample_disk = (r, t)" by fastforce
  with run obtain m where m: "r = Inr m" "map sk_name (sm_skills m) = [''b'']" by (cases r) auto
  from validate_skills_lists [of plain_codec "\<lambda>_. None" "''/pkg''" "Some ''/skills''" sample_disk m t] v m
  show ?thesis by simp
qed

text \<open>
  The packager fails on a text only if a JSON block holds a value that is not an object: a document
  without any of the sections is a contract, of unknown risk and without tools.
\<close>

lemma parse_skill_md_fails:
  "(\<exists>e. parse_skill_md loads content n = Inl e) \<longleftrightarrow>
   (\<exists>title \<in> {''Inputs'', ''Outputs''}. \<forall>kv. json_section loads title content \<noteq> JDict kv)"
  by (auto simp: parse_skill_md_def bindR_def jdict_def split: sum.splits jvalue.splits)

lemma empty_text_is_contract:
  "parse_skill_md loads [] n = Inr \<lparr>sk_name = n, sk_purpose = [], sk_inputs = [], sk_outputs = [],
     sk_tools = [], sk_risk_level = ''unknown''\<rparr>"
proof -
  have group: "re_group (lit (a # h)) g q [] = None" for a h g q
    by (simp add: re_group_def search_group_at.simps group_matches_lit del: lit.simps)
  have risk: "first_risk risk_patterns [] = ''unknown''" by code_simp
  show ?thesis
    by (simp add: parse_skill_md_def json_section_def skill_purpose_def skill_tools_def heading_Cons group risk
        bindR_def jdict_def py_strip_def del: lit.simps)
qed

section \<open>The tools of the skills\<close>

text \<open>
  Every skill's tools are registered and belong to the agent of the same trade; only the publish
  skills hold a tool that the engine refuses without an approval.
\<close>

lemma skills_within_agents:
  "set WEB_RESEARCH_SKILL_TOOLS \<subseteq> set RESEARCH_TOOL_NAMES" "set BROWSER_SKILL_TOOLS \<subseteq> set BROWSER_TOOL_NAMES"
  "set CONTENT_SKILL_TOOLS \<subseteq> set CONTENT_TOOL_NAMES" "set LINKEDIN_SKILL_TOOLS \<subseteq> set SOCIAL_TOOL_NAMES"
  "set X_SKILL_TOOLS \<subseteq> set SOCIAL_TOOL_NAMES"
  by (simp_all add: skill_tools_defs tool_names_defs)

lemma browser_skill_tools:
  "browser_control_skill (\<lambda>m ts. map tool_name ts) providers settings body = Inr g \<Longrightarrow> g = BROWSER_SKILL_TOOLS"
  by (auto simp: browser_control_skill_def react_graph_Inr collect_built)
    (simp add: skill_tools_defs catalogue_defs)

lemma skill_gates:
  "filter (\<lambda>n. n \<in> set (gated_names True)) (WEB_RESEARCH_SKILL_TOOLS @ BROWSER_SKILL_TOOLS @ CONTENT_SKILL_TOOLS) = []"
  "filter (\<lambda>n. n \<in> set (gated_names True)) LINKEDIN_SKILL_TOOLS = [''social_publish_linkedin'']"
  "filter (\<lambda>n. n \<in> set (gated_names True)) X_SKILL_TOOLS = [''social_publish_x'']"
  by (simp_all add: skill_tools_defs gated_names_eq)

end
