(* ===== verification/Spec2Isabelle.thy ===== *)
theory Spec2Isabelle
  imports
    Core_Properties Service_Properties Task_Worker Browser_Runs
    Tool_Catalogue System_Properties
    Publish_Properties Content_Properties
    Web_Properties Research_Properties Fact_Check_Properties
    Local_Properties Browser_Properties Secrets_Audit
    Command_Line_Properties Http_Api Settings Application
    Schema_Properties Migration_Runner Skills_Properties
begin

text \<open>
  Agent operator: a service that takes an instruction, has a model plan it, runs the steps of the plan
  with agents that call tools, asks a human before consequential actions, and records what it did. This
  development models the Python code under \<open>src/app\<close>, the command line client \<open>src/cli.py\<close>, the skills of
  \<open>src/skills\<close> and the migration of \<open>src/migrations\<close>, and proves what makes each part correct.

  \<^bold>\<open>The parts of the program and how they meet.\<close>
  A client, or \<open>cli.py\<close>, sends requests to the routes (\<open>app/api/routes\<close>), which call the services
  (\<open>app/services\<close>); these move a task's row along the state machine (\<open>app/domain/state_machine.py\<close>) in a
  database session. A worker (\<open>app/workers/task_worker.py\<close>) or a caller runs the orchestrator
  (\<open>app/agents/orchestrator.py\<close>) on a task: it asks the planner for steps, checks for every step the limits
  and whether it needs an approval, invokes the compiled graph of the step's agent on a thread of its
  own, asks the recovery agent what to do with a failure, and commits what became of the task. A
  graph is a model with tools (\<open>app/agents/graphs\<close>); its tool calls go through the engine
  (\<open>app/tools/executor.py\<close>), which enforces permissions and approvals, takes a token from the rate limiter,
  writes an audit row and retries. The tools act on the file system, processes, the network, a
  browser and the platforms.

  \<^bold>\<open>The theories.\<close>
  Each component has a theory with its state, its operations and their first lemmas, and one with its
  properties. Definitions have the names of the source; a clash is resolved by a suffix or prefix.

  \<^item> \<open>Operator_Prelude\<close>: characters, Python's string operations, generic lemmas, and the locale of step
    systems. \<open>Operator_Errors\<close>: \<open>app/errors.py\<close>, the handlers of \<open>app/main.py\<close>, and the effects described
    below. \<open>Json_Values\<close>, \<open>Py_Regex\<close>, \<open>Py_Net\<close>, \<open>Sha256\<close>: what the source uses of \<open>json\<close>, \<open>re\<close>, \<open>urllib.parse\<close>,
    \<open>ipaddress\<close> and \<open>hashlib\<close>.
  \<^item> \<open>Task_States\<close>: the state machine. \<open>Data_Model\<close>, \<open>Task_Services\<close>, \<open>Service_Properties\<close>: rows, sessions
    (\<open>app/db\<close>), the task and approval services and their routes.
  \<^item> \<open>Policies\<close>, \<open>Rate_Limiter\<close>: \<open>app/policies\<close>, the model router and the usage records of \<open>app/llm\<close>.
    \<open>Settings\<close>: \<open>app/config.py\<close> read from an environment, and the provider registry built at import.
    \<open>Application\<close>: the process around the requests, which is the providers that are built once, the logging setup,
    the start of the application and what an agent run logs (\<open>app/logging.py\<close>, \<open>app/agents/callbacks.py\<close>).
  \<^item> \<open>Tool_Engine\<close>, \<open>Tool_Catalogue\<close>: \<open>app/tools/base.py\<close>, \<open>registry.py\<close>, \<open>executor.py\<close>, \<open>langchain_adapter.py\<close>,
    \<open>factory.py\<close>, and the graphs of the agents.
  \<^item> \<open>Agents\<close>, \<open>Orchestrator\<close>, \<open>Orchestrator_Runs\<close>, \<open>Orchestrator_Outcomes\<close>, \<open>Core_Properties\<close>, \<open>Task_Worker\<close>:
    planner, recovery agent, orchestrator and worker. \<open>Browser_Runs\<close>: the orchestrator over the modelled browser.
  \<^item> \<open>Content\<close>, \<open>Content_Properties\<close>: \<open>app/content\<close>, the content tools and the draft routes.
    \<open>Social_Publish\<close>, \<open>Publish_Properties\<close>: \<open>app/social\<close>, the publish and verify tools and their routes.
  \<^item> \<open>Web_Tools\<close>, \<open>Web_Properties\<close>: \<open>fetch.py\<close>, \<open>search.py\<close>, \<open>langsearch.py\<close>. \<open>Research\<close>, \<open>Research_Properties\<close>:
    \<open>app/research\<close>. \<open>Fact_Check\<close>, \<open>Fact_Check_Properties\<close>: \<open>fact_check.py\<close>.
  \<^item> \<open>Local_System\<close>, \<open>Local_Properties\<close>: \<open>filesystem.py\<close> and \<open>shell.py\<close> over a model of a file system with
    symbolic links. \<open>Browser\<close>, \<open>Browser_Manager\<close>, \<open>Browser_Properties\<close>: \<open>app/browser\<close>, the thirteen browser tools
    and their routes. \<open>Secrets_Audit\<close>: \<open>app/services/audit_service.py\<close>.
  \<^item> \<open>Agent_System\<close>, \<open>System_Properties\<close>: all registered tools over one machine, the wiring of
    \<open>build_tool_engine\<close> and \<open>app/api/deps.py\<close>, and the fact checker's calls through the engine that runs it.
  \<^item> \<open>Command_Line\<close>, \<open>Command_Line_Parsing\<close>, \<open>Command_Line_Properties\<close>: \<open>cli.py\<close> from the words of the command line
    on, which \<open>Py_Argparse\<close> reads as the module does in Python 3.11, and against the modelled service.
    \<open>Http_Api\<close>: the table of the routes, and the client's requests against it.
  \<^item> \<open>Skills\<close>, \<open>Skills_Properties\<close>: \<open>src/skills\<close>. \<open>Schema\<close>, \<open>Schema_Properties\<close>: the ORM classes as a schema and
    the migration as operations on one. \<open>Migration_Runner\<close>: \<open>migrations/env.py\<close> over Alembic's operations.

  \<^bold>\<open>How state and effects correspond to the code.\<close>
  An operation that may raise and changes a state of type \<open>'s\<close> is a function \<open>('s, 'a) op\<close> from a state to
  a result, an exception on the left or a value on the right, and the state afterwards: a raise does
  not undo what came before it. \<open>bindE\<close>, \<open>catchE\<close>, \<open>finallyE\<close> and \<open>tryE\<close> are sequence, \<open>except\<close>, \<open>finally\<close> and
  a handler that inspects. A message is a format text with its arguments. Rows are records in
  tables from identifiers; a session is a working copy beside the committed database with
  \<open>commit\<close> copying one to the other, so a crash loses what is not committed; identifiers come from a
  counter in place of \<open>uuid4\<close>. Python's \<open>int\<close> is \<open>int\<close> or \<open>nat\<close>, a float a rational number, an address a word of
  32 or 128 bits, a digest 32-bit words. A run is sequential: what other runs
  commit between its \<open>await\<close> points is not modelled inside it. The interleaving of whole runs, polls and requests is
  the step relation of the worker.

  \<^bold>\<open>Interfaces.\<close>
  \<open>row_store\<close> (\<open>Data_Model\<close>) is what the services rely on from a table and the engine from its registry.
  \<open>component\<close> (\<open>Operator_Errors\<close>) is a part of a larger state on which operations run: the rows and the world
  of a run, of a publication, of a fetch, of the browser manager and of the console, and the six
  parts of the machine of \<open>Agent_System\<close>; what an operation leaves alone follows from its laws.
  \<open>step_system\<close> (\<open>Operator_Prelude\<close>) gives the state machine and the worker their invariants.
  \<open>platform_adapter\<close> (\<open>Publish_Properties\<close>) is what publishing relies on from an adapter; both adapters of the
  source are instances. \<open>kept_by_tools\<close> (\<open>System_Properties\<close>) is a relation between engines that every tool and every
  step of a call keeps, and with them any sequence of nested calls; publishing and deleting are instances.
  \<open>cached_provider\<close> (\<open>Application\<close>) is a value that is built once. The predicates \<open>triple\<close>, \<open>preserves\<close> and \<open>stays\<close> on operations have introduction rules
  in named collections, and the component proofs run through these.

  \<^bold>\<open>What is proved.\<close>
  Of a run: it always ends and leaves its task at rest; a step that needs an approval runs only behind an
  approved row that was there when the run began; invoked steps are an initial part of the plan, each on a
  fresh thread; the limits hold; what a completed, paused or failed run has committed; no retry happens,
  and no session of the browser survives. Of the services: every sequence of requests refines the state machine,
  and what a decision changes. Of the tools: nothing changes before the permissions are checked; who needs an
  approval; without one no sequence of calls, nested ones included, publishes or deletes; how often a call is
  repeated whose nested calls fail; the calls granted in a window are bounded and
  waiting restores one. Of publishing: at most one successful request per key, and what is recorded. Of the web
  and file tools: the guards, and that what was written is read. Of research and fact checks: which
  claims are extracted, disputed and reported, and when a verdict is given. Of contents: valid drafts fit and
  threads keep the text. Of the browser: the outcomes of the actions and the isolation of the sessions. Of the
  client: its command line is read back, each of its requests but one is for a route, and its decision is the
  route's. Of the settings: which variables they read. Of the process: its providers are shared, and with
  which levels it starts. Of the schema: the migration lacks one column
  of the models, and runs as a whole or not at all. Of the skills: a contract is
  read back. Divergences from documented behaviour and defects that the proofs exposed are stated as
  lemmas where they could be.

  \<^bold>\<open>Bounds and fuel.\<close>
  Paths are resolved along at most 40 symbolic links (\<open>SYMLINK_LIMIT\<close>), as the kernel does. The engine makes at most three
  attempts at a call, the count given to tenacity in the source. The matcher of \<open>Py_Regex\<close> terminates on the
  length of the text and the size of the pattern, without fuel. The loop of the client's \<open>run\<close> has fuel,
  which \<open>None\<close> reports as used up; a theorem of \<open>Command_Line_Properties\<close> gives the fuel that is enough when the task comes to
  a terminal state. Numbers on the command line have at most
  4300 digits, the limit of Python's \<open>int\<close>. The registry of \<open>Agent_System\<close> unfolds the engine that the fact checker calls
  once, which is enough: the tools it calls do not call the engine, so deeper unfoldings are equal (\<open>nesting_ends\<close>).
  The orchestrator's loops run over lists, and its retry over the attempts that are left.

  \<^bold>\<open>Parameters.\<close>
  Code that is not in the repository is an argument: the chat models and their structured output, LangGraph's
  compiled graphs, Playwright and Alembic (records of operations), the HTTP clients, Tavily and LangSearch, DNS,
  processes, tenacity (by its contract), \<open>json.loads\<close>, codecs, the reading of numbers and dates, the clock. Hypotheses state what their documentation says and no more; every property with hypotheses has
  an instance on concrete arguments.

  \<^bold>\<open>Not modelled.\<close>
  The dispatch of FastAPI, the CORS middleware and the
  responses' encoding are the libraries' work: the called handler and the validated input are where the model of
  the service starts. Of \<open>argparse\<close> the texts of help and errors are left out, and the environment's \<open>COLUMNS\<close> with them. The
  prompts and descriptions for the models are texts without effect on the code; the messages of the tone checker and
  of the generator are modelled. Log lines inside the components are left out. Time stamps of outputs and diagnostic
  contexts of errors are left out where nothing reads them.
  Characters are those below 256.
\<close>

end
